(* ===== verification/Prelude.thy ===== *)
theory Prelude
  imports Main
    "HOL-Library.AList"
    "HOL-Library.Char_ord"
    "HOL-Library.List_Lexorder"
    "HOL-Library.Product_Lexorder"
    "HOL-Library.Sublist"
begin

text \<open>
  Shared vocabulary of the development: Go strings (byte lists) and the functions of
  package \<^verbatim>\<open>strings\<close> that the sources call, Go maps that are iterated
  (association lists, their order standing for the unspecified iteration order), instants,
  error values and fallible results, and the generic lemmas the components share.

  Go strings are byte sequences and so is \<^typ>\<open>string\<close>. Case folding and white space
  are those of the ASCII range; bytes above 127 are kept as they are.
\<close>

named_theorems go_string \<open>characterisations of the Go string functions\<close>
named_theorems go_map \<open>lookup after update of Go maps\<close>

section \<open>Instants and errors\<close>

text \<open>
  A \<^verbatim>\<open>time.Time\<close> is the number of nanoseconds since the zero instant, so the zero
  value is 0. A \<^verbatim>\<open>*time.Time\<close> is an option.
\<close>

type_synonym time = int
type_synonym bytes = string

text \<open>
  Error values: the sentinels of the sources, a formatted message, a message wrapped
  around another error with \<^verbatim>\<open>%w\<close>, and an error followed by a detail.
\<close>

datatype Err =
    ErrNoQueuedJob
  | ErrRunNotFound
  | ErrJobRunNotFound
  | ErrJobNotDispatchable
  | ErrNotAuthorized
  | ErrInvalidToken
  | ErrBadSignature
  | ErrIgnoredPush
  | ErrMalformedPayload
  | ErrStepFailed
  | ErrCancelled
  | ContextCanceled
  | Errorf string
  | Wrapf string Err
  | Detailf Err string
  | Joined Err Err

text \<open>\<^verbatim>\<open>errors.Is\<close>: the target occurs in the chain of wrapped errors.\<close>

primrec errors_unwrap :: "Err \<Rightarrow> Err list" where
  "errors_unwrap ErrNoQueuedJob = [ErrNoQueuedJob]"
| "errors_unwrap ErrRunNotFound = [ErrRunNotFound]"
| "errors_unwrap ErrJobRunNotFound = [ErrJobRunNotFound]"
| "errors_unwrap ErrJobNotDispatchable = [ErrJobNotDispatchable]"
| "errors_unwrap ErrNotAuthorized = [ErrNotAuthorized]"
| "errors_unwrap ErrInvalidToken = [ErrInvalidToken]"
| "errors_unwrap ErrBadSignature = [ErrBadSignature]"
| "errors_unwrap ErrIgnoredPush = [ErrIgnoredPush]"
| "errors_unwrap ErrMalformedPayload = [ErrMalformedPayload]"
| "errors_unwrap ErrStepFailed = [ErrStepFailed]"
| "errors_unwrap ErrCancelled = [ErrCancelled]"
| "errors_unwrap ContextCanceled = [ContextCanceled]"
| "errors_unwrap (Errorf m) = [Errorf m]"
| "errors_unwrap (Wrapf m e) = Wrapf m e # errors_unwrap e"
| "errors_unwrap (Detailf e m) = Detailf e m # errors_unwrap e"
| "errors_unwrap (Joined e f) = Joined e f # errors_unwrap e @ errors_unwrap f"

definition errors_Is :: "Err \<Rightarrow> Err \<Rightarrow> bool" where
  "errors_Is e target \<longleftrightarrow> target \<in> set (errors_unwrap e)"

lemma errors_Is_Wrapf [simp]: "errors_Is (Wrapf m e) t \<longleftrightarrow> t = Wrapf m e \<or> errors_Is e t"
  by (simp add: errors_Is_def)

lemma errors_Is_Detailf [simp]: "errors_Is (Detailf e m) t \<longleftrightarrow> t = Detailf e m \<or> errors_Is e t"
  by (simp add: errors_Is_def)

lemma errors_Is_refl [simp]: "errors_Is e e"
  by (cases e) (simp_all add: errors_Is_def)

text \<open>The text of an error; joined errors are on lines of their own.\<close>

primrec Err_Error :: "Err \<Rightarrow> string" where
  "Err_Error ErrNoQueuedJob = ''scheduler: no queued job run''"
| "Err_Error ErrRunNotFound = ''scheduler: run not found''"
| "Err_Error ErrJobRunNotFound = ''scheduler: job run not found''"
| "Err_Error ErrJobNotDispatchable = ''scheduler: job run not dispatchable''"
| "Err_Error ErrNotAuthorized = ''policy: not authorized''"
| "Err_Error ErrInvalidToken = ''identity: invalid token''"
| "Err_Error ErrBadSignature = ''github: invalid webhook signature''"
| "Err_Error ErrIgnoredPush = ''github: push ignored''"
| "Err_Error ErrMalformedPayload = ''github: malformed payload''"
| "Err_Error ErrStepFailed = ''executor: step failed''"
| "Err_Error ErrCancelled = ''executor: job cancelled''"
| "Err_Error ContextCanceled = ''context canceled''"
| "Err_Error (Errorf m) = m"
| "Err_Error (Wrapf m e) = m @ '': '' @ Err_Error e"
| "Err_Error (Detailf e m) = Err_Error e @ '': '' @ m"
| "Err_Error (Joined e f) = Err_Error e @ [char_of (10 :: nat)] @ Err_Error f"

type_synonym 'a res = "Err + 'a"

text \<open>
  A stateful operation returns its result beside the state it leaves, on the error paths
  too: a Go method that fails half way keeps the writes it made.
\<close>

type_synonym ('s, 'a) op = "'s \<Rightarrow> 'a res \<times> 's"

section \<open>Go strings\<close>

text \<open>A byte between two others, the way the sources classify letters and digits.\<close>

definition char_within :: "char \<Rightarrow> char \<Rightarrow> char \<Rightarrow> bool" where
  "char_within lo hi c \<longleftrightarrow> lo \<le> c \<and> c \<le> hi"

definition is_letter :: "char \<Rightarrow> bool" where
  "is_letter c \<longleftrightarrow> char_within (CHR ''a'') (CHR ''z'') c \<or> char_within (CHR ''A'') (CHR ''Z'') c"

definition is_digit :: "char \<Rightarrow> bool" where
  "is_digit = char_within (CHR ''0'') (CHR ''9'')"

definition HasPrefix :: "string \<Rightarrow> string \<Rightarrow> bool" where
  "HasPrefix s p \<longleftrightarrow> take (length p) s = p"

definition HasSuffix :: "string \<Rightarrow> string \<Rightarrow> bool" where
  "HasSuffix s p \<longleftrightarrow> HasPrefix (rev s) (rev p)"

definition TrimPrefix :: "string \<Rightarrow> string \<Rightarrow> string" where
  "TrimPrefix s p = (if HasPrefix s p then drop (length p) s else s)"

definition TrimSuffix :: "string \<Rightarrow> string \<Rightarrow> string" where
  "TrimSuffix s p = (if HasSuffix s p then take (length s - length p) s else s)"

fun Index :: "string \<Rightarrow> string \<Rightarrow> nat option" where
  "Index [] sep = (if sep = [] then Some 0 else None)"
| "Index (c # cs) sep =
     (if HasPrefix (c # cs) sep then Some 0 else map_option Suc (Index cs sep))"

definition Contains :: "string \<Rightarrow> string \<Rightarrow> bool" where
  "Contains s sub \<longleftrightarrow> Index s sub \<noteq> None"

definition is_space :: "char \<Rightarrow> bool" where
  "is_space c \<longleftrightarrow> c = CHR '' '' \<or> (9 \<le> (of_char c :: nat) \<and> (of_char c :: nat) \<le> 13)"

definition TrimSpace :: "string \<Rightarrow> string" where
  "TrimSpace s = rev (dropWhile is_space (rev (dropWhile is_space s)))"

definition lower_char :: "char \<Rightarrow> char" where
  "lower_char c =
     (if 65 \<le> (of_char c :: nat) \<and> (of_char c :: nat) \<le> 90 then char_of ((of_char c :: nat) + 32) else c)"

definition ToLower :: "string \<Rightarrow> string" where
  "ToLower s = map lower_char s"

definition EqualFold :: "string \<Rightarrow> string \<Rightarrow> bool" where
  "EqualFold s t \<longleftrightarrow> ToLower s = ToLower t"

text \<open>
  \<^verbatim>\<open>strings.Join\<close>, and \<^verbatim>\<open>strings.Split\<close> and \<^verbatim>\<open>strings.Cut\<close> on a
  one-byte separator, which is how the sources use them.
\<close>

fun Join :: "string list \<Rightarrow> string \<Rightarrow> string" where
  "Join [] sep = []"
| "Join [x] sep = x"
| "Join (x # y # ys) sep = x @ sep @ Join (y # ys) sep"

fun Split :: "string \<Rightarrow> char \<Rightarrow> string list" where
  "Split [] c = [[]]"
| "Split (x # xs) c =
     (if x = c then [] # Split xs c
      else (case Split xs c of [] \<Rightarrow> [[x]] | w # ws \<Rightarrow> (x # w) # ws))"

definition Cut :: "string \<Rightarrow> char \<Rightarrow> string \<times> string \<times> bool" where
  "Cut s c = (case dropWhile (\<lambda>x. x \<noteq> c) s of
      [] \<Rightarrow> (s, [], False)
    | _ # rest \<Rightarrow> (takeWhile (\<lambda>x. x \<noteq> c) s, rest, True))"

text \<open>
  \<^verbatim>\<open>strings.ReplaceAll\<close> for a non-empty old string: leftmost matches, not overlapping.
\<close>

function ReplaceAll :: "string \<Rightarrow> string \<Rightarrow> string \<Rightarrow> string" where
  "ReplaceAll s old new =
     (if old = [] then s
      else (case s of
          [] \<Rightarrow> []
        | c # cs \<Rightarrow>
            if HasPrefix s old then new @ ReplaceAll (drop (length old) s) old new
            else c # ReplaceAll cs old new))"
  by pat_completeness auto
termination
  by (relation "measure (\<lambda>(s, old, new). length s)") auto

declare ReplaceAll.simps [simp del]

lemma HasPrefix_prefix [go_string]: "HasPrefix s p \<longleftrightarrow> prefix p s"
  unfolding HasPrefix_def by (metis append_eq_conv_conj prefix_def append_take_drop_id)

lemma HasPrefix_append [simp]: "HasPrefix (p @ s) p"
  by (simp add: HasPrefix_def)

lemma HasPrefix_Nil [simp]: "HasPrefix s []"
  by (simp add: HasPrefix_def)

lemma HasPrefix_of_Nil [simp]: "HasPrefix [] p \<longleftrightarrow> p = []"
  by (auto simp: HasPrefix_def)

lemma HasPrefix_Cons [simp]: "HasPrefix (c # s) (d # p) \<longleftrightarrow> c = d \<and> HasPrefix s p"
  by (auto simp: HasPrefix_def)

lemma TrimPrefix_append [simp]: "TrimPrefix (p @ s) p = s"
  by (simp add: TrimPrefix_def)

lemma HasSuffix_suffix [go_string]: "HasSuffix s p \<longleftrightarrow> suffix p s"
  by (simp add: HasSuffix_def HasPrefix_prefix suffix_to_prefix)

lemma HasSuffix_append [simp]: "HasSuffix (s @ p) p"
  by (simp add: HasSuffix_def)

lemma TrimSuffix_append [simp]: "TrimSuffix (s @ p) p = s"
  by (simp add: TrimSuffix_def)

text \<open>\<open>Index\<close> is the first position at which the separator occurs.\<close>

lemma Index_Some:
  "Index s sep = Some i \<Longrightarrow> i \<le> length s \<and> HasPrefix (drop i s) sep \<and> (\<forall>j<i. \<not> HasPrefix (drop j s) sep)"
proof (induction s arbitrary: i)
  case Nil
  then show ?case by (auto split: if_splits)
next
  case (Cons c cs)
  show ?case
  proof (cases "HasPrefix (c # cs) sep")
    case True
    with Cons.prems show ?thesis by simp
  next
    case False
    with Cons.prems obtain k where k: "i = Suc k" "Index cs sep = Some k" by auto
    from Cons.IH [OF k(2)] False k(1) show ?thesis
      by (auto simp: less_Suc_eq_0_disj)
  qed
qed

lemma Index_None: "Index s sep = None \<Longrightarrow> j \<le> length s \<Longrightarrow> \<not> HasPrefix (drop j s) sep"
proof (induction s arbitrary: j)
  case Nil
  then show ?case by (auto split: if_splits)
next
  case (Cons c cs)
  then show ?case by (cases j) (auto split: if_splits)
qed

lemma Index_Nil_sep [simp]: "Index s [] = Some 0"
  by (cases s) simp_all

text \<open>\<open>Contains\<close> is the sublist (factor) relation.\<close>

lemma Contains_sublist [go_string]: "Contains s sub \<longleftrightarrow> sublist sub s"
proof
  assume "Contains s sub"
  then obtain i where "Index s sub = Some i" by (auto simp: Contains_def)
  then have "HasPrefix (drop i s) sub" using Index_Some by blast
  then obtain r where "drop i s = sub @ r" by (auto simp: HasPrefix_prefix prefix_def)
  then have "s = take i s @ sub @ r" by (metis append_take_drop_id)
  then show "sublist sub s" by (metis sublist_appendI)
next
  assume "sublist sub s"
  then obtain p q where s: "s = p @ sub @ q" by (auto simp: sublist_def)
  show "Contains s sub"
  proof (rule ccontr)
    assume "\<not> Contains s sub"
    then have "Index s sub = None" by (simp add: Contains_def)
    then have "\<not> HasPrefix (drop (length p) s) sub"
      by (rule Index_None) (simp add: s)
    with s show False by simp
  qed
qed

lemma lower_char_idem [simp]: "lower_char (lower_char c) = lower_char c"
proof (cases "65 \<le> (of_char c :: nat) \<and> (of_char c :: nat) \<le> 90")
  case True
  then have "(of_char (char_of ((of_char c :: nat) + 32)) :: nat) = of_char c + 32"
    by simp
  with True show ?thesis by (simp add: lower_char_def)
next
  case False
  then have "lower_char c = c" by (auto simp: lower_char_def)
  then show ?thesis by simp
qed

lemma ToLower_idem [simp]: "ToLower (ToLower s) = ToLower s"
  by (simp add: ToLower_def)

lemma ToLower_append [simp]: "ToLower (s @ t) = ToLower s @ ToLower t"
  by (simp add: ToLower_def)

lemma length_ToLower [simp]: "length (ToLower s) = length s"
  by (simp add: ToLower_def)

lemma ToLower_Nil_iff [simp]: "ToLower s = [] \<longleftrightarrow> s = []"
  by (simp add: ToLower_def)

lemma EqualFold_refl [simp]: "EqualFold s s"
  by (simp add: EqualFold_def)

lemma EqualFold_sym: "EqualFold s t \<longleftrightarrow> EqualFold t s"
  by (auto simp: EqualFold_def)

lemma Split_nonempty [simp]: "Split s c \<noteq> []"
  by (cases s) (auto split: list.splits)

lemma Split_no_sep: "c \<notin> set s \<Longrightarrow> Split s c = [s]"
  by (induction s) (auto split: list.splits)

lemma Split_append_sep: "c \<notin> set s \<Longrightarrow> Split (s @ c # t) c = s # Split t c"
  by (induction s) (auto split: list.splits)

text \<open>Splitting undoes joining when the separator occurs in no part, and joining undoes splitting.\<close>

lemma Split_Join:
  "xs \<noteq> [] \<Longrightarrow> \<forall>x\<in>set xs. c \<notin> set x \<Longrightarrow> Split (Join xs [c]) c = xs"
  by (induction xs "[c]" rule: Join.induct) (auto simp: Split_no_sep Split_append_sep)

lemma Join_Split: "Join (Split s c) [c] = s"
proof (induction s)
  case Nil
  then show ?case by simp
next
  case (Cons x xs)
  obtain w ws where "Split xs c = w # ws" by (meson Split_nonempty list.exhaust)
  with Cons show ?case by (cases ws) auto
qed

lemma Cut_sep: "c \<notin> set a \<Longrightarrow> Cut (a @ c # b) c = (a, b, True)"
  by (simp add: Cut_def dropWhile_append takeWhile_append)

section \<open>Go maps that are ranged over\<close>

text \<open>
  A Go map that the code ranges over is an association list with distinct keys. The order
  of the list stands for the iteration order Go leaves unspecified.
\<close>

type_synonym ('k, 'v) gomap = "('k \<times> 'v) list"

definition mget :: "('k, 'v) gomap \<Rightarrow> 'k \<Rightarrow> 'v option" where
  "mget m k = map_of m k"

definition mput :: "('k, 'v) gomap \<Rightarrow> 'k \<Rightarrow> 'v \<Rightarrow> ('k, 'v) gomap" where
  "mput m k v = AList.update k v m"

definition mkeys :: "('k, 'v) gomap \<Rightarrow> 'k set" where
  "mkeys m = fst ` set m"

definition mwf :: "('k, 'v) gomap \<Rightarrow> bool" where
  "mwf m \<longleftrightarrow> distinct (map fst m)"

lemma mget_Nil [simp]: "mget [] k = None"
  by (simp add: mget_def)

lemma mget_mput [go_map, simp]: "mget (mput m k v) k' = (if k = k' then Some v else mget m k')"
  by (simp add: mget_def mput_def update_conv')

lemma mwf_Nil [simp]: "mwf []"
  by (simp add: mwf_def)

lemma mwf_mput [simp]: "mwf m \<Longrightarrow> mwf (mput m k v)"
  by (simp add: mwf_def mput_def distinct_update)

lemma mkeys_mput [simp]: "mkeys (mput m k v) = insert k (mkeys m)"
  by (simp add: mkeys_def mput_def dom_update flip: dom_map_of_conv_image_fst)
    (auto simp: update_conv' dom_map_of_conv_image_fst)

lemma mget_None_iff [go_map]: "mget m k = None \<longleftrightarrow> k \<notin> mkeys m"
  by (simp add: mget_def mkeys_def map_of_eq_None_iff)

lemma mget_set: "mwf m \<Longrightarrow> (k, v) \<in> set m \<longleftrightarrow> mget m k = Some v"
  by (simp add: mget_def mwf_def)

lemma mget_in_set: "mget m k = Some v \<Longrightarrow> (k, v) \<in> set m"
  by (simp add: mget_def map_of_SomeD)

lemma mget_in_keys: "mget m k = Some v \<Longrightarrow> k \<in> mkeys m"
  by (metis mget_None_iff option.distinct(1))

lemma mput_same: "mget m k = Some v \<Longrightarrow> mput m k v = m"
  unfolding mget_def mput_def by (induction m) auto

section \<open>Lists\<close>

lemma map_of_filter_key: "distinct (map fst xs) \<Longrightarrow> distinct (map fst (filter P xs))"
  by (induction xs) auto

lemma sorted_map_hd_le:
  "sorted (map f (x # xs)) \<Longrightarrow> y \<in> set (x # xs) \<Longrightarrow> f x \<le> f y"
  by auto

lemma sorted_map_append_le:
  "sorted (map f (xs @ y # ys)) \<Longrightarrow> z \<in> set ys \<Longrightarrow> f y \<le> f z"
  by (auto simp: sorted_append)

lemma distinct_map_concat:
  "distinct xs \<Longrightarrow> (\<And>x. x \<in> set xs \<Longrightarrow> distinct (map f (g x))) \<Longrightarrow>
   (\<And>x y. x \<in> set xs \<Longrightarrow> y \<in> set xs \<Longrightarrow> x \<noteq> y \<Longrightarrow> f ` set (g x) \<inter> f ` set (g y) = {}) \<Longrightarrow>
   distinct (map f (concat (map g xs)))"
proof (induction xs)
  case (Cons x xs)
  have "f ` set (g x) \<inter> f ` (\<Union>y\<in>set xs. set (g y)) = {}"
    using Cons.prems(1,3) by (fastforce dest: Cons.prems(3) [of x])
  with Cons show ?case by simp
qed simp

lemma mget_mput_fun: "mget (mput m k v) = (mget m)(k \<mapsto> v)"
  by (auto simp: fun_eq_iff)

section \<open>Formatting\<close>

text \<open>\<^verbatim>\<open>%d\<close> of a non-negative number.\<close>

fun itoa :: "nat \<Rightarrow> string" where
  "itoa n = (if n < 10 then [char_of (48 + n)] else itoa (n div 10) @ [char_of (48 + n mod 10)])"

declare itoa.simps [simp del]

text \<open>
  \<^verbatim>\<open>%q\<close>: a double-quoted literal with the escapes of \<^verbatim>\<open>strconv.Quote\<close> for ASCII text;
  bytes from 128 on are copied.
\<close>

definition hex_digit :: "nat \<Rightarrow> char" where
  "hex_digit n = (if n < 10 then char_of (48 + n) else char_of (87 + n))"

definition quote_char :: "char \<Rightarrow> string" where
  "quote_char c =
     (let n = of_char c :: nat in
      if c = CHR 0x22 then [CHR 0x5C, CHR 0x22]
      else if c = CHR 0x5C then [CHR 0x5C, CHR 0x5C]
      else if n = 7 then [CHR 0x5C, CHR ''a''] else if n = 8 then [CHR 0x5C, CHR ''b'']
      else if n = 9 then [CHR 0x5C, CHR ''t''] else if n = 10 then [CHR 0x5C, CHR ''n'']
      else if n = 11 then [CHR 0x5C, CHR ''v''] else if n = 12 then [CHR 0x5C, CHR ''f'']
      else if n = 13 then [CHR 0x5C, CHR ''r'']
      else if n < 32 \<or> n = 127 then [CHR 0x5C, CHR ''x'', hex_digit (n div 16), hex_digit (n mod 16)]
      else [c])"

definition Quote :: "string \<Rightarrow> string" where
  "Quote s = [CHR 0x22] @ concat (map quote_char s) @ [CHR 0x22]"

end
