(* ===== verification/Run_Model.thy ===== *)
theory Run_Model
  imports Prelude
begin

text \<open>
  The provider-neutral run model of \<^verbatim>\<open>internal/run/model\<close>: identifiers, events,
  durable records, the job and run state machines, and the aggregation of job statuses into
  a run status. Everything here is pure.
\<close>

section \<open>Records\<close>

type_synonym RunID = string
type_synonym JobRunID = string

record RepositoryRef =
  repo_Provider :: string
  repo_Owner :: string
  repo_Name :: string

definition RepositoryRef_String :: "RepositoryRef \<Rightarrow> string" where
  "RepositoryRef_String r = repo_Provider r @ ''/'' @ repo_Owner r @ ''/'' @ repo_Name r"

record DeliveryKey =
  dk_Provider :: string
  dk_DeliveryID :: string

definition DeliveryKey_String :: "DeliveryKey \<Rightarrow> string" where
  "DeliveryKey_String k = dk_Provider k @ '':'' @ dk_DeliveryID k"

record Event =
  ev_Provider :: string
  ev_Name :: string
  ev_DeliveryID :: string
  ev_Repository :: RepositoryRef
  ev_Ref :: string
  ev_SHA :: string
  ev_Actor :: string

record Delivery =
  d_Key :: DeliveryKey
  d_Event :: Event
  d_Payload :: bytes

text \<open>\<open>dr_RunID\<close> is the empty string until a run has been created for the delivery.\<close>

record DeliveryRecord =
  dr_Key :: DeliveryKey
  dr_Event :: Event
  dr_Payload :: bytes
  dr_ReceivedAt :: time
  dr_RunID :: RunID

record JobIntent =
  ji_JobKey :: string
  ji_RunnerClass :: string
  ji_DependsOn :: "string list"
  ji_Matrix :: "(string, string) gomap option"
  ji_PlanDigest :: string
  ji_Condition :: string

record RunSeed =
  rs_Delivery :: DeliveryKey
  rs_Event :: Event
  rs_Jobs :: "JobIntent list"

text \<open>
  The statuses are Go string types with named constants. The last constructor of each
  stands for every other string, in particular the zero value \<open>''''\<close>.
\<close>

datatype WorkflowRunStatus =
    RunQueued | RunRunning | RunSucceeded | RunFailed | RunCancelled | RunOther string

datatype JobRunStatus =
    JobQueued | JobDispatched | JobRunning | JobSucceeded | JobFailed | JobCancelled
  | JobSkipped | JobOther string

text \<open>The text of a status, as error messages show it.\<close>

primrec status_text :: "JobRunStatus \<Rightarrow> string" where
  "status_text JobQueued = ''queued''"
| "status_text JobDispatched = ''dispatched''"
| "status_text JobRunning = ''running''"
| "status_text JobSucceeded = ''succeeded''"
| "status_text JobFailed = ''failed''"
| "status_text JobCancelled = ''cancelled''"
| "status_text JobSkipped = ''skipped''"
| "status_text (JobOther s) = s"

datatype ObservedPhase =
    PhasePending | PhaseRunning | PhaseSucceeded | PhaseFailed | PhaseSkipped
  | PhaseOther string

record RunRecord =
  run_ID :: RunID
  run_Event :: Event
  run_Delivery :: DeliveryKey
  run_Status :: WorkflowRunStatus
  run_CreatedAt :: time
  run_FinishedAt :: "time option"

record JobRunRecord =
  jr_ID :: JobRunID
  jr_RunID :: RunID
  jr_JobKey :: string
  jr_RunnerClass :: string
  jr_DependsOn :: "string list"
  jr_Matrix :: "(string, string) gomap option"
  jr_PlanDigest :: string
  jr_Condition :: string
  jr_Status :: JobRunStatus
  jr_Attempt :: int
  jr_ActiveName :: string
  jr_ActiveUID :: string
  jr_CreatedAt :: time
  jr_DispatchedAt :: "time option"
  jr_StartedAt :: "time option"
  jr_FinishedAt :: "time option"
  jr_ActiveCollectedAt :: "time option"

text \<open>The zero value a Go map lookup yields for a missing job.\<close>

definition zero_JobRunRecord :: JobRunRecord where
  "zero_JobRunRecord = \<lparr>jr_ID = '''', jr_RunID = '''', jr_JobKey = '''', jr_RunnerClass = '''',
     jr_DependsOn = [], jr_Matrix = None, jr_PlanDigest = '''', jr_Condition = '''',
     jr_Status = JobOther '''', jr_Attempt = 0, jr_ActiveName = '''', jr_ActiveUID = '''',
     jr_CreatedAt = 0, jr_DispatchedAt = None, jr_StartedAt = None, jr_FinishedAt = None,
     jr_ActiveCollectedAt = None\<rparr>"

section \<open>Operations\<close>

definition CRName :: "JobRunID \<Rightarrow> string" where
  "CRName jid = ''jobrun-'' @ ToLower jid"

text \<open>\<open>None\<close> is the pair of the empty status and \<^verbatim>\<open>false\<close>.\<close>

fun JobStatusFromPhase :: "ObservedPhase \<Rightarrow> JobRunStatus option" where
  "JobStatusFromPhase PhasePending = None"
| "JobStatusFromPhase PhaseRunning = Some JobRunning"
| "JobStatusFromPhase PhaseSucceeded = Some JobSucceeded"
| "JobStatusFromPhase PhaseFailed = Some JobFailed"
| "JobStatusFromPhase PhaseSkipped = Some JobSkipped"
| "JobStatusFromPhase (PhaseOther _) = None"

definition JobIntent_Validate :: "JobIntent \<Rightarrow> unit res" where
  "JobIntent_Validate j =
     (if TrimSpace (ji_JobKey j) = '''' then Inl (Errorf ''job intent: empty job key'')
      else if TrimSpace (ji_RunnerClass j) = ''''
      then Inl (Errorf (''job intent '' @ Quote (ji_JobKey j) @ '': empty runner class''))
      else Inr ())"

fun run_IsTerminal :: "WorkflowRunStatus \<Rightarrow> bool" where
  "run_IsTerminal RunSucceeded = True"
| "run_IsTerminal RunFailed = True"
| "run_IsTerminal RunCancelled = True"
| "run_IsTerminal _ = False"

fun job_IsTerminal :: "JobRunStatus \<Rightarrow> bool" where
  "job_IsTerminal JobSucceeded = True"
| "job_IsTerminal JobFailed = True"
| "job_IsTerminal JobCancelled = True"
| "job_IsTerminal JobSkipped = True"
| "job_IsTerminal _ = False"

fun jobRank :: "JobRunStatus \<Rightarrow> int" where
  "jobRank JobQueued = 0"
| "jobRank JobDispatched = 1"
| "jobRank JobRunning = 2"
| "jobRank _ = 3"

fun runRank :: "WorkflowRunStatus \<Rightarrow> int" where
  "runRank RunQueued = 0"
| "runRank RunRunning = 1"
| "runRank _ = 2"

text \<open>
  The error carries the kind and the two statuses (\<^verbatim>\<open>TransitionError\<close>); its text is
  not built here.
\<close>

record TransitionError =
  te_Kind :: string
  te_From :: JobRunStatus
  te_To :: JobRunStatus

definition CanTransitionJob :: "JobRunStatus \<Rightarrow> JobRunStatus \<Rightarrow> bool" where
  "CanTransitionJob fr to =
     (if job_IsTerminal fr then False
      else case to of
          JobCancelled \<Rightarrow> True
        | JobSkipped \<Rightarrow> True
        | JobDispatched \<Rightarrow> fr = JobQueued
        | JobRunning \<Rightarrow> fr = JobDispatched \<or> fr = JobRunning
        | JobSucceeded \<Rightarrow> fr = JobDispatched \<or> fr = JobRunning
        | JobFailed \<Rightarrow> fr = JobDispatched \<or> fr = JobRunning
        | _ \<Rightarrow> False)"

definition TransitionJob :: "JobRunStatus \<Rightarrow> JobRunStatus \<Rightarrow> TransitionError + JobRunStatus" where
  "TransitionJob fr to =
     (if \<not> CanTransitionJob fr to
      then Inl \<lparr>te_Kind = ''jobrun'', te_From = fr, te_To = to\<rparr>
      else Inr to)"

definition CanAdvanceJob :: "JobRunStatus \<Rightarrow> JobRunStatus \<Rightarrow> bool" where
  "CanAdvanceJob fr to =
     (if to = JobCancelled then False
      else if fr = to then True
      else jobRank to > jobRank fr)"

definition CanAdvanceRun :: "WorkflowRunStatus \<Rightarrow> WorkflowRunStatus \<Rightarrow> bool" where
  "CanAdvanceRun fr to =
     (if fr = to then True
      else if run_IsTerminal fr then False
      else if run_IsTerminal to then True
      else runRank to > runRank fr)"

text \<open>The flags of the loop in \<^verbatim>\<open>AggregateRunStatus\<close> and one turn of the loop.\<close>

record agg_flags =
  ag_running :: bool
  ag_started :: bool
  ag_allTerminal :: bool
  ag_anyFailed :: bool
  ag_anyCancelled :: bool
  ag_anySucceeded :: bool
  ag_anySkipped :: bool

definition agg_init :: agg_flags where
  "agg_init = \<lparr>ag_running = False, ag_started = False, ag_allTerminal = True,
     ag_anyFailed = False, ag_anyCancelled = False, ag_anySucceeded = False,
     ag_anySkipped = False\<rparr>"

fun agg_step :: "JobRunStatus \<Rightarrow> agg_flags \<Rightarrow> agg_flags" where
  "agg_step JobRunning f = f\<lparr>ag_running := True, ag_started := True, ag_allTerminal := False\<rparr>"
| "agg_step JobDispatched f = f\<lparr>ag_started := True, ag_allTerminal := False\<rparr>"
| "agg_step JobQueued f = f\<lparr>ag_allTerminal := False\<rparr>"
| "agg_step JobFailed f = f\<lparr>ag_anyFailed := True\<rparr>"
| "agg_step JobCancelled f = f\<lparr>ag_anyCancelled := True\<rparr>"
| "agg_step JobSkipped f = f\<lparr>ag_anySkipped := True\<rparr>"
| "agg_step JobSucceeded f = f\<lparr>ag_anySucceeded := True\<rparr>"
| "agg_step (JobOther _) f = f"

definition AggregateRunStatus :: "JobRunStatus list \<Rightarrow> WorkflowRunStatus" where
  "AggregateRunStatus js =
     (let f = fold agg_step js agg_init in
      if length js = 0 then RunQueued
      else if ag_running f then RunRunning
      else if \<not> ag_allTerminal f then (if ag_started f then RunRunning else RunQueued)
      else if ag_anyFailed f then RunFailed
      else if ag_anyCancelled f then RunCancelled
      else if ag_anySucceeded f \<or> ag_anySkipped f then RunSucceeded
      else RunQueued)"

section \<open>The state machines\<close>

lemma CanTransitionJob_nonterminal: "CanTransitionJob fr to \<Longrightarrow> \<not> job_IsTerminal fr"
  by (auto simp: CanTransitionJob_def)

lemma TransitionJob_Inr: "TransitionJob fr to = Inr s \<longleftrightarrow> s = to \<and> CanTransitionJob fr to"
  by (auto simp: TransitionJob_def)

lemma TransitionJob_Cancelled [simp]:
  "TransitionJob s JobCancelled = (if job_IsTerminal s
     then Inl \<lparr>te_Kind = ''jobrun'', te_From = s, te_To = JobCancelled\<rparr> else Inr JobCancelled)"
  by (simp add: TransitionJob_def CanTransitionJob_def)

lemma TransitionJob_Queued_Skipped [simp]: "TransitionJob JobQueued JobSkipped = Inr JobSkipped"
  by (simp add: TransitionJob_def CanTransitionJob_def)

lemma jobRank_terminal: "job_IsTerminal s \<Longrightarrow> jobRank s = 3"
  by (cases s) simp_all

lemma jobRank_le: "jobRank s \<le> 3" "0 \<le> jobRank s"
  by (cases s; simp)+

lemma CanAdvanceJob_rank: "CanAdvanceJob fr to \<Longrightarrow> jobRank fr \<le> jobRank to"
  by (auto simp: CanAdvanceJob_def split: if_splits)

lemma CanAdvanceJob_terminal: "job_IsTerminal fr \<Longrightarrow> CanAdvanceJob fr to \<Longrightarrow> to = fr"
  using jobRank_terminal [of fr] jobRank_le(1) [of to]
  by (auto simp: CanAdvanceJob_def split: if_splits)

lemma CanTransitionJob_rank: "CanTransitionJob fr to \<Longrightarrow> jobRank fr \<le> jobRank to"
  by (cases to; cases fr; simp add: CanTransitionJob_def)

lemma CanTransitionJob_Cancelled: "CanTransitionJob fr JobCancelled \<longleftrightarrow> \<not> job_IsTerminal fr"
  by (simp add: CanTransitionJob_def)

lemma CanAdvanceJob_Cancelled [simp]: "\<not> CanAdvanceJob fr JobCancelled"
  by (simp add: CanAdvanceJob_def)

lemma JobStatusFromPhase_target:
  "JobStatusFromPhase p = Some t \<Longrightarrow> t \<in> {JobRunning, JobSucceeded, JobFailed, JobSkipped}"
  by (cases p) auto

text \<open>
  Every transition the job state machine allows and every forward step of the
  projection keeps the rank from falling, no transition leaves a terminal status, and the
  only status to which both relations disagree in principle, cancellation, is reachable by an
  explicit transition only.
\<close>

theorem job_transitions_forward:
  "(CanTransitionJob fr to \<longrightarrow> jobRank fr \<le> jobRank to \<and> \<not> job_IsTerminal fr)
   \<and> (CanAdvanceJob fr to \<longrightarrow>
        jobRank fr \<le> jobRank to \<and> to \<noteq> JobCancelled \<and> (job_IsTerminal fr \<longrightarrow> to = fr))
   \<and> (\<not> job_IsTerminal fr \<longrightarrow> CanTransitionJob fr JobCancelled \<and> \<not> CanAdvanceJob fr JobCancelled)"
  by (intro conjI impI)
    (auto simp: CanTransitionJob_Cancelled
      dest: CanTransitionJob_rank CanTransitionJob_nonterminal CanAdvanceJob_rank
        CanAdvanceJob_terminal)

theorem job_transitions_forward_witness:
  "CanTransitionJob JobQueued JobDispatched \<and> jobRank JobQueued \<le> jobRank JobDispatched
   \<and> CanAdvanceJob JobQueued JobSucceeded \<and> jobRank JobQueued \<le> jobRank JobSucceeded"
  using job_transitions_forward [of JobQueued JobDispatched]
    job_transitions_forward [of JobQueued JobSucceeded]
  by (simp add: CanTransitionJob_def CanAdvanceJob_def)

section \<open>Aggregation\<close>

text \<open>What the loop computes, flag by flag.\<close>

lemma fold_agg_step:
  "fold agg_step js f = \<lparr>ag_running = (ag_running f \<or> JobRunning \<in> set js),
     ag_started = (ag_started f \<or> JobRunning \<in> set js \<or> JobDispatched \<in> set js),
     ag_allTerminal = (ag_allTerminal f \<and> {JobRunning, JobDispatched, JobQueued} \<inter> set js = {}),
     ag_anyFailed = (ag_anyFailed f \<or> JobFailed \<in> set js),
     ag_anyCancelled = (ag_anyCancelled f \<or> JobCancelled \<in> set js),
     ag_anySucceeded = (ag_anySucceeded f \<or> JobSucceeded \<in> set js),
     ag_anySkipped = (ag_anySkipped f \<or> JobSkipped \<in> set js)\<rparr>"
proof (induction js arbitrary: f)
  case Nil
  then show ?case by simp
next
  case (Cons j js)
  show ?case by (cases j) (simp_all add: Cons)
qed

lemma AggregateRunStatus_char:
  "AggregateRunStatus js =
     (if js = [] then RunQueued
      else if JobRunning \<in> set js \<or> JobDispatched \<in> set js then RunRunning
      else if JobQueued \<in> set js then RunQueued
      else if JobFailed \<in> set js then RunFailed
      else if JobCancelled \<in> set js then RunCancelled
      else if JobSucceeded \<in> set js \<or> JobSkipped \<in> set js then RunSucceeded
      else RunQueued)"
  by (simp add: AggregateRunStatus_def fold_agg_step agg_init_def Let_def)

definition known_status :: "JobRunStatus \<Rightarrow> bool" where
  "known_status s \<longleftrightarrow> (\<forall>x. s \<noteq> JobOther x)"

lemma known_status_cases:
  "known_status s \<Longrightarrow> \<not> job_IsTerminal s \<Longrightarrow> s = JobQueued \<or> s = JobDispatched \<or> s = JobRunning"
  by (cases s) (auto simp: known_status_def)

lemma Aggregate_terminal_iff:
  assumes "js \<noteq> []" "\<forall>j\<in>set js. known_status j"
  shows "run_IsTerminal (AggregateRunStatus js) \<longleftrightarrow> (\<forall>j\<in>set js. job_IsTerminal j)"
proof
  assume "run_IsTerminal (AggregateRunStatus js)"
  then have n: "JobRunning \<notin> set js" "JobDispatched \<notin> set js" "JobQueued \<notin> set js"
    using assms(1) by (auto simp: AggregateRunStatus_char split: if_splits)
  show "\<forall>j\<in>set js. job_IsTerminal j"
    using assms(2) n known_status_cases by blast
next
  assume t: "\<forall>j\<in>set js. job_IsTerminal j"
  then have "JobRunning \<notin> set js" "JobDispatched \<notin> set js" "JobQueued \<notin> set js" by auto
  moreover obtain j where j: "j \<in> set js" using assms(1) by (cases js) auto
  moreover have "j \<in> {JobFailed, JobCancelled, JobSucceeded, JobSkipped}"
    using t j by (cases j) auto
  ultimately show "run_IsTerminal (AggregateRunStatus js)"
    using assms(1) by (auto simp: AggregateRunStatus_char)
qed

end
