(* ===== verification/Store_Port.thy ===== *)
theory Store_Port
  imports Run_Model
begin

text \<open>
  The consumer-side ports of \<^verbatim>\<open>internal/run/scheduler/port.go\<close>. A Go interface is a
  record of its methods over an abstract state; the contracts that the port comments state
  are locales, against which the scheduler use cases are verified and which the adapters
  interpret. The context argument of the Go methods carries no data the adapters read and
  is left out.
\<close>

section \<open>Interfaces\<close>

record ActiveObject =
  ao_Name :: string
  ao_UID :: string

record 's DurableStore =
  RecordDelivery :: "Delivery \<Rightarrow> ('s, DeliveryRecord \<times> bool) op"
  CreateRun :: "RunSeed \<Rightarrow> time \<Rightarrow> ('s, RunRecord \<times> bool) op"
  GetRun :: "RunID \<Rightarrow> ('s, RunRecord) op"
  GetJobRun :: "JobRunID \<Rightarrow> ('s, JobRunRecord) op"
  ListJobRuns :: "RunID \<Rightarrow> ('s, JobRunRecord list) op"
  CountQueuedJobs :: "('s, int) op"
  ListQueuedJobs :: "('s, JobRunRecord list) op"
  ClaimNextQueuedJob :: "('s, JobRunRecord) op"
  ReleaseClaim :: "JobRunID \<Rightarrow> ('s, unit) op"
  AckDispatched :: "JobRunID \<Rightarrow> ActiveObject \<Rightarrow> time \<Rightarrow> ('s, unit) op"
  ApplyObserved :: "JobRunID \<Rightarrow> ObservedPhase \<Rightarrow> time \<Rightarrow> ('s, unit) op"
  CancelRun :: "RunID \<Rightarrow> time \<Rightarrow> ('s, unit) op"
  ListGCReadyJobs :: "('s, JobRunRecord list) op"
  MarkCollected :: "JobRunID \<Rightarrow> time \<Rightarrow> ('s, unit) op"
  RerequestJob :: "JobRunID \<Rightarrow> time \<Rightarrow> ('s, JobRunID) op"

record 'a ActiveExecutionStore =
  CreateOrGet :: "JobRunID \<Rightarrow> ('a, ActiveObject) op"
  Delete :: "JobRunID \<Rightarrow> ('a, unit) op"

text \<open>
  The identifier generator is the third-party package \<^verbatim>\<open>oklog/ulid\<close> and the clock is
  the operating system's: both are parameters. The \<open>n\<close>-th identifier minted is \<open>mint w n\<close>
  and the \<open>n\<close>-th clock reading is \<open>clock w n\<close>.
\<close>

record world =
  mint :: "nat \<Rightarrow> string"
  clock :: "nat \<Rightarrow> time"

text \<open>What the code relies on: identifiers are unique and never empty.\<close>

definition unique_ids :: "world \<Rightarrow> bool" where
  "unique_ids w \<longleftrightarrow> inj (mint w) \<and> (\<forall>n. mint w n \<noteq> '''')"

text \<open>A concrete generator that satisfies it: identifiers of growing length.\<close>

definition unary_world :: world where
  "unary_world = \<lparr>mint = (\<lambda>n. replicate (Suc n) CHR ''J''), clock = (\<lambda>n. int n + 1000)\<rparr>"

lemma unique_ids_unary [simp]: "unique_ids unary_world"
  by (auto simp: unique_ids_def unary_world_def inj_def dest: arg_cong [where f = length])

section \<open>Contracts\<close>

text \<open>
  The durable store, seen through the records it returns. The observers are what the
  methods read; the laws are the promises of the port comments.
\<close>

locale durable_store =
  fixes d :: "'s DurableStore"
    and invar :: "'s \<Rightarrow> bool"
    and delivery :: "'s \<Rightarrow> DeliveryKey \<Rightarrow> DeliveryRecord option"
    and run :: "'s \<Rightarrow> RunID \<Rightarrow> RunRecord option"
    and job :: "'s \<Rightarrow> JobRunID \<Rightarrow> JobRunRecord option"
  assumes record_known:
      "invar s \<Longrightarrow> delivery s (d_Key x) = Some r \<Longrightarrow> RecordDelivery d x s = (Inr (r, False), s)"
    and record_new:
      "invar s \<Longrightarrow> delivery s (d_Key x) = None \<Longrightarrow>
        \<exists>r s'. RecordDelivery d x s = (Inr (r, True), s') \<and> invar s' \<and> dr_RunID r = ''''
          \<and> dr_Payload r = d_Payload x \<and> delivery s' = (delivery s)(d_Key x \<mapsto> r)
          \<and> run s' = run s \<and> job s' = job s"
    and create_known:
      "invar s \<Longrightarrow> delivery s (rs_Delivery seed) = Some r \<Longrightarrow> dr_RunID r \<noteq> '''' \<Longrightarrow>
        \<exists>rr. run s (dr_RunID r) = Some rr \<and> run_ID rr = dr_RunID r
          \<and> CreateRun d seed t s = (Inr (rr, False), s)"
    and create_new:
      "invar s \<Longrightarrow> delivery s (rs_Delivery seed) = Some r \<Longrightarrow> dr_RunID r = '''' \<Longrightarrow>
        rs_Jobs seed \<noteq> [] \<Longrightarrow> distinct (map ji_JobKey (rs_Jobs seed)) \<Longrightarrow>
        \<exists>rr s'. CreateRun d seed t s = (Inr (rr, True), s') \<and> invar s'
          \<and> run_ID rr \<noteq> '''' \<and> run s (run_ID rr) = None
          \<and> delivery s' = (delivery s)(rs_Delivery seed \<mapsto> r\<lparr>dr_RunID := run_ID rr\<rparr>)
          \<and> run s' = (run s)(run_ID rr \<mapsto> rr)"
    and get_job:
      "invar s \<Longrightarrow> GetJobRun d i s =
        ((case job s i of None \<Rightarrow> Inl ErrJobRunNotFound | Some j \<Rightarrow> Inr j), s)"
    and claim_job:
      "invar s \<Longrightarrow> ClaimNextQueuedJob d s = (res, s') \<Longrightarrow>
        invar s' \<and> (\<forall>j. res = Inr j \<longrightarrow> job s' (jr_ID j) = Some j \<and> jr_Status j = JobQueued)"
    and release_ok:
      "invar s \<Longrightarrow> \<exists>s'. ReleaseClaim d i s = (Inr (), s') \<and> invar s' \<and> job s' = job s"
    and ack_ok:
      "invar s \<Longrightarrow> job s i = Some j \<Longrightarrow>
        jr_Status j = JobQueued
          \<or> jr_Status j = JobDispatched \<and> jr_ActiveName j \<in> {'''', ao_Name obj} \<Longrightarrow>
        \<exists>s'. AckDispatched d i obj t s = (Inr (), s') \<and> invar s'
          \<and> job s' = (job s)(i \<mapsto> j\<lparr>jr_Status := JobDispatched, jr_ActiveName := ao_Name obj,
               jr_ActiveUID := ao_UID obj, jr_DispatchedAt := Some t\<rparr>)"
    and ack_refused:
      "invar s \<Longrightarrow> job s i = Some j \<Longrightarrow> jr_Status j \<notin> {JobQueued, JobDispatched} \<Longrightarrow>
        \<exists>e. AckDispatched d i obj t s = (Inl e, s) \<and> errors_Is e ErrJobNotDispatchable"
    and list_gc:
      "invar s \<Longrightarrow> \<exists>js. ListGCReadyJobs d s = (Inr js, s) \<and> distinct (map jr_ID js)
          \<and> (\<forall>j. j \<in> set js \<longleftrightarrow> job s (jr_ID j) = Some j \<and> job_IsTerminal (jr_Status j)
               \<and> jr_ActiveCollectedAt j = None
               \<and> (\<exists>rr. run s (jr_RunID j) = Some rr \<and> run_IsTerminal (run_Status rr)))"
    and mark_collected:
      "invar s \<Longrightarrow> job s i = Some j \<Longrightarrow> jr_ActiveCollectedAt j = None \<Longrightarrow>
        \<exists>s'. MarkCollected d i t s = (Inr (), s') \<and> invar s' \<and> run s' = run s
          \<and> job s' = (job s)(i \<mapsto> j\<lparr>jr_ActiveCollectedAt := Some t\<rparr>)"

text \<open>The Kubernetes side: at most one object per job, created or found, deleted idempotently.\<close>

locale active_store =
  fixes a :: "'a ActiveExecutionStore"
    and ainvar :: "'a \<Rightarrow> bool"
    and obj :: "'a \<Rightarrow> JobRunID \<Rightarrow> ActiveObject option"
  assumes create_existing:
      "ainvar x \<Longrightarrow> obj x i = Some ob \<Longrightarrow>
        \<exists>x'. CreateOrGet a i x = (Inr ob, x') \<and> ainvar x' \<and> obj x' = obj x"
    and create_missing:
      "ainvar x \<Longrightarrow> obj x i = None \<Longrightarrow>
        \<exists>ob x'. CreateOrGet a i x = (Inr ob, x') \<and> ainvar x' \<and> obj x' = (obj x)(i \<mapsto> ob)"
    and delete_ok:
      "ainvar x \<Longrightarrow> \<exists>x'. Delete a i x = (Inr (), x') \<and> ainvar x' \<and> obj x' = (obj x)(i := None)"
begin

lemma create_or_get:
  assumes "ainvar x"
  shows "\<exists>ob x'. CreateOrGet a i x = (Inr ob, x') \<and> ainvar x' \<and> obj x' = (obj x)(i \<mapsto> ob)
    \<and> (\<forall>ob'. obj x i = Some ob' \<longrightarrow> ob = ob')"
proof (cases "obj x i")
  case None
  with create_missing [OF assms] show ?thesis by fastforce
next
  case (Some ob')
  from create_existing [OF assms Some] obtain x' where
    "CreateOrGet a i x = (Inr ob', x')" "ainvar x'" "obj x' = obj x" by blast
  with Some show ?thesis by (auto simp: fun_upd_idem)
qed

end

end
