(* ===== verification/Memory_Store.thy ===== *)
theory Memory_Store
  imports Store_Port
begin

text \<open>
  The in-memory adapter of \<^verbatim>\<open>internal/storage/memory/store.go\<close>: the durable store and
  the active store, method by method. Every method runs under the store's mutex, so one
  method is one atomic step; the mutex itself is left out.
\<close>

section \<open>The durable store\<close>

text \<open>
  \<open>ids\<close> and \<open>clock_reads\<close> count the identifiers minted and the clock readings taken so far.
  The maps that are ranged over (\<open>runs\<close>, \<open>jobs\<close>) are association lists.
\<close>

record DurableMem =
  ids :: nat
  clock_reads :: nat
  deliveries :: "DeliveryKey \<rightharpoonup> DeliveryRecord"
  runs :: "(RunID, RunRecord) gomap"
  jobs :: "(JobRunID, JobRunRecord) gomap"
  runJobs :: "RunID \<rightharpoonup> JobRunID list"
  byJobKey :: "RunID \<rightharpoonup> (string \<rightharpoonup> JobRunID)"
  claimed :: "JobRunID set"

definition NewDurableStore :: DurableMem where
  "NewDurableStore = \<lparr>ids = 0, clock_reads = 0, deliveries = Map.empty, runs = [], jobs = [],
     runJobs = Map.empty, byJobKey = Map.empty, claimed = {}\<rparr>"

definition NewID :: "world \<Rightarrow> DurableMem \<Rightarrow> string \<times> DurableMem" where
  "NewID w s = (mint w (ids s), s\<lparr>ids := Suc (ids s)\<rparr>)"

definition read_clock :: "world \<Rightarrow> DurableMem \<Rightarrow> time \<times> DurableMem" where
  "read_clock w s = (clock w (clock_reads s), s\<lparr>clock_reads := Suc (clock_reads s)\<rparr>)"

text \<open>\<^verbatim>\<open>s.jobs[id]\<close> and \<^verbatim>\<open>s.runJobs[id]\<close>: the zero value when the key is missing.\<close>

definition job_at :: "DurableMem \<Rightarrow> JobRunID \<Rightarrow> JobRunRecord" where
  "job_at s i = (case mget (jobs s) i of None \<Rightarrow> zero_JobRunRecord | Some j \<Rightarrow> j)"

definition runJobs_at :: "DurableMem \<Rightarrow> RunID \<Rightarrow> JobRunID list" where
  "runJobs_at s r = (case runJobs s r of None \<Rightarrow> [] | Some js \<Rightarrow> js)"

definition byJobKey_at :: "DurableMem \<Rightarrow> RunID \<Rightarrow> string \<Rightarrow> JobRunID option" where
  "byJobKey_at s r k = (case byJobKey s r of None \<Rightarrow> None | Some m \<Rightarrow> m k)"

definition put_job :: "JobRunID \<Rightarrow> JobRunRecord \<Rightarrow> DurableMem \<Rightarrow> DurableMem" where
  "put_job i j s = s\<lparr>jobs := mput (jobs s) i j\<rparr>"

definition put_run :: "RunID \<Rightarrow> RunRecord \<Rightarrow> DurableMem \<Rightarrow> DurableMem" where
  "put_run i r s = s\<lparr>runs := mput (runs s) i r\<rparr>"

definition mem_RecordDelivery :: "world \<Rightarrow> Delivery \<Rightarrow> (DurableMem, DeliveryRecord \<times> bool) op" where
  "mem_RecordDelivery w d s =
     (case deliveries s (d_Key d) of
        Some rec \<Rightarrow> (Inr (rec, False), s)
      | None \<Rightarrow>
          (let (t, s1) = read_clock w s;
               rec = \<lparr>dr_Key = d_Key d, dr_Event = d_Event d, dr_Payload = d_Payload d,
                      dr_ReceivedAt = t, dr_RunID = ''''\<rparr>
           in (Inr (rec, True), s1\<lparr>deliveries := (deliveries s1)(d_Key d \<mapsto> rec)\<rparr>)))"

definition getRunLocked :: "RunID \<Rightarrow> DurableMem \<Rightarrow> RunRecord res" where
  "getRunLocked i s = (case mget (runs s) i of None \<Rightarrow> Inl ErrRunNotFound | Some r \<Rightarrow> Inr r)"

text \<open>The record a job intent becomes.\<close>

definition job_of_intent :: "JobRunID \<Rightarrow> RunID \<Rightarrow> time \<Rightarrow> JobIntent \<Rightarrow> JobRunRecord" where
  "job_of_intent jid rid t i = zero_JobRunRecord
     \<lparr>jr_ID := jid, jr_RunID := rid, jr_JobKey := ji_JobKey i, jr_RunnerClass := ji_RunnerClass i,
      jr_DependsOn := ji_DependsOn i, jr_Matrix := ji_Matrix i, jr_PlanDigest := ji_PlanDigest i,
      jr_Condition := ji_Condition i, jr_Status := JobQueued, jr_Attempt := 1, jr_CreatedAt := t\<rparr>"

text \<open>
  The loop over the job intents. It writes each job into \<open>jobs\<close> as it goes; a duplicate key
  ends it with an error and leaves the jobs written so far.
\<close>

fun create_jobs :: "world \<Rightarrow> RunID \<Rightarrow> time \<Rightarrow> JobIntent list \<Rightarrow> (string \<rightharpoonup> JobRunID) \<Rightarrow> JobRunID list
    \<Rightarrow> (DurableMem, (string \<rightharpoonup> JobRunID) \<times> JobRunID list) op" where
  "create_jobs w rid t [] keyIndex jobIDs s = (Inr (keyIndex, jobIDs), s)"
| "create_jobs w rid t (i # is) keyIndex jobIDs s =
     (if keyIndex (ji_JobKey i) \<noteq> None
      then (Inl (Errorf (''memory: duplicate job key '' @ ji_JobKey i @ '' in run '' @ rid)), s)
      else
        (let (jid, s1) = NewID w s
         in create_jobs w rid t is (keyIndex(ji_JobKey i \<mapsto> jid)) (jobIDs @ [jid])
              (put_job jid (job_of_intent jid rid t i) s1)))"

definition mem_CreateRun :: "world \<Rightarrow> RunSeed \<Rightarrow> time \<Rightarrow> (DurableMem, RunRecord \<times> bool) op" where
  "mem_CreateRun w seed t s =
     (case deliveries s (rs_Delivery seed) of
        None \<Rightarrow> (Inl (Errorf (''memory: delivery '' @ DeliveryKey_String (rs_Delivery seed) @ '' not recorded'')), s)
      | Some rec \<Rightarrow>
          if dr_RunID rec \<noteq> '''' then
            (case getRunLocked (dr_RunID rec) s of
               Inl e \<Rightarrow> (Inl e, s)
             | Inr r \<Rightarrow> (Inr (r, False), s))
          else if length (rs_Jobs seed) = 0 then
            (Inl (Errorf (''memory: run for delivery '' @ DeliveryKey_String (rs_Delivery seed) @ '' has no jobs'')), s)
          else
            (let (rid, s1) = NewID w s;
                 r = \<lparr>run_ID = rid, run_Event = rs_Event seed, run_Delivery = rs_Delivery seed,
                      run_Status = RunQueued, run_CreatedAt = t, run_FinishedAt = None\<rparr>
             in case create_jobs w rid t (rs_Jobs seed) Map.empty [] s1 of
                  (Inl e, s2) \<Rightarrow> (Inl e, s2)
                | (Inr (keyIndex, jobIDs), s2) \<Rightarrow>
                    (Inr (r, True),
                     (put_run rid r s2)
                       \<lparr>runJobs := (runJobs s2)(rid \<mapsto> jobIDs),
                        byJobKey := (byJobKey s2)(rid \<mapsto> keyIndex),
                        deliveries := (deliveries s2)(rs_Delivery seed \<mapsto> rec\<lparr>dr_RunID := rid\<rparr>)\<rparr>)))"

definition mem_GetRun :: "RunID \<Rightarrow> (DurableMem, RunRecord) op" where
  "mem_GetRun i s = (getRunLocked i s, s)"

definition mem_ListJobRuns :: "RunID \<Rightarrow> (DurableMem, JobRunRecord list) op" where
  "mem_ListJobRuns r s =
     (case mget (runs s) r of
        None \<Rightarrow> (Inl ErrRunNotFound, s)
      | Some _ \<Rightarrow> (Inr (map (job_at s) (runJobs_at s r)), s))"

definition mem_CountQueuedJobs :: "(DurableMem, int) op" where
  "mem_CountQueuedJobs s =
     (Inr (int (length (filter (\<lambda>(i, j). jr_Status j = JobQueued) (jobs s)))), s)"

text \<open>Both orders of the store: creation time first, identifier second.\<close>

definition age_key :: "JobRunRecord \<Rightarrow> time \<times> JobRunID" where
  "age_key j = (jr_CreatedAt j, jr_ID j)"

definition mem_ListQueuedJobs :: "(DurableMem, JobRunRecord list) op" where
  "mem_ListQueuedJobs s =
     (Inr (sort_key age_key (filter (\<lambda>j. jr_Status j = JobQueued) (map snd (jobs s)))), s)"

definition mem_GetJobRun :: "JobRunID \<Rightarrow> (DurableMem, JobRunRecord) op" where
  "mem_GetJobRun i s =
     (case mget (jobs s) i of None \<Rightarrow> (Inl ErrJobRunNotFound, s) | Some j \<Rightarrow> (Inr j, s))"

datatype depState = depsReady | depsBlocked | depsFailed

fun dep_loop :: "DurableMem \<Rightarrow> RunID \<Rightarrow> string list \<Rightarrow> depState \<Rightarrow> depState" where
  "dep_loop s rid [] st = st"
| "dep_loop s rid (k # ks) st =
     (case byJobKey_at s rid k of
        None \<Rightarrow> depsBlocked
      | Some depID \<Rightarrow>
          (case jr_Status (job_at s depID) of
             JobSucceeded \<Rightarrow> dep_loop s rid ks st
           | JobFailed \<Rightarrow> depsFailed
           | JobCancelled \<Rightarrow> depsFailed
           | JobSkipped \<Rightarrow> depsFailed
           | _ \<Rightarrow> dep_loop s rid ks depsBlocked))"

definition dependencyStateLocked :: "DurableMem \<Rightarrow> JobRunID \<Rightarrow> depState" where
  "dependencyStateLocked s i =
     (case mget (jobs s) i of
        None \<Rightarrow> depsReady
      | Some j \<Rightarrow> if length (jr_DependsOn j) = 0 then depsReady
                  else dep_loop s (jr_RunID j) (jr_DependsOn j) depsReady)"

definition refreshRunLocked :: "RunID \<Rightarrow> time \<Rightarrow> DurableMem \<Rightarrow> DurableMem" where
  "refreshRunLocked rid t s =
     (case mget (runs s) rid of
        None \<Rightarrow> s
      | Some r \<Rightarrow>
          if run_IsTerminal (run_Status r) then s
          else
            (let nxt = AggregateRunStatus (map (\<lambda>i. jr_Status (job_at s i)) (runJobs_at s rid))
             in if CanAdvanceRun (run_Status r) nxt \<and> nxt \<noteq> run_Status r
                then put_run rid (if run_IsTerminal nxt
                                  then r\<lparr>run_Status := nxt, run_FinishedAt := Some t\<rparr>
                                  else r\<lparr>run_Status := nxt\<rparr>) s
                else s))"

text \<open>Marking a job skipped because a dependency did not succeed, and refreshing its run.\<close>

definition skip_job :: "world \<Rightarrow> JobRunID \<Rightarrow> DurableMem \<Rightarrow> DurableMem" where
  "skip_job w i s =
     (let j = job_at s i in
      case TransitionJob (jr_Status j) JobSkipped of
        Inl _ \<Rightarrow> s
      | Inr nxt \<Rightarrow>
          (let (t, s1) = read_clock w s;
               s2 = put_job i (j\<lparr>jr_Status := nxt, jr_FinishedAt := Some t\<rparr>) s1
           in refreshRunLocked (jr_RunID j) t s2))"

text \<open>
  The loop over the candidates. A failed dependency leaves the switch (and claims the job)
  when the job has a condition, and skips the job otherwise.
\<close>

fun claim_loop :: "world \<Rightarrow> JobRunID list \<Rightarrow> (DurableMem, JobRunRecord) op" where
  "claim_loop w [] s = (Inl ErrNoQueuedJob, s)"
| "claim_loop w (pick # rest) s =
     (case dependencyStateLocked s pick of
        depsBlocked \<Rightarrow> claim_loop w rest s
      | depsFailed \<Rightarrow>
          if jr_Condition (job_at s pick) \<noteq> ''''
          then (Inr (job_at s pick), s\<lparr>claimed := insert pick (claimed s)\<rparr>)
          else claim_loop w rest (skip_job w pick s)
      | depsReady \<Rightarrow> (Inr (job_at s pick), s\<lparr>claimed := insert pick (claimed s)\<rparr>))"

definition candidates :: "DurableMem \<Rightarrow> JobRunID list" where
  "candidates s = map snd (sort (map (\<lambda>(i, j). (jr_CreatedAt j, i))
     (filter (\<lambda>(i, j). jr_Status j = JobQueued \<and> i \<notin> claimed s) (jobs s))))"

definition mem_ClaimNextQueuedJob :: "world \<Rightarrow> (DurableMem, JobRunRecord) op" where
  "mem_ClaimNextQueuedJob w s =
     (if length (candidates s) = 0 then (Inl ErrNoQueuedJob, s)
      else claim_loop w (candidates s) s)"

definition mem_ReleaseClaim :: "JobRunID \<Rightarrow> (DurableMem, unit) op" where
  "mem_ReleaseClaim i s = (Inr (), s\<lparr>claimed := claimed s - {i}\<rparr>)"

definition mem_AckDispatched :: "JobRunID \<Rightarrow> ActiveObject \<Rightarrow> time \<Rightarrow> (DurableMem, unit) op" where
  "mem_AckDispatched i obj t s =
     (case mget (jobs s) i of
        None \<Rightarrow> (Inl ErrJobRunNotFound, s)
      | Some j \<Rightarrow>
          (let ack = (Inr (), (put_job i (j\<lparr>jr_Status := JobDispatched, jr_ActiveName := ao_Name obj,
                        jr_ActiveUID := ao_UID obj, jr_DispatchedAt := Some t\<rparr>) s)
                        \<lparr>claimed := claimed s - {i}\<rparr>)
           in case jr_Status j of
                JobDispatched \<Rightarrow>
                  if jr_ActiveName j \<noteq> '''' \<and> jr_ActiveName j \<noteq> ao_Name obj
                  then (Inl (Errorf (''memory: '' @ i @ '' already dispatched as '' @ jr_ActiveName j
                                     @ '', refusing '' @ ao_Name obj)), s)
                  else ack
              | JobQueued \<Rightarrow> ack
              | _ \<Rightarrow> (Inl (Detailf ErrJobNotDispatchable (i @ '' in status '' @ status_text (jr_Status j))), s)))"

definition orTime :: "time option \<Rightarrow> time \<Rightarrow> time option" where
  "orTime t fallback = (case t of Some x \<Rightarrow> Some x | None \<Rightarrow> Some fallback)"

definition mem_ApplyObserved :: "JobRunID \<Rightarrow> ObservedPhase \<Rightarrow> time \<Rightarrow> (DurableMem, unit) op" where
  "mem_ApplyObserved i phase t s =
     (case mget (jobs s) i of
        None \<Rightarrow> (Inl ErrJobRunNotFound, s)
      | Some j \<Rightarrow>
          if job_IsTerminal (jr_Status j) then (Inr (), s)
          else
            (case JobStatusFromPhase phase of
               None \<Rightarrow> (Inr (), refreshRunLocked (jr_RunID j) t s)
             | Some target \<Rightarrow>
                 if \<not> CanAdvanceJob (jr_Status j) target then (Inr (), s)
                 else
                   (let j1 = j\<lparr>jr_Status := target\<rparr>;
                        j2 = (if target = JobRunning then j1\<lparr>jr_StartedAt := Some t\<rparr>
                              else if target \<in> {JobSucceeded, JobFailed, JobSkipped}
                              then j1\<lparr>jr_StartedAt := orTime (jr_StartedAt j1) t, jr_FinishedAt := Some t\<rparr>
                              else j1)
                    in (Inr (), refreshRunLocked (jr_RunID j) t (put_job i j2 s)))))"

text \<open>One turn of the loop of \<^verbatim>\<open>CancelRun\<close>.\<close>

definition cancel_job :: "time \<Rightarrow> JobRunID \<Rightarrow> DurableMem \<Rightarrow> DurableMem" where
  "cancel_job t i s =
     (let j = job_at s i;
          s1 = (case TransitionJob (jr_Status j) JobCancelled of
                  Inl _ \<Rightarrow> s
                | Inr nxt \<Rightarrow> put_job i (j\<lparr>jr_Status := nxt, jr_FinishedAt := Some t\<rparr>) s)
      in s1\<lparr>claimed := claimed s1 - {i}\<rparr>)"

definition mem_CancelRun :: "RunID \<Rightarrow> time \<Rightarrow> (DurableMem, unit) op" where
  "mem_CancelRun rid t s =
     (case mget (runs s) rid of
        None \<Rightarrow> (Inl ErrRunNotFound, s)
      | Some r \<Rightarrow>
          if run_IsTerminal (run_Status r) then
            (if run_Status r = RunCancelled then (Inr (), s)
             else (Inl (Errorf (''memory: run '' @ rid @ '' already terminal'')), s))
          else
            (Inr (), put_run rid (r\<lparr>run_Status := RunCancelled, run_FinishedAt := Some t\<rparr>)
                       (fold (cancel_job t) (runJobs_at s rid) s)))"

fun find_attempt :: "DurableMem \<Rightarrow> JobRunRecord \<Rightarrow> JobRunID list \<Rightarrow> JobRunID option" where
  "find_attempt s orig [] = None"
| "find_attempt s orig (i # is) =
     (let j = job_at s i in
      if jr_JobKey j = jr_JobKey orig \<and> jr_Attempt j = jr_Attempt orig + 1
      then Some (jr_ID j) else find_attempt s orig is)"

definition next_attempt :: "JobRunID \<Rightarrow> time \<Rightarrow> JobRunRecord \<Rightarrow> JobRunRecord" where
  "next_attempt newID t orig = zero_JobRunRecord
     \<lparr>jr_ID := newID, jr_RunID := jr_RunID orig, jr_JobKey := jr_JobKey orig,
      jr_RunnerClass := jr_RunnerClass orig, jr_DependsOn := jr_DependsOn orig,
      jr_Matrix := jr_Matrix orig, jr_PlanDigest := jr_PlanDigest orig,
      jr_Condition := jr_Condition orig, jr_Status := JobQueued,
      jr_Attempt := jr_Attempt orig + 1, jr_CreatedAt := t\<rparr>"

text \<open>
  Writing the key index of a run that is missing from \<open>byJobKey\<close> panics in Go (assignment
  to an entry of a nil map); the model turns the panic into an error.
\<close>

definition mem_RerequestJob :: "world \<Rightarrow> JobRunID \<Rightarrow> time \<Rightarrow> (DurableMem, JobRunID) op" where
  "mem_RerequestJob w i t s =
     (case mget (jobs s) i of
        None \<Rightarrow> (Inl ErrJobRunNotFound, s)
      | Some orig \<Rightarrow>
          (case find_attempt s orig (runJobs_at s (jr_RunID orig)) of
             Some jid \<Rightarrow> (Inr jid, s)
           | None \<Rightarrow>
               (let (newID, s1) = NewID w s;
                    s2 = put_job newID (next_attempt newID t orig) s1;
                    s3 = s2\<lparr>runJobs := (runJobs s2)(jr_RunID orig \<mapsto> runJobs_at s2 (jr_RunID orig) @ [newID])\<rparr>
                in case byJobKey s3 (jr_RunID orig) of
                     None \<Rightarrow> (Inl (Errorf ''panic: assignment to entry in nil map''), s3)
                   | Some m \<Rightarrow>
                       (let s4 = s3\<lparr>byJobKey := (byJobKey s3)(jr_RunID orig \<mapsto> m(jr_JobKey orig \<mapsto> newID))\<rparr>
                        in case mget (runs s4) (jr_RunID orig) of
                             None \<Rightarrow> (Inr newID, s4)
                           | Some r \<Rightarrow>
                               if run_IsTerminal (run_Status r)
                               then (Inr newID, put_run (jr_RunID orig)
                                       (r\<lparr>run_Status := RunQueued, run_FinishedAt := None\<rparr>) s4)
                               else (Inr newID, s4)))))"

definition mem_MarkCollected :: "JobRunID \<Rightarrow> time \<Rightarrow> (DurableMem, unit) op" where
  "mem_MarkCollected i t s =
     (case mget (jobs s) i of
        None \<Rightarrow> (Inl ErrJobRunNotFound, s)
      | Some j \<Rightarrow>
          if jr_ActiveCollectedAt j = None
          then (Inr (), put_job i (j\<lparr>jr_ActiveCollectedAt := Some t\<rparr>) s)
          else (Inr (), s))"

definition sortedRunIDsLocked :: "DurableMem \<Rightarrow> RunID list" where
  "sortedRunIDsLocked s = sort (map fst (runs s))"

definition mem_ListGCReadyJobs :: "(DurableMem, JobRunRecord list) op" where
  "mem_ListGCReadyJobs s =
     (Inr (concat (map (\<lambda>rid.
        (case mget (runs s) rid of
           None \<Rightarrow> []
         | Some r \<Rightarrow>
             if \<not> run_IsTerminal (run_Status r) then []
             else filter (\<lambda>j. job_IsTerminal (jr_Status j) \<and> jr_ActiveCollectedAt j = None)
                    (map (job_at s) (runJobs_at s rid))))
        (sortedRunIDsLocked s))), s)"

definition mem_store :: "world \<Rightarrow> DurableMem DurableStore" where
  "mem_store w = \<lparr>RecordDelivery = mem_RecordDelivery w, CreateRun = mem_CreateRun w,
     GetRun = mem_GetRun, GetJobRun = mem_GetJobRun, ListJobRuns = mem_ListJobRuns,
     CountQueuedJobs = mem_CountQueuedJobs, ListQueuedJobs = mem_ListQueuedJobs,
     ClaimNextQueuedJob = mem_ClaimNextQueuedJob w, ReleaseClaim = mem_ReleaseClaim,
     AckDispatched = mem_AckDispatched, ApplyObserved = mem_ApplyObserved,
     CancelRun = mem_CancelRun, ListGCReadyJobs = mem_ListGCReadyJobs,
     MarkCollected = mem_MarkCollected, RerequestJob = mem_RerequestJob w\<rparr>"

section \<open>The active store\<close>

record ActiveMem =
  objects :: "JobRunID \<rightharpoonup> ActiveObject"
  uids :: "string \<rightharpoonup> string"
  CreateCalls :: int
  DeleteCalls :: int
  Created :: int

definition NewActiveStore :: ActiveMem where
  "NewActiveStore = \<lparr>objects = Map.empty, uids = Map.empty, CreateCalls = 0, DeleteCalls = 0, Created = 0\<rparr>"

definition mem_CreateOrGet :: "JobRunID \<Rightarrow> (ActiveMem, ActiveObject) op" where
  "mem_CreateOrGet i x =
     (let x1 = x\<lparr>CreateCalls := CreateCalls x + 1\<rparr> in
      case objects x1 i of
        Some ob \<Rightarrow> (Inr ob, x1)
      | None \<Rightarrow>
          (let x2 = x1\<lparr>Created := Created x1 + 1\<rparr>;
               name = CRName i;
               uid0 = (case uids x2 name of None \<Rightarrow> '''' | Some u \<Rightarrow> u);
               uid = (if uid0 = '''' then ''uid-'' @ name else uid0);
               x3 = (if uid0 = '''' then x2\<lparr>uids := (uids x2)(name \<mapsto> uid)\<rparr> else x2);
               ob = \<lparr>ao_Name = name, ao_UID = uid\<rparr>
           in (Inr ob, x3\<lparr>objects := (objects x3)(i \<mapsto> ob)\<rparr>)))"

definition mem_Delete :: "JobRunID \<Rightarrow> (ActiveMem, unit) op" where
  "mem_Delete i x = (Inr (), x\<lparr>DeleteCalls := DeleteCalls x + 1, objects := (objects x)(i := None)\<rparr>)"

definition mem_active :: "ActiveMem ActiveExecutionStore" where
  "mem_active = \<lparr>CreateOrGet = mem_CreateOrGet, Delete = mem_Delete\<rparr>"

end
