(* ===== verification/Memory_Invariant.thy ===== *)
theory Memory_Invariant
  imports Memory_Store
begin

text \<open>
  The well-formedness invariant of the in-memory durable store and its preservation by
  every method. The invariant says how the six maps agree, that identifiers are never
  reused, and that a run is terminal exactly when all of its jobs are.
\<close>

section \<open>The invariant\<close>

definition minted :: "world \<Rightarrow> DurableMem \<Rightarrow> string \<Rightarrow> bool" where
  "minted w s x \<longleftrightarrow> (\<exists>n < ids s. x = mint w n)"

definition wf_jobs :: "world \<Rightarrow> DurableMem \<Rightarrow> bool" where
  "wf_jobs w s \<longleftrightarrow> mwf (jobs s)
     \<and> (\<forall>i j. mget (jobs s) i = Some j \<longrightarrow>
          jr_ID j = i \<and> known_status (jr_Status j) \<and> minted w s i \<and> minted w s (jr_RunID j))"

definition wf_runs :: "world \<Rightarrow> DurableMem \<Rightarrow> bool" where
  "wf_runs w s \<longleftrightarrow> mwf (runs s)
     \<and> (\<forall>rid r. mget (runs s) rid = Some r \<longrightarrow> run_ID r = rid \<and> minted w s rid)"

text \<open>The indexes of a run list exactly its jobs.\<close>

definition in_run :: "DurableMem \<Rightarrow> RunID \<Rightarrow> JobRunID \<Rightarrow> bool" where
  "in_run s rid i \<longleftrightarrow> (\<exists>j. mget (jobs s) i = Some j \<and> jr_RunID j = rid)"

definition wf_index :: "DurableMem \<Rightarrow> bool" where
  "wf_index s \<longleftrightarrow> (\<forall>rid \<in> mkeys (runs s).
       (\<exists>js. runJobs s rid = Some js \<and> js \<noteq> [] \<and> distinct js \<and> (\<forall>i. i \<in> set js \<longleftrightarrow> in_run s rid i))
     \<and> (\<exists>m. byJobKey s rid = Some m
           \<and> (\<forall>k i. m k = Some i \<longrightarrow> (\<exists>j. mget (jobs s) i = Some j \<and> jr_RunID j = rid \<and> jr_JobKey j = k))))"

definition wf_deliveries :: "DurableMem \<Rightarrow> bool" where
  "wf_deliveries s \<longleftrightarrow>
     (\<forall>k rec. deliveries s k = Some rec \<longrightarrow> dr_RunID rec \<noteq> '''' \<longrightarrow> dr_RunID rec \<in> mkeys (runs s))"

definition all_terminal :: "DurableMem \<Rightarrow> RunID \<Rightarrow> bool" where
  "all_terminal s rid \<longleftrightarrow>
     (\<forall>i j. mget (jobs s) i = Some j \<longrightarrow> jr_RunID j = rid \<longrightarrow> job_IsTerminal (jr_Status j))"

text \<open>A run is terminal exactly when all of its jobs are.\<close>

definition closed_run :: "DurableMem \<Rightarrow> RunID \<Rightarrow> bool" where
  "closed_run s rid \<longleftrightarrow>
     (\<forall>r. mget (runs s) rid = Some r \<longrightarrow> run_IsTerminal (run_Status r) = all_terminal s rid)"

definition wf_core :: "world \<Rightarrow> DurableMem \<Rightarrow> bool" where
  "wf_core w s \<longleftrightarrow> unique_ids w \<and> wf_jobs w s \<and> wf_runs w s \<and> wf_index s \<and> wf_deliveries s"

definition wf_store :: "world \<Rightarrow> DurableMem \<Rightarrow> bool" where
  "wf_store w s \<longleftrightarrow> wf_core w s \<and> (\<forall>rid. closed_run s rid)"

lemma wf_storeD:
  assumes "wf_store w s"
  shows "wf_core w s" "closed_run s rid" "unique_ids w" "wf_jobs w s" "wf_runs w s" "wf_index s"
    "wf_deliveries s" "mwf (jobs s)" "mwf (runs s)"
  using assms by (simp_all add: wf_store_def wf_core_def wf_jobs_def wf_runs_def)

lemma wf_jobsD:
  "wf_jobs w s \<Longrightarrow> mget (jobs s) i = Some j \<Longrightarrow>
     jr_ID j = i \<and> known_status (jr_Status j) \<and> minted w s i \<and> minted w s (jr_RunID j)"
  by (simp add: wf_jobs_def)

lemma wf_NewDurableStore: "unique_ids w \<Longrightarrow> wf_store w NewDurableStore"
  by (simp add: wf_store_def wf_core_def wf_jobs_def wf_runs_def wf_index_def wf_deliveries_def
      closed_run_def NewDurableStore_def mkeys_def)

lemma minted_fresh:
  assumes "unique_ids w" shows "\<not> minted w s (mint w (ids s))"
  using assms by (auto simp: minted_def unique_ids_def dest: injD)

lemma wf_index_runJobs:
  assumes "wf_index s" "mget (runs s) rid = Some r"
  obtains js where "runJobs s rid = Some js" "runJobs_at s rid = js" "js \<noteq> []" "distinct js"
    "\<And>i. i \<in> set js \<longleftrightarrow> in_run s rid i"
proof -
  from assms(2) have "rid \<in> mkeys (runs s)" by (rule mget_in_keys)
  with assms(1) that show thesis by (auto simp: wf_index_def runJobs_at_def)
qed

section \<open>How the primitive writes change the observers\<close>

lemma put_job_simps [simp]:
  "jobs (put_job i j s) = mput (jobs s) i j" "runs (put_job i j s) = runs s"
  "runJobs (put_job i j s) = runJobs s" "byJobKey (put_job i j s) = byJobKey s"
  "deliveries (put_job i j s) = deliveries s" "claimed (put_job i j s) = claimed s"
  "ids (put_job i j s) = ids s" "clock_reads (put_job i j s) = clock_reads s"
  by (simp_all add: put_job_def)

lemma put_run_simps [simp]:
  "runs (put_run i r s) = mput (runs s) i r" "jobs (put_run i r s) = jobs s"
  "runJobs (put_run i r s) = runJobs s" "byJobKey (put_run i r s) = byJobKey s"
  "deliveries (put_run i r s) = deliveries s" "claimed (put_run i r s) = claimed s"
  "ids (put_run i r s) = ids s" "clock_reads (put_run i r s) = clock_reads s"
  by (simp_all add: put_run_def)

lemma NewID_eq: "NewID w s = (i, s1) \<longleftrightarrow> i = mint w (ids s) \<and> s1 = s\<lparr>ids := Suc (ids s)\<rparr>"
  by (auto simp: NewID_def)

lemma read_clock_eq:
  "read_clock w s = (t, s1) \<longleftrightarrow> t = clock w (clock_reads s) \<and> s1 = s\<lparr>clock_reads := Suc (clock_reads s)\<rparr>"
  by (auto simp: read_clock_def)

lemma job_at_mget: "mget (jobs s) i = Some j \<Longrightarrow> job_at s i = j"
  by (simp add: job_at_def)

text \<open>Fields the invariant does not read.\<close>

lemma wf_store_frame:
  assumes "jobs s' = jobs s" "runs s' = runs s" "runJobs s' = runJobs s" "byJobKey s' = byJobKey s"
    "wf_deliveries s \<Longrightarrow> wf_deliveries s'" "ids s \<le> ids s'"
  shows "wf_core w s \<Longrightarrow> wf_core w s'" "closed_run s' rid = closed_run s rid"
    "wf_store w s \<Longrightarrow> wf_store w s'"
proof -
  have m: "minted w s x \<Longrightarrow> minted w s' x" for x
    using assms(6) by (auto simp: minted_def intro: less_le_trans)
  show c: "wf_core w s \<Longrightarrow> wf_core w s'"
    using assms(1-5) m
    by (simp add: wf_core_def wf_jobs_def wf_runs_def wf_index_def in_run_def)
  have cl: "closed_run s' rid = closed_run s rid" for rid
    using assms(1,2) by (simp add: closed_run_def all_terminal_def)
  show "closed_run s' rid = closed_run s rid" by (rule cl)
  show "wf_store w s \<Longrightarrow> wf_store w s'" using c cl by (simp add: wf_store_def)
qed

lemma wf_store_claimed [simp]: "wf_store w s \<Longrightarrow> wf_store w (s\<lparr>claimed := X\<rparr>)"
  by (erule wf_store_frame(3) [rotated -1]) (simp_all add: wf_deliveries_def)

lemma wf_store_clock [simp]: "wf_store w s \<Longrightarrow> wf_store w (s\<lparr>clock_reads := n\<rparr>)"
  by (erule wf_store_frame(3) [rotated -1]) (simp_all add: wf_deliveries_def)

text \<open>Rewriting a job in place: identity, run and key stay, the status stays a known one.\<close>

definition same_job :: "JobRunRecord \<Rightarrow> JobRunRecord \<Rightarrow> bool" where
  "same_job j j' \<longleftrightarrow> jr_ID j' = jr_ID j \<and> jr_RunID j' = jr_RunID j \<and> jr_JobKey j' = jr_JobKey j
     \<and> jr_RunnerClass j' = jr_RunnerClass j \<and> jr_DependsOn j' = jr_DependsOn j \<and> jr_Matrix j' = jr_Matrix j
     \<and> jr_PlanDigest j' = jr_PlanDigest j \<and> jr_Condition j' = jr_Condition j
     \<and> jr_Attempt j' = jr_Attempt j \<and> jr_CreatedAt j' = jr_CreatedAt j"

lemma in_run_put_job:
  assumes "mget (jobs s) i = Some j" "same_job j j'"
  shows "in_run (put_job i j' s) rid k = in_run s rid k"
  using assms by (auto simp: in_run_def same_job_def)

lemma wf_core_put_job:
  assumes "wf_core w s" "mget (jobs s) i = Some j" "same_job j j'" "known_status (jr_Status j')"
  shows "wf_core w (put_job i j' s)"
proof -
  have "wf_index (put_job i j' s)"
    using assms(1) in_run_put_job [OF assms(2,3)] assms(2,3)
    unfolding wf_core_def wf_index_def by (fastforce simp: same_job_def)
  moreover have "wf_jobs w (put_job i j' s)"
    using assms by (auto simp: wf_core_def wf_jobs_def same_job_def minted_def)
  ultimately show ?thesis
    using assms(1) by (simp add: wf_core_def wf_runs_def wf_deliveries_def minted_def)
qed

lemma closed_run_put_job_other:
  assumes "mget (jobs s) i = Some j" "same_job j j'" "rid \<noteq> jr_RunID j"
  shows "closed_run (put_job i j' s) rid = closed_run s rid"
proof -
  have "all_terminal (put_job i j' s) rid = all_terminal s rid"
    using assms unfolding all_terminal_def same_job_def by (metis mget_mput option.inject put_job_simps(1))
  then show ?thesis by (simp add: closed_run_def)
qed

lemma wf_store_put_job_same_terminal:
  assumes "wf_store w s" "mget (jobs s) i = Some j" "same_job j j'" "known_status (jr_Status j')"
    "job_IsTerminal (jr_Status j') = job_IsTerminal (jr_Status j)"
  shows "wf_store w (put_job i j' s)"
proof -
  have "all_terminal (put_job i j' s) rid = all_terminal s rid" for rid
    using assms(2,3,5) by (auto simp: all_terminal_def same_job_def)
  then show ?thesis
    using assms wf_core_put_job by (simp add: wf_store_def closed_run_def)
qed

lemma mkeys_put_run_same: "mget (runs s) rid = Some r \<Longrightarrow> mkeys (runs (put_run rid r' s)) = mkeys (runs s)"
  by (auto dest: mget_in_keys)

lemma wf_core_put_run:
  assumes "wf_core w s" "mget (runs s) rid = Some r" "run_ID r' = rid"
  shows "wf_core w (put_run rid r' s)"
  using assms mkeys_put_run_same [OF assms(2), of r']
  by (auto simp: wf_core_def wf_jobs_def wf_runs_def wf_index_def wf_deliveries_def minted_def in_run_def)

section \<open>Refreshing the run aggregate\<close>

lemma all_terminal_index:
  assumes "wf_core w s" "mget (runs s) rid = Some r"
  shows "all_terminal s rid \<longleftrightarrow> (\<forall>i\<in>set (runJobs_at s rid). job_IsTerminal (jr_Status (job_at s i)))"
proof -
  from assms obtain js where e: "runJobs_at s rid = js" and js: "\<And>i. i \<in> set js \<longleftrightarrow> in_run s rid i"
    using wf_index_runJobs by (metis wf_core_def)
  show ?thesis unfolding e Ball_def js by (auto simp: all_terminal_def in_run_def job_at_def)
qed

lemma aggregate_terminal:
  assumes "wf_core w s" "mget (runs s) rid = Some r"
  shows "run_IsTerminal (AggregateRunStatus (map (\<lambda>i. jr_Status (job_at s i)) (runJobs_at s rid)))
    \<longleftrightarrow> all_terminal s rid"
proof -
  from assms obtain js where js: "runJobs_at s rid = js" "js \<noteq> []" "\<And>i. i \<in> set js \<longleftrightarrow> in_run s rid i"
    using wf_index_runJobs by (metis wf_core_def)
  have "\<forall>x\<in>set (map (\<lambda>i. jr_Status (job_at s i)) js). known_status x"
    using js(3) assms(1) by (auto simp: in_run_def job_at_def wf_core_def wf_jobs_def)
  with js show ?thesis
    using Aggregate_terminal_iff [of "map (\<lambda>i. jr_Status (job_at s i)) js"]
    by (simp add: all_terminal_index [OF assms])
qed

lemma CanAdvanceRun_terminal:
  "\<not> run_IsTerminal fr \<Longrightarrow> run_IsTerminal to \<Longrightarrow> CanAdvanceRun fr to"
  by (simp add: CanAdvanceRun_def)

lemma refresh_simps [simp]:
  "jobs (refreshRunLocked rid t s) = jobs s" "runJobs (refreshRunLocked rid t s) = runJobs s"
  "byJobKey (refreshRunLocked rid t s) = byJobKey s" "deliveries (refreshRunLocked rid t s) = deliveries s"
  "claimed (refreshRunLocked rid t s) = claimed s" "ids (refreshRunLocked rid t s) = ids s"
  "clock_reads (refreshRunLocked rid t s) = clock_reads s"
  by (auto simp: refreshRunLocked_def Let_def split: option.splits)

lemma refresh_run:
  assumes "mget (runs s) rid = Some r"
  shows "\<exists>r'. mget (runs (refreshRunLocked rid t s)) rid = Some r' \<and> run_ID r' = run_ID r
    \<and> run_Event r' = run_Event r \<and> run_Delivery r' = run_Delivery r
    \<and> run_Status r' = (let nxt = AggregateRunStatus (map (\<lambda>i. jr_Status (job_at s i)) (runJobs_at s rid))
        in if run_IsTerminal (run_Status r) \<or> \<not> CanAdvanceRun (run_Status r) nxt then run_Status r else nxt)"
  using assms by (auto simp: refreshRunLocked_def Let_def)

lemma mkeys_refresh [simp]: "mkeys (runs (refreshRunLocked rid t s)) = mkeys (runs s)"
  by (auto simp: refreshRunLocked_def Let_def dest: mget_in_keys split: option.splits)

lemma refresh_other: "rid' \<noteq> rid \<Longrightarrow> mget (runs (refreshRunLocked rid t s)) rid' = mget (runs s) rid'"
  by (auto simp: refreshRunLocked_def Let_def split: option.splits)

lemma wf_core_refresh:
  assumes "wf_core w s" shows "wf_core w (refreshRunLocked rid t s)"
proof (cases "mget (runs s) rid")
  case None
  with assms show ?thesis by (simp add: refreshRunLocked_def)
next
  case (Some r)
  then have "run_ID r = rid" using assms by (simp add: wf_core_def wf_runs_def)
  then show ?thesis
    using assms Some by (simp add: refreshRunLocked_def Let_def wf_core_put_run)
qed

text \<open>
  Refreshing restores the terminal agreement of the refreshed run, provided a run that is
  already terminal has only terminal jobs.
\<close>

lemma wf_store_refresh:
  assumes core: "wf_core w s" and others: "\<And>rid'. rid' \<noteq> rid \<Longrightarrow> closed_run s rid'"
    and tm: "\<And>r. mget (runs s) rid = Some r \<Longrightarrow> run_IsTerminal (run_Status r) \<Longrightarrow> all_terminal s rid"
  shows "wf_store w (refreshRunLocked rid t s)"
proof -
  have at: "all_terminal (refreshRunLocked rid t s) x = all_terminal s x" for x
    by (simp add: all_terminal_def)
  have "closed_run (refreshRunLocked rid t s) rid'" for rid'
  proof (cases "rid' = rid")
    case False
    with others [OF False] show ?thesis by (simp add: closed_run_def refresh_other at)
  next
    case True
    show ?thesis
    proof (cases "mget (runs s) rid")
      case None
      with True show ?thesis by (simp add: closed_run_def refreshRunLocked_def)
    next
      case (Some r)
      from refresh_run [OF Some, of t] aggregate_terminal [OF core Some] tm [OF Some] True show ?thesis
        by (cases "run_IsTerminal (run_Status r)")
          (auto simp: closed_run_def at Let_def CanAdvanceRun_terminal split: if_splits)
    qed
  qed
  with core show ?thesis by (simp add: wf_store_def wf_core_refresh)
qed

text \<open>The common shape of a status change: rewrite one open job, refresh its run.\<close>

lemma wf_store_advance_job:
  assumes wf: "wf_store w s" and j: "mget (jobs s) i = Some j" "\<not> job_IsTerminal (jr_Status j)"
    and j': "same_job j j'" "known_status (jr_Status j')"
  shows "wf_store w (refreshRunLocked (jr_RunID j) t (put_job i j' s))"
proof (rule wf_store_refresh)
  show "wf_core w (put_job i j' s)"
    using wf j j' by (simp add: wf_core_put_job wf_store_def)
  show "closed_run (put_job i j' s) rid'" if "rid' \<noteq> jr_RunID j" for rid'
    using closed_run_put_job_other [OF j(1) j'(1) that] wf by (simp add: wf_store_def)
  show "all_terminal (put_job i j' s) (jr_RunID j)"
    if "mget (runs (put_job i j' s)) (jr_RunID j) = Some r" "run_IsTerminal (run_Status r)" for r
  proof -
    from that wf have "all_terminal s (jr_RunID j)" by (simp add: wf_store_def closed_run_def)
    with j show ?thesis by (simp add: all_terminal_def)
  qed
qed

section \<open>Every method preserves the invariant\<close>

lemma wf_RecordDelivery:
  assumes "wf_store w s" "mem_RecordDelivery w d s = (r, s')"
  shows "wf_store w s'"
  by (rule wf_store_frame(3) [OF _ _ _ _ _ _ assms(1)])
    (use assms(2) in \<open>auto simp: mem_RecordDelivery_def read_clock_def Let_def wf_deliveries_def
       split: option.splits if_splits\<close>)

subsection \<open>Creating a run\<close>

text \<open>
  The loop invariant of \<open>create_jobs\<close>: the run is not visible yet, the identifiers
  collected are exactly its jobs and they are all queued.
\<close>

definition create_inv :: "world \<Rightarrow> RunID \<Rightarrow> (string \<rightharpoonup> JobRunID) \<Rightarrow> JobRunID list \<Rightarrow> DurableMem \<Rightarrow> bool" where
  "create_inv w rid ki jids s \<longleftrightarrow> wf_store w s \<and> minted w s rid \<and> rid \<notin> mkeys (runs s)
     \<and> distinct jids \<and> (\<forall>i. i \<in> set jids \<longleftrightarrow> in_run s rid i)
     \<and> (\<forall>k i. ki k = Some i \<longrightarrow> (\<exists>j. mget (jobs s) i = Some j \<and> jr_RunID j = rid \<and> jr_JobKey j = k))
     \<and> (\<forall>i j. mget (jobs s) i = Some j \<longrightarrow> jr_RunID j = rid \<longrightarrow> jr_Status j = JobQueued)"

lemma job_of_intent_simps [simp]:
  "jr_ID (job_of_intent i rid t x) = i" "jr_RunID (job_of_intent i rid t x) = rid"
  "jr_JobKey (job_of_intent i rid t x) = ji_JobKey x" "jr_Status (job_of_intent i rid t x) = JobQueued"
  "jr_DependsOn (job_of_intent i rid t x) = ji_DependsOn x" "jr_Attempt (job_of_intent i rid t x) = 1"
  "jr_Condition (job_of_intent i rid t x) = ji_Condition x" "jr_CreatedAt (job_of_intent i rid t x) = t"
  "jr_PlanDigest (job_of_intent i rid t x) = ji_PlanDigest x"
  "jr_RunnerClass (job_of_intent i rid t x) = ji_RunnerClass x"
  by (simp_all add: job_of_intent_def)

lemma minted_mono: "minted w s x \<Longrightarrow> ids s \<le> ids s' \<Longrightarrow> minted w s' x"
  by (auto simp: minted_def intro: less_le_trans)

lemma minted_new: "ids s' = Suc (ids s) \<Longrightarrow> minted w s' (mint w (ids s))"
  by (auto simp: minted_def)

lemma fresh_job:
  assumes "wf_core w s" shows "mget (jobs s) (mint w (ids s)) = None"
    "\<not> in_run s rid (mint w (ids s))" "mget (jobs s) i = Some j \<Longrightarrow> jr_RunID j \<noteq> mint w (ids s)"
    "mint w (ids s) \<notin> mkeys (runs s)"
proof -
  note f = minted_fresh [of w s]
  show n: "mget (jobs s) (mint w (ids s)) = None"
    using assms f by (cases "mget (jobs s) (mint w (ids s))") (auto simp: wf_core_def wf_jobs_def)
  then show "\<not> in_run s rid (mint w (ids s))" by (simp add: in_run_def)
  show "mget (jobs s) i = Some j \<Longrightarrow> jr_RunID j \<noteq> mint w (ids s)"
    using assms f by (metis wf_core_def wf_jobs_def)
  show "mint w (ids s) \<notin> mkeys (runs s)"
    using assms f by (metis mget_None_iff option.exhaust wf_core_def wf_runs_def)
qed

text \<open>Adding a job under a fresh identifier.\<close>

definition add_job :: "world \<Rightarrow> JobRunRecord \<Rightarrow> DurableMem \<Rightarrow> DurableMem" where
  "add_job w j s = put_job (mint w (ids s)) j (s\<lparr>ids := Suc (ids s)\<rparr>)"

lemma add_job_simps [simp]:
  "jobs (add_job w j s) = mput (jobs s) (mint w (ids s)) j" "runs (add_job w j s) = runs s"
  "runJobs (add_job w j s) = runJobs s" "byJobKey (add_job w j s) = byJobKey s"
  "deliveries (add_job w j s) = deliveries s" "ids (add_job w j s) = Suc (ids s)"
  "claimed (add_job w j s) = claimed s" "clock_reads (add_job w j s) = clock_reads s"
  by (simp_all add: add_job_def)

lemma in_run_add_job:
  assumes "wf_core w s"
  shows "in_run (add_job w j s) rid i \<longleftrightarrow> in_run s rid i \<or> i = mint w (ids s) \<and> jr_RunID j = rid"
  using fresh_job(1) [OF assms] by (auto simp: in_run_def)

lemma wf_jobs_add_job:
  assumes "wf_core w s" "jr_ID j = mint w (ids s)" "minted w s (jr_RunID j)" "known_status (jr_Status j)"
  shows "wf_jobs w (add_job w j s)" "wf_runs w (add_job w j s)" "wf_deliveries (add_job w j s)"
  using assms minted_mono [of w s _ "add_job w j s"] minted_new [of "add_job w j s" s w]
  by (auto simp: wf_core_def wf_jobs_def wf_runs_def wf_deliveries_def)

lemma all_terminal_add_job:
  assumes "wf_core w s"
  shows "all_terminal (add_job w j s) rid \<longleftrightarrow>
    all_terminal s rid \<and> (jr_RunID j = rid \<longrightarrow> job_IsTerminal (jr_Status j))"
proof -
  have "mint w (ids s) \<noteq> i" if "mget (jobs s) i = Some k" for i k
    using that fresh_job(1) [OF assms] by auto
  then show ?thesis unfolding all_terminal_def add_job_simps mget_mput by (metis option.inject)
qed

lemma wf_store_add_orphan:
  assumes wf: "wf_store w s" and j: "jr_ID j = mint w (ids s)" "minted w s (jr_RunID j)"
    "known_status (jr_Status j)" "jr_RunID j \<notin> mkeys (runs s)"
  shows "wf_store w (add_job w j s)"
proof -
  from wf have core: "wf_core w s" by (simp add: wf_store_def)
  have other: "rid \<in> mkeys (runs s) \<Longrightarrow> in_run (add_job w j s) rid i = in_run s rid i" for rid i
    using j(4) by (auto simp: in_run_add_job [OF core])
  have "wf_index (add_job w j s)"
    using core fresh_job(1) [OF core] other
    unfolding wf_core_def wf_index_def by (fastforce simp: mget_mput)
  moreover have "closed_run (add_job w j s) rid" for rid
    using wf j(4) all_terminal_add_job [OF core, of j rid] mget_in_keys
    unfolding wf_store_def closed_run_def by (metis add_job_simps(2))
  ultimately show ?thesis
    using wf_jobs_add_job [OF core j(1-3)] core by (simp add: wf_store_def wf_core_def)
qed

lemma create_inv_step:
  assumes "create_inv w rid ki jids s"
  shows "create_inv w rid (ki(ji_JobKey x \<mapsto> mint w (ids s))) (jids @ [mint w (ids s)])
    (add_job w (job_of_intent (mint w (ids s)) rid t x) s)"
proof -
  let ?j = "job_of_intent (mint w (ids s)) rid t x"
  from assms have core: "wf_core w s" by (simp add: create_inv_def wf_store_def)
  have "known_status (jr_Status ?j)" by (simp add: known_status_def)
  with assms have "wf_store w (add_job w ?j s)"
    by (intro wf_store_add_orphan) (auto simp: create_inv_def)
  moreover have "ki k \<noteq> Some (mint w (ids s))" for k
    using assms fresh_job(1) [OF core] by (force simp: create_inv_def)
  ultimately show ?thesis
    using assms fresh_job(1,2) [OF core]
    by (auto simp: create_inv_def in_run_add_job [OF core] minted_mono)
qed

lemma create_jobs_inv:
  assumes "create_inv w rid ki jids s" "create_jobs w rid t js ki jids s = (res, s')"
  shows "wf_store w s' \<and> runs s' = runs s \<and> runJobs s' = runJobs s \<and> byJobKey s' = byJobKey s
    \<and> deliveries s' = deliveries s \<and> claimed s' = claimed s
    \<and> (\<forall>ki' jids'. res = Inr (ki', jids') \<longrightarrow>
         create_inv w rid ki' jids' s' \<and> length jids' = length jids + length js)"
  using assms
proof (induction js arbitrary: ki jids s)
  case Nil
  then show ?case by (auto simp: create_inv_def)
next
  case (Cons x js)
  show ?case
  proof (cases "ki (ji_JobKey x)")
    case None
    then have "create_jobs w rid t js (ki(ji_JobKey x \<mapsto> mint w (ids s))) (jids @ [mint w (ids s)])
        (add_job w (job_of_intent (mint w (ids s)) rid t x) s) = (res, s')"
      using Cons.prems(2) by (simp add: NewID_def add_job_def)
    from Cons.IH [OF create_inv_step [OF Cons.prems(1)] this] show ?thesis by simp
  next
    case (Some y)
    with Cons.prems show ?thesis by (auto simp: create_inv_def)
  qed
qed

end
