(* ===== verification/Memory_Preservation.thy ===== *)
theory Memory_Preservation
  imports Memory_Invariant "HOL-Library.Multiset"
begin

text \<open>
  The remaining preservation lemmas of the in-memory durable store: creating a run,
  claiming with its skip cascade, acknowledging, projecting observations, cancelling,
  rerequesting and marking collected.
\<close>

section \<open>Creating a run\<close>

lemma create_inv_start:
  assumes "wf_store w s"
  shows "create_inv w (mint w (ids s)) Map.empty [] (s\<lparr>ids := Suc (ids s)\<rparr>)"
proof -
  let ?s = "s\<lparr>ids := Suc (ids s)\<rparr>"
  from assms have core: "wf_core w s" by (simp add: wf_store_def)
  have "wf_store w ?s"
    by (rule wf_store_frame(3) [OF _ _ _ _ _ _ assms]) (simp_all add: wf_deliveries_def)
  then show ?thesis
    using fresh_job(3,4) [OF core] by (auto simp: create_inv_def in_run_def minted_new)
qed

lemma wf_store_publish_run:
  assumes inv: "create_inv w rid ki jids s" and ne: "jids \<noteq> []"
    and r: "run_ID r = rid" "run_Status r = RunQueued"
    and d: "\<And>k rec. dl k = Some rec \<Longrightarrow> dr_RunID rec \<noteq> '''' \<Longrightarrow> dr_RunID rec \<in> insert rid (mkeys (runs s))"
  shows "wf_store w ((put_run rid r s)\<lparr>runJobs := (runJobs s)(rid \<mapsto> jids),
    byJobKey := (byJobKey s)(rid \<mapsto> ki), deliveries := dl\<rparr>)" (is "wf_store w ?s")
proof -
  from inv have core: "wf_core w s" by (simp add: create_inv_def wf_store_def)
  have "wf_index ?s"
    using inv ne core by (fastforce simp: create_inv_def wf_core_def wf_index_def in_run_def)
  moreover have "closed_run ?s rid'" for rid'
  proof (cases "rid' = rid")
    case True
    obtain i where "i \<in> set jids" using ne by (meson list.set_sel(1))
    with inv obtain j where "mget (jobs s) i = Some j" "jr_RunID j = rid" "jr_Status j = JobQueued"
      by (auto simp: create_inv_def in_run_def)
    then have "\<not> all_terminal s rid" by (force simp: all_terminal_def)
    then show ?thesis using True r by (simp add: closed_run_def all_terminal_def)
  next
    case False
    then show ?thesis using inv by (simp add: create_inv_def wf_store_def closed_run_def all_terminal_def)
  qed
  ultimately show ?thesis
    using inv core r d
    by (auto simp: create_inv_def wf_store_def wf_core_def wf_jobs_def wf_runs_def wf_deliveries_def minted_def)
qed

lemma mem_CreateRun_new:
  assumes "deliveries s (rs_Delivery seed) = Some rec" "dr_RunID rec = ''''" "rs_Jobs seed \<noteq> []"
  shows "mem_CreateRun w seed t s =
    (let rid = mint w (ids s);
         r = \<lparr>run_ID = rid, run_Event = rs_Event seed, run_Delivery = rs_Delivery seed,
              run_Status = RunQueued, run_CreatedAt = t, run_FinishedAt = None\<rparr>
     in case create_jobs w rid t (rs_Jobs seed) Map.empty [] (s\<lparr>ids := Suc (ids s)\<rparr>) of
          (Inl e, s2) \<Rightarrow> (Inl e, s2)
        | (Inr (keyIndex, jobIDs), s2) \<Rightarrow>
            (Inr (r, True), (put_run rid r s2)\<lparr>runJobs := (runJobs s2)(rid \<mapsto> jobIDs),
               byJobKey := (byJobKey s2)(rid \<mapsto> keyIndex),
               deliveries := (deliveries s2)(rs_Delivery seed \<mapsto> rec\<lparr>dr_RunID := rid\<rparr>)\<rparr>))"
  using assms by (simp add: mem_CreateRun_def NewID_def Let_def)

lemma wf_CreateRun:
  assumes wf: "wf_store w s" and step: "mem_CreateRun w seed t s = (r, s')"
  shows "wf_store w s'"
proof (cases "\<exists>rec. deliveries s (rs_Delivery seed) = Some rec \<and> dr_RunID rec = '''' \<and> rs_Jobs seed \<noteq> []")
  case False
  then have "s' = s"
    using step by (auto simp: mem_CreateRun_def split: option.splits if_splits sum.splits)
  with wf show ?thesis by simp
next
  case True
  then obtain rec where rec: "deliveries s (rs_Delivery seed) = Some rec" "dr_RunID rec = ''''" "rs_Jobs seed \<noteq> []"
    by blast
  let ?rid = "mint w (ids s)"
  obtain res s2 where cj: "create_jobs w ?rid t (rs_Jobs seed) Map.empty [] (s\<lparr>ids := Suc (ids s)\<rparr>) = (res, s2)"
    by fastforce
  note inv = create_jobs_inv [OF create_inv_start [OF wf] cj]
  show ?thesis
  proof (cases res)
    case (Inl e)
    with step cj inv show ?thesis by (simp add: mem_CreateRun_new [OF rec] Let_def)
  next
    case (Inr x)
    obtain ki jids where x: "x = (ki, jids)" by fastforce
    with inv Inr rec(3) have ci: "create_inv w ?rid ki jids s2" "jids \<noteq> []" by auto
    note pub = wf_store_publish_run [OF ci, of _ "(deliveries s2)(rs_Delivery seed \<mapsto> rec\<lparr>dr_RunID := ?rid\<rparr>)"]
    have "s' = (put_run ?rid \<lparr>run_ID = ?rid, run_Event = rs_Event seed, run_Delivery = rs_Delivery seed,
        run_Status = RunQueued, run_CreatedAt = t, run_FinishedAt = None\<rparr> s2)
        \<lparr>runJobs := (runJobs s2)(?rid \<mapsto> jids), byJobKey := (byJobKey s2)(?rid \<mapsto> ki),
         deliveries := (deliveries s2)(rs_Delivery seed \<mapsto> rec\<lparr>dr_RunID := ?rid\<rparr>)\<rparr>"
      using step cj Inr x by (simp add: mem_CreateRun_new [OF rec] Let_def)
    moreover have "wf_deliveries s2" using inv by (auto dest: wf_storeD)
    ultimately show ?thesis
      by (auto simp: wf_deliveries_def intro!: pub split: if_splits)
  qed
qed

section \<open>Claiming\<close>

lemma same_job_fields [simp]:
  "same_job j (j\<lparr>jr_Status := st\<rparr>)"
  "same_job j (j\<lparr>jr_Status := st, jr_FinishedAt := ft\<rparr>)"
  "same_job j (j\<lparr>jr_ActiveCollectedAt := ft\<rparr>)"
  "same_job j (j\<lparr>jr_Status := st, jr_ActiveName := n, jr_ActiveUID := u, jr_DispatchedAt := ft\<rparr>)"
  by (simp_all add: same_job_def)

lemma skip_job_queued:
  assumes "mget (jobs s) i = Some j" "jr_Status j = JobQueued"
  shows "skip_job w i s = refreshRunLocked (jr_RunID j) (clock w (clock_reads s))
    (put_job i (j\<lparr>jr_Status := JobSkipped, jr_FinishedAt := Some (clock w (clock_reads s))\<rparr>)
       (s\<lparr>clock_reads := Suc (clock_reads s)\<rparr>))"
  using assms by (simp add: skip_job_def job_at_def read_clock_def)

lemma wf_skip_job:
  assumes "wf_store w s" "mget (jobs s) i = Some j" "jr_Status j = JobQueued"
  shows "wf_store w (skip_job w i s)"
  unfolding skip_job_queued [OF assms(2,3)]
  by (rule wf_store_advance_job) (use assms in \<open>simp_all add: known_status_def\<close>)

lemma mget_skip_job:
  assumes "mget (jobs s) i = Some j" "jr_Status j = JobQueued"
  shows "mget (jobs (skip_job w i s)) k = (if k = i
    then Some (j\<lparr>jr_Status := JobSkipped, jr_FinishedAt := Some (clock w (clock_reads s))\<rparr>) else mget (jobs s) k)"
  by (simp add: skip_job_queued [OF assms])

text \<open>The candidates: queued, unclaimed, oldest first, each once.\<close>

lemma set_candidates:
  "mwf (jobs s) \<Longrightarrow> i \<in> set (candidates s) \<longleftrightarrow>
     (\<exists>j. mget (jobs s) i = Some j \<and> jr_Status j = JobQueued \<and> i \<notin> claimed s)"
  by (force simp: candidates_def mget_set image_iff)

lemma distinct_candidates: "mwf (jobs s) \<Longrightarrow> distinct (candidates s)"
proof -
  assume "mwf (jobs s)"
  then have "distinct (map fst (filter (\<lambda>(i, j). jr_Status j = JobQueued \<and> i \<notin> claimed s) (jobs s)))"
    by (simp add: mwf_def distinct_map_filter)
  moreover have "mset (candidates s) = mset (map fst (filter (\<lambda>(i, j). jr_Status j = JobQueued \<and> i \<notin> claimed s) (jobs s)))"
    unfolding candidates_def mset_map mset_sort by (simp add: multiset.map_comp comp_def case_prod_beta)
  ultimately show ?thesis by (metis mset_eq_imp_distinct_iff)
qed

lemma wf_claim_loop:
  assumes "wf_store w s" "distinct cs"
    "\<forall>i\<in>set cs. \<exists>j. mget (jobs s) i = Some j \<and> jr_Status j = JobQueued"
    "claim_loop w cs s = (r, s')"
  shows "wf_store w s'"
  using assms
proof (induction cs arbitrary: s)
  case (Cons i cs)
  from Cons.prems(3) obtain j where j: "mget (jobs s) i = Some j" "jr_Status j = JobQueued" by auto
  show ?case
  proof (cases "dependencyStateLocked s i = depsFailed \<and> jr_Condition (job_at s i) = ''''")
    case True
    have "\<forall>k\<in>set cs. \<exists>j. mget (jobs (skip_job w i s)) k = Some j \<and> jr_Status j = JobQueued"
      using Cons.prems(2,3) by (auto simp: mget_skip_job [OF j])
    then show ?thesis
      using Cons.IH [OF wf_skip_job [OF Cons.prems(1) j]] Cons.prems True by simp
  next
    case False
    then show ?thesis
      using Cons by (auto split: depState.splits)
  qed
qed simp

lemma wf_ClaimNextQueuedJob:
  assumes "wf_store w s" "mem_ClaimNextQueuedJob w s = (r, s')"
  shows "wf_store w s'"
proof -
  have m: "mwf (jobs s)" using assms(1) by (rule wf_storeD)
  show ?thesis
  proof (cases "candidates s")
    case Nil
    with assms show ?thesis by (simp add: mem_ClaimNextQueuedJob_def)
  next
    case (Cons c cs)
    then have "claim_loop w (candidates s) s = (r, s')"
      using assms(2) by (simp add: mem_ClaimNextQueuedJob_def)
    then show ?thesis
      by (rule wf_claim_loop [OF assms(1) distinct_candidates [OF m], rotated]) (auto simp: set_candidates [OF m])
  qed
qed

section \<open>Acknowledging, projecting, collecting\<close>

lemma wf_ReleaseClaim:
  "wf_store w s \<Longrightarrow> mem_ReleaseClaim i s = (r, s') \<Longrightarrow> wf_store w s'"
  by (auto simp: mem_ReleaseClaim_def)

lemma wf_AckDispatched:
  assumes "wf_store w s" "mem_AckDispatched i ob t s = (r, s')"
  shows "wf_store w s'"
proof (cases "mget (jobs s) i")
  case (Some j)
  have "wf_store w (put_job i (j\<lparr>jr_Status := JobDispatched, jr_ActiveName := ao_Name ob,
      jr_ActiveUID := ao_UID ob, jr_DispatchedAt := Some t\<rparr>) s)"
    if "jr_Status j = JobQueued \<or> jr_Status j = JobDispatched"
    by (rule wf_store_put_job_same_terminal [OF assms(1) Some])
      (use that in \<open>auto simp: known_status_def\<close>)
  with assms Some show ?thesis
    by (auto simp: mem_AckDispatched_def Let_def split: JobRunStatus.splits if_splits)
qed (use assms in \<open>simp add: mem_AckDispatched_def\<close>)

lemma wf_MarkCollected:
  assumes "wf_store w s" "mem_MarkCollected i t s = (r, s')"
  shows "wf_store w s'"
proof (cases "mget (jobs s) i")
  case (Some j)
  have "known_status (jr_Status j)" using wf_jobsD [OF wf_storeD(4) [OF assms(1)] Some] by simp
  then have "wf_store w (put_job i (j\<lparr>jr_ActiveCollectedAt := Some t\<rparr>) s)"
    by (intro wf_store_put_job_same_terminal [OF assms(1) Some]) simp_all
  with assms Some show ?thesis by (auto simp: mem_MarkCollected_def split: if_splits)
qed (use assms in \<open>simp add: mem_MarkCollected_def\<close>)

text \<open>The record an observation writes, and the method in terms of it.\<close>

definition observed_job :: "JobRunStatus \<Rightarrow> time \<Rightarrow> JobRunRecord \<Rightarrow> JobRunRecord" where
  "observed_job target t j =
     (if target = JobRunning then j\<lparr>jr_Status := target, jr_StartedAt := Some t\<rparr>
      else if target \<in> {JobSucceeded, JobFailed, JobSkipped}
      then j\<lparr>jr_Status := target, jr_StartedAt := orTime (jr_StartedAt j) t, jr_FinishedAt := Some t\<rparr>
      else j\<lparr>jr_Status := target\<rparr>)"

lemma observed_job_simps [simp]:
  "jr_Status (observed_job st t j) = st" "same_job j (observed_job st t j)"
  by (simp_all add: observed_job_def same_job_def)

lemma mem_ApplyObserved_cases:
  assumes "mget (jobs s) i = Some j"
  shows "mem_ApplyObserved i p t s = (Inr (),
    (if job_IsTerminal (jr_Status j) then s
     else case JobStatusFromPhase p of
            None \<Rightarrow> refreshRunLocked (jr_RunID j) t s
          | Some target \<Rightarrow> if CanAdvanceJob (jr_Status j) target
                            then refreshRunLocked (jr_RunID j) t (put_job i (observed_job target t j) s)
                            else s))"
  using assms
  by (auto simp: mem_ApplyObserved_def Let_def observed_job_def split: option.splits)

lemma wf_refresh_idle: "wf_store w s \<Longrightarrow> wf_store w (refreshRunLocked rid t s)"
  by (rule wf_store_refresh) (auto simp: wf_store_def closed_run_def)

lemma wf_ApplyObserved:
  assumes "wf_store w s" "mem_ApplyObserved i p t s = (r, s')"
  shows "wf_store w s'"
proof (cases "mget (jobs s) i")
  case (Some j)
  have "wf_store w (refreshRunLocked (jr_RunID j) t (put_job i (observed_job target t j) s))"
    if "\<not> job_IsTerminal (jr_Status j)" "JobStatusFromPhase p = Some target" for target
    by (rule wf_store_advance_job [OF assms(1) Some])
      (use that in \<open>auto simp: known_status_def dest!: JobStatusFromPhase_target\<close>)
  with assms wf_refresh_idle [OF assms(1)] show ?thesis
    by (auto simp: mem_ApplyObserved_cases [OF Some] split: if_splits option.splits)
qed (use assms in \<open>simp add: mem_ApplyObserved_def\<close>)

section \<open>Cancelling\<close>

definition cancelled :: "time \<Rightarrow> JobRunRecord \<Rightarrow> JobRunRecord" where
  "cancelled t j = (if job_IsTerminal (jr_Status j) then j
     else j\<lparr>jr_Status := JobCancelled, jr_FinishedAt := Some t\<rparr>)"

lemma cancelled_simps [simp]:
  "same_job j (cancelled t j)" "jr_RunID (cancelled t j) = jr_RunID j" "job_IsTerminal (jr_Status (cancelled t j))"
  "cancelled t (cancelled t' j) = cancelled t' j"
  "known_status (jr_Status (cancelled t j)) \<longleftrightarrow> known_status (jr_Status j) \<or> \<not> job_IsTerminal (jr_Status j)"
  by (simp_all add: cancelled_def same_job_def known_status_def)

lemma cancel_job_eq:
  assumes "mget (jobs s) i = Some j"
  shows "cancel_job t i s = (put_job i (cancelled t j) s)\<lparr>claimed := claimed s - {i}\<rparr>"
  using assms
  by (simp add: cancel_job_def job_at_def cancelled_def put_job_def mput_same)

lemma fold_cancel:
  fixes t :: time
  assumes "wf_core w s" "\<forall>i\<in>set js. mget (jobs s) i \<noteq> None"
  defines "s' \<equiv> fold (cancel_job t) js s"
  shows "wf_core w s'" "runs s' = runs s" "runJobs s' = runJobs s" "deliveries s' = deliveries s"
    "byJobKey s' = byJobKey s" "ids s' = ids s" "claimed s' = claimed s - set js"
    "mget (jobs s') i = (if i \<in> set js then map_option (cancelled t) (mget (jobs s) i) else mget (jobs s) i)"
proof -
  have "wf_core w (fold (cancel_job t) js s) \<and> runs (fold (cancel_job t) js s) = runs s
    \<and> runJobs (fold (cancel_job t) js s) = runJobs s \<and> deliveries (fold (cancel_job t) js s) = deliveries s
    \<and> byJobKey (fold (cancel_job t) js s) = byJobKey s \<and> ids (fold (cancel_job t) js s) = ids s
    \<and> claimed (fold (cancel_job t) js s) = claimed s - set js
    \<and> mget (jobs (fold (cancel_job t) js s)) i =
        (if i \<in> set js then map_option (cancelled t) (mget (jobs s) i) else mget (jobs s) i)"
    using assms(1,2)
  proof (induction js arbitrary: s)
    case (Cons k js)
    then obtain j where j: "mget (jobs s) k = Some j" by auto
    let ?s = "cancel_job t k s"
    have "known_status (jr_Status j)" using Cons.prems(1) j by (simp add: wf_core_def wf_jobs_def)
    then have "wf_core w (put_job k (cancelled t j) s)"
      by (intro wf_core_put_job [OF Cons.prems(1) j]) simp_all
    then have core: "wf_core w ?s"
      unfolding cancel_job_eq [OF j]
      by (rule wf_store_frame(1) [rotated -1]) (simp_all add: wf_deliveries_def)
    have "\<forall>i\<in>set js. mget (jobs ?s) i \<noteq> None" using Cons.prems(2) by (simp add: cancel_job_eq [OF j])
    note ih = Cons.IH [OF core this]
    have e: "claimed ?s = claimed s - {k}" "runs ?s = runs s" "runJobs ?s = runJobs s" "ids ?s = ids s"
      "deliveries ?s = deliveries s" "byJobKey ?s = byJobKey s" "jobs ?s = mput (jobs s) k (cancelled t j)"
      by (simp_all add: cancel_job_eq [OF j])
    have c: "claimed s - {k} - set js = claimed s - insert k (set js)" by blast
    show ?case using ih unfolding e c mget_mput by (cases "i = k") (simp_all add: j)
  qed simp
  then show "wf_core w s'" "runs s' = runs s" "runJobs s' = runJobs s" "deliveries s' = deliveries s"
    "byJobKey s' = byJobKey s" "ids s' = ids s" "claimed s' = claimed s - set js"
    "mget (jobs s') i = (if i \<in> set js then map_option (cancelled t) (mget (jobs s) i) else mget (jobs s) i)"
    by (simp_all add: s'_def)
qed

lemma cancel_open:
  assumes wf: "wf_store w s" and r: "mget (runs s) rid = Some r" "\<not> run_IsTerminal (run_Status r)"
    and step: "mem_CancelRun rid t s = (x, s')"
  shows "x = Inr ()" "wf_store w s'"
    "mget (runs s') k = (if k = rid then Some (r\<lparr>run_Status := RunCancelled, run_FinishedAt := Some t\<rparr>) else mget (runs s) k)"
    "mget (jobs s') i = (if in_run s rid i then map_option (cancelled t) (mget (jobs s) i) else mget (jobs s) i)"
    "deliveries s' = deliveries s"
proof -
  obtain js where js: "runJobs_at s rid = js" "\<And>i. i \<in> set js \<longleftrightarrow> in_run s rid i"
    using wf_index_runJobs [OF wf_storeD(6) [OF wf] r(1)] by blast
  then have "\<forall>i\<in>set js. mget (jobs s) i \<noteq> None" by (auto simp: in_run_def)
  note f = fold_cancel [OF wf_storeD(1) [OF wf] this, of t]
  let ?s = "fold (cancel_job t) js s"
  have st: "x = Inr ()" "s' = put_run rid (r\<lparr>run_Status := RunCancelled, run_FinishedAt := Some t\<rparr>) ?s"
    using step r js by (auto simp: mem_CancelRun_def)
  show "x = Inr ()" by (rule st)
  show "mget (runs s') k = (if k = rid then Some (r\<lparr>run_Status := RunCancelled, run_FinishedAt := Some t\<rparr>)
      else mget (runs s) k)" by (simp add: st f)
  show m: "mget (jobs s') i = (if in_run s rid i then map_option (cancelled t) (mget (jobs s) i)
      else mget (jobs s) i)" for i by (simp add: st f js)
  show "deliveries s' = deliveries s" by (simp add: st f)
  have "run_ID r = rid" using wf_storeD(5) [OF wf] r by (simp add: wf_runs_def)
  then have "wf_core w s'" unfolding st by (intro wf_core_put_run [OF f(1)]) (simp_all add: f r)
  moreover have "closed_run s' rid'" for rid'
  proof (cases "rid' = rid")
    case True
    have "all_terminal s' rid"
      by (auto simp: all_terminal_def m in_run_def split: if_splits)
    with True show ?thesis by (simp add: closed_run_def st)
  next
    case False
    then have "mget (jobs s') i = Some j \<and> jr_RunID j = rid' \<longleftrightarrow> mget (jobs s) i = Some j \<and> jr_RunID j = rid'" for i j
      by (auto simp: m in_run_def)
    then have "all_terminal s' rid' = all_terminal s rid'" unfolding all_terminal_def by metis
    with False show ?thesis using wf_storeD(2) [OF wf, of rid'] by (simp add: closed_run_def st f)
  qed
  ultimately show "wf_store w s'" by (simp add: wf_store_def)
qed

lemma wf_CancelRun:
  assumes "wf_store w s" "mem_CancelRun rid t s = (x, s')"
  shows "wf_store w s'"
proof (cases "\<exists>r. mget (runs s) rid = Some r \<and> \<not> run_IsTerminal (run_Status r)")
  case True
  then obtain r where "mget (runs s) rid = Some r" "\<not> run_IsTerminal (run_Status r)" by blast
  from cancel_open(2) [OF assms(1) this assms(2)] show ?thesis .
next
  case False
  then have "s' = s" using assms(2) by (auto simp: mem_CancelRun_def split: option.splits if_splits)
  with assms(1) show ?thesis by simp
qed

section \<open>Rerequesting a job\<close>

lemma next_attempt_simps [simp]:
  "jr_ID (next_attempt i t j) = i" "jr_RunID (next_attempt i t j) = jr_RunID j"
  "jr_JobKey (next_attempt i t j) = jr_JobKey j" "jr_Status (next_attempt i t j) = JobQueued"
  "jr_Attempt (next_attempt i t j) = jr_Attempt j + 1" "jr_DependsOn (next_attempt i t j) = jr_DependsOn j"
  "jr_PlanDigest (next_attempt i t j) = jr_PlanDigest j" "jr_Condition (next_attempt i t j) = jr_Condition j"
  by (simp_all add: next_attempt_def)

lemma wf_store_index_orphan:
  assumes "wf_store w s" "rid \<notin> mkeys (runs s)"
  shows "wf_store w (s\<lparr>runJobs := (runJobs s)(rid := x)\<rparr>)"
    "wf_store w (s\<lparr>runJobs := (runJobs s)(rid := x), byJobKey := (byJobKey s)(rid := y)\<rparr>)"
proof -
  have "rid' \<noteq> rid" if "rid' \<in> mkeys (runs s)" for rid' using that assms(2) by auto
  with assms(1) show "wf_store w (s\<lparr>runJobs := (runJobs s)(rid := x)\<rparr>)"
    "wf_store w (s\<lparr>runJobs := (runJobs s)(rid := x), byJobKey := (byJobKey s)(rid := y)\<rparr>)"
    by (simp_all add: wf_store_def wf_core_def wf_jobs_def wf_runs_def wf_deliveries_def minted_def
        wf_index_def in_run_def closed_run_def all_terminal_def)
qed

text \<open>The state after a new attempt of a job of a visible run.\<close>

definition attempt_state :: "world \<Rightarrow> JobRunRecord \<Rightarrow> time \<Rightarrow> (string \<rightharpoonup> JobRunID) \<Rightarrow> RunRecord \<Rightarrow> DurableMem \<Rightarrow> DurableMem" where
  "attempt_state w orig t m r s =
     put_run (jr_RunID orig) (if run_IsTerminal (run_Status r) then r\<lparr>run_Status := RunQueued, run_FinishedAt := None\<rparr> else r)
       ((add_job w (next_attempt (mint w (ids s)) t orig) s)
          \<lparr>runJobs := (runJobs s)(jr_RunID orig \<mapsto> runJobs_at s (jr_RunID orig) @ [mint w (ids s)]),
           byJobKey := (byJobKey s)(jr_RunID orig \<mapsto> m(jr_JobKey orig \<mapsto> mint w (ids s)))\<rparr>)"

lemma runJobs_at_add_job [simp]: "runJobs_at (add_job w j s) rid = runJobs_at s rid"
  by (simp add: runJobs_at_def)

lemma rerequest_new:
  assumes "mget (jobs s) i = Some orig" "find_attempt s orig (runJobs_at s (jr_RunID orig)) = None"
    "mget (runs s) (jr_RunID orig) = Some r" "byJobKey s (jr_RunID orig) = Some m"
  shows "mem_RerequestJob w i t s = (Inr (mint w (ids s)), attempt_state w orig t m r s)"
  using assms
  by (simp add: mem_RerequestJob_def NewID_def attempt_state_def put_run_def mput_same flip: add_job_def)

lemma wf_index_attempt:
  assumes core: "wf_core w s" and orig: "mget (jobs s) i = Some orig"
    and r: "mget (runs s) (jr_RunID orig) = Some r" and m: "byJobKey s (jr_RunID orig) = Some m"
  shows "wf_index (attempt_state w orig t m r s)"
proof -
  let ?n = "mint w (ids s)" and ?s = "attempt_state w orig t m r s" and ?rid = "jr_RunID orig"
  note fresh = fresh_job(1,2) [OF core]
  have inr: "in_run ?s rid k \<longleftrightarrow> in_run s rid k \<or> k = ?n \<and> ?rid = rid" for rid k
    using fresh by (auto simp: in_run_def attempt_state_def)
  have keep: "mget (jobs ?s) k = mget (jobs s) k" if "k \<noteq> ?n" for k using that by (simp add: attempt_state_def)
  have mk: "mkeys (runs ?s) = mkeys (runs s)" using r by (auto simp: attempt_state_def dest: mget_in_keys)
  have "(\<exists>js. runJobs ?s rid = Some js \<and> js \<noteq> [] \<and> distinct js \<and> (\<forall>k. k \<in> set js \<longleftrightarrow> in_run ?s rid k))
    \<and> (\<exists>m. byJobKey ?s rid = Some m
         \<and> (\<forall>k i. m k = Some i \<longrightarrow> (\<exists>j. mget (jobs ?s) i = Some j \<and> jr_RunID j = rid \<and> jr_JobKey j = k)))"
    if rid: "rid \<in> mkeys (runs s)" for rid
  proof -
    from core rid obtain js m' where w: "runJobs s rid = Some js" "js \<noteq> []" "distinct js"
      "\<forall>k. k \<in> set js \<longleftrightarrow> in_run s rid k" "byJobKey s rid = Some m'"
      "\<forall>k i. m' k = Some i \<longrightarrow> (\<exists>j. mget (jobs s) i = Some j \<and> jr_RunID j = rid \<and> jr_JobKey j = k)"
      unfolding wf_core_def wf_index_def by blast
    have n: "?n \<notin> set js" using w(4) fresh by simp
    have keep': "\<exists>j. mget (jobs ?s) i = Some j \<and> jr_RunID j = rid \<and> jr_JobKey j = k" if "m' k = Some i" for k i
    proof -
      from w(6) that obtain j where "mget (jobs s) i = Some j" "jr_RunID j = rid" "jr_JobKey j = k" by blast
      moreover from this fresh have "i \<noteq> ?n" by auto
      ultimately show ?thesis using keep by auto
    qed
    show ?thesis
    proof (cases "rid = ?rid")
      case True
      with w(5) m have "m' = m" by simp
      have "runJobs ?s rid = Some (js @ [?n])" "byJobKey ?s rid = Some (m(jr_JobKey orig \<mapsto> ?n))"
        "mget (jobs ?s) ?n = Some (next_attempt ?n t orig)"
        using w(1) by (simp_all add: True attempt_state_def runJobs_at_def)
      then show ?thesis
        using w(3,4) n keep' unfolding \<open>m' = m\<close> by (auto simp: inr True)
    next
      case False
      then have "runJobs ?s rid = Some js" "byJobKey ?s rid = Some m'"
        using w(1,5) by (simp_all add: attempt_state_def)
      then show ?thesis using w(2-4) keep' False by (auto simp: inr)
    qed
  qed
  then show ?thesis unfolding wf_index_def mk by blast
qed

lemma wf_store_attempt:
  assumes wf: "wf_store w s" and orig: "mget (jobs s) i = Some orig"
    and r: "mget (runs s) (jr_RunID orig) = Some r" and m: "byJobKey s (jr_RunID orig) = Some m"
  shows "wf_store w (attempt_state w orig t m r s)"
proof -
  let ?j = "next_attempt (mint w (ids s)) t orig" and ?s = "attempt_state w orig t m r s"
  have core: "wf_core w s" and closed: "\<And>rid. closed_run s rid" using wf by (auto simp: wf_store_def)
  have id: "run_ID r = jr_RunID orig" "minted w s (jr_RunID orig)" "known_status (jr_Status ?j)"
    using core r by (auto simp: wf_core_def wf_runs_def known_status_def)
  have eqs: "jobs ?s = jobs (add_job w ?j s)" "deliveries ?s = deliveries (add_job w ?j s)"
    "ids ?s = ids (add_job w ?j s)" "mkeys (runs ?s) = mkeys (runs (add_job w ?j s))"
    using mget_in_keys [OF r] by (auto simp: attempt_state_def)
  note aj = wf_jobs_add_job [OF core, of ?j]
  have wj: "wf_jobs w ?s" "wf_deliveries ?s"
    using aj(1,3) id unfolding wf_jobs_def wf_deliveries_def minted_def eqs by simp_all
  have "wf_runs w ?s"
    using aj(2) id r by (simp add: attempt_state_def wf_runs_def minted_def)
  have "all_terminal ?s rid = all_terminal (add_job w ?j s) rid" for rid
    unfolding all_terminal_def eqs ..
  then have at: "all_terminal ?s rid \<longleftrightarrow> all_terminal s rid \<and> rid \<noteq> jr_RunID orig" for rid
    unfolding all_terminal_add_job [OF core] by auto
  have "closed_run ?s rid" for rid
    unfolding closed_run_def at using closed [of rid] closed_run_def [of s rid]
    by (simp add: attempt_state_def)
  with wj \<open>wf_runs w ?s\<close> wf_index_attempt [OF core orig r m] core show ?thesis
    by (simp add: wf_store_def wf_core_def)
qed

lemma wf_RerequestJob:
  assumes wf: "wf_store w s" and step: "mem_RerequestJob w i t s = (x, s')"
  shows "wf_store w s'"
proof (cases "\<exists>orig. mget (jobs s) i = Some orig \<and> find_attempt s orig (runJobs_at s (jr_RunID orig)) = None")
  case False
  then have "s' = s" using step by (auto simp: mem_RerequestJob_def split: option.splits)
  with wf show ?thesis by simp
next
  case True
  then obtain orig where orig: "mget (jobs s) i = Some orig"
    "find_attempt s orig (runJobs_at s (jr_RunID orig)) = None" by blast
  let ?j = "next_attempt (mint w (ids s)) t orig"
  show ?thesis
  proof (cases "mget (runs s) (jr_RunID orig)")
    case (Some r)
    then obtain m where m: "byJobKey s (jr_RunID orig) = Some m"
      using wf_storeD(6) [OF wf] mget_in_keys [OF Some] by (auto simp: wf_index_def)
    from step wf_store_attempt [OF wf orig(1) Some m] show ?thesis
      by (auto simp: rerequest_new [OF orig Some m])
  next
    case None
    then have nk: "jr_RunID orig \<notin> mkeys (runs s)" by (simp add: mget_None_iff)
    have "wf_store w (add_job w ?j s)"
      using wf_jobsD [OF wf_storeD(4) [OF wf] orig(1)] nk
      by (intro wf_store_add_orphan [OF wf]) (auto simp: known_status_def)
    from wf_store_index_orphan [OF this, of "jr_RunID orig"] step orig None nk show ?thesis
      by (auto simp: mem_RerequestJob_def NewID_def Let_def simp flip: add_job_def split: option.splits)
  qed
qed

end
