(* ===== verification/Store_Steps.thy ===== *)
theory Store_Steps
  imports Memory_Preservation
begin

text \<open>
  The in-memory durable store as a transition system: a step is one method call with any
  arguments, so a sequence of steps is any interleaving of any number of callers. A job
  record only evolves: its definition never changes, its status never moves backwards, a
  terminal status and a collection mark are final.
\<close>

section \<open>How a job record may change\<close>

definition evolves :: "JobRunRecord \<Rightarrow> JobRunRecord \<Rightarrow> bool" where
  "evolves j j' \<longleftrightarrow> same_job j j' \<and> jobRank (jr_Status j) \<le> jobRank (jr_Status j')
     \<and> (job_IsTerminal (jr_Status j) \<longrightarrow> jr_Status j' = jr_Status j \<and> jr_FinishedAt j' = jr_FinishedAt j)
     \<and> (jr_ActiveCollectedAt j \<noteq> None \<longrightarrow> jr_ActiveCollectedAt j' = jr_ActiveCollectedAt j)
     \<and> (jr_ActiveName j' = jr_ActiveName j \<or> jr_ActiveName j' = CRName (jr_ID j))"

definition jobs_evolve :: "DurableMem \<Rightarrow> DurableMem \<Rightarrow> bool" where
  "jobs_evolve s s' \<longleftrightarrow>
     (\<forall>i j. mget (jobs s) i = Some j \<longrightarrow> (\<exists>j'. mget (jobs s') i = Some j' \<and> evolves j j'))"

lemma same_job_refl [simp]: "same_job j j"
  by (simp add: same_job_def)

lemma evolves_refl [simp]: "evolves j j"
  by (simp add: evolves_def same_job_def)

lemma evolves_trans: "evolves j k \<Longrightarrow> evolves k l \<Longrightarrow> evolves j l"
  by (auto simp: evolves_def same_job_def)

lemma jobs_evolve_refl [simp]: "jobs_evolve s s"
  by (simp add: jobs_evolve_def)

lemma jobs_evolve_trans: "jobs_evolve s t \<Longrightarrow> jobs_evolve t u \<Longrightarrow> jobs_evolve s u"
  unfolding jobs_evolve_def by (meson evolves_trans)

lemma jobs_evolve_same: "jobs s' = jobs s \<Longrightarrow> jobs_evolve s s'"
  by (simp add: jobs_evolve_def)

lemma jobs_evolve_put:
  assumes "mget (jobs s) i = Some j" "evolves j j'" "jobs s' = mput (jobs s) i j'"
  shows "jobs_evolve s s'"
  using assms by (auto simp: jobs_evolve_def)

lemma jobs_evolve_add:
  assumes "wf_core w s" "jobs s' = mput (jobs s) (mint w (ids s)) j"
  shows "jobs_evolve s s'"
  using assms fresh_job(1) [OF assms(1)] by (auto simp: jobs_evolve_def)

section \<open>Every method lets jobs evolve\<close>

lemma evolve_create_jobs:
  assumes "create_inv w rid ki jids s" "create_jobs w rid t js ki jids s = (res, s')"
  shows "jobs_evolve s s'"
  using assms
proof (induction js arbitrary: ki jids s)
  case (Cons x js)
  show ?case
  proof (cases "ki (ji_JobKey x)")
    case None
    let ?j = "job_of_intent (mint w (ids s)) rid t x"
    have "create_jobs w rid t js (ki(ji_JobKey x \<mapsto> mint w (ids s))) (jids @ [mint w (ids s)]) (add_job w ?j s) = (res, s')"
      using Cons.prems(2) None by (simp add: NewID_def add_job_def)
    from Cons.IH [OF create_inv_step [OF Cons.prems(1)] this] have "jobs_evolve (add_job w ?j s) s'" .
    moreover have "jobs_evolve s (add_job w ?j s)"
      using Cons.prems(1) by (intro jobs_evolve_add [of w]) (simp_all add: create_inv_def wf_store_def)
    ultimately show ?thesis by (rule jobs_evolve_trans [rotated])
  qed (use Cons.prems in auto)
qed simp

lemma evolve_CreateRun:
  assumes wf: "wf_store w s" and step: "mem_CreateRun w seed t s = (r, s')"
  shows "jobs_evolve s s'"
proof (cases "\<exists>rec. deliveries s (rs_Delivery seed) = Some rec \<and> dr_RunID rec = '''' \<and> rs_Jobs seed \<noteq> []")
  case False
  then have "s' = s"
    using step by (auto simp: mem_CreateRun_def split: option.splits if_splits sum.splits)
  then show ?thesis by simp
next
  case True
  then obtain rec where rec: "deliveries s (rs_Delivery seed) = Some rec" "dr_RunID rec = ''''" "rs_Jobs seed \<noteq> []"
    by blast
  obtain res s2 where cj: "create_jobs w (mint w (ids s)) t (rs_Jobs seed) Map.empty [] (s\<lparr>ids := Suc (ids s)\<rparr>) = (res, s2)"
    by fastforce
  from evolve_create_jobs [OF create_inv_start [OF wf] cj] have "jobs_evolve s s2"
    by (simp add: jobs_evolve_def)
  moreover have "jobs s' = jobs s2"
    using step cj by (auto simp: mem_CreateRun_new [OF rec] Let_def split: sum.splits prod.splits)
  ultimately show ?thesis by (simp add: jobs_evolve_def)
qed

lemma evolve_claim_loop:
  assumes "distinct cs" "\<forall>i\<in>set cs. \<exists>j. mget (jobs s) i = Some j \<and> jr_Status j = JobQueued"
    "claim_loop w cs s = (r, s')"
  shows "jobs_evolve s s'"
  using assms
proof (induction cs arbitrary: s)
  case (Cons i cs)
  from Cons.prems(2) obtain j where j: "mget (jobs s) i = Some j" "jr_Status j = JobQueued" by auto
  show ?case
  proof (cases "dependencyStateLocked s i = depsFailed \<and> jr_Condition (job_at s i) = ''''")
    case True
    have "jobs_evolve s (skip_job w i s)"
      using j by (auto simp: jobs_evolve_def mget_skip_job evolves_def)
    moreover have "\<forall>k\<in>set cs. \<exists>j. mget (jobs (skip_job w i s)) k = Some j \<and> jr_Status j = JobQueued"
      using Cons.prems(1,2) by (auto simp: mget_skip_job [OF j])
    then have "jobs_evolve (skip_job w i s) s'"
      using Cons.IH [of "skip_job w i s"] Cons.prems True by simp
    ultimately show ?thesis by (rule jobs_evolve_trans)
  next
    case False
    then show ?thesis using Cons by (auto split: depState.splits intro: jobs_evolve_same)
  qed
qed simp

lemma evolve_ClaimNextQueuedJob:
  assumes "wf_store w s" "mem_ClaimNextQueuedJob w s = (r, s')"
  shows "jobs_evolve s s'"
proof -
  have m: "mwf (jobs s)" using assms(1) by (rule wf_storeD)
  show ?thesis
  proof (cases "candidates s = []")
    case False
    then have "claim_loop w (candidates s) s = (r, s')" using assms(2) by (simp add: mem_ClaimNextQueuedJob_def)
    then show ?thesis
      by (rule evolve_claim_loop [OF distinct_candidates [OF m], rotated]) (auto simp: set_candidates [OF m])
  qed (use assms in \<open>simp add: mem_ClaimNextQueuedJob_def\<close>)
qed

lemma evolve_AckDispatched:
  assumes "wf_store w s" "mem_AckDispatched i ob t s = (r, s')" "ao_Name ob = CRName i"
  shows "jobs_evolve s s'"
proof (cases "mget (jobs s) i")
  case (Some j)
  have i: "jr_ID j = i" using wf_jobsD [OF wf_storeD(4) [OF assms(1)] Some] by simp
  have "evolves j (j\<lparr>jr_Status := JobDispatched, jr_ActiveName := ao_Name ob, jr_ActiveUID := ao_UID ob, jr_DispatchedAt := Some t\<rparr>)"
    if "jr_Status j = JobQueued \<or> jr_Status j = JobDispatched"
    using that i assms(3) by (auto simp: evolves_def)
  from jobs_evolve_put [OF Some this] assms(2) Some show ?thesis
    by (auto simp: mem_AckDispatched_def Let_def split: JobRunStatus.splits if_splits)
qed (use assms in \<open>simp add: mem_AckDispatched_def\<close>)

lemma evolve_ApplyObserved:
  assumes "mem_ApplyObserved i p t s = (r, s')"
  shows "jobs_evolve s s'"
proof (cases "mget (jobs s) i")
  case (Some j)
  have "evolves j (observed_job target t j)"
    if "\<not> job_IsTerminal (jr_Status j)" "CanAdvanceJob (jr_Status j) target" for target
    using that CanAdvanceJob_rank [OF that(2)] by (auto simp: evolves_def observed_job_def same_job_def)
  from jobs_evolve_put [OF Some this] assms show ?thesis
    by (auto simp: mem_ApplyObserved_cases [OF Some] intro: jobs_evolve_same split: if_splits option.splits)
qed (use assms in \<open>simp add: mem_ApplyObserved_def\<close>)

lemma evolves_cancelled: "evolves j (cancelled t j)"
  using jobRank_le(1) [of "jr_Status j"] by (simp add: evolves_def cancelled_def same_job_def)

lemma evolve_CancelRun:
  assumes "wf_store w s" "mem_CancelRun rid t s = (x, s')"
  shows "jobs_evolve s s'"
proof (cases "\<exists>r. mget (runs s) rid = Some r \<and> \<not> run_IsTerminal (run_Status r)")
  case True
  then obtain r where "mget (runs s) rid = Some r" "\<not> run_IsTerminal (run_Status r)" by blast
  from cancel_open(4) [OF assms(1) this assms(2)] show ?thesis
    by (auto simp: jobs_evolve_def evolves_cancelled)
next
  case False
  then have "s' = s" using assms(2) by (auto simp: mem_CancelRun_def split: option.splits if_splits)
  then show ?thesis by simp
qed

lemma evolve_RerequestJob:
  assumes "wf_store w s" "mem_RerequestJob w i t s = (x, s')"
  shows "jobs_evolve s s'"
proof -
  have "jobs s' = jobs s \<or> (\<exists>j. jobs s' = mput (jobs s) (mint w (ids s)) j)"
    using assms(2) by (auto simp: mem_RerequestJob_def NewID_def Let_def split: option.splits if_splits)
  then show ?thesis
    using jobs_evolve_add [OF wf_storeD(1) [OF assms(1)]] jobs_evolve_same by metis
qed

lemma evolve_MarkCollected:
  assumes "mem_MarkCollected i t s = (r, s')"
  shows "jobs_evolve s s'"
proof (cases "mget (jobs s) i")
  case (Some j)
  have "evolves j (j\<lparr>jr_ActiveCollectedAt := Some t\<rparr>)" if "jr_ActiveCollectedAt j = None"
    using that by (simp add: evolves_def)
  from jobs_evolve_put [OF Some this] assms Some show ?thesis
    by (auto simp: mem_MarkCollected_def split: if_splits)
qed (use assms in \<open>simp add: mem_MarkCollected_def\<close>)

section \<open>The transition system of the store\<close>

inductive store_step :: "world \<Rightarrow> DurableMem \<Rightarrow> DurableMem \<Rightarrow> bool" for w where
  record_delivery: "mem_RecordDelivery w d s = (r1, s') \<Longrightarrow> store_step w s s'"
| create_run: "mem_CreateRun w seed t s = (r2, s') \<Longrightarrow> store_step w s s'"
| claim: "mem_ClaimNextQueuedJob w s = (r3, s') \<Longrightarrow> store_step w s s'"
| release: "mem_ReleaseClaim i s = (r4, s') \<Longrightarrow> store_step w s s'"
| ack: "mem_AckDispatched i \<lparr>ao_Name = CRName i, ao_UID = uid\<rparr> t s = (r4, s') \<Longrightarrow> store_step w s s'"
| observe: "mem_ApplyObserved i p t s = (r4, s') \<Longrightarrow> store_step w s s'"
| cancel: "mem_CancelRun rid t s = (r4, s') \<Longrightarrow> store_step w s s'"
| rerequest: "mem_RerequestJob w i t s = (r5, s') \<Longrightarrow> store_step w s s'"
| mark: "mem_MarkCollected i t s = (r4, s') \<Longrightarrow> store_step w s s'"

lemma store_step_ok:
  assumes "store_step w s s'" "wf_store w s"
  shows "wf_store w s' \<and> jobs_evolve s s'"
  using assms
proof (induction rule: store_step.induct)
  case (record_delivery d s r1 s')
  then show ?case
    by (auto simp: wf_RecordDelivery) (auto simp: mem_RecordDelivery_def read_clock_def Let_def
        intro!: jobs_evolve_same split: option.splits)
next
  case (release i s r4 s')
  then show ?case by (auto simp: mem_ReleaseClaim_def intro: jobs_evolve_same)
qed (auto intro: wf_CreateRun evolve_CreateRun wf_ClaimNextQueuedJob evolve_ClaimNextQueuedJob
      wf_AckDispatched evolve_AckDispatched wf_ApplyObserved evolve_ApplyObserved wf_CancelRun
      evolve_CancelRun wf_RerequestJob evolve_RerequestJob wf_MarkCollected evolve_MarkCollected)

lemma store_steps_ok:
  assumes "(store_step w)\<^sup>*\<^sup>* s s'" "wf_store w s"
  shows "wf_store w s' \<and> jobs_evolve s s'"
  using assms
  by (induction rule: rtranclp_induct) (auto dest: store_step_ok jobs_evolve_trans)

section \<open>Deliveries and the runs they started\<close>

text \<open>Every run is the one its delivery is bound to.\<close>

definition runs_bound :: "DurableMem \<Rightarrow> bool" where
  "runs_bound s \<longleftrightarrow> (\<forall>rid r. mget (runs s) rid = Some r \<longrightarrow>
     (\<exists>rec. deliveries s (run_Delivery r) = Some rec \<and> dr_RunID rec = rid))"

text \<open>A receipt is never overwritten; once bound to a run it stays bound to it.\<close>

definition deliveries_evolve :: "DurableMem \<Rightarrow> DurableMem \<Rightarrow> bool" where
  "deliveries_evolve s s' \<longleftrightarrow> (\<forall>k rec. deliveries s k = Some rec \<longrightarrow>
     (\<exists>rec'. deliveries s' k = Some rec' \<and> (dr_RunID rec \<noteq> '''' \<longrightarrow> rec' = rec)
        \<and> rec'\<lparr>dr_RunID := ''''\<rparr> = rec\<lparr>dr_RunID := ''''\<rparr>))"

lemma deliveries_evolve_same: "deliveries s' = deliveries s \<Longrightarrow> deliveries_evolve s s'"
  by (simp add: deliveries_evolve_def)

lemma deliveries_evolve_trans: "deliveries_evolve s t \<Longrightarrow> deliveries_evolve t u \<Longrightarrow> deliveries_evolve s u"
  unfolding deliveries_evolve_def by metis

definition run_origin :: "DurableMem \<Rightarrow> RunID \<Rightarrow> (DeliveryKey \<times> Event) option" where
  "run_origin s rid = map_option (\<lambda>r. (run_Delivery r, run_Event r)) (mget (runs s) rid)"

lemma run_origin_same: "runs s' = runs s \<Longrightarrow> run_origin s' = run_origin s"
  by (simp add: run_origin_def fun_eq_iff)

lemma run_origin_refresh [simp]: "run_origin (refreshRunLocked rid t s) = run_origin s"
  by (auto simp: run_origin_def fun_eq_iff refreshRunLocked_def Let_def split: option.splits)

lemma run_origin_put [simp]: "run_origin (put_job i j s) = run_origin s"
  "run_origin (s\<lparr>claimed := c\<rparr>) = run_origin s" "run_origin (s\<lparr>clock_reads := n\<rparr>) = run_origin s"
  by (simp_all add: run_origin_def fun_eq_iff)

lemma run_origin_skip [simp]: "run_origin (skip_job w i s) = run_origin s" "deliveries (skip_job w i s) = deliveries s"
  by (auto simp: skip_job_def Let_def read_clock_def split: sum.splits)

lemma claim_loop_origin:
  "claim_loop w cs s = (r, s') \<Longrightarrow> run_origin s' = run_origin s \<and> deliveries s' = deliveries s"
  by (induction cs arbitrary: s) (auto split: depState.splits if_splits)

text \<open>Every method but \<^verbatim>\<open>CreateRun\<close> leaves the runs' origins alone.\<close>

lemma origin_kept:
  "mem_RecordDelivery w d s = (r1, s') \<Longrightarrow> run_origin s' = run_origin s"
  "mem_ClaimNextQueuedJob w s = (r2, s') \<Longrightarrow> run_origin s' = run_origin s \<and> deliveries s' = deliveries s"
  "mem_ReleaseClaim i s = (r3, s') \<Longrightarrow> run_origin s' = run_origin s \<and> deliveries s' = deliveries s"
  "mem_AckDispatched i ob t s = (r3, s') \<Longrightarrow> run_origin s' = run_origin s \<and> deliveries s' = deliveries s"
  "mem_ApplyObserved i p t s = (r3, s') \<Longrightarrow> run_origin s' = run_origin s \<and> deliveries s' = deliveries s"
  "mem_RerequestJob w i t s = (r4, s') \<Longrightarrow> run_origin s' = run_origin s \<and> deliveries s' = deliveries s"
  "mem_MarkCollected i t s = (r3, s') \<Longrightarrow> run_origin s' = run_origin s \<and> deliveries s' = deliveries s"
        apply (auto simp: mem_RecordDelivery_def Let_def read_clock_def run_origin_def fun_eq_iff split: option.splits) [1]
       apply (auto simp: mem_ClaimNextQueuedJob_def dest: claim_loop_origin split: if_splits) [1]
      apply (auto simp: mem_ReleaseClaim_def) [1]
     apply (auto simp: mem_AckDispatched_def Let_def split: option.splits JobRunStatus.splits if_splits) [1]
    apply (auto simp: mem_ApplyObserved_def Let_def split: option.splits if_splits) [1]
   apply (auto simp: mem_RerequestJob_def NewID_def Let_def run_origin_def fun_eq_iff split: option.splits if_splits) [1]
  apply (auto simp: mem_MarkCollected_def split: option.splits if_splits) [1]
  done

lemma origin_CancelRun:
  assumes "wf_store w s" "mem_CancelRun rid t s = (x, s')"
  shows "run_origin s' = run_origin s \<and> deliveries s' = deliveries s"
proof (cases "\<exists>r. mget (runs s) rid = Some r \<and> \<not> run_IsTerminal (run_Status r)")
  case True
  then obtain r where r: "mget (runs s) rid = Some r" "\<not> run_IsTerminal (run_Status r)" by blast
  from cancel_open(3,5) [OF assms(1) r assms(2)] r show ?thesis by (auto simp: run_origin_def fun_eq_iff)
next
  case False
  then have "s' = s" using assms(2) by (auto simp: mem_CancelRun_def split: option.splits if_splits)
  then show ?thesis by simp
qed

lemma runs_bound_origin:
  "runs_bound s \<longleftrightarrow> (\<forall>rid k e. run_origin s rid = Some (k, e) \<longrightarrow> (\<exists>rec. deliveries s k = Some rec \<and> dr_RunID rec = rid))"
  by (fastforce simp: runs_bound_def run_origin_def)

lemma bound_CreateRun:
  assumes wf: "wf_store w s" and b: "runs_bound s" and step: "mem_CreateRun w seed t s = (x, s')"
  shows "runs_bound s' \<and> deliveries_evolve s s'"
proof (cases "\<exists>rec. deliveries s (rs_Delivery seed) = Some rec \<and> dr_RunID rec = '''' \<and> rs_Jobs seed \<noteq> []")
  case False
  then have "s' = s"
    using step by (auto simp: mem_CreateRun_def split: option.splits if_splits sum.splits)
  with b show ?thesis by (simp add: deliveries_evolve_same)
next
  case True
  then obtain rec where rec: "deliveries s (rs_Delivery seed) = Some rec" "dr_RunID rec = ''''" "rs_Jobs seed \<noteq> []"
    by blast
  let ?rid = "mint w (ids s)"
  obtain res s2 where cj: "create_jobs w ?rid t (rs_Jobs seed) Map.empty [] (s\<lparr>ids := Suc (ids s)\<rparr>) = (res, s2)"
    by fastforce
  have eq: "runs s2 = runs s" "deliveries s2 = deliveries s"
    using create_jobs_inv [OF create_inv_start [OF wf] cj] by simp_all
  have ne: "rid \<noteq> ''''" if "mget (runs s) rid = Some r" for rid r
    using that wf_storeD(3,5) [OF wf] unfolding wf_runs_def minted_def unique_ids_def by metis
  show ?thesis
  proof (cases res)
    case (Inl e)
    then show ?thesis using step cj eq b
      by (auto simp: mem_CreateRun_new [OF rec] Let_def runs_bound_def intro: deliveries_evolve_same)
  next
    case (Inr y)
    then have s': "mget (runs s') = (mget (runs s))(?rid \<mapsto> \<lparr>run_ID = ?rid, run_Event = rs_Event seed,
        run_Delivery = rs_Delivery seed, run_Status = RunQueued, run_CreatedAt = t, run_FinishedAt = None\<rparr>)"
      "deliveries s' = (deliveries s)(rs_Delivery seed \<mapsto> rec\<lparr>dr_RunID := ?rid\<rparr>)"
      using step cj eq by (auto simp: mem_CreateRun_new [OF rec] Let_def mget_mput_fun split: prod.splits)
    have "run_Delivery r \<noteq> rs_Delivery seed" if "mget (runs s) rid = Some r" for rid r
      using b rec ne [OF that] that unfolding runs_bound_def by (metis option.inject)
    with b rec show ?thesis unfolding runs_bound_def deliveries_evolve_def s' by auto
  qed
qed

lemma store_step_bound:
  assumes "store_step w s s'" "wf_store w s" "runs_bound s"
  shows "runs_bound s' \<and> deliveries_evolve s s'"
  using assms
proof (induction rule: store_step.induct)
  case (record_delivery d s r1 s')
  then have "run_origin s' = run_origin s" by (intro origin_kept(1))
  moreover have "\<forall>k rec. deliveries s k = Some rec \<longrightarrow> deliveries s' k = Some rec"
    using record_delivery(1) by (auto simp: mem_RecordDelivery_def Let_def read_clock_def split: option.splits)
  ultimately show ?case using record_delivery(3) unfolding runs_bound_origin deliveries_evolve_def by metis
next
  case (create_run seed t s r2 s')
  then show ?case by (intro bound_CreateRun)
next
  case (cancel rid t s r4 s')
  with origin_CancelRun show ?case by (metis runs_bound_origin deliveries_evolve_same)
qed (metis runs_bound_origin deliveries_evolve_same origin_kept)+

lemma store_steps_bound:
  assumes "(store_step w)\<^sup>*\<^sup>* s s'" "wf_store w s" "runs_bound s"
  shows "wf_store w s' \<and> runs_bound s' \<and> deliveries_evolve s s'"
  using assms
proof (induction rule: rtranclp_induct)
  case base
  then show ?case by (simp add: deliveries_evolve_same)
next
  case (step y z)
  then show ?case using store_step_ok store_step_bound deliveries_evolve_trans by blast
qed

text \<open>The states a store can be in: everything reachable from an empty one.\<close>

definition reachable_store :: "world \<Rightarrow> DurableMem \<Rightarrow> bool" where
  "reachable_store w s \<longleftrightarrow> (store_step w)\<^sup>*\<^sup>* NewDurableStore s"

lemma reachable_store_ok:
  assumes "unique_ids w" "reachable_store w s"
  shows "wf_store w s" "runs_bound s"
proof -
  have "runs_bound NewDurableStore" by (simp add: runs_bound_def NewDurableStore_def)
  with assms store_steps_bound [of w NewDurableStore s] wf_NewDurableStore [of w]
  show "wf_store w s" "runs_bound s" by (auto simp: reachable_store_def)
qed

end
