(* ===== verification/Scheduler.thy ===== *)
theory Scheduler
  imports Store_Port
begin

text \<open>
  The scheduling use cases of \<^verbatim>\<open>internal/run/scheduler\<close>: \<^verbatim>\<open>Ingestor\<close>,
  \<^verbatim>\<open>Dispatcher\<close>, \<^verbatim>\<open>Projector\<close>, \<^verbatim>\<open>Collector\<close> and \<^verbatim>\<open>Canceler\<close>. They take the
  stores as arguments, the way the Go constructors do, and the time their clock reads.
  Their guarantees are proved once, from the contracts of the ports alone.
\<close>

section \<open>Use cases\<close>

type_synonym Compiler = "Event \<Rightarrow> bytes \<Rightarrow> JobIntent list res"

fun validate_all :: "JobIntent list \<Rightarrow> unit res" where
  "validate_all [] = Inr ()"
| "validate_all (j # js) = (case JobIntent_Validate j of Inl e \<Rightarrow> Inl e | Inr _ \<Rightarrow> validate_all js)"

definition Ingest :: "'s DurableStore \<Rightarrow> Compiler \<Rightarrow> time \<Rightarrow> Delivery \<Rightarrow> ('s, RunID \<times> bool) op" where
  "Ingest store compile now d s =
     (case RecordDelivery store d s of
        (Inl e, s1) \<Rightarrow> (Inl (Wrapf (''record delivery '' @ DeliveryKey_String (d_Key d)) e), s1)
      | (Inr (rec, _), s1) \<Rightarrow>
          if dr_RunID rec \<noteq> '''' then (Inr (dr_RunID rec, False), s1)
          else
            (case compile (d_Event d) (dr_Payload rec) of
               Inl e \<Rightarrow> (Inl (Wrapf (''compile for delivery '' @ DeliveryKey_String (d_Key d)) e), s1)
             | Inr jobs \<Rightarrow>
                 (case validate_all jobs of
                    Inl e \<Rightarrow> (Inl (Wrapf (''delivery '' @ DeliveryKey_String (d_Key d)) e), s1)
                  | Inr _ \<Rightarrow>
                      if length jobs = 0 then (Inr ('''', False), s1)
                      else
                        (case CreateRun store \<lparr>rs_Delivery = d_Key d, rs_Event = d_Event d, rs_Jobs = jobs\<rparr> now s1 of
                           (Inl e, s2) \<Rightarrow>
                             (Inl (Wrapf (''create run for delivery '' @ DeliveryKey_String (d_Key d)) e), s2)
                         | (Inr (run, createdRun), s2) \<Rightarrow> (Inr (run_ID run, createdRun), s2)))))"

definition Dispatch :: "'s DurableStore \<Rightarrow> 'a ActiveExecutionStore \<Rightarrow> time \<Rightarrow> JobRunID \<Rightarrow> ('s \<times> 'a, unit) op" where
  "Dispatch durable active now i = (\<lambda>(s, x).
     case GetJobRun durable i s of
       (Inl e, s1) \<Rightarrow> (Inl (Wrapf (''load '' @ i @ '' before dispatch'') e), (s1, x))
     | (Inr job, s1) \<Rightarrow>
         if jr_Status job \<noteq> JobQueued \<and> jr_Status job \<noteq> JobDispatched
         then (Inl (Detailf ErrJobNotDispatchable (i @ '' in status '' @ status_text (jr_Status job))), (s1, x))
         else
           (case CreateOrGet active i x of
              (Inl e, x1) \<Rightarrow> (Inl (Wrapf (''ensure active object for '' @ i) e), (s1, x1))
            | (Inr ob, x1) \<Rightarrow>
                (case AckDispatched durable i \<lparr>ao_Name = CRName i, ao_UID = ao_UID ob\<rparr> now s1 of
                   (Inl e, s2) \<Rightarrow> (Inl (Wrapf (''ack dispatch '' @ i) e), (s2, x1))
                 | (Inr _, s2) \<Rightarrow> (Inr (), (s2, x1)))))"

definition DispatchNext :: "'s DurableStore \<Rightarrow> 'a ActiveExecutionStore \<Rightarrow> time \<Rightarrow> ('s \<times> 'a, JobRunRecord) op" where
  "DispatchNext durable active now = (\<lambda>(s, x).
     case ClaimNextQueuedJob durable s of
       (Inl e, s1) \<Rightarrow> (Inl e, (s1, x))
     | (Inr job, s1) \<Rightarrow>
         (case Dispatch durable active now (jr_ID job) (s1, x) of
            (Inr _, sx) \<Rightarrow> (Inr job, sx)
          | (Inl e, (s2, x2)) \<Rightarrow>
              (case ReleaseClaim durable (jr_ID job) s2 of
                 (Inl relErr, s3) \<Rightarrow>
                   (Inl (Wrapf (''dispatch '' @ jr_ID job) (Joined e (Wrapf ''release claim'' relErr))), (s3, x2))
               | (Inr _, s3) \<Rightarrow> (Inl (Wrapf (''dispatch '' @ jr_ID job) e), (s3, x2)))))"

definition Project :: "'s DurableStore \<Rightarrow> time \<Rightarrow> JobRunID \<Rightarrow> ObservedPhase \<Rightarrow> ('s, unit) op" where
  "Project durable now i phase s =
     (case ApplyObserved durable i phase now s of
        (Inl e, s1) \<Rightarrow> (Inl (Wrapf (''apply observed to '' @ i) e), s1)
      | (Inr _, s1) \<Rightarrow> (Inr (), s1))"


text \<open>
  \<^verbatim>\<open>Collect\<close> returns the number of jobs collected beside the error, if any. \<open>now n\<close> is the
  clock reading of the turn that has collected \<open>n\<close> jobs.
\<close>

fun collect_loop :: "'s DurableStore \<Rightarrow> 'a ActiveExecutionStore \<Rightarrow> (nat \<Rightarrow> time) \<Rightarrow> JobRunRecord list \<Rightarrow> nat
    \<Rightarrow> 's \<times> 'a \<Rightarrow> (nat \<times> Err option) \<times> 's \<times> 'a" where
  "collect_loop durable active now [] collected (s, x) = ((collected, None), (s, x))"
| "collect_loop durable active now (j # js) collected (s, x) =
     (case Delete active (jr_ID j) x of
        (Inl e, x1) \<Rightarrow> ((collected, Some (Wrapf (''delete active object '' @ jr_ID j) e)), (s, x1))
      | (Inr _, x1) \<Rightarrow>
          (case MarkCollected durable (jr_ID j) (now collected) s of
             (Inl e, s1) \<Rightarrow> ((collected, Some (Wrapf (''mark collected '' @ jr_ID j) e)), (s1, x1))
           | (Inr _, s1) \<Rightarrow> collect_loop durable active now js (Suc collected) (s1, x1)))"

definition Collect_jobs :: "'s DurableStore \<Rightarrow> 'a ActiveExecutionStore \<Rightarrow> (nat \<Rightarrow> time) \<Rightarrow> 's \<times> 'a
    \<Rightarrow> (nat \<times> Err option) \<times> 's \<times> 'a" where
  "Collect_jobs durable active now = (\<lambda>(s, x).
     case ListGCReadyJobs durable s of
       (Inl e, s1) \<Rightarrow> ((0, Some (Wrapf ''list gc-ready jobs'' e)), (s1, x))
     | (Inr jobs, s1) \<Rightarrow> collect_loop durable active now jobs 0 (s1, x))"

definition Cancel :: "'s DurableStore \<Rightarrow> time \<Rightarrow> RunID \<Rightarrow> ('s, unit) op" where
  "Cancel durable now i s =
     (case CancelRun durable i now s of
        (Inl e, s1) \<Rightarrow> (Inl (Wrapf (''cancel run '' @ i) e), s1)
      | (Inr _, s1) \<Rightarrow> (Inr (), s1))"

section \<open>What the use cases guarantee over any store that keeps its contract\<close>

text \<open>A job may be dispatched: it waits, or it was dispatched under its own name.\<close>

definition dispatchable :: "JobRunRecord \<Rightarrow> bool" where
  "dispatchable j \<longleftrightarrow> jr_Status j = JobQueued
     \<or> jr_Status j = JobDispatched \<and> jr_ActiveName j \<in> {'''', CRName (jr_ID j)}"

definition ack_job :: "JobRunID \<Rightarrow> string \<Rightarrow> time \<Rightarrow> JobRunRecord \<Rightarrow> JobRunRecord" where
  "ack_job i uid t j = j\<lparr>jr_Status := JobDispatched, jr_ActiveName := CRName i,
     jr_ActiveUID := uid, jr_DispatchedAt := Some t\<rparr>"

text \<open>A job whose active object the collector may remove.\<close>

definition gc_ready :: "(JobRunID \<rightharpoonup> JobRunRecord) \<Rightarrow> (RunID \<rightharpoonup> RunRecord) \<Rightarrow> JobRunID \<Rightarrow> bool" where
  "gc_ready jobm runm i \<longleftrightarrow> (\<exists>j rr. jobm i = Some j \<and> jr_ID j = i \<and> job_IsTerminal (jr_Status j)
     \<and> jr_ActiveCollectedAt j = None \<and> runm (jr_RunID j) = Some rr \<and> run_IsTerminal (run_Status rr))"

context durable_store
begin

lemma ingest_replay:
  assumes "invar s" "delivery s (d_Key x) = Some r" "dr_RunID r \<noteq> ''''"
  shows "Ingest d c t x s = (Inr (dr_RunID r, False), s)"
  using assms by (simp add: Ingest_def record_known)

text \<open>The run is created whether or not the receipt was written by an earlier, crashed attempt.\<close>

lemma ingest_creates:
  assumes inv: "invar s"
    and fresh: "case delivery s (d_Key x) of None \<Rightarrow> True | Some r \<Rightarrow> dr_RunID r = '''' \<and> dr_Payload r = d_Payload x"
    and comp: "c (d_Event x) (d_Payload x) = Inr js" "validate_all js = Inr ()" "js \<noteq> []"
      "distinct (map ji_JobKey js)"
  shows "\<exists>rr s' r'. Ingest d c t x s = (Inr (run_ID rr, True), s') \<and> invar s' \<and> run_ID rr \<noteq> ''''
    \<and> run s (run_ID rr) = None \<and> run s' = (run s)(run_ID rr \<mapsto> rr)
    \<and> delivery s' = (delivery s)(d_Key x \<mapsto> r') \<and> dr_RunID r' = run_ID rr"
proof -
  obtain r s1 b where rd: "RecordDelivery d x s = (Inr (r, b), s1)" and s1: "invar s1" "dr_RunID r = ''''"
    "dr_Payload r = d_Payload x" "delivery s1 = (delivery s)(d_Key x \<mapsto> r)" "run s1 = run s"
  proof (cases "delivery s (d_Key x)")
    case None
    from record_new [OF inv None] that show thesis by blast
  next
    case (Some r)
    with fresh record_known [OF inv Some] that inv show thesis by (auto simp: fun_upd_idem)
  qed
  let ?seed = "\<lparr>rs_Delivery = d_Key x, rs_Event = d_Event x, rs_Jobs = js\<rparr>"
  from create_new [OF s1(1), of ?seed r t] s1 comp obtain rr s' where
    "CreateRun d ?seed t s1 = (Inr (rr, True), s')" "invar s'" "run_ID rr \<noteq> ''''" "run s1 (run_ID rr) = None"
    "delivery s' = (delivery s1)(d_Key x \<mapsto> r\<lparr>dr_RunID := run_ID rr\<rparr>)" "run s' = (run s1)(run_ID rr \<mapsto> rr)"
    by auto
  with rd s1 comp show ?thesis by (force simp: Ingest_def)
qed

end

locale scheduler_ports = durable_store + active_store
begin

lemma dispatch_ok:
  assumes inv: "invar s" "ainvar x" and j: "job s i = Some j" "jr_ID j = i" "dispatchable j"
  shows "\<exists>ob s' x'. Dispatch d a t i (s, x) = (Inr (), (s', x')) \<and> invar s' \<and> ainvar x'
    \<and> obj x' = (obj x)(i \<mapsto> ob) \<and> (\<forall>ob'. obj x i = Some ob' \<longrightarrow> ob = ob')
    \<and> job s' = (job s)(i \<mapsto> ack_job i (ao_UID ob) t j)"
proof -
  from create_or_get [OF inv(2), of i] obtain ob x' where ob: "CreateOrGet a i x = (Inr ob, x')" "ainvar x'"
    "obj x' = (obj x)(i \<mapsto> ob)" "\<forall>ob'. obj x i = Some ob' \<longrightarrow> ob = ob'" by blast
  from ack_ok [OF inv(1) j(1), of "\<lparr>ao_Name = CRName i, ao_UID = ao_UID ob\<rparr>" t] j obtain s' where
    "AckDispatched d i \<lparr>ao_Name = CRName i, ao_UID = ao_UID ob\<rparr> t s = (Inr (), s')" "invar s'"
    "job s' = (job s)(i \<mapsto> ack_job i (ao_UID ob) t j)"
    by (auto simp: dispatchable_def ack_job_def)
  with ob inv j show ?thesis
    by (auto simp: Dispatch_def get_job dispatchable_def)
qed

text \<open>Dispatching twice leaves one object and one acknowledgement, the second with its own time.\<close>

lemma dispatch_twice:
  assumes inv: "invar s" "ainvar x" and j: "job s i = Some j" "jr_ID j = i" "dispatchable j"
  shows "\<exists>ob s1 x1 s2 x2. Dispatch d a t i (s, x) = (Inr (), (s1, x1)) \<and> Dispatch d a t' i (s1, x1) = (Inr (), (s2, x2))
    \<and> obj x1 = (obj x)(i \<mapsto> ob) \<and> obj x2 = obj x1 \<and> job s2 = (job s)(i \<mapsto> ack_job i (ao_UID ob) t' j)"
proof -
  from dispatch_ok [OF assms, of t] obtain ob s1 x1 where 1: "Dispatch d a t i (s, x) = (Inr (), (s1, x1))"
    "invar s1" "ainvar x1" "obj x1 = (obj x)(i \<mapsto> ob)" "job s1 = (job s)(i \<mapsto> ack_job i (ao_UID ob) t j)" by blast
  let ?j = "ack_job i (ao_UID ob) t j"
  have "job s1 i = Some ?j" "jr_ID ?j = i" "dispatchable ?j"
    using 1 j by (simp_all add: ack_job_def dispatchable_def)
  from dispatch_ok [OF 1(2,3) this, of t'] obtain ob2 s2 x2 where
    "Dispatch d a t' i (s1, x1) = (Inr (), (s2, x2))" "obj x2 = (obj x1)(i \<mapsto> ob2)"
    "\<forall>ob'. obj x1 i = Some ob' \<longrightarrow> ob2 = ob'" "job s2 = (job s1)(i \<mapsto> ack_job i (ao_UID ob2) t' ?j)" by blast
  with 1 show ?thesis by (auto simp: ack_job_def)
qed

lemma dispatch_refused:
  assumes "invar s" "job s i = Some j" "jr_Status j \<notin> {JobQueued, JobDispatched}"
  shows "Dispatch d a t i (s, x) = (Inl (Detailf ErrJobNotDispatchable (i @ '' in status '' @ status_text (jr_Status j))), (s, x))"
  using assms by (simp add: Dispatch_def get_job)

lemma dispatch_missing:
  assumes "invar s" "job s i = None"
  shows "Dispatch d a t i (s, x) = (Inl (Wrapf (''load '' @ i @ '' before dispatch'') ErrJobRunNotFound), (s, x))"
  using assms by (simp add: Dispatch_def get_job)

lemma collect_loop_ok:
  assumes "invar s" "ainvar x" "distinct (map jr_ID js)"
    "\<forall>j\<in>set js. job s (jr_ID j) = Some j \<and> jr_ActiveCollectedAt j = None"
  shows "\<exists>s' x'. collect_loop d a now js n (s, x) = ((n + length js, None), (s', x')) \<and> invar s' \<and> ainvar x'
    \<and> run s' = run s
    \<and> (\<forall>i. obj x' i = (if i \<in> jr_ID ` set js then None else obj x i))
    \<and> (\<forall>i. i \<notin> jr_ID ` set js \<longrightarrow> job s' i = job s i)
    \<and> (\<forall>j\<in>set js. \<exists>t. job s' (jr_ID j) = Some (j\<lparr>jr_ActiveCollectedAt := Some t\<rparr>))"
  using assms
proof (induction js arbitrary: s x n)
  case (Cons j js)
  from delete_ok [OF Cons.prems(2), of "jr_ID j"] obtain x1 where x1: "Delete a (jr_ID j) x = (Inr (), x1)"
    "ainvar x1" "obj x1 = (obj x)(jr_ID j := None)" by blast
  from mark_collected [OF Cons.prems(1), of "jr_ID j" j "now n"] Cons.prems(4) obtain s1 where
    s1: "MarkCollected d (jr_ID j) (now n) s = (Inr (), s1)" "invar s1" "run s1 = run s"
      "job s1 = (job s)(jr_ID j \<mapsto> j\<lparr>jr_ActiveCollectedAt := Some (now n)\<rparr>)" by auto
  have ne: "jr_ID j \<notin> jr_ID ` set js" using Cons.prems(3) by simp
  then have "\<forall>k\<in>set js. job s1 (jr_ID k) = Some k \<and> jr_ActiveCollectedAt k = None"
    using Cons.prems(4) unfolding s1(4) by (metis fun_upd_other imageI list.set_intros(2))
  from Cons.IH [OF s1(2) x1(2) _ this, of "Suc n"] Cons.prems(3) obtain s' x' where l:
    "collect_loop d a now js (Suc n) (s1, x1) = ((Suc n + length js, None), (s', x'))" "invar s'" "ainvar x'" "run s' = run s1"
    "\<forall>i. obj x' i = (if i \<in> jr_ID ` set js then None else obj x1 i)"
    "\<forall>i. i \<notin> jr_ID ` set js \<longrightarrow> job s' i = job s1 i"
    "\<forall>j\<in>set js. \<exists>t. job s' (jr_ID j) = Some (j\<lparr>jr_ActiveCollectedAt := Some t\<rparr>)" by auto
  have "collect_loop d a now (j # js) n (s, x) = ((n + length (j # js), None), (s', x'))"
    using l(1) x1(1) s1(1) by simp
  moreover have "obj x' i = (if i \<in> jr_ID ` set (j # js) then None else obj x i)" for i
    using l(5) x1(3) by auto
  moreover have "job s' i = job s i" if "i \<notin> jr_ID ` set (j # js)" for i
    using l(6) s1(4) that by auto
  moreover have "\<exists>t. job s' (jr_ID k) = Some (k\<lparr>jr_ActiveCollectedAt := Some t\<rparr>)" if "k \<in> set (j # js)" for k
    using l(6,7) s1(4) ne that by auto
  ultimately show ?case using l(2-4) s1(3) by simp
qed simp

lemma collect_ok:
  assumes inv: "invar s" "ainvar x"
  shows "\<exists>s' x'. Collect_jobs d a now (s, x) = ((card {i. gc_ready (job s) (run s) i}, None), (s', x'))
    \<and> invar s' \<and> ainvar x' \<and> run s' = run s
    \<and> (\<forall>i. obj x' i = (if gc_ready (job s) (run s) i then None else obj x i))
    \<and> (\<forall>i. \<not> gc_ready (job s) (run s) i \<longrightarrow> job s' i = job s i)
    \<and> (\<forall>i. gc_ready (job s) (run s) i \<longrightarrow>
         (\<exists>j t. job s i = Some j \<and> job s' i = Some (j\<lparr>jr_ActiveCollectedAt := Some t\<rparr>)))"
proof -
  from list_gc [OF inv(1)] obtain js where js: "ListGCReadyJobs d s = (Inr js, s)" "distinct (map jr_ID js)"
    "\<forall>j. j \<in> set js \<longleftrightarrow> job s (jr_ID j) = Some j \<and> job_IsTerminal (jr_Status j) \<and> jr_ActiveCollectedAt j = None
       \<and> (\<exists>rr. run s (jr_RunID j) = Some rr \<and> run_IsTerminal (run_Status rr))" by blast
  have gc: "i \<in> jr_ID ` set js \<longleftrightarrow> gc_ready (job s) (run s) i" for i
    unfolding gc_ready_def image_iff using js(3) by metis
  then have "{i. gc_ready (job s) (run s) i} = set (map jr_ID js)" by auto
  then have len: "length js = card {i. gc_ready (job s) (run s) i}"
    using distinct_card [OF js(2)] by simp
  have "\<forall>j\<in>set js. job s (jr_ID j) = Some j \<and> jr_ActiveCollectedAt j = None" using js(3) by simp
  from collect_loop_ok [OF inv js(2) this, of now 0] obtain s' x' where l:
    "collect_loop d a now js 0 (s, x) = ((length js, None), (s', x'))" "invar s'" "ainvar x'" "run s' = run s"
    "\<forall>i. obj x' i = (if gc_ready (job s) (run s) i then None else obj x i)"
    "\<forall>i. \<not> gc_ready (job s) (run s) i \<longrightarrow> job s' i = job s i"
    "\<forall>j\<in>set js. \<exists>t. job s' (jr_ID j) = Some (j\<lparr>jr_ActiveCollectedAt := Some t\<rparr>)" unfolding gc by auto
  have "\<exists>j t. job s i = Some j \<and> job s' i = Some (j\<lparr>jr_ActiveCollectedAt := Some t\<rparr>)"
    if "gc_ready (job s) (run s) i" for i
    using that l(7) js(3) unfolding gc [symmetric] by (metis imageE)
  with l len js(1) show ?thesis by (simp add: Collect_jobs_def)
qed

text \<open>A second pass finds nothing left to collect.\<close>

lemma collect_twice:
  assumes inv: "invar s" "ainvar x" and step: "Collect_jobs d a now (s, x) = (r, (s', x'))"
  shows "Collect_jobs d a now' (s', x') = ((0, None), (s', x'))"
proof -
  from collect_ok [OF inv, of now] step have s': "invar s'" "run s' = run s"
    "\<forall>i. \<not> gc_ready (job s) (run s) i \<longrightarrow> job s' i = job s i"
    "\<forall>i. gc_ready (job s) (run s) i \<longrightarrow> (\<exists>j t. job s i = Some j \<and> job s' i = Some (j\<lparr>jr_ActiveCollectedAt := Some t\<rparr>))"
    by auto
  have none: "\<not> gc_ready (job s') (run s') i" for i
  proof (cases "gc_ready (job s) (run s) i")
    case True
    with s'(4) show ?thesis by (force simp: gc_ready_def)
  next
    case False
    with s'(2,3) show ?thesis by (simp add: gc_ready_def)
  qed
  from list_gc [OF s'(1)] obtain js where js: "ListGCReadyJobs d s' = (Inr js, s')"
    "\<forall>j. j \<in> set js \<longleftrightarrow> job s' (jr_ID j) = Some j \<and> job_IsTerminal (jr_Status j) \<and> jr_ActiveCollectedAt j = None
       \<and> (\<exists>rr. run s' (jr_RunID j) = Some rr \<and> run_IsTerminal (run_Status rr))" by blast
  have "js = []"
  proof (cases js)
    case (Cons j _)
    with js(2) have "gc_ready (job s') (run s') (jr_ID j)"
      unfolding gc_ready_def by (metis list.set_intros(1))
    with none show ?thesis by simp
  qed
  with js(1) show ?thesis by (simp add: Collect_jobs_def)
qed

lemma dispatch_next_ok:
  assumes inv: "invar s" "ainvar x" and claim: "ClaimNextQueuedJob d s = (Inr j, s1)"
  shows "\<exists>ob s' x'. DispatchNext d a t (s, x) = (Inr j, (s', x')) \<and> invar s' \<and> ainvar x'
    \<and> obj x' = (obj x)(jr_ID j \<mapsto> ob) \<and> job s' = (job s1)(jr_ID j \<mapsto> ack_job (jr_ID j) (ao_UID ob) t j)"
proof -
  from claim_job [OF inv(1) claim] have "invar s1" "job s1 (jr_ID j) = Some j" "dispatchable j"
    by (auto simp: dispatchable_def)
  from dispatch_ok [OF this(1) inv(2) this(2) refl this(3), of t] claim show ?thesis
    by (auto simp: DispatchNext_def)
qed

end

end
