(* ===== verification/Memory_Contract.thy ===== *)
theory Memory_Contract
  imports Memory_Preservation Scheduler
begin

text \<open>
  The in-memory adapter keeps the contracts of both ports: the locales of the ports are
  interpreted on its definitions, so everything proved of the use cases holds of the
  program the tests and the single-process server run.
\<close>

section \<open>Laws of the durable store\<close>

lemma create_jobs_total:
  assumes "distinct (map ji_JobKey js)" "\<forall>j\<in>set js. ki (ji_JobKey j) = None"
  shows "\<exists>ki' jids' s'. create_jobs w rid t js ki jids s = (Inr (ki', jids'), s')"
  using assms
proof (induction js arbitrary: ki jids s)
  case (Cons x js)
  have "\<forall>j\<in>set js. (ki(ji_JobKey x \<mapsto> mint w (ids s))) (ji_JobKey j) = None"
    using Cons.prems by (auto simp: image_iff)
  then show ?case using Cons.prems
    by (simp add: NewID_def) (rule Cons.IH; simp)
qed simp

lemma mem_create_new:
  assumes wf: "wf_store w s" and rec: "deliveries s (rs_Delivery seed) = Some r" "dr_RunID r = ''''" "rs_Jobs seed \<noteq> []"
    and dist: "distinct (map ji_JobKey (rs_Jobs seed))"
  shows "\<exists>rr s'. mem_CreateRun w seed t s = (Inr (rr, True), s') \<and> wf_store w s'
    \<and> run_ID rr \<noteq> '''' \<and> mget (runs s) (run_ID rr) = None
    \<and> deliveries s' = (deliveries s)(rs_Delivery seed \<mapsto> r\<lparr>dr_RunID := run_ID rr\<rparr>)
    \<and> mget (runs s') = (mget (runs s))(run_ID rr \<mapsto> rr)"
proof -
  let ?rid = "mint w (ids s)"
  obtain ki jids s2 where cj: "create_jobs w ?rid t (rs_Jobs seed) Map.empty [] (s\<lparr>ids := Suc (ids s)\<rparr>) = (Inr (ki, jids), s2)"
    using create_jobs_total [OF dist] by (metis (mono_tags))
  have "runs s2 = runs s" "deliveries s2 = deliveries s"
    using create_jobs_inv [OF create_inv_start [OF wf] cj] by simp_all
  moreover have "?rid \<noteq> ''''" using wf_storeD(3) [OF wf] by (simp add: unique_ids_def)
  moreover have "mget (runs s) ?rid = None"
    using fresh_job(4) [OF wf_storeD(1) [OF wf]] by (simp add: mget_None_iff)
  moreover obtain x s' where step: "mem_CreateRun w seed t s = (x, s')" by fastforce
  note wf_CreateRun [OF wf step]
  ultimately show ?thesis
    using step cj unfolding mem_CreateRun_new [OF rec] by (auto simp: Let_def mget_mput_fun)
qed

lemma claim_loop_result:
  assumes "distinct cs" "\<forall>i\<in>set cs. \<exists>j. mget (jobs s) i = Some j \<and> jr_Status j = JobQueued \<and> jr_ID j = i"
    "claim_loop w cs s = (Inr j, s')"
  shows "jr_ID j \<in> set cs \<and> mget (jobs s') (jr_ID j) = Some j \<and> jr_Status j = JobQueued \<and> mget (jobs s) (jr_ID j) = Some j"
  using assms
proof (induction cs arbitrary: s)
  case (Cons i cs)
  from Cons.prems(2) obtain k where k: "mget (jobs s) i = Some k" "jr_Status k = JobQueued" "jr_ID k = i" by auto
  show ?case
  proof (cases "dependencyStateLocked s i = depsBlocked \<or> dependencyStateLocked s i = depsFailed \<and> jr_Condition (job_at s i) = ''''")
    case False
    then have "j = job_at s i \<and> s' = s\<lparr>claimed := insert i (claimed s)\<rparr>"
      using Cons.prems(3) by (auto split: depState.splits)
    with k show ?thesis by (simp add: job_at_mget)
  next
    case True
    then consider "dependencyStateLocked s i = depsBlocked" | "dependencyStateLocked s i = depsFailed" "jr_Condition (job_at s i) = ''''"
      by blast
    then show ?thesis
    proof cases
      case 1
      with Cons.IH [of s] Cons.prems show ?thesis by simp
    next
      case 2
      have ne: "i \<notin> set cs" "distinct cs" using Cons.prems(1) by simp_all
      have "\<forall>l\<in>set cs. \<exists>j. mget (jobs (skip_job w i s)) l = Some j \<and> jr_Status j = JobQueued \<and> jr_ID j = l"
        using Cons.prems(2) ne by (auto simp: mget_skip_job [OF k(1,2)])
      from Cons.IH [OF ne(2) this] Cons.prems(3) 2 ne show ?thesis
        by (auto simp: mget_skip_job [OF k(1,2)] split: if_splits)
    qed
  qed
qed simp

lemma mem_claim_result:
  assumes wf: "wf_store w s" and step: "mem_ClaimNextQueuedJob w s = (Inr j, s')"
  shows "jr_ID j \<in> set (candidates s) \<and> mget (jobs s') (jr_ID j) = Some j \<and> jr_Status j = JobQueued
    \<and> mget (jobs s) (jr_ID j) = Some j"
proof (rule claim_loop_result)
  have m: "mwf (jobs s)" using wf by (rule wf_storeD)
  show "distinct (candidates s)" using m by (rule distinct_candidates)
  show "\<forall>i\<in>set (candidates s). \<exists>j. mget (jobs s) i = Some j \<and> jr_Status j = JobQueued \<and> jr_ID j = i"
    using wf_jobsD [OF wf_storeD(4) [OF wf]] by (auto simp: set_candidates [OF m])
  show "claim_loop w (candidates s) s = (Inr j, s')"
    using step by (auto simp: mem_ClaimNextQueuedJob_def split: if_splits)
qed

lemma mem_gc_run:
  assumes wf: "wf_store w s" and r: "mget (runs s) rid = Some r"
  shows "j \<in> job_at s ` set (runJobs_at s rid) \<longleftrightarrow> mget (jobs s) (jr_ID j) = Some j \<and> jr_RunID j = rid"
    "distinct (map jr_ID (map (job_at s) (runJobs_at s rid)))"
proof -
  obtain js where js: "runJobs_at s rid = js" "distinct js" "\<And>i. i \<in> set js \<longleftrightarrow> in_run s rid i"
    using wf_index_runJobs [OF wf_storeD(6) [OF wf] r] by blast
  note wj = wf_jobsD [OF wf_storeD(4) [OF wf]]
  show "j \<in> job_at s ` set (runJobs_at s rid) \<longleftrightarrow> mget (jobs s) (jr_ID j) = Some j \<and> jr_RunID j = rid"
    unfolding js(1) image_iff Bex_def js(3) in_run_def using wj by (metis job_at_mget)
  have "jr_ID (job_at s i) = i" if "i \<in> set js" for i
    using that wj unfolding js(3) in_run_def by (metis job_at_mget)
  then have "map jr_ID (map (job_at s) js) = js" by (simp add: map_idI)
  then show "distinct (map jr_ID (map (job_at s) (runJobs_at s rid)))" using js(1,2) by simp
qed

definition gc_of_run :: "DurableMem \<Rightarrow> RunID \<Rightarrow> JobRunRecord list" where
  "gc_of_run s rid = (case mget (runs s) rid of
     None \<Rightarrow> []
   | Some r \<Rightarrow> if \<not> run_IsTerminal (run_Status r) then []
               else filter (\<lambda>j. job_IsTerminal (jr_Status j) \<and> jr_ActiveCollectedAt j = None)
                      (map (job_at s) (runJobs_at s rid)))"

lemma mem_ListGCReadyJobs_alt:
  "mem_ListGCReadyJobs s = (Inr (concat (map (gc_of_run s) (sortedRunIDsLocked s))), s)"
  by (simp add: mem_ListGCReadyJobs_def gc_of_run_def [abs_def])

lemma set_gc_of_run:
  assumes "wf_store w s"
  shows "j \<in> set (gc_of_run s rid) \<longleftrightarrow> mget (jobs s) (jr_ID j) = Some j \<and> job_IsTerminal (jr_Status j)
    \<and> jr_ActiveCollectedAt j = None \<and> jr_RunID j = rid
    \<and> (\<exists>r. mget (runs s) rid = Some r \<and> run_IsTerminal (run_Status r))"
  using mem_gc_run(1) [OF assms, of rid _ j]
  by (cases "mget (runs s) rid") (auto simp: gc_of_run_def)

lemma mem_list_gc:
  assumes wf: "wf_store w s"
  defines "js \<equiv> concat (map (gc_of_run s) (sortedRunIDsLocked s))"
  shows "distinct (map jr_ID js)"
    "j \<in> set js \<longleftrightarrow> mget (jobs s) (jr_ID j) = Some j \<and> job_IsTerminal (jr_Status j)
       \<and> jr_ActiveCollectedAt j = None
       \<and> (\<exists>r. mget (runs s) (jr_RunID j) = Some r \<and> run_IsTerminal (run_Status r))"
proof -
  have m: "mwf (runs s)" using wf by (rule wf_storeD)
  have set: "set (sortedRunIDsLocked s) = mkeys (runs s)" by (simp add: sortedRunIDsLocked_def mkeys_def)
  show "distinct (map jr_ID js)"
    unfolding js_def
  proof (rule distinct_map_concat)
    show "distinct (sortedRunIDsLocked s)" using m by (simp add: sortedRunIDsLocked_def mwf_def)
    show "distinct (map jr_ID (gc_of_run s rid))" for rid
      using mem_gc_run(2) [OF wf, of rid] by (auto simp: gc_of_run_def distinct_map_filter split: option.splits)
    show "jr_ID ` set (gc_of_run s x) \<inter> jr_ID ` set (gc_of_run s y) = {}" if "x \<noteq> y" for x y
      using that by (auto simp: set_gc_of_run [OF wf])
  qed
  show "j \<in> set js \<longleftrightarrow> mget (jobs s) (jr_ID j) = Some j \<and> job_IsTerminal (jr_Status j)
      \<and> jr_ActiveCollectedAt j = None \<and> (\<exists>r. mget (runs s) (jr_RunID j) = Some r \<and> run_IsTerminal (run_Status r))"
    by (auto simp: js_def set set_gc_of_run [OF wf] dest: mget_in_keys)
qed

section \<open>Interpretations\<close>

interpretation mem: durable_store "mem_store w" "wf_store w" deliveries "\<lambda>s. mget (runs s)" "\<lambda>s. mget (jobs s)"
  for w
proof (unfold_locales, goal_cases)
  case (1 s x r)
  then show ?case by (simp add: mem_store_def mem_RecordDelivery_def)
next
  case (2 s x)
  then show ?case
    using wf_RecordDelivery [of w s x] by (auto simp: mem_store_def mem_RecordDelivery_def read_clock_def Let_def)
next
  case (3 s seed r t)
  then obtain rr where "mget (runs s) (dr_RunID r) = Some rr"
    using wf_storeD(7) [of w s] mget_None_iff by (fastforce simp: wf_deliveries_def)
  with 3 show ?case
    using wf_storeD(5) [of w s] by (auto simp: mem_store_def mem_CreateRun_def getRunLocked_def wf_runs_def)
next
  case (4 s seed r t)
  then show ?case using mem_create_new [of w s seed r t] by (simp add: mem_store_def)
next
  case (5 s i)
  then show ?case by (simp add: mem_store_def mem_GetJobRun_def split: option.splits)
next
  case (6 s res s')
  then show ?case
    using wf_ClaimNextQueuedJob [of w s res s'] mem_claim_result [of w s _ s'] by (auto simp: mem_store_def)
next
  case (7 s i)
  then show ?case by (simp add: mem_store_def mem_ReleaseClaim_def)
next
  case (8 s i j ob t)
  obtain x s' where step: "mem_AckDispatched i ob t s = (x, s')" by fastforce
  with wf_AckDispatched [OF 8(1) step] 8(2,3) show ?case
    by (auto simp: mem_store_def mem_AckDispatched_def mget_mput_fun)
next
  case (9 s i j ob t)
  then show ?case by (cases "jr_Status j") (simp_all add: mem_store_def mem_AckDispatched_def)
next
  case (10 s)
  then show ?case using mem_list_gc [OF 10] by (simp add: mem_store_def mem_ListGCReadyJobs_alt)
next
  case (11 s i j t)
  obtain x s' where step: "mem_MarkCollected i t s = (x, s')" by fastforce
  with wf_MarkCollected [OF 11(1) step] 11(2,3) show ?case
    by (auto simp: mem_store_def mem_MarkCollected_def mget_mput_fun)
qed

text \<open>The active store names its objects after the job.\<close>

definition wf_active :: "ActiveMem \<Rightarrow> bool" where
  "wf_active x \<longleftrightarrow> (\<forall>i ob. objects x i = Some ob \<longrightarrow> ao_Name ob = CRName i \<and> ao_UID ob \<noteq> '''')"

interpretation mem_act: active_store mem_active wf_active objects
proof (unfold_locales, goal_cases)
  case (1 x i ob)
  then show ?case by (simp add: mem_active_def mem_CreateOrGet_def wf_active_def)
next
  case (2 x i)
  then show ?case
    by (auto simp: mem_active_def mem_CreateOrGet_def wf_active_def Let_def)
next
  case (3 x i)
  then show ?case by (simp add: mem_active_def mem_Delete_def wf_active_def)
qed

interpretation mem_ports: scheduler_ports "mem_store w" "wf_store w" deliveries "\<lambda>s. mget (runs s)" "\<lambda>s. mget (jobs s)"
  mem_active wf_active objects for w
  by unfold_locales

end
