(* ===== verification/Scheduler_System.thy ===== *)
theory Scheduler_System
  imports Store_Steps Memory_Contract
begin

text \<open>
  Dispatchers, collectors and every other client running concurrently. A step is a single
  port call, so between any two calls of a use case anything else may happen, a crash
  included. What a use case remembers between two calls is process-local state: the jobs a
  dispatcher has checked, the objects it has made, the jobs a collector has listed and the
  ones whose objects it has deleted.
\<close>

section \<open>The system\<close>

record system =
  durable :: DurableMem
  active :: ActiveMem
  checked :: "JobRunID multiset"
  made :: "(JobRunID \<times> ActiveObject) multiset"
  listed :: "JobRunID multiset"
  deleted :: "JobRunID multiset"

definition init_system :: system where
  "init_system = \<lparr>durable = NewDurableStore, active = NewActiveStore, checked = {#}, made = {#},
     listed = {#}, deleted = {#}\<rparr>"

inductive sys_step :: "world \<Rightarrow> system \<Rightarrow> system \<Rightarrow> bool" for w where
  store: "store_step w (durable c) s' \<Longrightarrow> sys_step w c (c\<lparr>durable := s'\<rparr>)"
| check: "mem_GetJobRun i (durable c) = (Inr j, s') \<Longrightarrow> jr_Status j = JobQueued \<or> jr_Status j = JobDispatched \<Longrightarrow>
    sys_step w c (c\<lparr>checked := add_mset i (checked c)\<rparr>)"
| make: "i \<in># checked c \<Longrightarrow> mem_CreateOrGet i (active c) = (Inr ob, x') \<Longrightarrow>
    sys_step w c (c\<lparr>active := x', checked := checked c - {#i#}, made := add_mset (i, ob) (made c)\<rparr>)"
| acknowledge: "(i, ob) \<in># made c \<Longrightarrow>
    mem_AckDispatched i \<lparr>ao_Name = CRName i, ao_UID = ao_UID ob\<rparr> t (durable c) = (r, s') \<Longrightarrow>
    sys_step w c (c\<lparr>durable := s', made := made c - {#(i, ob)#}\<rparr>)"
| list: "mem_ListGCReadyJobs (durable c) = (Inr js, s') \<Longrightarrow>
    sys_step w c (c\<lparr>listed := listed c + mset (map jr_ID js)\<rparr>)"
| delete: "i \<in># listed c \<Longrightarrow> mem_Delete i (active c) = (Inr (), x') \<Longrightarrow>
    sys_step w c (c\<lparr>active := x', listed := listed c - {#i#}, deleted := add_mset i (deleted c)\<rparr>)"
| mark_deleted: "i \<in># deleted c \<Longrightarrow> mem_MarkCollected i t (durable c) = (r, s') \<Longrightarrow>
    sys_step w c (c\<lparr>durable := s', deleted := deleted c - {#i#}\<rparr>)"
| crash: "ck \<subseteq># checked c \<Longrightarrow> mk \<subseteq># made c \<Longrightarrow> ls \<subseteq># listed c \<Longrightarrow> dl \<subseteq># deleted c \<Longrightarrow>
    sys_step w c (c\<lparr>checked := ck, made := mk, listed := ls, deleted := dl\<rparr>)"

inductive_cases sys_stepE: "sys_step w c c'"

section \<open>Invariant\<close>

definition known_job :: "system \<Rightarrow> JobRunID \<Rightarrow> bool" where
  "known_job c i \<longleftrightarrow> i \<in> mkeys (jobs (durable c))"

definition terminal_job :: "system \<Rightarrow> JobRunID \<Rightarrow> bool" where
  "terminal_job c i \<longleftrightarrow> (\<exists>j. mget (jobs (durable c)) i = Some j \<and> job_IsTerminal (jr_Status j))"

text \<open>A recorded object name is always the one derived from the job.\<close>

definition names_ok :: "DurableMem \<Rightarrow> bool" where
  "names_ok s \<longleftrightarrow> (\<forall>i j. mget (jobs s) i = Some j \<longrightarrow> jr_ActiveName j \<in> {'''', CRName i})"

definition sys_inv :: "world \<Rightarrow> system \<Rightarrow> bool" where
  "sys_inv w c \<longleftrightarrow> wf_store w (durable c) \<and> wf_active (active c) \<and> names_ok (durable c)
     \<and> (\<forall>i \<in># checked c. known_job c i) \<and> (\<forall>p \<in># made c. known_job c (fst p))
     \<and> (\<forall>i. objects (active c) i \<noteq> None \<longrightarrow> known_job c i)
     \<and> (\<forall>i \<in># listed c. terminal_job c i) \<and> (\<forall>i \<in># deleted c. terminal_job c i)"

lemma jobs_evolve_known: "jobs_evolve (durable c) (durable c') \<Longrightarrow> known_job c i \<Longrightarrow> known_job c' i"
  unfolding known_job_def jobs_evolve_def by (metis mget_None_iff option.exhaust option.distinct(1))

lemma jobs_evolve_terminal: "jobs_evolve (durable c) (durable c') \<Longrightarrow> terminal_job c i \<Longrightarrow> terminal_job c' i"
  unfolding terminal_job_def jobs_evolve_def evolves_def by metis

text \<open>New jobs start without an object name; existing ones keep theirs or get the derived one.\<close>

definition new_jobs_blank :: "DurableMem \<Rightarrow> DurableMem \<Rightarrow> bool" where
  "new_jobs_blank s s' \<longleftrightarrow>
     (\<forall>i j. mget (jobs s) i = None \<longrightarrow> mget (jobs s') i = Some j \<longrightarrow> jr_ActiveName j = '''')"

lemma new_jobs_blank_same: "mkeys (jobs s') \<subseteq> mkeys (jobs s) \<Longrightarrow> new_jobs_blank s s'"
  unfolding new_jobs_blank_def by (metis mget_None_iff mget_in_keys subsetD)

lemma new_jobs_blank_add:
  "jobs s' = mput (jobs s) i j \<Longrightarrow> jr_ActiveName j = '''' \<Longrightarrow> new_jobs_blank s s'"
  by (auto simp: new_jobs_blank_def)

lemma create_jobs_blank:
  "create_jobs w rid t js ki jids s = (res, s') \<Longrightarrow>
   mget (jobs s') i = mget (jobs s) i \<or> (\<exists>j. mget (jobs s') i = Some j \<and> jr_ActiveName j = '''')"
proof (induction js arbitrary: ki jids s)
  case (Cons x js)
  show ?case
  proof (cases "ki (ji_JobKey x)")
    case None
    let ?s = "put_job (mint w (ids s)) (job_of_intent (mint w (ids s)) rid t x) (s\<lparr>ids := Suc (ids s)\<rparr>)"
    from Cons.prems None have "create_jobs w rid t js (ki(ji_JobKey x \<mapsto> mint w (ids s))) (jids @ [mint w (ids s)]) ?s = (res, s')"
      by (simp add: NewID_def)
    from Cons.IH [OF this] show ?thesis
      by (auto simp: job_of_intent_def zero_JobRunRecord_def)
  qed (use Cons.prems in auto)
qed auto

lemma CreateRun_blank:
  assumes "mem_CreateRun w seed t s = (r, s')"
  shows "new_jobs_blank s s'"
proof (cases "\<exists>rec. deliveries s (rs_Delivery seed) = Some rec \<and> dr_RunID rec = '''' \<and> rs_Jobs seed \<noteq> []")
  case False
  then have "s' = s" using assms by (auto simp: mem_CreateRun_def split: option.splits if_splits sum.splits)
  then show ?thesis by (simp add: new_jobs_blank_def)
next
  case True
  then obtain rec where rec: "deliveries s (rs_Delivery seed) = Some rec" "dr_RunID rec = ''''" "rs_Jobs seed \<noteq> []"
    by blast
  obtain res s2 where cj: "create_jobs w (mint w (ids s)) t (rs_Jobs seed) Map.empty [] (s\<lparr>ids := Suc (ids s)\<rparr>) = (res, s2)"
    by fastforce
  have "jobs s' = jobs s2"
    using assms cj by (auto simp: mem_CreateRun_new [OF rec] Let_def split: sum.splits prod.splits)
  moreover have "jobs (s\<lparr>ids := Suc (ids s)\<rparr>) = jobs s" by simp
  ultimately show ?thesis
    using create_jobs_blank [OF cj] unfolding new_jobs_blank_def by (metis option.distinct(1) option.inject)
qed

lemma mkeys_skip: "mget (jobs s) i = Some j \<Longrightarrow> mkeys (jobs (skip_job w i s)) = mkeys (jobs s)"
  by (auto simp: skip_job_def Let_def read_clock_def dest: mget_in_keys split: sum.splits)

lemma mkeys_claim_loop:
  "claim_loop w cs s = (r, s') \<Longrightarrow> set cs \<subseteq> mkeys (jobs s) \<Longrightarrow> mkeys (jobs s') = mkeys (jobs s)"
proof (induction cs arbitrary: s)
  case (Cons i cs)
  then obtain j where "mget (jobs s) i = Some j" by (metis mget_None_iff option.exhaust list.set_intros(1) subsetD)
  from mkeys_skip [OF this] Cons show ?case by (auto split: depState.splits if_splits)
qed simp

lemma mkeys_claim:
  assumes "wf_store w s" "mem_ClaimNextQueuedJob w s = (r, s')"
  shows "mkeys (jobs s') = mkeys (jobs s)"
proof -
  have "set (candidates s) \<subseteq> mkeys (jobs s)"
    using set_candidates [OF wf_storeD(8) [OF assms(1)]] by (auto dest: mget_in_keys)
  with assms(2) mkeys_claim_loop show ?thesis by (auto simp: mem_ClaimNextQueuedJob_def split: if_splits)
qed

lemma mkeys_cancel:
  assumes "wf_store w s" "mem_CancelRun rid t s = (x, s')"
  shows "mkeys (jobs s') = mkeys (jobs s)"
proof (cases "\<exists>r. mget (runs s) rid = Some r \<and> \<not> run_IsTerminal (run_Status r)")
  case True
  then obtain r where "mget (runs s) rid = Some r" "\<not> run_IsTerminal (run_Status r)" by blast
  from cancel_open(4) [OF assms(1) this assms(2)] show ?thesis
    unfolding set_eq_iff by (metis mget_None_iff map_option_is_None)
next
  case False
  then have "s' = s" using assms(2) by (auto simp: mem_CancelRun_def split: option.splits if_splits)
  then show ?thesis by simp
qed

lemma store_step_blank:
  assumes "store_step w s s'" "wf_store w s"
  shows "new_jobs_blank s s'"
  using assms
proof (induction rule: store_step.induct)
  case (create_run seed t s r s')
  then show ?case by (intro CreateRun_blank)
next
  case (claim s r s')
  then show ?case by (simp add: mkeys_claim new_jobs_blank_same)
next
  case (cancel rid t s r s')
  then show ?case by (simp add: mkeys_cancel new_jobs_blank_same)
next
  case (rerequest i t s r s')
  then have "jobs s' = jobs s \<or> (\<exists>orig. jobs s' = mput (jobs s) (mint w (ids s)) (next_attempt (mint w (ids s)) t orig))"
    by (auto simp: mem_RerequestJob_def NewID_def Let_def split: option.splits if_splits)
  moreover have "jr_ActiveName (next_attempt n t orig) = ''''" for n orig
    by (simp add: next_attempt_def zero_JobRunRecord_def)
  ultimately show ?case by (auto intro: new_jobs_blank_same new_jobs_blank_add)
qed (auto simp: mem_RecordDelivery_def read_clock_def mem_ReleaseClaim_def mem_AckDispatched_def mem_ApplyObserved_def
      mem_MarkCollected_def Let_def dest: mget_in_keys intro!: new_jobs_blank_same
      split: option.splits if_splits JobRunStatus.splits)

lemma names_ok_step:
  assumes "names_ok s" "wf_store w s" "jobs_evolve s s'" "new_jobs_blank s s'"
  shows "names_ok s'"
  unfolding names_ok_def
proof (intro allI impI)
  fix i j assume j: "mget (jobs s') i = Some j"
  show "jr_ActiveName j \<in> {'''', CRName i}"
  proof (cases "mget (jobs s) i")
    case None
    with assms(4) j show ?thesis by (simp add: new_jobs_blank_def)
  next
    case (Some k)
    with assms(3) j have "evolves k j" by (force simp: jobs_evolve_def)
    moreover have "jr_ID k = i" using wf_jobsD [OF wf_storeD(4) [OF assms(2)] Some] by simp
    ultimately show ?thesis using assms(1) Some unfolding names_ok_def evolves_def by (metis insertCI)
  qed
qed

lemma sys_inv_store:
  assumes "sys_inv w c" "store_step w (durable c) s'"
  shows "sys_inv w (c\<lparr>durable := s'\<rparr>)" "jobs_evolve (durable c) s'"
proof -
  have wf: "wf_store w (durable c)" using assms(1) by (simp add: sys_inv_def)
  from store_step_ok [OF assms(2) wf] have ok: "wf_store w s'" "jobs_evolve (durable c) s'" by simp_all
  then show "jobs_evolve (durable c) s'" by simp
  have "names_ok s'"
    using names_ok_step [OF _ wf ok(2) store_step_blank [OF assms(2) wf]] assms(1) by (simp add: sys_inv_def)
  with ok assms(1) jobs_evolve_known [of c "c\<lparr>durable := s'\<rparr>"] jobs_evolve_terminal [of c "c\<lparr>durable := s'\<rparr>"]
  show "sys_inv w (c\<lparr>durable := s'\<rparr>)" by (auto simp: sys_inv_def)
qed

text \<open>Process-local bookkeeping does not touch what the invariant says of the stores.\<close>

lemma sys_inv_local:
  assumes "sys_inv w c" "durable c' = durable c" "active c' = active c"
    "\<forall>i \<in># checked c'. known_job c i" "\<forall>p \<in># made c'. known_job c (fst p)"
    "\<forall>i \<in># listed c'. terminal_job c i" "\<forall>i \<in># deleted c'. terminal_job c i"
  shows "sys_inv w c'"
  using assms by (simp add: sys_inv_def known_job_def terminal_job_def)

lemma gc_listed_terminal:
  assumes "wf_store w s" "mem_ListGCReadyJobs s = (Inr js, s')" "j \<in> set js"
  shows "mget (jobs s) (jr_ID j) = Some j" "job_IsTerminal (jr_Status j)" "jr_ActiveCollectedAt j = None"
  using assms mem_list_gc(2) [OF assms(1), of j] by (auto simp: mem_ListGCReadyJobs_alt)

lemma sys_inv_step:
  assumes "sys_step w c c'" "sys_inv w c"
  shows "sys_inv w c' \<and> jobs_evolve (durable c) (durable c')"
  using assms
proof (induction rule: sys_step.induct)
  case (store c s')
  then show ?case using sys_inv_store by simp
next
  case (check i c j s')
  then have "known_job c i"
    by (auto simp: mem_GetJobRun_def known_job_def dest: mget_in_keys split: option.splits)
  with check(3) show ?case by (auto simp: sys_inv_def known_job_def terminal_job_def)
next
  case (make i c ob x')
  then have k: "known_job c i" by (simp add: sys_inv_def)
  have "wf_active x' \<and> objects x' = (objects (active c))(i \<mapsto> ob)"
    using mem_act.create_or_get [of "active c" i] make by (auto simp: mem_active_def sys_inv_def)
  with k make(3) show ?case by (auto simp: sys_inv_def known_job_def terminal_job_def dest: in_diffD split: if_splits)
next
  case (acknowledge i ob c t r s')
  then have st: "store_step w (durable c) s'" by (auto intro: store_step.ack)
  note inv = sys_inv_store [OF acknowledge(3) st]
  have "sys_inv w (c\<lparr>durable := s', made := made c - {#(i, ob)#}\<rparr>)"
    by (rule sys_inv_local [OF inv(1)]) (use inv(1) in \<open>auto simp: sys_inv_def dest: in_diffD\<close>)
  with inv(2) show ?case by simp
next
  case (list c js s')
  then have "\<forall>i \<in> set (map jr_ID js). terminal_job c i"
    using gc_listed_terminal [of w "durable c" js s'] by (auto simp: sys_inv_def terminal_job_def)
  with list(2) show ?case by (auto simp: sys_inv_def known_job_def terminal_job_def)
next
  case (delete i c x')
  then have "terminal_job c i" by (simp add: sys_inv_def)
  moreover have "wf_active x' \<and> objects x' = (objects (active c))(i := None)"
    using mem_act.delete_ok [of "active c" i] delete by (auto simp: mem_active_def sys_inv_def)
  ultimately show ?case using delete(3)
    by (auto simp: sys_inv_def known_job_def terminal_job_def dest: in_diffD split: if_splits)
next
  case (mark_deleted i c t r s')
  then have st: "store_step w (durable c) s'" by (auto intro: store_step.mark)
  note inv = sys_inv_store [OF mark_deleted(3) st]
  have "sys_inv w (c\<lparr>durable := s', deleted := deleted c - {#i#}\<rparr>)"
    by (rule sys_inv_local [OF inv(1)]) (use inv(1) in \<open>auto simp: sys_inv_def dest: in_diffD\<close>)
  with inv(2) show ?case by simp
next
  case (crash ck c mk ls dl)
  then show ?case by (auto simp: sys_inv_def known_job_def terminal_job_def dest: mset_subset_eqD)
qed

lemma sys_inv_init: "unique_ids w \<Longrightarrow> sys_inv w init_system"
  by (simp add: sys_inv_def init_system_def wf_NewDurableStore wf_active_def names_ok_def NewActiveStore_def)
    (simp add: NewDurableStore_def)

lemma sys_steps_inv:
  assumes "(sys_step w)\<^sup>*\<^sup>* c c'" "sys_inv w c"
  shows "sys_inv w c' \<and> jobs_evolve (durable c) (durable c')"
  using assms
  by (induction rule: rtranclp_induct) (auto dest: sys_inv_step jobs_evolve_trans)

definition reachable :: "world \<Rightarrow> system \<Rightarrow> bool" where
  "reachable w c \<longleftrightarrow> (sys_step w)\<^sup>*\<^sup>* init_system c"

lemma reachable_inv: "unique_ids w \<Longrightarrow> reachable w c \<Longrightarrow> sys_inv w c"
  using sys_steps_inv sys_inv_init by (auto simp: reachable_def)

end
