(* ===== verification/Claim_Order.thy ===== *)
theory Claim_Order
  imports Memory_Contract
begin

text \<open>
  What claiming promises: the job handed out is the oldest one that is ready, nothing ready
  is passed over, and a job is ready exactly when every job it needs has succeeded. The
  loop of the claim also skips jobs with failed dependencies; skipping one never makes
  another ready.
\<close>

definition deps_succeeded :: "DurableMem \<Rightarrow> JobRunRecord \<Rightarrow> bool" where
  "deps_succeeded s j \<longleftrightarrow> (\<forall>k \<in> set (jr_DependsOn j).
     \<exists>d. byJobKey_at s (jr_RunID j) k = Some d \<and> jr_Status (job_at s d) = JobSucceeded)"

definition deps_failed :: "DurableMem \<Rightarrow> JobRunRecord \<Rightarrow> bool" where
  "deps_failed s j \<longleftrightarrow> (\<exists>k \<in> set (jr_DependsOn j).
     \<exists>d. byJobKey_at s (jr_RunID j) k = Some d \<and> jr_Status (job_at s d) \<in> {JobFailed, JobCancelled, JobSkipped})"

lemma dep_loop_ready:
  "dep_loop s rid ks st = depsReady \<longleftrightarrow> st = depsReady
     \<and> (\<forall>k \<in> set ks. \<exists>d. byJobKey_at s rid k = Some d \<and> jr_Status (job_at s d) = JobSucceeded)"
proof (induction ks arbitrary: st)
  case (Cons k ks)
  show ?case
  proof (cases "byJobKey_at s rid k")
    case (Some d)
    with Cons show ?thesis by (cases "jr_Status (job_at s d)") auto
  qed simp
qed simp

lemma dep_loop_failed:
  "st \<noteq> depsFailed \<Longrightarrow> dep_loop s rid ks st = depsFailed \<Longrightarrow>
   \<exists>k \<in> set ks. \<exists>d. byJobKey_at s rid k = Some d \<and> jr_Status (job_at s d) \<in> {JobFailed, JobCancelled, JobSkipped}"
proof (induction ks arbitrary: st)
  case (Cons k ks)
  show ?case
  proof (cases "byJobKey_at s rid k")
    case (Some d)
    with Cons show ?thesis by (cases "jr_Status (job_at s d)") auto
  qed (use Cons.prems in simp)
qed simp

lemma dependencyState_ready:
  "mget (jobs s) i = Some j \<Longrightarrow> dependencyStateLocked s i = depsReady \<longleftrightarrow> deps_succeeded s j"
  by (auto simp: dependencyStateLocked_def deps_succeeded_def dep_loop_ready)

lemma dependencyState_failed:
  "mget (jobs s) i = Some j \<Longrightarrow> dependencyStateLocked s i = depsFailed \<Longrightarrow> deps_failed s j"
  using dep_loop_failed [of depsReady s "jr_RunID j" "jr_DependsOn j"]
  by (auto simp: dependencyStateLocked_def deps_failed_def split: if_splits)

text \<open>Skipping a queued job changes no other job's readiness.\<close>

lemma deps_succeeded_skip:
  assumes "mget (jobs s) p = Some q" "jr_Status q = JobQueued"
  shows "deps_succeeded (skip_job w p s) j = deps_succeeded s j"
proof -
  have "byJobKey_at (skip_job w p s) r k = byJobKey_at s r k" for r k
    by (simp add: byJobKey_at_def skip_job_queued [OF assms])
  moreover have "jr_Status (job_at (skip_job w p s) d) = JobSucceeded \<longleftrightarrow> jr_Status (job_at s d) = JobSucceeded" for d
    using assms by (simp add: job_at_def mget_skip_job [OF assms])
  ultimately show ?thesis by (simp add: deps_succeeded_def)
qed

lemma claimed_skip: "claimed (skip_job w i s) = claimed s"
  by (auto simp: skip_job_def Let_def read_clock_def split: sum.splits)

lemma deps_state_claimed:
  "deps_failed (s\<lparr>claimed := c\<rparr>) j = deps_failed s j"
  by (simp add: deps_failed_def byJobKey_at_def job_at_def)

definition ready_job :: "DurableMem \<Rightarrow> JobRunID \<Rightarrow> bool" where
  "ready_job s i \<longleftrightarrow> (\<exists>j. mget (jobs s) i = Some j \<and> jr_Status j = JobQueued \<and> deps_succeeded s j)"

lemma ready_job_skip:
  assumes "mget (jobs s) p = Some q" "jr_Status q = JobQueued" "i \<noteq> p"
  shows "ready_job (skip_job w p s) i = ready_job s i"
  using assms by (simp add: ready_job_def mget_skip_job deps_succeeded_skip)

lemma claim_loop_order:
  assumes "distinct cs" "\<forall>i\<in>set cs. \<exists>j. mget (jobs s) i = Some j \<and> jr_Status j = JobQueued \<and> jr_ID j = i"
  shows "claim_loop w cs s = (Inl e, s') \<Longrightarrow> e = ErrNoQueuedJob \<and> (\<forall>i\<in>set cs. \<not> ready_job s i)"
    and "claim_loop w cs s = (Inr j, s') \<Longrightarrow> \<exists>pre post. cs = pre @ jr_ID j # post
      \<and> (\<forall>i\<in>set pre. \<not> ready_job s i) \<and> (deps_succeeded s j \<or> jr_Condition j \<noteq> '''' \<and> deps_failed s' j)
      \<and> claimed s' = insert (jr_ID j) (claimed s)"
proof -
  have "(claim_loop w cs s = (Inl e, s') \<longrightarrow> e = ErrNoQueuedJob \<and> (\<forall>i\<in>set cs. \<not> ready_job s i))
    \<and> (claim_loop w cs s = (Inr j, s') \<longrightarrow> (\<exists>pre post. cs = pre @ jr_ID j # post
      \<and> (\<forall>i\<in>set pre. \<not> ready_job s i) \<and> (deps_succeeded s j \<or> jr_Condition j \<noteq> '''' \<and> deps_failed s' j)
      \<and> claimed s' = insert (jr_ID j) (claimed s)))" (is "?err cs s \<and> ?ok cs s")
    using assms
  proof (induction cs arbitrary: s)
    case (Cons p cs)
    from Cons.prems obtain q where q: "mget (jobs s) p = Some q" "jr_Status q = JobQueued" "jr_ID q = p" by auto
    have ne: "p \<notin> set cs" "distinct cs" using Cons.prems(1) by simp_all
    note at = job_at_mget [OF q(1)]
    have here: "\<exists>pre post. p # cs = pre @ p # post \<and> (\<forall>i\<in>set pre. \<not> ready_job s i)"
      by (rule exI [of _ "[]"]) simp
    have later: "\<exists>pre' post'. p # cs = pre' @ x # post' \<and> (\<forall>i\<in>set pre'. \<not> ready_job s i)"
      if "cs = pre @ x # post" "\<forall>i\<in>set pre. \<not> ready_job s i" "\<not> ready_job s p" for pre x post
      by (rule exI [of _ "p # pre"]) (use that in auto)
    show ?case
    proof (cases "dependencyStateLocked s p")
      case depsReady
      then have eq: "claim_loop w (p # cs) s = (Inr q, s\<lparr>claimed := insert p (claimed s)\<rparr>)" by (simp add: at)
      have "deps_succeeded s q" using depsReady dependencyState_ready [OF q(1)] by simp
      then show ?thesis unfolding eq using q(3) here by auto
    next
      case depsBlocked
      then have nr: "\<not> ready_job s p" using dependencyState_ready [OF q(1)] q(1) by (simp add: ready_job_def)
      have eq: "claim_loop w (p # cs) s = claim_loop w cs s" using depsBlocked by simp
      have "?err cs s \<and> ?ok cs s" by (rule Cons.IH [OF ne(2)]) (use Cons.prems(2) in simp)
      with nr later show ?thesis unfolding eq by fastforce
    next
      case depsFailed
      then have nr: "\<not> ready_job s p" using dependencyState_ready [OF q(1)] q(1) by (simp add: ready_job_def)
      show ?thesis
      proof (cases "jr_Condition q = ''''")
        case False
        then have eq: "claim_loop w (p # cs) s = (Inr q, s\<lparr>claimed := insert p (claimed s)\<rparr>)"
          using depsFailed by (simp add: at)
        then show ?thesis
          unfolding eq using q(3) False dependencyState_failed [OF q(1) depsFailed] here
          by (auto simp: deps_state_claimed)
      next
        case True
        let ?s = "skip_job w p s"
        have eq: "claim_loop w (p # cs) s = claim_loop w cs ?s" using depsFailed True by (simp add: at)
        have "\<forall>i\<in>set cs. \<exists>j. mget (jobs ?s) i = Some j \<and> jr_Status j = JobQueued \<and> jr_ID j = i"
          using Cons.prems(2) ne by (auto simp: mget_skip_job [OF q(1,2)])
        from Cons.IH [OF ne(2) this] have ih: "?err cs ?s \<and> ?ok cs ?s" .
        have rd: "ready_job ?s i = ready_job s i" if "i \<in> set cs" for i
          using that ne by (intro ready_job_skip [OF q(1,2)]) auto
        show ?thesis unfolding eq
        proof (intro conjI impI)
          assume "claim_loop w cs ?s = (Inl e, s')"
          with ih nr rd show "e = ErrNoQueuedJob" "\<forall>i\<in>set (p # cs). \<not> ready_job s i" by auto
        next
          assume "claim_loop w cs ?s = (Inr j, s')"
          with ih obtain pre post where l: "cs = pre @ jr_ID j # post" "\<forall>i\<in>set pre. \<not> ready_job ?s i"
            "deps_succeeded s j \<or> jr_Condition j \<noteq> '''' \<and> deps_failed s' j" "claimed s' = insert (jr_ID j) (claimed s)"
            unfolding claimed_skip deps_succeeded_skip [OF q(1,2)] by blast
          with rd have "\<forall>i\<in>set pre. \<not> ready_job s i" by simp
          from later [OF l(1) this nr] l(3,4) show "\<exists>pre post. p # cs = pre @ jr_ID j # post
            \<and> (\<forall>i\<in>set pre. \<not> ready_job s i) \<and> (deps_succeeded s j \<or> jr_Condition j \<noteq> '''' \<and> deps_failed s' j)
            \<and> claimed s' = insert (jr_ID j) (claimed s)" by blast
        qed
      qed
    qed
  qed simp
  then show "claim_loop w cs s = (Inl e, s') \<Longrightarrow> e = ErrNoQueuedJob \<and> (\<forall>i\<in>set cs. \<not> ready_job s i)"
    "claim_loop w cs s = (Inr j, s') \<Longrightarrow> \<exists>pre post. cs = pre @ jr_ID j # post
      \<and> (\<forall>i\<in>set pre. \<not> ready_job s i) \<and> (deps_succeeded s j \<or> jr_Condition j \<noteq> '''' \<and> deps_failed s' j)
      \<and> claimed s' = insert (jr_ID j) (claimed s)" by simp_all
qed

lemma candidates_order:
  assumes "mwf (jobs s)" "candidates s = pre @ x # post" "y \<in> set (x # post)"
    "mget (jobs s) x = Some jx" "mget (jobs s) y = Some jy"
  shows "(jr_CreatedAt jx, x) \<le> (jr_CreatedAt jy, y)"
proof -
  let ?ps = "sort (map (\<lambda>(i, j). (jr_CreatedAt j, i))
     (filter (\<lambda>(i, j). jr_Status j = JobQueued \<and> i \<notin> claimed s) (jobs s)))"
  have fst: "fst p = jr_CreatedAt j" if "p \<in> set ?ps" "mget (jobs s) (snd p) = Some j" for p j
    using that assms(1) by (auto simp: mget_set)
  from assms(2) obtain p1 p p2 where ps: "?ps = p1 @ p # p2" "map snd p1 = pre" "snd p = x" "map snd p2 = post"
    by (auto simp: candidates_def map_eq_append_conv map_eq_Cons_conv)
  have "y \<in> snd ` set (p # p2)" using assms(3) ps(3,4) by force
  then obtain q where q: "q \<in> set (p # p2)" "snd q = y" by (elim imageE) simp
  have "sorted (p1 @ p # p2)" by (metis ps(1) sorted_sort)
  with q(1) have "p \<le> q" by (auto simp: sorted_append)
  moreover have "p = (jr_CreatedAt jx, x)" using fst [of p jx] ps assms(4) by (simp add: prod_eq_iff)
  moreover have "q = (jr_CreatedAt jy, y)" using fst [of q jy] ps q assms(5) by (auto simp: prod_eq_iff)
  ultimately show ?thesis by simp
qed

lemma claim_spec:
  assumes wf: "wf_store w s"
  shows "mem_ClaimNextQueuedJob w s = (Inl e, s') \<Longrightarrow>
      e = ErrNoQueuedJob \<and> (\<forall>i. i \<notin> claimed s \<longrightarrow> \<not> ready_job s i)"
    and "mem_ClaimNextQueuedJob w s = (Inr j, s') \<Longrightarrow>
      mget (jobs s) (jr_ID j) = Some j \<and> jr_Status j = JobQueued \<and> jr_ID j \<notin> claimed s
      \<and> claimed s' = insert (jr_ID j) (claimed s)
      \<and> (deps_succeeded s j \<or> jr_Condition j \<noteq> '''' \<and> deps_failed s' j)
      \<and> (\<forall>i k. mget (jobs s) i = Some k \<longrightarrow> i \<notin> claimed s \<longrightarrow> ready_job s i \<longrightarrow> age_key j \<le> age_key k)"
proof -
  have m: "mwf (jobs s)" using wf by (rule wf_storeD)
  note wj = wf_jobsD [OF wf_storeD(4) [OF wf]]
  have cs: "\<forall>i\<in>set (candidates s). \<exists>j. mget (jobs s) i = Some j \<and> jr_Status j = JobQueued \<and> jr_ID j = i"
    using wj by (auto simp: set_candidates [OF m])
  note ord = claim_loop_order [OF distinct_candidates [OF m] cs]
  have eq: "mem_ClaimNextQueuedJob w s = claim_loop w (candidates s) s"
    by (cases "candidates s") (simp_all add: mem_ClaimNextQueuedJob_def)
  have rc: "ready_job s i \<Longrightarrow> i \<notin> claimed s \<Longrightarrow> i \<in> set (candidates s)" for i
    by (auto simp: set_candidates [OF m] ready_job_def)
  show "mem_ClaimNextQueuedJob w s = (Inl e, s') \<Longrightarrow> e = ErrNoQueuedJob \<and> (\<forall>i. i \<notin> claimed s \<longrightarrow> \<not> ready_job s i)"
    unfolding eq using ord(1) rc by blast
  assume step: "mem_ClaimNextQueuedJob w s = (Inr j, s')"
  with ord(2) eq obtain pre post where l: "candidates s = pre @ jr_ID j # post" "\<forall>i\<in>set pre. \<not> ready_job s i"
    "deps_succeeded s j \<or> jr_Condition j \<noteq> '''' \<and> deps_failed s' j" "claimed s' = insert (jr_ID j) (claimed s)"
    by metis
  from mem_claim_result [OF wf step] have j: "jr_ID j \<in> set (candidates s)" "jr_Status j = JobQueued"
    "mget (jobs s) (jr_ID j) = Some j" by simp_all
  have "age_key j \<le> age_key k" if "mget (jobs s) i = Some k" "i \<notin> claimed s" "ready_job s i" for i k
  proof -
    have "i \<in> set (jr_ID j # post)" using rc [OF that(3,2)] that(3) l(1,2) by auto
    from candidates_order [OF m l(1) this j(3) that(1)] show ?thesis using wj [OF that(1)] by (simp add: age_key_def)
  qed
  with l(3,4) j show "mget (jobs s) (jr_ID j) = Some j \<and> jr_Status j = JobQueued \<and> jr_ID j \<notin> claimed s
      \<and> claimed s' = insert (jr_ID j) (claimed s)
      \<and> (deps_succeeded s j \<or> jr_Condition j \<noteq> '''' \<and> deps_failed s' j)
      \<and> (\<forall>i k. mget (jobs s) i = Some k \<longrightarrow> i \<notin> claimed s \<longrightarrow> ready_job s i \<longrightarrow> age_key j \<le> age_key k)"
    by (auto simp: set_candidates [OF m])
qed

end
