(* ===== verification/Scheduler_Properties.thy ===== *)
theory Scheduler_Properties
  imports Scheduler_System Claim_Order
begin

text \<open>
  The guarantees of the scheduler and of its store, stated over the model of the code and
  over every reachable state, with concrete instances evaluated on a small workflow of two
  jobs.
\<close>

section \<open>A small workflow\<close>

definition demo_event :: Event where
  "demo_event = \<lparr>ev_Provider = ''github'', ev_Name = ''push'', ev_DeliveryID = ''d1'',
     ev_Repository = \<lparr>repo_Provider = ''github'', repo_Owner = ''o'', repo_Name = ''r''\<rparr>,
     ev_Ref = ''refs/heads/main'', ev_SHA = ''abc'', ev_Actor = ''a''\<rparr>"

definition demo_key :: DeliveryKey where
  "demo_key = \<lparr>dk_Provider = ''github'', dk_DeliveryID = ''d1''\<rparr>"

definition demo_delivery :: Delivery where
  "demo_delivery = \<lparr>d_Key = demo_key, d_Event = demo_event, d_Payload = ''p''\<rparr>"

definition demo_intent :: "string \<Rightarrow> string list \<Rightarrow> JobIntent" where
  "demo_intent k needs = \<lparr>ji_JobKey = k, ji_RunnerClass = ''small'', ji_DependsOn = needs, ji_Matrix = None,
     ji_PlanDigest = ''sha'', ji_Condition = ''''\<rparr>"

definition demo_seed :: RunSeed where
  "demo_seed = \<lparr>rs_Delivery = demo_key, rs_Event = demo_event,
     rs_Jobs = [demo_intent ''build'' [], demo_intent ''test'' [''build'']]\<rparr>"

abbreviation "W \<equiv> unary_world"

definition demo1 :: DurableMem where
  "demo1 = snd (mem_RecordDelivery W demo_delivery NewDurableStore)"

text \<open>The run is \<^verbatim>\<open>J\<close>, its jobs are \<^verbatim>\<open>JJ\<close> (build) and \<^verbatim>\<open>JJJ\<close> (test).\<close>

definition demo2 :: DurableMem where
  "demo2 = snd (mem_CreateRun W demo_seed 5 demo1)"

lemma step_intros:
  "store_step w s (snd (mem_RecordDelivery w d s))"
  "store_step w s (snd (mem_CreateRun w seed t s))"
  "store_step w s (snd (mem_ClaimNextQueuedJob w s))"
  "store_step w s (snd (mem_AckDispatched i \<lparr>ao_Name = CRName i, ao_UID = uid\<rparr> t s))"
  "store_step w s (snd (mem_ApplyObserved i p t s))"
  "store_step w s (snd (mem_CancelRun rid t s))"
  "store_step w s (snd (mem_RerequestJob w i t s))"
  "store_step w s (snd (mem_MarkCollected i t s))"
  by (auto intro: store_step.intros surjective_pairing)

lemma reachable_store_step: "reachable_store w s \<Longrightarrow> store_step w s s' \<Longrightarrow> reachable_store w s'"
  by (auto simp: reachable_store_def)

lemma demo1_reachable: "reachable_store W demo1"
  unfolding demo1_def by (rule reachable_store_step [OF _ step_intros(1)]) (simp add: reachable_store_def)

lemma demo2_reachable: "reachable_store W demo2"
  unfolding demo2_def by (rule reachable_store_step [OF demo1_reachable step_intros(2)])

lemma demo2_wf: "wf_store W demo2"
  using demo2_reachable reachable_store_ok(1) unique_ids_unary by blast

lemma demo2_job: "map_option jr_Status (mget (jobs demo2) ''JJ'') = Some JobQueued
   \<and> map_option jr_Status (mget (jobs demo2) ''JJJ'') = Some JobQueued"
  by code_simp

section \<open>Histories of the durable store\<close>

text \<open>
  C2. Whatever sequence of store calls runs, by any number of callers in any interleaving,
  a job that exists keeps its identity, its run, its key, its dependencies and its attempt,
  its status never moves to an earlier stage, and a terminal status with its finish time is final.
\<close>

theorem job_history_forward:
  assumes "reachable_store w s" "unique_ids w" "(store_step w)\<^sup>*\<^sup>* s s'" "mget (jobs s) i = Some j"
  shows "\<exists>j'. mget (jobs s') i = Some j' \<and> same_job j j' \<and> jobRank (jr_Status j) \<le> jobRank (jr_Status j')
    \<and> (job_IsTerminal (jr_Status j) \<longrightarrow> jr_Status j' = jr_Status j \<and> jr_FinishedAt j' = jr_FinishedAt j)"
  using store_steps_ok [OF assms(3) reachable_store_ok(1) [OF assms(2,1)]] assms(4)
  by (fastforce simp: jobs_evolve_def evolves_def)

definition demo_running :: DurableMem where
  "demo_running = snd (mem_ApplyObserved ''JJ'' PhaseRunning 6 demo2)"

lemma demo_running_step: "(store_step W)\<^sup>*\<^sup>* demo2 demo_running"
  unfolding demo_running_def using step_intros(5) by (rule r_into_rtranclp)

theorem job_history_forward_witness:
  "\<exists>j'. mget (jobs demo_running) ''JJ'' = Some j' \<and> same_job (job_at demo2 ''JJ'') j' \<and> jr_Status j' = JobRunning"
proof -
  have "mget (jobs demo2) ''JJ'' = Some (job_at demo2 ''JJ'')" by code_simp
  from job_history_forward [OF demo2_reachable unique_ids_unary demo_running_step this]
  obtain j' where j': "mget (jobs demo_running) ''JJ'' = Some j'" "same_job (job_at demo2 ''JJ'') j'" by blast
  moreover have "map_option jr_Status (mget (jobs demo_running) ''JJ'') = Some JobRunning" by code_simp
  ultimately show ?thesis by auto
qed

text \<open>
  C7. In every state the store can reach, a run is terminal exactly when each of its jobs is.
\<close>

theorem run_terminal_iff_jobs_terminal:
  assumes "reachable_store w s" "unique_ids w" "mget (runs s) rid = Some r"
  shows "run_IsTerminal (run_Status r) \<longleftrightarrow>
    (\<forall>i j. mget (jobs s) i = Some j \<longrightarrow> jr_RunID j = rid \<longrightarrow> job_IsTerminal (jr_Status j))"
  using wf_storeD(2) [OF reachable_store_ok(1) [OF assms(2,1)], of rid] assms(3)
  by (simp add: closed_run_def all_terminal_def)

definition demo_done :: DurableMem where
  "demo_done = snd (mem_ApplyObserved ''JJJ'' PhaseFailed 8 (snd (mem_ApplyObserved ''JJ'' PhaseSucceeded 7 demo_running)))"

lemma demo_done_reachable: "reachable_store W demo_done"
  unfolding demo_done_def demo_running_def
  by (intro reachable_store_step [OF _ step_intros(5)] demo2_reachable)

theorem run_terminal_iff_jobs_terminal_witness:
  "\<exists>r. mget (runs demo_done) ''J'' = Some r \<and> run_Status r = RunFailed
     \<and> (\<forall>i j. mget (jobs demo_done) i = Some j \<longrightarrow> jr_RunID j = ''J'' \<longrightarrow> job_IsTerminal (jr_Status j))"
proof -
  have "map_option run_Status (mget (runs demo_done) ''J'') = Some RunFailed" by code_simp
  then obtain r where r: "mget (runs demo_done) ''J'' = Some r" "run_Status r = RunFailed" by blast
  with run_terminal_iff_jobs_terminal [OF demo_done_reachable unique_ids_unary r(1)] show ?thesis by simp
qed

text \<open>
  In every state the store can reach, a delivery has started at most one run, and that
  run is the one its receipt names.
\<close>

theorem one_run_per_delivery:
  assumes "reachable_store w s" "unique_ids w"
    "mget (runs s) a = Some ra" "mget (runs s) b = Some rb" "run_Delivery ra = run_Delivery rb"
  shows "a = b \<and> (\<exists>rec. deliveries s (run_Delivery ra) = Some rec \<and> dr_RunID rec = a)"
  using reachable_store_ok(2) [OF assms(2,1)] assms(3-5) unfolding runs_bound_def by (metis option.inject)

theorem one_run_per_delivery_witness:
  "\<exists>rec. deliveries demo2 demo_key = Some rec \<and> dr_RunID rec = ''J''"
proof -
  have "map_option run_Delivery (mget (runs demo2) ''J'') = Some demo_key" by code_simp
  then obtain r where "mget (runs demo2) ''J'' = Some r" "run_Delivery r = demo_key" by blast
  with one_run_per_delivery [OF demo2_reachable unique_ids_unary this(1) this(1) refl] show ?thesis by simp
qed

section \<open>Ingestion\<close>

lemma mem_CreateRun_binds:
  assumes wf: "wf_store w s" and step: "mem_CreateRun w seed t s = (Inr (r, b), s')"
  shows "\<exists>rec. deliveries s' (rs_Delivery seed) = Some rec \<and> dr_RunID rec = run_ID r"
proof -
  from step obtain rec where rec: "deliveries s (rs_Delivery seed) = Some rec"
    by (auto simp: mem_CreateRun_def split: option.splits)
  show ?thesis
  proof (cases "dr_RunID rec = ''''")
    case False
    then have "mget (runs s) (dr_RunID rec) = Some r" "s' = s"
      using step rec by (auto simp: mem_CreateRun_def getRunLocked_def split: option.splits)
    with wf_storeD(5) [OF wf] rec show ?thesis by (auto simp: wf_runs_def)
  next
    case True
    with step rec have ne: "rs_Jobs seed \<noteq> []" by (auto simp: mem_CreateRun_def)
    from step show ?thesis
      unfolding mem_CreateRun_new [OF rec True ne] by (auto simp: Let_def split: sum.splits prod.splits)
  qed
qed

lemma ingest_steps:
  assumes wf: "wf_store w s" and step: "Ingest (mem_store w) c t d s = (x, s1)"
  shows "(store_step w)\<^sup>*\<^sup>* s s1"
    "x = Inr (rid, b) \<Longrightarrow> rid \<noteq> '''' \<Longrightarrow> \<exists>rec. deliveries s1 (d_Key d) = Some rec \<and> dr_RunID rec = rid"
proof -
  obtain r s0 where rd: "mem_RecordDelivery w d s = (r, s0)" by fastforce
  then obtain rec cr where r: "r = Inr (rec, cr)" "deliveries s0 (d_Key d) = Some rec"
    by (auto simp: mem_RecordDelivery_def Let_def read_clock_def split: option.splits)
  have st: "store_step w s s0" using rd by (rule store_step.record_delivery)
  have wf0: "wf_store w s0" using wf_RecordDelivery [OF wf rd] .
  let ?seed = "\<lambda>js. \<lparr>rs_Delivery = d_Key d, rs_Event = d_Event d, rs_Jobs = js\<rparr>"
  have cases: "s1 = s0 \<or> (\<exists>js y. mem_CreateRun w (?seed js) t s0 = (y, s1))"
    using step rd r by (auto simp: Ingest_def mem_store_def split: if_splits sum.splits prod.splits)
  then show "(store_step w)\<^sup>*\<^sup>* s s1"
    using st by (auto intro: converse_rtranclp_into_rtranclp store_step.create_run)
  assume x: "x = Inr (rid, b)" "rid \<noteq> ''''"
  show "\<exists>rec. deliveries s1 (d_Key d) = Some rec \<and> dr_RunID rec = rid"
  proof (cases "dr_RunID rec = ''''")
    case False
    with step rd r x show ?thesis by (auto simp: Ingest_def mem_store_def)
  next
    case True
    with step rd r x obtain js rr where "mem_CreateRun w (?seed js) t s0 = (Inr (rr, b), s1)" "rid = run_ID rr"
      by (auto simp: Ingest_def mem_store_def split: if_splits sum.splits prod.splits)
    with mem_CreateRun_binds [OF wf0 this(1)] show ?thesis by simp
  qed
qed

text \<open>
  C4. Ingestion is exactly once: after a delivery has produced a run, any later delivery
  with the same key, whatever its content and whatever the compiler would say, returns that
  run with \<^verbatim>\<open>created = false\<close> and writes nothing, no matter what ran in between.
\<close>

theorem ingest_exactly_once:
  assumes "reachable_store w s" "unique_ids w" "Ingest (mem_store w) c t d s = (Inr (rid, b), s1)" "rid \<noteq> ''''"
    "(store_step w)\<^sup>*\<^sup>* s1 s2" "d_Key d' = d_Key d"
  shows "Ingest (mem_store w) c' t' d' s2 = (Inr (rid, False), s2)"
proof -
  note ok = reachable_store_ok [OF assms(2,1)]
  from ingest_steps [OF ok(1) assms(3)] assms(4) obtain rec where
    st: "(store_step w)\<^sup>*\<^sup>* s s1" and rec: "deliveries s1 (d_Key d) = Some rec" "dr_RunID rec = rid" by blast
  from store_steps_bound [OF st ok] have "wf_store w s1" "runs_bound s1" by simp_all
  from store_steps_bound [OF assms(5) this] have wf2: "wf_store w s2" and "deliveries_evolve s1 s2" by simp_all
  then have "deliveries s2 (d_Key d') = Some rec" using rec assms(4,6) by (auto simp: deliveries_evolve_def)
  from mem.ingest_replay [OF wf2 this] rec assms(4) show ?thesis by simp
qed

definition demo_compile :: Compiler where
  "demo_compile ev p = Inr (rs_Jobs demo_seed)"

theorem ingest_exactly_once_witness:
  "fst (Ingest (mem_store W) demo_compile 5 demo_delivery NewDurableStore) = Inr (''J'', True)
   \<and> fst (Ingest (mem_store W) (\<lambda>ev p. Inl (Errorf ''down'')) 9 demo_delivery
       (snd (Ingest (mem_store W) demo_compile 5 demo_delivery NewDurableStore))) = Inr (''J'', False)"
proof -
  have r: "reachable_store W NewDurableStore" by (simp add: reachable_store_def)
  have first: "fst (Ingest (mem_store W) demo_compile 5 demo_delivery NewDurableStore) = Inr (''J'', True)" by code_simp
  then have "Ingest (mem_store W) demo_compile 5 demo_delivery NewDurableStore
    = (Inr (''J'', True), snd (Ingest (mem_store W) demo_compile 5 demo_delivery NewDurableStore))"
    by (metis prod.collapse)
  from ingest_exactly_once [OF r unique_ids_unary this _ rtranclp.rtrancl_refl refl] first show ?thesis by simp
qed

text \<open>The intent a stored job came from.\<close>

definition intent_of :: "JobRunRecord \<Rightarrow> JobIntent" where
  "intent_of j = \<lparr>ji_JobKey = jr_JobKey j, ji_RunnerClass = jr_RunnerClass j, ji_DependsOn = jr_DependsOn j,
     ji_Matrix = jr_Matrix j, ji_PlanDigest = jr_PlanDigest j, ji_Condition = jr_Condition j\<rparr>"

lemma intent_of_job [simp]: "intent_of (job_of_intent i rid t x) = x"
  by (simp add: intent_of_def job_of_intent_def)

lemma create_jobs_spec:
  assumes "create_inv w rid ki jids s" "create_jobs w rid t js ki jids s = (Inr (ki', jids'), s')"
  shows "\<exists>new. jids' = jids @ new \<and> list_all2 (\<lambda>i x. mget (jobs s') i = Some (job_of_intent i rid t x)) new js
    \<and> (\<forall>i j. mget (jobs s) i = Some j \<longrightarrow> mget (jobs s') i = Some j)"
  using assms
proof (induction js arbitrary: ki jids s)
  case (Cons x js)
  let ?n = "mint w (ids s)" and ?j = "job_of_intent (mint w (ids s)) rid t x"
  from Cons.prems(2) have rec: "create_jobs w rid t js (ki(ji_JobKey x \<mapsto> ?n)) (jids @ [?n]) (add_job w ?j s) = (Inr (ki', jids'), s')"
    by (auto simp: NewID_def add_job_def split: if_splits)
  from Cons.IH [OF create_inv_step [OF Cons.prems(1)] this] obtain new where new: "jids' = (jids @ [?n]) @ new"
    "list_all2 (\<lambda>i x. mget (jobs s') i = Some (job_of_intent i rid t x)) new js"
    "\<forall>i j. mget (jobs (add_job w ?j s)) i = Some j \<longrightarrow> mget (jobs s') i = Some j" by blast
  have "mget (jobs s) ?n = None"
    using Cons.prems(1) by (intro fresh_job(1)) (simp add: create_inv_def wf_store_def)
  with new(3) have "mget (jobs s') ?n = Some ?j" "\<forall>i j. mget (jobs s) i = Some j \<longrightarrow> mget (jobs s') i = Some j"
    by (simp, metis add_job_simps(1) mget_mput option.distinct(1))
  with new show ?case by (intro exI [of _ "?n # new"]) simp
qed auto

text \<open>
  Creating a run stores one job per intent, in order: listing the jobs of the new run
  gives back exactly the intents, every job queued and in its first attempt; no job that was
  there before is touched.
\<close>

theorem create_run_lists_intents:
  assumes "wf_store w s" "mem_CreateRun w seed t s = (Inr (r, True), s')"
  shows "\<exists>js. mem_ListJobRuns (run_ID r) s' = (Inr js, s') \<and> map intent_of js = rs_Jobs seed
    \<and> (\<forall>j \<in> set js. jr_Status j = JobQueued \<and> jr_Attempt j = 1 \<and> jr_RunID j = run_ID r)
    \<and> (\<forall>i j. mget (jobs s) i = Some j \<longrightarrow> mget (jobs s') i = Some j)"
proof -
  from assms(2) obtain rec where rec: "deliveries s (rs_Delivery seed) = Some rec" "dr_RunID rec = ''''" "rs_Jobs seed \<noteq> []"
    by (auto simp: mem_CreateRun_def split: option.splits if_splits sum.splits)
  let ?rid = "mint w (ids s)"
  from assms(2) obtain ki jids s2 where
    cj: "create_jobs w ?rid t (rs_Jobs seed) Map.empty [] (s\<lparr>ids := Suc (ids s)\<rparr>) = (Inr (ki, jids), s2)"
    and s': "run_ID r = ?rid" "jobs s' = jobs s2" "runJobs s' ?rid = Some jids" "mget (runs s') ?rid \<noteq> None"
    unfolding mem_CreateRun_new [OF rec] by (auto simp: Let_def split: sum.splits prod.splits)
  from create_jobs_spec [OF create_inv_start [OF assms(1)] cj] have
    l: "list_all2 (\<lambda>i x. mget (jobs s') i = Some (job_of_intent i ?rid t x)) jids (rs_Jobs seed)"
    and keep: "\<forall>i j. mget (jobs s) i = Some j \<longrightarrow> mget (jobs s') i = Some j"
    by (auto simp: s')
  have "map intent_of (map (job_at s') jids) = rs_Jobs seed
    \<and> (\<forall>j \<in> set (map (job_at s') jids). jr_Status j = JobQueued \<and> jr_Attempt j = 1 \<and> jr_RunID j = ?rid)"
    using l by (induction rule: list_all2_induct) (simp_all add: job_at_mget)
  with keep s' show ?thesis by (auto simp: mem_ListJobRuns_def runJobs_at_def)
qed

theorem create_run_lists_intents_witness:
  "\<exists>js. mem_ListJobRuns ''J'' demo2 = (Inr js, demo2) \<and> map intent_of js = rs_Jobs demo_seed"
proof -
  have "map_sum (\<lambda>_. ()) (map_prod run_ID (\<lambda>b. b)) (fst (mem_CreateRun W demo_seed 5 demo1)) = Inr (''J'', True)" by code_simp
  then obtain r where "mem_CreateRun W demo_seed 5 demo1 = (Inr (r, True), demo2)" "run_ID r = ''J''"
    unfolding demo2_def by (cases "mem_CreateRun W demo_seed 5 demo1"; cases "fst (mem_CreateRun W demo_seed 5 demo1)") auto
  with create_run_lists_intents [OF reachable_store_ok(1) [OF unique_ids_unary demo1_reachable] this(1)]
  show ?thesis by auto
qed

text \<open>
  C39. Ingestion recovers from a crash between recording the delivery and creating the run:
  whether the receipt is new or left behind by the crashed attempt, a delivery that compiles to valid
  jobs with distinct keys creates its run and binds the receipt to it.
\<close>

theorem ingest_completes:
  assumes "wf_store w s" "d_Key d \<in> dom (deliveries s) \<longrightarrow>
      deliveries s (d_Key d) = Some \<lparr>dr_Key = d_Key d, dr_Event = d_Event d, dr_Payload = d_Payload d, dr_ReceivedAt = at, dr_RunID = ''''\<rparr>"
    "c (d_Event d) (d_Payload d) = Inr js" "validate_all js = Inr ()" "js \<noteq> []" "distinct (map ji_JobKey js)"
  shows "\<exists>rid s' rec. Ingest (mem_store w) c t d s = (Inr (rid, True), s') \<and> rid \<noteq> ''''
    \<and> mget (runs s) rid = None \<and> mget (runs s') rid \<noteq> None
    \<and> deliveries s' (d_Key d) = Some rec \<and> dr_RunID rec = rid"
proof -
  have "case deliveries s (d_Key d) of None \<Rightarrow> True | Some r \<Rightarrow> dr_RunID r = '''' \<and> dr_Payload r = d_Payload d"
    using assms(2) by (cases "deliveries s (d_Key d)") (auto simp: dom_def)
  from mem.ingest_creates [where c = c and x = d, OF assms(1) this assms(3-6), of t] show ?thesis by fastforce
qed

theorem ingest_completes_witness:
  "\<exists>rid s'. Ingest (mem_store W) demo_compile 5 demo_delivery demo1 = (Inr (rid, True), s') \<and> mget (runs s') rid \<noteq> None"
proof -
  have 1: "d_Key demo_delivery \<in> dom (deliveries demo1) \<longrightarrow> deliveries demo1 (d_Key demo_delivery) =
    Some \<lparr>dr_Key = d_Key demo_delivery, dr_Event = d_Event demo_delivery, dr_Payload = d_Payload demo_delivery,
      dr_ReceivedAt = 1000, dr_RunID = ''''\<rparr>"
    by (simp add: demo1_def mem_RecordDelivery_def NewDurableStore_def read_clock_def Let_def unary_world_def)
  have 2: "demo_compile (d_Event demo_delivery) (d_Payload demo_delivery) = Inr (rs_Jobs demo_seed)" by (simp add: demo_compile_def)
  have 3: "validate_all (rs_Jobs demo_seed) = Inr ()" "rs_Jobs demo_seed \<noteq> []" "distinct (map ji_JobKey (rs_Jobs demo_seed))"
    by code_simp+
  from ingest_completes [where c = demo_compile and d = demo_delivery, OF reachable_store_ok(1) [OF unique_ids_unary demo1_reachable] 1 2 3] show ?thesis by fastforce
qed

section \<open>Claiming\<close>

text \<open>
  C15. A claimed job is queued, was not claimed by anyone else and is now; every job it needs
  has succeeded (or one failed and it has a condition of its own to decide); and no ready job is older.
\<close>

theorem claim_oldest_ready:
  assumes "wf_store w s" "mem_ClaimNextQueuedJob w s = (Inr j, s')"
  shows "mget (jobs s) (jr_ID j) = Some j \<and> jr_Status j = JobQueued
    \<and> jr_ID j \<notin> claimed s \<and> claimed s' = insert (jr_ID j) (claimed s)
    \<and> (deps_succeeded s j \<or> jr_Condition j \<noteq> '''' \<and> deps_failed s' j)
    \<and> (\<forall>i k. mget (jobs s) i = Some k \<longrightarrow> i \<notin> claimed s \<longrightarrow> jr_Status k = JobQueued \<longrightarrow> deps_succeeded s k \<longrightarrow>
         age_key j \<le> age_key k)"
  using claim_spec(2) [OF assms] by (auto simp: ready_job_def)

theorem claim_oldest_ready_witness:
  "\<exists>j s'. mem_ClaimNextQueuedJob W demo2 = (Inr j, s') \<and> jr_ID j = ''JJ'' \<and> ''JJ'' \<notin> claimed demo2 \<and> claimed s' = insert ''JJ'' (claimed demo2)"
proof -
  have "map_sum (\<lambda>_. ()) jr_ID (fst (mem_ClaimNextQueuedJob W demo2)) = Inr ''JJ''" by code_simp
  then obtain j s' where "mem_ClaimNextQueuedJob W demo2 = (Inr j, s')" "jr_ID j = ''JJ''"
    by (cases "mem_ClaimNextQueuedJob W demo2"; cases "fst (mem_ClaimNextQueuedJob W demo2)") auto
  with claim_oldest_ready [OF demo2_wf this(1)] show ?thesis by auto
qed

text \<open>
  C36. Claiming never starves: it hands out a job, or it reports \<^verbatim>\<open>ErrNoQueuedJob\<close> and then no
  unclaimed queued job has all its needs succeeded.
\<close>

theorem claim_never_starves:
  assumes "wf_store w s"
  shows "(\<exists>j s'. mem_ClaimNextQueuedJob w s = (Inr j, s'))
    \<or> (\<exists>s'. mem_ClaimNextQueuedJob w s = (Inl ErrNoQueuedJob, s')
         \<and> \<not> (\<exists>i j. mget (jobs s) i = Some j \<and> jr_Status j = JobQueued \<and> i \<notin> claimed s \<and> deps_succeeded s j))"
proof -
  obtain x s' where step: "mem_ClaimNextQueuedJob w s = (x, s')" by fastforce
  with claim_spec(1) [OF assms, of _ s'] show ?thesis by (cases x) (auto simp: ready_job_def)
qed

theorem claim_never_starves_witness:
  "\<not> (\<exists>i j. mget (jobs demo_done) i = Some j \<and> jr_Status j = JobQueued \<and> i \<notin> claimed demo_done \<and> deps_succeeded demo_done j)"
proof -
  have "map_sum (\<lambda>e. e) jr_ID (fst (mem_ClaimNextQueuedJob W demo_done)) = Inl ErrNoQueuedJob" by code_simp
  with claim_never_starves [OF reachable_store_ok(1) [OF unique_ids_unary demo_done_reachable]] show ?thesis by auto
qed

end
