(* ===== verification/Scheduler_Properties2.thy ===== *)
theory Scheduler_Properties2
  imports Scheduler_Properties
begin

text \<open>
  Guarantees of dispatching, projecting, cancelling, rerequesting and collecting.
\<close>

section \<open>Dispatch\<close>

lemma sys_store_step: "sys_step w c (c\<lparr>durable := s'\<rparr>)" if "store_step w (durable c) s'"
  using that by (rule sys_step.store)

lemma store_steps_sys:
  assumes "(store_step w)\<^sup>*\<^sup>* s s'"
  shows "durable c = s \<Longrightarrow> (sys_step w)\<^sup>*\<^sup>* c (c\<lparr>durable := s'\<rparr>)"
  using assms
proof (induction rule: rtranclp_induct)
  case base
  then have "c\<lparr>durable := s\<rparr> = c" by (cases c) simp
  then show ?case by simp
next
  case (step y z)
  have "sys_step w (c\<lparr>durable := y\<rparr>) (c\<lparr>durable := z\<rparr>)"
    using sys_step.store [of w "c\<lparr>durable := y\<rparr>" z] step(2) by simp
  with step show ?case by (meson rtranclp.rtrancl_into_rtrancl)
qed

lemma reachable_from_store:
  assumes "reachable_store w s"
  shows "reachable w (init_system\<lparr>durable := s\<rparr>)"
  using store_steps_sys [of w NewDurableStore s init_system] assms
  by (simp add: reachable_def reachable_store_def init_system_def)

definition demo_system :: system where
  "demo_system = init_system\<lparr>durable := demo2\<rparr>"

lemma demo_system_reachable: "reachable W demo_system"
  unfolding demo_system_def by (rule reachable_from_store [OF demo2_reachable])

text \<open>
  C3. Dispatch converges from every reachable state of the concurrent system, the crash windows
  included: for a job that is queued or already dispatched it succeeds, leaves exactly one
  active object for the job, carrying the derived name, keeps an object that was already there, records it, and a
  second dispatch changes nothing but the time of the acknowledgement.
\<close>

theorem dispatch_converges:
  assumes "reachable w c" "unique_ids w" "mget (jobs (durable c)) i = Some j"
    "jr_Status j = JobQueued \<or> jr_Status j = JobDispatched"
  shows "\<exists>ob s1 x1 s2 x2. Dispatch (mem_store w) mem_active t i (durable c, active c) = (Inr (), (s1, x1))
    \<and> objects x1 = (objects (active c))(i \<mapsto> ob) \<and> ao_Name ob = CRName i
    \<and> (\<forall>ob'. objects (active c) i = Some ob' \<longrightarrow> ob = ob')
    \<and> mget (jobs s1) = (mget (jobs (durable c)))(i \<mapsto> ack_job i (ao_UID ob) t j)
    \<and> Dispatch (mem_store w) mem_active t' i (s1, x1) = (Inr (), (s2, x2)) \<and> objects x2 = objects x1
    \<and> mget (jobs s2) = (mget (jobs (durable c)))(i \<mapsto> ack_job i (ao_UID ob) t' j)"
proof -
  from reachable_inv [OF assms(2,1)] have inv: "wf_store w (durable c)" "wf_active (active c)" "names_ok (durable c)"
    by (simp_all add: sys_inv_def)
  have id: "jr_ID j = i" using wf_jobsD [OF wf_storeD(4) [OF inv(1)] assms(3)] by simp
  have "dispatchable j" using inv(3) assms(3,4) id by (auto simp: dispatchable_def names_ok_def)
  note ok = mem_ports.dispatch_ok [OF inv(1,2) assms(3) id this, of t]
    and twice = mem_ports.dispatch_twice [OF inv(1,2) assms(3) id this, of t t']
  from ok obtain ob s1 x1 where 1: "Dispatch (mem_store w) mem_active t i (durable c, active c) = (Inr (), (s1, x1))"
    "wf_active x1" "objects x1 = (objects (active c))(i \<mapsto> ob)" "\<forall>ob'. objects (active c) i = Some ob' \<longrightarrow> ob = ob'"
    "mget (jobs s1) = (mget (jobs (durable c)))(i \<mapsto> ack_job i (ao_UID ob) t j)" by blast
  from twice 1(1) obtain ob' s2 x2 where "Dispatch (mem_store w) mem_active t' i (s1, x1) = (Inr (), (s2, x2))"
    "objects x1 = (objects (active c))(i \<mapsto> ob')" "objects x2 = objects x1"
    "mget (jobs s2) = (mget (jobs (durable c)))(i \<mapsto> ack_job i (ao_UID ob') t' j)" by auto
  moreover from this(2) 1(3) have "ob' = ob" by (metis fun_upd_same option.inject)
  moreover have "ao_Name ob = CRName i" using 1(2,3) by (simp add: wf_active_def)
  ultimately show ?thesis using 1 by blast
qed

theorem dispatch_converges_witness:
  "\<exists>ob s1 x1. Dispatch (mem_store W) mem_active 7 ''JJ'' (demo2, NewActiveStore) = (Inr (), (s1, x1))
     \<and> objects x1 = [''JJ'' \<mapsto> ob] \<and> ao_Name ob = ''jobrun-jj''"
proof -
  have j: "mget (jobs (durable demo_system)) ''JJ'' = Some (job_at demo2 ''JJ'')" "jr_Status (job_at demo2 ''JJ'') = JobQueued"
    by code_simp+
  have "CRName ''JJ'' = ''jobrun-jj''" by code_simp
  with dispatch_converges [OF demo_system_reachable unique_ids_unary j(1) disjI1 [OF j(2)], of 7 8] show ?thesis
    by (auto simp: demo_system_def init_system_def NewActiveStore_def)
qed

text \<open>
  A job that is running or terminal is never given an active object by dispatch: the call fails
  with \<^verbatim>\<open>ErrJobNotDispatchable\<close> and leaves both stores as they were.
\<close>

theorem dispatch_refuses_finished:
  assumes "wf_store w s" "mget (jobs s) i = Some j" "jr_Status j \<notin> {JobQueued, JobDispatched}"
  shows "\<exists>e. Dispatch (mem_store w) mem_active t i (s, x) = (Inl e, (s, x)) \<and> errors_Is e ErrJobNotDispatchable"
  using mem_ports.dispatch_refused [OF assms] by simp

theorem dispatch_refuses_finished_witness:
  "\<exists>e. Dispatch (mem_store W) mem_active 9 ''JJ'' (demo_done, NewActiveStore) = (Inl e, (demo_done, NewActiveStore))
     \<and> errors_Is e ErrJobNotDispatchable"
proof -
  have j: "mget (jobs demo_done) ''JJ'' = Some (job_at demo_done ''JJ'')" "jr_Status (job_at demo_done ''JJ'') \<notin> {JobQueued, JobDispatched}"
    by code_simp+
  from dispatch_refuses_finished [OF reachable_store_ok(1) [OF unique_ids_unary demo_done_reachable] j] show ?thesis by simp
qed

section \<open>Projection\<close>

lemma mget_jobs_ApplyObserved:
  assumes "mget (jobs s) i = Some j"
  shows "mget (jobs (snd (mem_ApplyObserved i p t s))) k = (if k = i \<and> \<not> job_IsTerminal (jr_Status j)
      \<and> (\<exists>st. JobStatusFromPhase p = Some st \<and> CanAdvanceJob (jr_Status j) st)
    then Some (observed_job (the (JobStatusFromPhase p)) t j) else mget (jobs s) k)"
  using assms by (auto simp: mem_ApplyObserved_cases split: option.splits)

text \<open>
  Projecting an observed phase always succeeds on a known job, changes no other job,
  moves the job to the observed status exactly when that is forward, and once the job has finished every later
  observation, repeated, stale or contradictory, leaves the whole store unchanged.
\<close>

theorem observe_monotone:
  assumes "mget (jobs s) i = Some j" "mem_ApplyObserved i p t s = (r, s')"
  shows "r = Inr ()
    \<and> (\<forall>k. k \<noteq> i \<longrightarrow> mget (jobs s') k = mget (jobs s) k)
    \<and> (\<exists>j'. mget (jobs s') i = Some j'
        \<and> jr_Status j' = (case JobStatusFromPhase p of
            Some st \<Rightarrow> if \<not> job_IsTerminal (jr_Status j) \<and> CanAdvanceJob (jr_Status j) st then st else jr_Status j
          | None \<Rightarrow> jr_Status j)
        \<and> (job_IsTerminal (jr_Status j') \<longrightarrow> (\<forall>p' t'. mem_ApplyObserved i p' t' s' = (Inr (), s'))))"
proof -
  have "r = Inr ()" using assms by (simp add: mem_ApplyObserved_cases)
  have s': "s' = snd (mem_ApplyObserved i p t s)" using assms(2) by simp
  have "\<forall>k. k \<noteq> i \<longrightarrow> mget (jobs s') k = mget (jobs s) k"
    unfolding s' by (simp add: mget_jobs_ApplyObserved [OF assms(1)])
  moreover have "mget (jobs s') i \<noteq> None"
    unfolding s' using assms(1) by (simp add: mget_jobs_ApplyObserved [OF assms(1)])
  then obtain j' where j': "mget (jobs s') i = Some j'" by blast
  moreover have "jr_Status j' = (case JobStatusFromPhase p of
            Some st \<Rightarrow> if \<not> job_IsTerminal (jr_Status j) \<and> CanAdvanceJob (jr_Status j) st then st else jr_Status j
          | None \<Rightarrow> jr_Status j)"
    using j' assms(1) unfolding s' by (auto simp: mget_jobs_ApplyObserved [OF assms(1)] split: option.splits if_splits)
  moreover have "mem_ApplyObserved i p' t' s' = (Inr (), s')" if "job_IsTerminal (jr_Status j')" for p' t'
    using j' that by (simp add: mem_ApplyObserved_cases)
  ultimately show ?thesis using \<open>r = Inr ()\<close> by blast
qed

theorem observe_monotone_witness:
  "\<exists>j'. mget (jobs demo_done) ''JJJ'' = Some j' \<and> jr_Status j' = JobFailed
     \<and> mem_ApplyObserved ''JJJ'' PhaseSucceeded 20 demo_done = (Inr (), demo_done)"
proof -
  let ?s = "snd (mem_ApplyObserved ''JJ'' PhaseSucceeded 7 demo_running)"
  have j: "mget (jobs ?s) ''JJJ'' = Some (job_at ?s ''JJJ'')" "jr_Status (job_at ?s ''JJJ'') = JobQueued" by code_simp+
  have "mem_ApplyObserved ''JJJ'' PhaseFailed 8 ?s = (fst (mem_ApplyObserved ''JJJ'' PhaseFailed 8 ?s), demo_done)"
    unfolding demo_done_def by simp
  from observe_monotone [OF j(1) this] j(2) show ?thesis by (auto simp: CanAdvanceJob_def)
qed

text \<open>
  Replaying \<^verbatim>\<open>PhaseRunning\<close> is not a no-op, although the port promises that replaying the same phase is:
  the second observation moves the start time.
\<close>

theorem running_replay_moves_start:
  "map_option jr_StartedAt (mget (jobs demo_running) ''JJ'') = Some (Some 6)
   \<and> map_option jr_StartedAt (mget (jobs (snd (mem_ApplyObserved ''JJ'' PhaseRunning 9 demo_running))) ''JJ'') = Some (Some 9)"
  by code_simp

section \<open>Cancellation\<close>

text \<open>
  C37. Cancelling an open run cancels exactly its unfinished jobs: each gets status cancelled and the
  time of the call, jobs that had finished and jobs of other runs keep their records, the run becomes cancelled,
  and cancelling it again succeeds without a change.
\<close>

theorem cancel_run_effect:
  assumes "wf_store w s" "mget (runs s) rid = Some r" "\<not> run_IsTerminal (run_Status r)" "mem_CancelRun rid t s = (x, s')"
  shows "x = Inr () \<and> mget (runs s') rid = Some (r\<lparr>run_Status := RunCancelled, run_FinishedAt := Some t\<rparr>)
    \<and> (\<forall>i j. mget (jobs s) i = Some j \<longrightarrow> mget (jobs s') i = Some
         (if jr_RunID j = rid \<and> \<not> job_IsTerminal (jr_Status j)
          then j\<lparr>jr_Status := JobCancelled, jr_FinishedAt := Some t\<rparr> else j))
    \<and> mem_CancelRun rid t' s' = (Inr (), s')"
proof -
  note c = cancel_open [OF assms]
  have "mget (jobs s') i = Some (if jr_RunID j = rid \<and> \<not> job_IsTerminal (jr_Status j)
      then j\<lparr>jr_Status := JobCancelled, jr_FinishedAt := Some t\<rparr> else j)" if "mget (jobs s) i = Some j" for i j
    using that by (simp add: c(4) in_run_def cancelled_def)
  then show ?thesis using c(1,3) by (simp add: mem_CancelRun_def)
qed

theorem cancel_run_effect_witness:
  "\<exists>s'. mem_CancelRun ''J'' 9 demo_running = (Inr (), s') \<and> mem_CancelRun ''J'' 10 s' = (Inr (), s')"
proof -
  have wf: "wf_store W demo_running"
    unfolding demo_running_def
    by (rule reachable_store_ok(1) [OF unique_ids_unary reachable_store_step [OF demo2_reachable step_intros(5)]])
  have "map_option run_Status (mget (runs demo_running) ''J'') = Some RunRunning" by code_simp
  then obtain r where r: "mget (runs demo_running) ''J'' = Some r" "\<not> run_IsTerminal (run_Status r)" by auto
  obtain x s' where "mem_CancelRun ''J'' 9 demo_running = (x, s')" by fastforce
  with cancel_run_effect [OF wf r this, of 10] show ?thesis by auto
qed

end
