(* ===== verification/Scheduler_Properties3.thy ===== *)
theory Scheduler_Properties3
  imports Scheduler_Properties2
begin

text \<open>
  Guarantees of rerequesting and collecting, and three executions that show where the code
  does less than its comments say.
\<close>

section \<open>Rerequests\<close>

lemma find_attempt_None:
  "find_attempt s orig js = None \<longleftrightarrow>
     (\<forall>i \<in> set js. \<not> (jr_JobKey (job_at s i) = jr_JobKey orig \<and> jr_Attempt (job_at s i) = jr_Attempt orig + 1))"
  by (induction js) (auto simp: Let_def)

lemma find_attempt_Some:
  "find_attempt s orig js = Some n \<Longrightarrow> \<exists>i \<in> set js. n = jr_ID (job_at s i)
     \<and> jr_JobKey (job_at s i) = jr_JobKey orig \<and> jr_Attempt (job_at s i) = jr_Attempt orig + 1"
  by (induction js) (auto simp: Let_def split: if_splits)

lemma find_attempt_append:
  "find_attempt s orig js = None \<Longrightarrow> find_attempt s orig (js @ ks) = find_attempt s orig ks"
  by (induction js) (auto simp: Let_def split: if_splits)

text \<open>
  C38. Rerequesting a job of a visible run yields one next attempt, queued when it is new, with the same
  run, key and plan; asking again returns the same attempt and writes nothing.
\<close>

theorem rerequest_idempotent:
  assumes "wf_store w s" "mget (jobs s) i = Some orig" "mget (runs s) (jr_RunID orig) = Some r"
    "mem_RerequestJob w i t s = (x, s')"
  shows "\<exists>n j. x = Inr n \<and> mget (jobs s') n = Some j \<and> jr_RunID j = jr_RunID orig \<and> jr_JobKey j = jr_JobKey orig
    \<and> jr_Attempt j = jr_Attempt orig + 1
    \<and> (mget (jobs s) n = None \<longrightarrow> jr_Status j = JobQueued \<and> jr_PlanDigest j = jr_PlanDigest orig)
    \<and> mem_RerequestJob w i t' s' = (Inr n, s')"
proof (cases "find_attempt s orig (runJobs_at s (jr_RunID orig))")
  case (Some n)
  from find_attempt_Some [OF Some] obtain k where k: "k \<in> set (runJobs_at s (jr_RunID orig))" "n = jr_ID (job_at s k)"
    "jr_JobKey (job_at s k) = jr_JobKey orig" "jr_Attempt (job_at s k) = jr_Attempt orig + 1" by blast
  with mem_gc_run(1) [OF assms(1,3), of "job_at s k"] have "mget (jobs s) n = Some (job_at s k)" "jr_RunID (job_at s k) = jr_RunID orig"
    by auto
  with k assms(2,4) Some show ?thesis by (auto simp: mem_RerequestJob_def)
next
  case None
  obtain m where m: "byJobKey s (jr_RunID orig) = Some m"
    using wf_storeD(6) [OF assms(1)] mget_in_keys [OF assms(3)] by (auto simp: wf_index_def)
  let ?n = "mint w (ids s)" and ?s = "attempt_state w orig t m r s"
  have xs: "x = Inr ?n" "s' = ?s" using assms(4) rerequest_new [OF assms(2) None assms(3) m] by auto
  note fresh = fresh_job(1) [OF wf_storeD(1) [OF assms(1)]]
  have jobs: "mget (jobs ?s) k = (if k = ?n then Some (next_attempt ?n t orig) else mget (jobs s) k)" for k
    by (simp add: attempt_state_def)
  have at: "job_at ?s k = job_at s k" if "k \<noteq> ?n" for k using that by (simp add: job_at_def jobs)
  obtain js where js: "runJobs_at s (jr_RunID orig) = js" "\<And>i. i \<in> set js \<longleftrightarrow> in_run s (jr_RunID orig) i"
    using wf_index_runJobs [OF wf_storeD(6) [OF assms(1)] assms(3)] by blast
  then have "?n \<notin> set js" using fresh by (simp add: in_run_def)
  then have "find_attempt ?s orig js = None" using None js(1) at unfolding find_attempt_None by metis
  then have "find_attempt ?s orig (js @ [?n]) = Some ?n"
    by (simp add: find_attempt_append) (simp add: Let_def job_at_def jobs)
  moreover have "runJobs_at ?s (jr_RunID orig) = js @ [?n]" by (simp add: runJobs_at_def attempt_state_def flip: js(1))
  moreover have "mget (jobs ?s) i = Some orig" using assms(2) fresh by (auto simp: jobs)
  ultimately have "mem_RerequestJob w i t' ?s = (Inr ?n, ?s)" by (simp add: mem_RerequestJob_def)
  then show ?thesis unfolding xs by (auto simp: jobs)
qed

definition demo_retry :: DurableMem where
  "demo_retry = snd (mem_RerequestJob W ''JJJ'' 10 demo_done)"

theorem rerequest_idempotent_witness:
  "mem_RerequestJob W ''JJJ'' 10 demo_done = (Inr ''JJJJ'', demo_retry)
   \<and> mem_RerequestJob W ''JJJ'' 12 demo_retry = (Inr ''JJJJ'', demo_retry)"
proof -
  have wf: "wf_store W demo_done" by (rule reachable_store_ok(1) [OF unique_ids_unary demo_done_reachable])
  have o: "mget (jobs demo_done) ''JJJ'' = Some (job_at demo_done ''JJJ'')" by code_simp
  have "jr_RunID (job_at demo_done ''JJJ'') = ''J''" "mget (runs demo_done) ''J'' \<noteq> None" by code_simp+
  then obtain r where r: "mget (runs demo_done) (jr_RunID (job_at demo_done ''JJJ'')) = Some r" by auto
  have "fst (mem_RerequestJob W ''JJJ'' 10 demo_done) = Inr ''JJJJ''" by code_simp
  then have "mem_RerequestJob W ''JJJ'' 10 demo_done = (Inr ''JJJJ'', demo_retry)"
    unfolding demo_retry_def by (metis prod.collapse)
  with rerequest_idempotent [OF wf o r this, of 12] show ?thesis by auto
qed

text \<open>
  The aggregate counts every attempt. After a failed job is rerequested and its second attempt
  succeeds, the reopened run still ends as failed.
\<close>

theorem rerequest_cannot_repair_run:
  "map_option run_Status (mget (runs demo_done) ''J'') = Some RunFailed
   \<and> map_option run_Status (mget (runs demo_retry) ''J'') = Some RunQueued
   \<and> map_option run_Status (mget (runs (snd (mem_ApplyObserved ''JJJJ'' PhaseSucceeded 15 demo_retry))) ''J'') = Some RunFailed"
  by code_simp

text \<open>
  Creating a run is not atomic: with a duplicate job key the call fails, yet the jobs
  written before the duplicate stay queued, belong to no run, and are handed out by the next claim.
\<close>

definition demo_dup :: RunSeed where
  "demo_dup = demo_seed\<lparr>rs_Jobs := [demo_intent ''build'' [], demo_intent ''build'' []]\<rparr>"

theorem create_run_duplicate_leaves_orphan:
  "map_sum (\<lambda>_. ()) run_ID (map_sum id fst (fst (mem_CreateRun W demo_dup 5 demo1))) = Inl ()
   \<and> runs (snd (mem_CreateRun W demo_dup 5 demo1)) = []
   \<and> map_sum id jr_ID (fst (mem_ClaimNextQueuedJob W (snd (mem_CreateRun W demo_dup 5 demo1)))) = Inr ''JJ''"
  by code_simp

section \<open>Collection\<close>

text \<open>
  C17. A collection pass deletes exactly the active objects of finished jobs of finished runs that were
  not collected yet, marks exactly those jobs, reports how many, leaves every run and every other
  job and object alone, and a second pass finds nothing to do.
\<close>

theorem collect_exact:
  assumes "wf_store w s" "wf_active x"
  shows "\<exists>s' x'. Collect_jobs (mem_store w) mem_active now (s, x) =
      ((card {i. gc_ready (mget (jobs s)) (mget (runs s)) i}, None), (s', x'))
    \<and> mget (runs s') = mget (runs s)
    \<and> (\<forall>i. objects x' i = (if gc_ready (mget (jobs s)) (mget (runs s)) i then None else objects x i))
    \<and> (\<forall>i. if gc_ready (mget (jobs s)) (mget (runs s)) i
           then \<exists>j t. mget (jobs s) i = Some j \<and> mget (jobs s') i = Some (j\<lparr>jr_ActiveCollectedAt := Some t\<rparr>)
           else mget (jobs s') i = mget (jobs s) i)
    \<and> Collect_jobs (mem_store w) mem_active now' (s', x') = ((0, None), (s', x'))"
proof -
  from mem_ports.collect_ok [OF assms, of now] obtain s' x' where
    c: "Collect_jobs (mem_store w) mem_active now (s, x) = ((card {i. gc_ready (mget (jobs s)) (mget (runs s)) i}, None), (s', x'))"
    "mget (runs s') = mget (runs s)"
    "\<forall>i. objects x' i = (if gc_ready (mget (jobs s)) (mget (runs s)) i then None else objects x i)"
    "\<forall>i. \<not> gc_ready (mget (jobs s)) (mget (runs s)) i \<longrightarrow> mget (jobs s') i = mget (jobs s) i"
    "\<forall>i. gc_ready (mget (jobs s)) (mget (runs s)) i \<longrightarrow>
       (\<exists>j t. mget (jobs s) i = Some j \<and> mget (jobs s') i = Some (j\<lparr>jr_ActiveCollectedAt := Some t\<rparr>))" by blast
  from mem_ports.collect_twice [OF assms c(1), of now'] c show ?thesis by auto
qed

theorem collect_exact_witness:
  "\<exists>s' x'. Collect_jobs (mem_store W) mem_active int (demo_done, NewActiveStore\<lparr>objects := [''JJ'' \<mapsto> \<lparr>ao_Name = CRName ''JJ'', ao_UID = ''u''\<rparr>]\<rparr>)
      = ((card {i. gc_ready (mget (jobs demo_done)) (mget (runs demo_done)) i}, None), (s', x')) \<and> objects x' ''JJ'' = None"
proof -
  let ?x = "NewActiveStore\<lparr>objects := [''JJ'' \<mapsto> \<lparr>ao_Name = CRName ''JJ'', ao_UID = ''u''\<rparr>]\<rparr>"
  have wf: "wf_store W demo_done" by (rule reachable_store_ok(1) [OF unique_ids_unary demo_done_reachable])
  have x: "wf_active ?x" by (auto simp: wf_active_def split: if_splits)
  have "map_option (\<lambda>j. (jr_ID j, jr_RunID j, jr_Status j, jr_ActiveCollectedAt j)) (mget (jobs demo_done) ''JJ'') = Some (''JJ'', ''J'', JobSucceeded, None)"
    "map_option run_Status (mget (runs demo_done) ''J'') = Some RunFailed" by code_simp+
  then have "gc_ready (mget (jobs demo_done)) (mget (runs demo_done)) ''JJ''" by (auto simp: gc_ready_def)
  with collect_exact [OF wf x, of int int] show ?thesis by fastforce
qed

lemma sys_step_objects:
  assumes "sys_step w c c'" "objects (active c) i = Some ob"
  shows "objects (active c') i = Some ob \<or> objects (active c') i = None \<and> i \<in># listed c"
  using assms
  by (cases rule: sys_step.cases) (auto simp: mem_Delete_def mem_CreateOrGet_def Let_def split: option.splits if_splits)

text \<open>
  C16. Active objects are only ever removed for finished jobs: in every reachable state of the
  concurrent system, if a step makes an object disappear, the durable record of its job is terminal.
\<close>

theorem only_finished_jobs_lose_objects:
  assumes "reachable w c" "unique_ids w" "sys_step w c c'" "objects (active c) i = Some ob" "objects (active c') i \<noteq> Some ob"
  shows "\<exists>j. mget (jobs (durable c)) i = Some j \<and> job_IsTerminal (jr_Status j)"
  using reachable_inv [OF assms(2,1)] sys_step_objects [OF assms(3,4)] assms(5)
  by (auto simp: sys_inv_def terminal_job_def)

text \<open>A run of the system: dispatch the first job, cancel the run, collect.\<close>

definition leak0 :: system where "leak0 = demo_system\<lparr>checked := {#''JJ''#}\<rparr>"

definition leak1 :: system where
  "leak1 = leak0\<lparr>durable := snd (mem_CancelRun ''J'' 9 (durable leak0))\<rparr>"

definition leak2 :: system where "leak2 = leak1\<lparr>listed := {#''JJ'', ''JJJ''#}\<rparr>"

lemma demo2_cancel: "reachable_store W (snd (mem_CancelRun ''J'' 9 demo2))"
  by (rule reachable_store_step [OF demo2_reachable step_intros(6)])

lemma leak0_step: "sys_step W demo_system leak0"
proof -
  have "mget (jobs demo2) ''JJ'' = Some (job_at demo2 ''JJ'')" by code_simp
  then have j: "mem_GetJobRun ''JJ'' (durable demo_system) = (Inr (job_at demo2 ''JJ''), durable demo_system)"
    by (simp add: demo_system_def mem_GetJobRun_def)
  have "jr_Status (job_at demo2 ''JJ'') = JobQueued" by code_simp
  from sys_step.check [OF j disjI1 [OF this]] show ?thesis by (simp add: leak0_def demo_system_def init_system_def)
qed

lemma leak1_step: "sys_step W leak0 leak1"
  unfolding leak1_def by (rule sys_step.store [OF step_intros(6)])

lemma leak2_step: "sys_step W leak1 leak2"
proof -
  have "map_sum id (map jr_ID) (fst (mem_ListGCReadyJobs (snd (mem_CancelRun ''J'' 9 demo2)))) = Inr [''JJ'', ''JJJ'']" by code_simp
  then obtain js where js: "fst (mem_ListGCReadyJobs (durable leak1)) = Inr js" "map jr_ID js = [''JJ'', ''JJJ'']"
    by (auto simp: leak1_def leak0_def demo_system_def map_sum_def split: sum.splits)
  then have "mem_ListGCReadyJobs (durable leak1) = (Inr js, durable leak1)" by (simp add: mem_ListGCReadyJobs_def)
  from sys_step.list [OF this] js(2) show ?thesis
    by (simp add: leak2_def leak1_def leak0_def demo_system_def init_system_def)
qed

lemma leak2_reachable: "reachable W leak2"
  using demo_system_reachable leak0_step leak1_step leak2_step unfolding reachable_def
  by (meson rtranclp.rtrancl_into_rtrancl)

definition demo_made :: system where
  "demo_made = leak2\<lparr>active := snd (mem_CreateOrGet ''JJ'' (active leak2)), checked := {#},
     made := {#(''JJ'', \<lparr>ao_Name = CRName ''JJ'', ao_UID = ''uid-'' @ CRName ''JJ''\<rparr>)#}\<rparr>"

lemma leak2_active: "active leak2 = NewActiveStore" "checked leak2 = {#''JJ''#}" "made leak2 = {#}" "deleted leak2 = {#}"
  "listed leak2 = {#''JJ'', ''JJJ''#}" "durable leak2 = snd (mem_CancelRun ''J'' 9 demo2)"
  by (simp_all add: leak2_def leak1_def leak0_def demo_system_def init_system_def)

lemma create_fresh: "mem_CreateOrGet ''JJ'' NewActiveStore =
  (Inr \<lparr>ao_Name = CRName ''JJ'', ao_UID = ''uid-'' @ CRName ''JJ''\<rparr>, snd (mem_CreateOrGet ''JJ'' NewActiveStore))"
  by (simp add: mem_CreateOrGet_def NewActiveStore_def Let_def)

lemma demo_made_step: "sys_step W leak2 demo_made"
  using sys_step.make [of "''JJ''" leak2 "\<lparr>ao_Name = CRName ''JJ'', ao_UID = ''uid-'' @ CRName ''JJ''\<rparr>"
      "snd (mem_CreateOrGet ''JJ'' (active leak2))" W] create_fresh
  by (simp add: demo_made_def leak2_active)

lemma demo_made_objects: "objects (active demo_made) = [''JJ'' \<mapsto> \<lparr>ao_Name = CRName ''JJ'', ao_UID = ''uid-'' @ CRName ''JJ''\<rparr>]"
  by (simp add: demo_made_def leak2_active mem_CreateOrGet_def NewActiveStore_def Let_def)

theorem only_finished_jobs_lose_objects_witness:
  "\<exists>c' j. sys_step W demo_made c' \<and> objects (active demo_made) ''JJ'' \<noteq> None \<and> objects (active c') ''JJ'' = None
     \<and> mget (jobs (durable demo_made)) ''JJ'' = Some j \<and> job_IsTerminal (jr_Status j)"
proof -
  have r: "reachable W demo_made"
    using leak2_reachable demo_made_step unfolding reachable_def by (meson rtranclp.rtrancl_into_rtrancl)
  let ?x = "snd (mem_Delete ''JJ'' (active demo_made))"
  have "''JJ'' \<in># listed demo_made" "mem_Delete ''JJ'' (active demo_made) = (Inr (), ?x)"
    by (simp_all add: demo_made_def leak2_active mem_Delete_def)
  from sys_step.delete [OF this, of W] obtain c' where c': "sys_step W demo_made c'" "active c' = ?x" by fastforce
  have o: "objects (active demo_made) ''JJ'' = Some \<lparr>ao_Name = CRName ''JJ'', ao_UID = ''uid-'' @ CRName ''JJ''\<rparr>"
    "objects (active c') ''JJ'' = None" by (simp_all add: demo_made_objects c' mem_Delete_def)
  with only_finished_jobs_lose_objects [OF r unique_ids_unary c'(1) o(1)] c'(1) show ?thesis by auto
qed

section \<open>An object the collector never finds\<close>

text \<open>An object whose job is finished and marked collected, that no collector is about to delete.\<close>

definition stranded :: "system \<Rightarrow> JobRunID \<Rightarrow> ActiveObject \<Rightarrow> bool" where
  "stranded c i ob \<longleftrightarrow> objects (active c) i = Some ob \<and> i \<notin># listed c
     \<and> (\<exists>j. mget (jobs (durable c)) i = Some j \<and> job_IsTerminal (jr_Status j) \<and> jr_ActiveCollectedAt j \<noteq> None)"

lemma stranded_step:
  assumes inv: "sys_inv w c" and step: "sys_step w c c'" and st: "stranded c i ob"
  shows "stranded c' i ob"
proof -
  have o: "objects (active c') i = Some ob"
    using sys_step_objects [OF step] st by (auto simp: stranded_def)
  obtain j where j: "mget (jobs (durable c)) i = Some j" "job_IsTerminal (jr_Status j)" "jr_ActiveCollectedAt j \<noteq> None"
    using st by (auto simp: stranded_def)
  have "jobs_evolve (durable c) (durable c')" using sys_inv_step [OF step inv] by simp
  with j have "\<exists>j'. mget (jobs (durable c')) i = Some j' \<and> job_IsTerminal (jr_Status j') \<and> jr_ActiveCollectedAt j' \<noteq> None"
    unfolding jobs_evolve_def evolves_def by metis
  moreover have wf: "wf_store w (durable c)" using inv by (simp add: sys_inv_def)
  have "i \<notin># listed c'"
    using step
  proof (cases rule: sys_step.cases)
    case (list js s')
    have "i \<notin> jr_ID ` set js"
      using gc_listed_terminal [OF wf list(2)] j by force
    then show ?thesis using st list by (simp add: stranded_def)
  next
    case (crash ck mk ls dl)
    then show ?thesis using st by (auto simp: stranded_def dest: mset_subset_eqD)
  qed (use st in \<open>auto simp: stranded_def dest: in_diffD\<close>)
  ultimately show ?thesis using o by (simp add: stranded_def)
qed

lemma stranded_steps:
  assumes "(sys_step w)\<^sup>*\<^sup>* c c'" "sys_inv w c" "stranded c i ob"
  shows "stranded c' i ob"
  using assms(1)
proof (induction rule: rtranclp_induct)
  case (step y z)
  then show ?case using sys_steps_inv [OF step(1) assms(2)] stranded_step by blast
qed (rule assms(3))

text \<open>The collector finishes with the cancelled job before the dispatcher, past its check, creates the object.\<close>

definition leak3 :: system where
  "leak3 = leak2\<lparr>active := snd (mem_Delete ''JJ'' (active leak2)), listed := {#''JJJ''#}, deleted := {#''JJ''#}\<rparr>"

definition leak4 :: system where
  "leak4 = leak3\<lparr>durable := snd (mem_MarkCollected ''JJ'' 10 (durable leak3)), deleted := {#}\<rparr>"

definition leak5 :: system where
  "leak5 = leak4\<lparr>active := snd (mem_CreateOrGet ''JJ'' (active leak4)), checked := {#},
     made := {#(''JJ'', \<lparr>ao_Name = CRName ''JJ'', ao_UID = ''uid-'' @ CRName ''JJ''\<rparr>)#}\<rparr>"

lemma leak3_step: "sys_step W leak2 leak3"
  using sys_step.delete [of "''JJ''" leak2 "snd (mem_Delete ''JJ'' (active leak2))" W]
  by (simp add: leak3_def leak2_active mem_Delete_def)

lemma leak4_step: "sys_step W leak3 leak4"
  using sys_step.mark_deleted [of "''JJ''" leak3 10 "fst (mem_MarkCollected ''JJ'' 10 (durable leak3))" "snd (mem_MarkCollected ''JJ'' 10 (durable leak3))" W]
  by (simp add: leak4_def leak3_def)

lemma leak5_step: "sys_step W leak4 leak5"
  using sys_step.make [of "''JJ''" leak4 "\<lparr>ao_Name = CRName ''JJ'', ao_UID = ''uid-'' @ CRName ''JJ''\<rparr>"
      "snd (mem_CreateOrGet ''JJ'' (active leak4))" W]
  by (simp add: leak5_def leak4_def leak3_def leak2_active mem_Delete_def NewActiveStore_def mem_CreateOrGet_def Let_def)

lemma leak5_stranded: "stranded leak5 ''JJ'' \<lparr>ao_Name = CRName ''JJ'', ao_UID = ''uid-'' @ CRName ''JJ''\<rparr>"
proof -
  have "map_option (\<lambda>j. (jr_Status j, jr_ActiveCollectedAt j))
    (mget (jobs (snd (mem_MarkCollected ''JJ'' 10 (snd (mem_CancelRun ''J'' 9 demo2))))) ''JJ'') = Some (JobCancelled, Some 10)"
    by code_simp
  then show ?thesis
    by (auto simp: stranded_def leak5_def leak4_def leak3_def leak2_active mem_Delete_def NewActiveStore_def
        mem_CreateOrGet_def Let_def)
qed

text \<open>
  C40. The collector can lose an object for good: when a cancellation and a whole collection pass fall between the
  dispatcher's check and its creation of the object, the object exists, and no continuation of any
  length, further collection passes included, ever deletes it.
\<close>

theorem object_can_be_stranded:
  "\<exists>c ob. reachable unary_world c \<and> objects (active c) ''JJ'' = Some ob
     \<and> (\<forall>c'. (sys_step unary_world)\<^sup>*\<^sup>* c c' \<longrightarrow> objects (active c') ''JJ'' = Some ob)"
proof -
  have r: "reachable W leak5"
    using leak2_reachable leak3_step leak4_step leak5_step unfolding reachable_def
    by (meson rtranclp.rtrancl_into_rtrancl)
  from stranded_steps [OF _ reachable_inv [OF unique_ids_unary r] leak5_stranded] r leak5_stranded show ?thesis
    by (auto simp: stranded_def)
qed

theorem object_can_be_stranded_witness:
  "\<exists>c ob. reachable unary_world c \<and> objects (active c) ''JJ'' = Some ob"
  using object_can_be_stranded by blast

end
