(* ===== verification/Workflow_Syntax.thy ===== *)
theory Workflow_Syntax
  imports Prelude
begin

text \<open>
  The workflow file parser of \<^verbatim>\<open>internal/workflow/syntax\<close>: the syntax tree, the
  diagnostics and the walk over the YAML tree. The YAML library is third-party: its decoder
  is a parameter, and its node type is the record of the fields the walk reads. A parse
  function returns its value beside the diagnostics collected so far, as the Go methods
  append to the parser's list.
\<close>

section \<open>Data\<close>

datatype yamlKind = DocumentNode | MappingNode | SequenceNode | ScalarNode | AliasNode | NoKind

datatype yamlNode = YNode (yn_Kind: yamlKind) (yn_Tag: string) (yn_Value: string)
  (yn_Content: "yamlNode list") (yn_Line: int) (yn_Column: int)

record Diagnostic =
  dg_File :: string
  dg_Line :: int
  dg_Column :: int
  dg_Path :: string
  dg_Message :: string

record Position =
  pos_Line :: int
  pos_Column :: int

record PushTrigger =
  pt_Branches :: "string list"
  pt_BranchesIgnore :: "string list"

record Triggers =
  on_Push :: "PushTrigger option"
  on_PullRequest :: "PushTrigger option"
  on_Schedule :: "string list"

record SyntaxStep =
  st_Pos :: Position
  st_Name :: string
  st_If :: string
  st_Run :: string
  st_Uses :: string
  st_With :: "(string, string) gomap"
  st_ContinueOnError :: bool
  st_Env :: "(string, string) gomap"

text \<open>A nil map and an empty one differ only for \<open>job_Env\<close>, where \<open>None\<close> is nil.\<close>

record Job =
  job_ID :: string
  job_Pos :: Position
  job_Name :: string
  job_RunsOn :: string
  job_If :: string
  job_Needs :: "string list"
  job_Matrix :: "(string, string list) gomap"
  job_Env :: "(string, string) gomap option"
  job_Steps :: "SyntaxStep list"

record Workflow =
  wf_File :: string
  wf_Name :: string
  wf_On :: Triggers
  wf_Jobs :: "Job list"

definition subsetMessage :: string where
  "subsetMessage = ''field is not in the supported subset''"

definition Diagnostic_String :: "Diagnostic \<Rightarrow> string" where
  "Diagnostic_String d = dg_File d @ '':'' @ itoa (nat (dg_Line d)) @ '':'' @ itoa (nat (dg_Column d))
     @ '': '' @ dg_Path d @ '': '' @ dg_Message d"

definition Error_Error :: "Diagnostic list \<Rightarrow> string" where
  "Error_Error ds = ''workflow syntax: '' @ Join (map Diagnostic_String ds) ''; ''"

section \<open>Leaves\<close>

type_synonym diags = "Diagnostic list"

definition p_fail :: "string \<Rightarrow> yamlNode \<Rightarrow> string \<Rightarrow> string \<Rightarrow> diags \<Rightarrow> diags" where
  "p_fail file node path msg ds = ds @ [\<lparr>dg_File = file, dg_Line = yn_Line node, dg_Column = yn_Column node,
     dg_Path = path, dg_Message = msg\<rparr>]"

definition pos_of :: "yamlNode \<Rightarrow> Position" where
  "pos_of node = \<lparr>pos_Line = yn_Line node, pos_Column = yn_Column node\<rparr>"

definition unwrapDoc :: "yamlNode \<Rightarrow> yamlNode" where
  "unwrapDoc n = (if yn_Kind n = DocumentNode \<and> length (yn_Content n) > 0 then hd (yn_Content n) else n)"

definition kindName :: "yamlNode \<Rightarrow> string" where
  "kindName n = (case yn_Kind n of
     MappingNode \<Rightarrow> ''mapping'' | SequenceNode \<Rightarrow> ''sequence''
   | ScalarNode \<Rightarrow> ''scalar ('' @ Quote (yn_Value n) @ '')''
   | _ \<Rightarrow> ''alias/other'')"

text \<open>The key/value pairs of a mapping node: the loop \<^verbatim>\<open>for i := 0; i+1 < len; i += 2\<close>.\<close>

fun pairs_of :: "yamlNode list \<Rightarrow> (yamlNode \<times> yamlNode) list" where
  "pairs_of (k # v # rest) = (k, v) # pairs_of rest"
| "pairs_of _ = []"

definition visit_pair :: "string \<Rightarrow> string \<Rightarrow> string list \<Rightarrow> (yamlNode \<Rightarrow> yamlNode \<Rightarrow> 'a \<times> diags \<Rightarrow> 'a \<times> diags)
    \<Rightarrow> yamlNode \<times> yamlNode \<Rightarrow> 'a \<times> diags \<Rightarrow> 'a \<times> diags" where
  "visit_pair file path allowed visit kv acc =
     (if yn_Value (fst kv) \<notin> set allowed
      then (fst acc, p_fail file (fst kv) path (Quote (yn_Value (fst kv)) @ '' '' @ subsetMessage) (snd acc))
      else visit (fst kv) (snd kv) acc)"

definition mapping :: "string \<Rightarrow> yamlNode \<Rightarrow> string \<Rightarrow> string list \<Rightarrow> (yamlNode \<Rightarrow> yamlNode \<Rightarrow> 'a \<times> diags \<Rightarrow> 'a \<times> diags)
    \<Rightarrow> 'a \<times> diags \<Rightarrow> 'a \<times> diags" where
  "mapping file node path allowed visit acc =
     (if yn_Kind node \<noteq> MappingNode
      then (fst acc, p_fail file node path (''expected mapping, got '' @ kindName node) (snd acc))
      else fold (visit_pair file path allowed visit) (pairs_of (yn_Content node)) acc)"

definition scalarString :: "string \<Rightarrow> yamlNode \<Rightarrow> string \<Rightarrow> diags \<Rightarrow> string \<times> diags" where
  "scalarString file node path ds =
     (if yn_Kind node \<noteq> ScalarNode
      then ('''', p_fail file node path (''expected string, got '' @ kindName node) ds)
      else if yn_Tag node \<in> {''!!int'', ''!!bool'', ''!!float''}
      then ('''', p_fail file node path (''expected string, got '' @ kindName node) ds)
      else (yn_Value node, ds))"

fun string_items :: "string \<Rightarrow> string \<Rightarrow> yamlNode list \<Rightarrow> diags \<Rightarrow> string list \<times> diags" where
  "string_items file path [] ds = ([], ds)"
| "string_items file path (item # rest) ds =
     (let (x, ds1) = scalarString file item path ds; (xs, ds2) = string_items file path rest ds1 in (x # xs, ds2))"

definition stringSeq :: "string \<Rightarrow> yamlNode \<Rightarrow> string \<Rightarrow> diags \<Rightarrow> string list \<times> diags" where
  "stringSeq file node path ds =
     (if yn_Kind node \<noteq> SequenceNode then ([], p_fail file node path ''expected sequence of strings'' ds)
      else string_items file path (yn_Content node) ds)"

definition env_entry :: "string \<Rightarrow> string \<Rightarrow> yamlNode \<times> yamlNode \<Rightarrow> (string, string) gomap \<times> diags
    \<Rightarrow> (string, string) gomap \<times> diags" where
  "env_entry file path kv acc =
     (let (v, ds1) = scalarString file (snd kv) (path @ ''.'' @ yn_Value (fst kv)) (snd acc)
      in (mput (fst acc) (yn_Value (fst kv)) v, ds1))"

definition envMap :: "string \<Rightarrow> yamlNode \<Rightarrow> string \<Rightarrow> diags \<Rightarrow> (string, string) gomap option \<times> diags" where
  "envMap file node path ds =
     (if yn_Kind node \<noteq> MappingNode
      then (None, p_fail file node path ''expected mapping of env name to string value'' ds)
      else (let (env, ds1) = fold (env_entry file path) (pairs_of (yn_Content node)) ([], ds) in (Some env, ds1)))"

definition is_ident_start :: "char \<Rightarrow> bool" where
  "is_ident_start c \<longleftrightarrow> is_letter c \<or> c = CHR ''_''"

definition is_ident_rest :: "char \<Rightarrow> bool" where
  "is_ident_rest c \<longleftrightarrow> is_digit c \<or> c = CHR ''-''"

fun isIdentifier :: "string \<Rightarrow> bool" where
  "isIdentifier [] = False"
| "isIdentifier (c # cs) = (is_ident_start c \<and> list_all (\<lambda>c. is_ident_start c \<or> is_ident_rest c) cs)"

definition TrimRefPrefix :: "string \<Rightarrow> string" where
  "TrimRefPrefix ref = TrimPrefix ref ''refs/heads/''"

definition conditionString :: "string \<Rightarrow> yamlNode \<Rightarrow> string \<Rightarrow> diags \<Rightarrow> string \<times> diags" where
  "conditionString file node path ds =
     (if yn_Tag node = ''!!bool'' then (yn_Value node, ds) else scalarString file node path ds)"

definition parseNeeds :: "string \<Rightarrow> yamlNode \<Rightarrow> string \<Rightarrow> diags \<Rightarrow> string list \<times> diags" where
  "parseNeeds file node path ds =
     (if yn_Kind node = ScalarNode
      then (let (x, ds1) = scalarString file node path ds in ([x], ds1))
      else stringSeq file node path ds)"

section \<open>Triggers\<close>

definition push_field :: "string \<Rightarrow> yamlNode \<Rightarrow> yamlNode \<Rightarrow> PushTrigger \<times> diags \<Rightarrow> PushTrigger \<times> diags" where
  "push_field file key value acc =
     (if yn_Value key = ''branches'' then
        (let (xs, ds) = stringSeq file value ''.on.push.branches'' (snd acc)
         in ((fst acc)\<lparr>pt_Branches := xs\<rparr>, ds))
      else if yn_Value key = ''branches-ignore'' then
        (let (xs, ds) = stringSeq file value ''.on.push.branches-ignore'' (snd acc)
         in ((fst acc)\<lparr>pt_BranchesIgnore := xs\<rparr>, ds))
      else acc)"

definition parsePush :: "string \<Rightarrow> yamlNode \<Rightarrow> diags \<Rightarrow> PushTrigger option \<times> diags" where
  "parsePush file node ds =
     (if yn_Kind node \<noteq> MappingNode then
        (if yn_Kind node = ScalarNode \<and> (yn_Tag node = ''!!null'' \<or> yn_Value node = '''')
         then (Some \<lparr>pt_Branches = [], pt_BranchesIgnore = []\<rparr>, ds)
         else (None, p_fail file node ''.on.push'' ''expected mapping of push filters'' ds))
      else
        (let (t, ds1) = mapping file node ''.on.push'' [''branches'', ''branches-ignore''] (push_field file)
               (\<lparr>pt_Branches = [], pt_BranchesIgnore = []\<rparr>, ds)
         in (Some t, ds1)))"

definition cron_entry :: "string \<Rightarrow> string \<Rightarrow> yamlNode \<times> yamlNode \<Rightarrow> string list \<times> diags \<Rightarrow> string list \<times> diags" where
  "cron_entry file ipath kv acc =
     (if yn_Value (fst kv) = ''cron''
      then (let (x, ds) = scalarString file (snd kv) (ipath @ ''.cron'') (snd acc) in (fst acc @ [x], ds))
      else acc)"

fun schedule_items :: "string \<Rightarrow> string \<Rightarrow> nat \<Rightarrow> yamlNode list \<Rightarrow> string list \<times> diags \<Rightarrow> string list \<times> diags" where
  "schedule_items file path idx [] acc = acc"
| "schedule_items file path idx (item # rest) acc =
     (let ipath = path @ ''['' @ itoa idx @ '']'' in
      if yn_Kind item \<noteq> MappingNode
      then schedule_items file path (Suc idx) rest
             (fst acc, p_fail file item ipath ''expected mapping with a cron key'' (snd acc))
      else schedule_items file path (Suc idx) rest
             (fold (cron_entry file ipath) (pairs_of (yn_Content item))
                (mapping file item ipath [''cron''] (\<lambda>_ _ a. a) acc)))"

definition parseSchedule :: "string \<Rightarrow> yamlNode \<Rightarrow> string \<Rightarrow> diags \<Rightarrow> string list \<times> diags" where
  "parseSchedule file node path ds =
     (if yn_Kind node \<noteq> SequenceNode
      then ([], p_fail file node path ''expected sequence of {cron: expression}'' ds)
      else schedule_items file path 0 (yn_Content node) ([], ds))"

definition on_entry :: "string \<Rightarrow> yamlNode \<times> yamlNode \<Rightarrow> Triggers \<times> diags \<Rightarrow> Triggers \<times> diags" where
  "on_entry file kv acc =
     (if yn_Value (fst kv) = ''push'' then
        (let (t, ds) = parsePush file (snd kv) (snd acc) in ((fst acc)\<lparr>on_Push := t\<rparr>, ds))
      else if yn_Value (fst kv) = ''pull_request'' then
        (let (t, ds) = parsePush file (snd kv) (snd acc) in ((fst acc)\<lparr>on_PullRequest := t\<rparr>, ds))
      else if yn_Value (fst kv) = ''schedule'' then
        (let (xs, ds) = parseSchedule file (snd kv) ''.on.schedule'' (snd acc) in ((fst acc)\<lparr>on_Schedule := xs\<rparr>, ds))
      else acc)"

definition parseOn :: "string \<Rightarrow> yamlNode \<Rightarrow> Workflow \<times> diags \<Rightarrow> Workflow \<times> diags" where
  "parseOn file node acc =
     (let wf = fst acc; ds = snd acc; empty = \<lparr>pt_Branches = [], pt_BranchesIgnore = []\<rparr> in
      case yn_Kind node of
        ScalarNode \<Rightarrow>
          if yn_Value node = ''push'' then (wf\<lparr>wf_On := (wf_On wf)\<lparr>on_Push := Some empty\<rparr>\<rparr>, ds)
          else if yn_Value node = ''pull_request'' then (wf\<lparr>wf_On := (wf_On wf)\<lparr>on_PullRequest := Some empty\<rparr>\<rparr>, ds)
          else (wf, p_fail file node ''.on'' (Quote (yn_Value node) @ '' '' @ subsetMessage) ds)
      | MappingNode \<Rightarrow>
          (let (_, ds1) = mapping file node ''.on'' [''push'', ''pull_request'', ''schedule''] (\<lambda>_ _ a. a) ((), ds);
               (on, ds2) = fold (on_entry file) (pairs_of (yn_Content node)) (wf_On wf, ds1)
           in (wf\<lparr>wf_On := on\<rparr>, ds2))
      | _ \<Rightarrow> (wf, p_fail file node ''.on'' ''expected a trigger name or a trigger mapping'' ds))"

section \<open>Jobs\<close>

definition matrix_entry :: "string \<Rightarrow> string \<Rightarrow> yamlNode \<times> yamlNode \<Rightarrow> (string, string list) gomap \<times> diags
    \<Rightarrow> (string, string list) gomap \<times> diags" where
  "matrix_entry file path kv acc =
     (if \<not> isIdentifier (yn_Value (fst kv))
      then (fst acc, p_fail file (fst kv) (path @ ''.matrix'') ''axis names must be identifiers'' (snd acc))
      else (let (vs, ds) = stringSeq file (snd kv) (path @ ''.matrix.'' @ yn_Value (fst kv)) (snd acc)
            in (mput (fst acc) (yn_Value (fst kv)) vs, ds)))"

definition strategy_field :: "string \<Rightarrow> string \<Rightarrow> yamlNode \<Rightarrow> yamlNode \<Rightarrow> (string, string list) gomap \<times> diags
    \<Rightarrow> (string, string list) gomap \<times> diags" where
  "strategy_field file path key v acc =
     (if yn_Kind v \<noteq> MappingNode
      then (fst acc, p_fail file v (path @ ''.matrix'') ''expected mapping of axis name to value list'' (snd acc))
      else fold (matrix_entry file path) (pairs_of (yn_Content v)) ([], snd acc))"

definition parseStrategy :: "string \<Rightarrow> yamlNode \<Rightarrow> string \<Rightarrow> diags \<Rightarrow> (string, string list) gomap \<times> diags" where
  "parseStrategy file node path ds =
     (if yn_Kind node \<noteq> MappingNode then ([], p_fail file node path ''expected mapping with a matrix key'' ds)
      else mapping file node path [''matrix''] (strategy_field file path) ([], ds))"

text \<open>The variables of one turn of the step loop.\<close>

record step_acc =
  sa_step :: SyntaxStep
  sa_hasRun :: bool
  sa_hasUses :: bool

definition nil_map :: "('k, 'v) gomap option \<Rightarrow> ('k, 'v) gomap" where
  "nil_map m = (case m of None \<Rightarrow> [] | Some x \<Rightarrow> x)"

definition step_field :: "string \<Rightarrow> string \<Rightarrow> yamlNode \<Rightarrow> yamlNode \<Rightarrow> step_acc \<times> diags \<Rightarrow> step_acc \<times> diags" where
  "step_field file path key value acc =
     (let a = fst acc; s = sa_step a; ds = snd acc; k = yn_Value key in
      if k = ''name'' then (let (x, ds1) = scalarString file value (path @ ''.name'') ds in (a\<lparr>sa_step := s\<lparr>st_Name := x\<rparr>\<rparr>, ds1))
      else if k = ''if'' then (let (x, ds1) = conditionString file value (path @ ''.if'') ds in (a\<lparr>sa_step := s\<lparr>st_If := x\<rparr>\<rparr>, ds1))
      else if k = ''run'' then
        (let (x, ds1) = scalarString file value (path @ ''.run'') ds in (a\<lparr>sa_step := s\<lparr>st_Run := x\<rparr>, sa_hasRun := True\<rparr>, ds1))
      else if k = ''uses'' then
        (let (x, ds1) = scalarString file value (path @ ''.uses'') ds in (a\<lparr>sa_step := s\<lparr>st_Uses := x\<rparr>, sa_hasUses := True\<rparr>, ds1))
      else if k = ''with'' then (let (m, ds1) = envMap file value (path @ ''.with'') ds in (a\<lparr>sa_step := s\<lparr>st_With := nil_map m\<rparr>\<rparr>, ds1))
      else if k = ''continue-on-error'' then
        (if yn_Tag value \<noteq> ''!!bool'' then (a, p_fail file value (path @ ''.continue-on-error'') ''expected boolean'' ds)
         else (a\<lparr>sa_step := s\<lparr>st_ContinueOnError := (yn_Value value = ''true'')\<rparr>\<rparr>, ds))
      else if k = ''env'' then (let (m, ds1) = envMap file value (path @ ''.env'') ds in (a\<lparr>sa_step := s\<lparr>st_Env := nil_map m\<rparr>\<rparr>, ds1))
      else acc)"

definition step_keys :: "string list" where
  "step_keys = [''name'', ''if'', ''run'', ''uses'', ''with'', ''continue-on-error'', ''env'']"

definition zero_step :: "yamlNode \<Rightarrow> SyntaxStep" where
  "zero_step item = \<lparr>st_Pos = \<lparr>pos_Line = yn_Line item, pos_Column = yn_Column item\<rparr>, st_Name = '''', st_If = '''', st_Run = '''',
     st_Uses = '''', st_With = [], st_ContinueOnError = False, st_Env = []\<rparr>"

definition parse_step :: "string \<Rightarrow> string \<Rightarrow> yamlNode \<Rightarrow> diags \<Rightarrow> SyntaxStep \<times> diags" where
  "parse_step file path item ds =
     (let (a, ds1) = mapping file item path step_keys (step_field file path)
            (\<lparr>sa_step = zero_step item, sa_hasRun = False, sa_hasUses = False\<rparr>, ds);
          ds2 = (if sa_hasRun a \<and> sa_hasUses a then p_fail file item path ''`run` and `uses` are mutually exclusive'' ds1 else ds1);
          ds3 = (if \<not> sa_hasRun a \<and> \<not> sa_hasUses a then p_fail file item path (''expected '' @ Quote ''run'' @ '' or '' @ Quote ''uses'') ds2 else ds2)
      in (sa_step a, ds3))"

fun step_items :: "string \<Rightarrow> string \<Rightarrow> nat \<Rightarrow> yamlNode list \<Rightarrow> diags \<Rightarrow> SyntaxStep list \<times> diags" where
  "step_items file jobID idx [] ds = ([], ds)"
| "step_items file jobID idx (item # rest) ds =
     (let (s, ds1) = parse_step file (''.jobs.'' @ jobID @ ''.steps['' @ itoa idx @ '']'') item ds;
          (ss, ds2) = step_items file jobID (Suc idx) rest ds1
      in (s # ss, ds2))"

definition parseSteps :: "string \<Rightarrow> yamlNode \<Rightarrow> string \<Rightarrow> diags \<Rightarrow> SyntaxStep list \<times> diags" where
  "parseSteps file node jobID ds =
     (if yn_Kind node \<noteq> SequenceNode
      then ([], p_fail file node (''.jobs.'' @ jobID @ ''.steps'') ''expected sequence of steps'' ds)
      else step_items file jobID 0 (yn_Content node) ds)"

definition job_field :: "string \<Rightarrow> string \<Rightarrow> yamlNode \<Rightarrow> yamlNode \<Rightarrow> Job \<times> diags \<Rightarrow> Job \<times> diags" where
  "job_field file jobID key value acc =
     (let j = fst acc; ds = snd acc; k = yn_Value key; path = ''.jobs.'' @ jobID in
      if k = ''name'' then (let (x, ds1) = scalarString file value (path @ ''.name'') ds in (j\<lparr>job_Name := x\<rparr>, ds1))
      else if k = ''runs-on'' then (let (x, ds1) = scalarString file value (path @ ''.runs-on'') ds in (j\<lparr>job_RunsOn := x\<rparr>, ds1))
      else if k = ''if'' then (let (x, ds1) = conditionString file value (path @ ''.if'') ds in (j\<lparr>job_If := x\<rparr>, ds1))
      else if k = ''needs'' then (let (xs, ds1) = parseNeeds file value (path @ ''.needs'') ds in (j\<lparr>job_Needs := xs\<rparr>, ds1))
      else if k = ''strategy'' then (let (m, ds1) = parseStrategy file value (path @ ''.strategy'') ds in (j\<lparr>job_Matrix := m\<rparr>, ds1))
      else if k = ''env'' then (let (m, ds1) = envMap file value (path @ ''.env'') ds in (j\<lparr>job_Env := m\<rparr>, ds1))
      else if k = ''steps'' then (let (ss, ds1) = parseSteps file value jobID ds in (j\<lparr>job_Steps := ss\<rparr>, ds1))
      else acc)"

definition job_keys :: "string list" where
  "job_keys = [''name'', ''runs-on'', ''if'', ''needs'', ''strategy'', ''env'', ''steps'']"

definition zero_job :: Job where
  "zero_job = \<lparr>job_ID = '''', job_Pos = \<lparr>pos_Line = 0, pos_Column = 0\<rparr>, job_Name = '''', job_RunsOn = '''', job_If = '''',
     job_Needs = [], job_Matrix = [], job_Env = None, job_Steps = []\<rparr>"

definition parseJob :: "string \<Rightarrow> yamlNode \<Rightarrow> string \<Rightarrow> diags \<Rightarrow> Job \<times> diags" where
  "parseJob file node jobID ds = mapping file node (''.jobs.'' @ jobID) job_keys (job_field file jobID) (zero_job, ds)"

definition job_entry :: "string \<Rightarrow> yamlNode \<times> yamlNode \<Rightarrow> Job list \<times> diags \<Rightarrow> Job list \<times> diags" where
  "job_entry file kv acc =
     (let jobID = yn_Value (fst kv) in
      if \<not> isIdentifier jobID
      then (fst acc, p_fail file (fst kv) ''.jobs'' (''job id '' @ Quote jobID @
              '' must start with a letter or '' @ [CHR 0x27, CHR 0x5F, CHR 0x27] @ '' and contain only alphanumerics, '' @
              [CHR 0x27, CHR 0x2D, CHR 0x27] @ '' or '' @ [CHR 0x27, CHR 0x5F, CHR 0x27]) (snd acc))
      else (let (job, ds) = parseJob file (snd kv) jobID (snd acc)
            in (fst acc @ [job\<lparr>job_ID := jobID, job_Pos := pos_of (fst kv)\<rparr>], ds)))"

definition parseJobs :: "string \<Rightarrow> yamlNode \<Rightarrow> Workflow \<times> diags \<Rightarrow> Workflow \<times> diags" where
  "parseJobs file node acc =
     (if yn_Kind node \<noteq> MappingNode
      then (fst acc, p_fail file node ''.jobs'' ''expected mapping of job id to job'' (snd acc))
      else (let (js, ds) = fold (job_entry file) (pairs_of (yn_Content node)) (wf_Jobs (fst acc), snd acc)
            in ((fst acc)\<lparr>wf_Jobs := js\<rparr>, ds)))"

definition workflow_field :: "string \<Rightarrow> yamlNode \<Rightarrow> yamlNode \<Rightarrow> Workflow \<times> diags \<Rightarrow> Workflow \<times> diags" where
  "workflow_field file key value acc =
     (if yn_Value key = ''name'' then
        (let (x, ds) = scalarString file value ''.name'' (snd acc) in ((fst acc)\<lparr>wf_Name := x\<rparr>, ds))
      else if yn_Value key = ''on'' then parseOn file value acc
      else if yn_Value key = ''jobs'' then parseJobs file value acc
      else acc)"

definition zero_workflow :: "string \<Rightarrow> Workflow" where
  "zero_workflow file = \<lparr>wf_File = file, wf_Name = '''',
     wf_On = \<lparr>on_Push = None, on_PullRequest = None, on_Schedule = []\<rparr>, wf_Jobs = []\<rparr>"

definition parseWorkflow :: "string \<Rightarrow> yamlNode \<Rightarrow> Workflow \<times> diags" where
  "parseWorkflow file root = mapping file root '''' [''name'', ''on'', ''jobs''] (workflow_field file) (zero_workflow file, [])"

text \<open>\<open>unmarshal\<close> is the decoder of \<^verbatim>\<open>gopkg.in/yaml.v3\<close>: a message, or the document node.\<close>

definition Parse :: "(bytes \<Rightarrow> string + yamlNode) \<Rightarrow> string \<Rightarrow> bytes \<Rightarrow> diags + Workflow" where
  "Parse unmarshal filename data =
     (case unmarshal data of
        Inl err \<Rightarrow> Inl [\<lparr>dg_File = filename, dg_Line = 1, dg_Column = 1, dg_Path = ''$'', dg_Message = ''invalid YAML: '' @ err\<rparr>]
      | Inr doc \<Rightarrow>
          (let (wf, ds) = parseWorkflow filename (unwrapDoc doc)
           in if length ds > 0 then Inl ds else Inr wf))"

end
