(* ===== verification/Compiler.thy ===== *)
theory Compiler
  imports Workflow_Syntax Run_Model
begin

text \<open>
  The workflow compiler of \<^verbatim>\<open>internal/workflow/compiler\<close>: ordering jobs by their needs,
  matrix expansion, the builtin registry with its suggestions, branch filters, and the bridge
  to job intents.
\<close>

section \<open>Data\<close>

record Builtin =
  bi_Name :: string
  bi_Inputs :: "string list"

definition Registry :: "(string, Builtin) gomap" where
  "Registry =
     [(''actions/checkout'', \<lparr>bi_Name = ''actions/checkout'',
         bi_Inputs = [''repository'', ''ref'', ''token'', ''fetch-depth'', ''persist-credentials'']\<rparr>),
      (''actions/cache'', \<lparr>bi_Name = ''actions/cache'', bi_Inputs = [''key'', ''restore-keys'', ''path'']\<rparr>),
      (''actions/upload-artifact'', \<lparr>bi_Name = ''actions/upload-artifact'', bi_Inputs = [''name'', ''path'', ''retention-days'']\<rparr>),
      (''actions/download-artifact'', \<lparr>bi_Name = ''actions/download-artifact'', bi_Inputs = [''name'', ''path'']\<rparr>)]"

record BuiltinCall =
  bc_Action :: string
  bc_Version :: string
  bc_Inputs :: "(string, string) gomap"

record Warning =
  w_Job :: string
  w_Step :: nat
  w_Msg :: string

record Step =
  s_Name :: string
  s_If :: string
  s_Run :: string
  s_Uses :: "BuiltinCall option"
  s_RawUses :: string
  s_RawWith :: "(string, string) gomap"
  s_ContinueOnError :: bool
  s_Env :: "(string, string) gomap"

record JobInstance =
  in_Key :: string
  in_DisplayName :: string
  in_RunnerClass :: string
  in_If :: string
  in_DependsOn :: "string list"
  in_Matrix :: "(string, string) gomap option"
  in_Env :: "(string, string) gomap"
  in_Steps :: "Step list"

record Compiled =
  c_Name :: string
  c_Jobs :: "JobInstance list"
  c_Warnings :: "Warning list"
  c_push :: "PushTrigger option"
  c_pr :: "PushTrigger option"
  c_schedule :: "string list"

section \<open>The builtin registry\<close>

definition minInt :: "int \<Rightarrow> int \<Rightarrow> int list \<Rightarrow> int" where
  "minInt a b rest = fold (\<lambda>r m. if r < m then r else m) rest (if b < a then b else a)"

text \<open>
  The inner loop of \<^verbatim>\<open>editDistance\<close>: \<open>left\<close> is \<^verbatim>\<open>cur[j-1]\<close>, the two heads of the list are
  \<^verbatim>\<open>prev[j-1]\<close> and \<^verbatim>\<open>prev[j]\<close>.
\<close>

fun edit_row :: "char \<Rightarrow> string \<Rightarrow> int list \<Rightarrow> int \<Rightarrow> int list" where
  "edit_row a (b # bs) (diag # up # prev) left =
     (let cost = (if a = b then 0 else 1);
          c = minInt (up + 1) (left + 1) [diag + cost]
      in c # edit_row a bs (up # prev) c)"
| "edit_row a _ _ left = []"

fun edit_loop :: "string \<Rightarrow> string \<Rightarrow> int \<Rightarrow> int list \<Rightarrow> int list" where
  "edit_loop [] b i prev = prev"
| "edit_loop (a # as) b i prev = edit_loop as b (i + 1) (i # edit_row a b prev i)"

definition editDistance :: "string \<Rightarrow> string \<Rightarrow> int" where
  "editDistance a b = last (edit_loop a b 1 (map int [0..<Suc (length b)]))"

text \<open>The insertion step of \<^verbatim>\<open>sortStrings\<close>: the new element moves left past the larger ones of the sorted prefix, kept reversed.\<close>

fun sift :: "string \<Rightarrow> string list \<Rightarrow> string list" where
  "sift x [] = [x]"
| "sift x (y # ys) = (if x < y then y # sift x ys else x # y # ys)"

definition sortStrings :: "string list \<Rightarrow> string list" where
  "sortStrings s = rev (fold sift s [])"

definition registryNames :: "(string, Builtin) gomap \<Rightarrow> string list" where
  "registryNames reg = sortStrings (map fst reg)"

text \<open>The registry entry closest to a name; the map is ranged over in the order of the list.\<close>

definition nearest :: "(string, Builtin) gomap \<Rightarrow> string \<Rightarrow> string" where
  "nearest reg s = fst (fold (\<lambda>n (best, bestDist).
      let d = editDistance (ToLower s) n in if d < bestDist then (n, d) else (best, bestDist)) (map fst reg) ('''', 3))"

definition parseUses :: "(string, Builtin) gomap \<Rightarrow> string \<Rightarrow> string + string \<times> string" where
  "parseUses reg uses =
     (let (action, version, ok) = Cut (TrimSpace uses) CHR ''@'' in
      if \<not> ok \<or> action = '''' \<or> version = ''''
      then Inl (''uses '' @ Quote uses @ '' must be <owner>/<repo>@<ref>'')
      else if mget reg action = None then
        (let hint = nearest reg action in
         if hint \<noteq> '''' then Inl (''action '' @ Quote uses @ '' is not a forgelet builtin; did you mean '' @ Quote hint @ ''?'')
         else Inl (''action '' @ Quote uses @ '' is not a forgelet builtin (available: '' @ Join (registryNames reg) '', '' @ '')''))
      else Inr (action, version))"

text \<open>The loop over the inputs: an unsupported key replaces the warning, a supported one is copied.\<close>

definition input_entry :: "string \<Rightarrow> nat \<Rightarrow> string \<Rightarrow> string list \<Rightarrow> string \<times> string
    \<Rightarrow> (string, string) gomap \<times> Warning \<Rightarrow> (string, string) gomap \<times> Warning" where
  "input_entry jobID idx action supported kv acc =
     (if fst kv \<notin> set supported
      then (fst acc, \<lparr>w_Job = jobID, w_Step = idx, w_Msg = ''input '' @ Quote (fst kv) @ '' is not supported by '' @ action\<rparr>)
      else (mput (fst acc) (fst kv) (snd kv), snd acc))"

definition no_warning :: Warning where
  "no_warning = \<lparr>w_Job = '''', w_Step = 0, w_Msg = ''''\<rparr>"

definition compileBuiltin :: "(string, Builtin) gomap \<Rightarrow> string \<Rightarrow> nat \<Rightarrow> SyntaxStep \<Rightarrow> string + BuiltinCall \<times> Warning" where
  "compileBuiltin reg jobID idx st =
     (case parseUses reg (st_Uses st) of
        Inl e \<Rightarrow> Inl e
      | Inr (action, version) \<Rightarrow>
          (let supported = (case mget reg action of None \<Rightarrow> [] | Some b \<Rightarrow> bi_Inputs b);
               (inputs, warn) = fold (input_entry jobID idx action supported) (st_With st) ([], no_warning)
           in Inr (\<lparr>bc_Action = action, bc_Version = version, bc_Inputs = inputs\<rparr>, warn)))"

section \<open>Matrix expansion\<close>

fun empty_axis :: "(string, string list) gomap \<Rightarrow> string option" where
  "empty_axis [] = None"
| "empty_axis ((axis, values) # rest) = (if length values = 0 then Some axis else empty_axis rest)"

definition add_axis :: "(string, string list) gomap \<Rightarrow> string \<Rightarrow> string list list \<Rightarrow> string list list" where
  "add_axis matrix axis combos =
     concat (map (\<lambda>combo. map (\<lambda>value. combo @ [axis @ ''='' @ value])
       (case mget matrix axis of None \<Rightarrow> [] | Some vs \<Rightarrow> vs)) combos)"

definition matrix_combos :: "(string, string list) gomap \<Rightarrow> string list list" where
  "matrix_combos matrix = fold (add_axis matrix) (sort (map fst matrix)) [[]]"

text \<open>\<^verbatim>\<open>part[:eq]\<close> and \<^verbatim>\<open>part[eq+1:]\<close> at the first equals sign.\<close>

definition part_axis :: "string \<Rightarrow> string" where
  "part_axis p = takeWhile (\<lambda>c. c \<noteq> CHR ''='') p"

definition part_value :: "string \<Rightarrow> string" where
  "part_value p = tl (dropWhile (\<lambda>c. c \<noteq> CHR ''='') p)"

definition instance_of :: "Job \<Rightarrow> JobInstance \<Rightarrow> string list \<Rightarrow> JobInstance" where
  "instance_of job inst combo =
     (let parts = map part_value combo in
      inst\<lparr>in_Matrix := Some (fold (\<lambda>p m. mput m (part_axis p) (part_value p)) combo []),
           in_Key := job_ID job @ ''['' @ Join parts '','' @ '']'',
           in_DisplayName := in_DisplayName inst @ '' ('' @ Join parts '', '' @ '')''\<rparr>)"

definition expandMatrix :: "Job \<Rightarrow> JobInstance \<Rightarrow> string + JobInstance list" where
  "expandMatrix job inst =
     (if length (job_Matrix job) = 0 then Inr [inst\<lparr>in_Matrix := None\<rparr>]
      else case empty_axis (job_Matrix job) of
             Some axis \<Rightarrow> Inl (''compile: job '' @ Quote (job_ID job) @ '' matrix axis '' @ Quote axis @ '' has no values'')
           | None \<Rightarrow> Inr (map (instance_of job inst) (matrix_combos (job_Matrix job))))"

section \<open>Ordering by needs\<close>

fun index_jobs :: "Job list \<Rightarrow> (string \<rightharpoonup> Job) \<Rightarrow> string + (string \<rightharpoonup> Job)" where
  "index_jobs [] byID = Inr byID"
| "index_jobs (j # js) byID =
     (if byID (job_ID j) \<noteq> None then Inl (''compile: duplicate job '' @ Quote (job_ID j))
      else index_jobs js (byID(job_ID j \<mapsto> j)))"

fun check_needs :: "(string \<rightharpoonup> Job) \<Rightarrow> string \<Rightarrow> string list \<Rightarrow> string option" where
  "check_needs byID i [] = None"
| "check_needs byID i (dep # deps) =
     (if byID dep = None then Some (''compile: job '' @ Quote i @ '' needs unknown job '' @ Quote dep)
      else check_needs byID i deps)"

fun check_all_needs :: "(string \<rightharpoonup> Job) \<Rightarrow> Job list \<Rightarrow> string option" where
  "check_all_needs byID [] = None"
| "check_all_needs byID (j # js) =
     (case check_needs byID (job_ID j) (job_Needs j) of Some e \<Rightarrow> Some e | None \<Rightarrow> check_all_needs byID js)"

text \<open>
  The depth-first walk, with the visiting states 0, 1 and 2 of the code and the output so
  far. The first argument bounds the depth of the recursion; \<open>None\<close> is running out of it. A
  missing map entry is a nil pointer, whose dereference panics.
\<close>

type_synonym walk = "(string \<Rightarrow> nat) \<times> Job list"

fun visit :: "nat \<Rightarrow> (string \<rightharpoonup> Job) \<Rightarrow> Job \<Rightarrow> walk \<Rightarrow> (string + walk) option"
  and visit_needs :: "nat \<Rightarrow> (string \<rightharpoonup> Job) \<Rightarrow> string list \<Rightarrow> walk \<Rightarrow> (string + walk) option" where
  "visit 0 byID j acc = None"
| "visit (Suc n) byID j (state, out) =
     (if state (job_ID j) = 2 then Some (Inr (state, out))
      else if state (job_ID j) = 1 then Some (Inl (''compile: needs cycle through job '' @ Quote (job_ID j)))
      else case visit_needs n byID (job_Needs j) (state(job_ID j := 1), out) of
             None \<Rightarrow> None
           | Some (Inl e) \<Rightarrow> Some (Inl e)
           | Some (Inr (state', out')) \<Rightarrow> Some (Inr (state'(job_ID j := 2), out' @ [j])))"
| "visit_needs n byID [] acc = Some (Inr acc)"
| "visit_needs n byID (dep # deps) acc =
     (case byID dep of
        None \<Rightarrow> Some (Inl ''panic: nil pointer dereference'')
      | Some d \<Rightarrow>
          (case visit n byID d acc of
             None \<Rightarrow> None
           | Some (Inl e) \<Rightarrow> Some (Inl e)
           | Some (Inr acc') \<Rightarrow> visit_needs n byID deps acc'))"

fun visit_all :: "nat \<Rightarrow> (string \<rightharpoonup> Job) \<Rightarrow> Job list \<Rightarrow> walk \<Rightarrow> (string + walk) option" where
  "visit_all n byID [] acc = Some (Inr acc)"
| "visit_all n byID (j # js) acc =
     (case visit n byID j acc of
        None \<Rightarrow> None
      | Some (Inl e) \<Rightarrow> Some (Inl e)
      | Some (Inr acc') \<Rightarrow> visit_all n byID js acc')"

definition topoSort :: "Job list \<Rightarrow> (string + Job list) option" where
  "topoSort jobs =
     (case index_jobs jobs Map.empty of
        Inl e \<Rightarrow> Some (Inl e)
      | Inr byID \<Rightarrow>
          (case check_all_needs byID jobs of
             Some e \<Rightarrow> Some (Inl e)
           | None \<Rightarrow>
               (case visit_all (Suc (length jobs)) byID jobs (\<lambda>_. 0, []) of
                  None \<Rightarrow> None
                | Some (Inl e) \<Rightarrow> Some (Inl e)
                | Some (Inr (state, out)) \<Rightarrow> Some (Inr out))))"

section \<open>Compilation\<close>

definition displayName :: "Job \<Rightarrow> string" where
  "displayName job = (if job_Name job \<noteq> '''' then job_Name job else job_ID job)"

definition ir_step :: "SyntaxStep \<Rightarrow> Step" where
  "ir_step st = \<lparr>s_Name = st_Name st, s_If = st_If st, s_Run = '''', s_Uses = None, s_RawUses = '''', s_RawWith = [],
     s_ContinueOnError = st_ContinueOnError st, s_Env = st_Env st\<rparr>"

text \<open>One turn of the loop over the steps of a job: the compiled step and the warning, if any.\<close>

definition compile_step :: "string \<Rightarrow> string \<Rightarrow> nat \<Rightarrow> SyntaxStep \<Rightarrow> string + Step \<times> Warning list" where
  "compile_step file jobID i st =
     (let at = ''compile '' @ file @ '': job '' @ Quote jobID @ '' step '' @ itoa i @ '': '' in
      if TrimSpace (st_Run st) = '''' \<and> st_Uses st = '''' then Inl (at @ ''empty run'')
      else if st_Uses st \<noteq> '''' then
        (case compileBuiltin Registry jobID i st of
           Inl berr \<Rightarrow>
             if Contains berr ''did you mean'' then Inl (at @ berr)
             else if Contains berr ''not a forgelet builtin''
             then Inr ((ir_step st)\<lparr>s_RawUses := st_Uses st, s_RawWith := st_With st\<rparr>, [])
             else Inl (at @ berr)
         | Inr (call, warn) \<Rightarrow>
             Inr ((ir_step st)\<lparr>s_Uses := Some call\<rparr>, if w_Msg warn \<noteq> '''' then [warn] else []))
      else Inr ((ir_step st)\<lparr>s_Run := st_Run st\<rparr>, []))"

fun compile_steps :: "string \<Rightarrow> string \<Rightarrow> nat \<Rightarrow> SyntaxStep list \<Rightarrow> string + Step list \<times> Warning list" where
  "compile_steps file jobID i [] = Inr ([], [])"
| "compile_steps file jobID i (st # sts) =
     (case compile_step file jobID i st of
        Inl e \<Rightarrow> Inl e
      | Inr (s, ws) \<Rightarrow>
          (case compile_steps file jobID (Suc i) sts of
             Inl e \<Rightarrow> Inl e
           | Inr (ss, ws') \<Rightarrow> Inr (s # ss, ws @ ws')))"

text \<open>The instance the matrix is expanded from, with a nil environment replaced by an empty one.\<close>

definition base_instance :: "Job \<Rightarrow> Step list \<Rightarrow> JobInstance" where
  "base_instance job steps = \<lparr>in_Key = job_ID job, in_DisplayName = displayName job, in_RunnerClass = job_RunsOn job,
     in_If = job_If job, in_DependsOn = job_Needs job, in_Matrix = None,
     in_Env = (case job_Env job of None \<Rightarrow> [] | Some e \<Rightarrow> e), in_Steps = steps\<rparr>"

definition compile_job :: "string \<Rightarrow> Job \<Rightarrow> string + JobInstance list \<times> Warning list" where
  "compile_job file job =
     (if TrimSpace (job_RunsOn job) = '''' then Inl (''compile '' @ file @ '': job '' @ Quote (job_ID job) @ '': empty runs-on'')
      else if length (job_Steps job) = 0 then Inl (''compile '' @ file @ '': job '' @ Quote (job_ID job) @ '': no steps'')
      else
        (case compile_steps file (job_ID job) 0 (job_Steps job) of
           Inl e \<Rightarrow> Inl e
         | Inr (steps, warns) \<Rightarrow>
             (case expandMatrix job (base_instance job steps) of
                Inl e \<Rightarrow> Inl (''compile '' @ file @ '': '' @ e)
              | Inr expanded \<Rightarrow> Inr (expanded, warns))))"

fun compile_jobs :: "string \<Rightarrow> Job list \<Rightarrow> string + JobInstance list \<times> Warning list" where
  "compile_jobs file [] = Inr ([], [])"
| "compile_jobs file (j # js) =
     (case compile_job file j of
        Inl e \<Rightarrow> Inl e
      | Inr (is, ws) \<Rightarrow>
          (case compile_jobs file js of
             Inl e \<Rightarrow> Inl e
           | Inr (is', ws') \<Rightarrow> Inr (is @ is', ws @ ws')))"

text \<open>The argument is a pointer, \<open>None\<close> the nil one; the outer option is the depth bound of the sort.\<close>

definition Compile :: "Workflow option \<Rightarrow> (string + Compiled) option" where
  "Compile wfo =
     (case wfo of
        None \<Rightarrow> Some (Inl ''compile: nil workflow'')
      | Some w \<Rightarrow>
          if length (wf_Jobs w) = 0 then Some (Inl (''compile '' @ wf_File w @ '': no jobs''))
          else
            (case topoSort (wf_Jobs w) of
               None \<Rightarrow> None
             | Some (Inl e) \<Rightarrow> Some (Inl (''compile '' @ wf_File w @ '': '' @ e))
             | Some (Inr ordered) \<Rightarrow>
                 (case compile_jobs (wf_File w) ordered of
                    Inl e \<Rightarrow> Some (Inl e)
                  | Inr (is, ws) \<Rightarrow>
                      Some (Inr \<lparr>c_Name = wf_Name w, c_Jobs = is, c_Warnings = ws, c_push = on_Push (wf_On w),
                        c_pr = on_PullRequest (wf_On w), c_schedule = on_Schedule (wf_On w)\<rparr>))))"

definition intent_of_instance :: "JobInstance \<Rightarrow> JobIntent" where
  "intent_of_instance job = \<lparr>ji_JobKey = in_Key job, ji_RunnerClass = in_RunnerClass job, ji_DependsOn = in_DependsOn job,
     ji_Matrix = in_Matrix job, ji_PlanDigest = '''', ji_Condition = ''''\<rparr>"

definition JobIntents :: "Compiled \<Rightarrow> JobIntent list" where
  "JobIntents c = map intent_of_instance (c_Jobs c)"

definition Schedules :: "Compiled \<Rightarrow> string list" where
  "Schedules c = c_schedule c"

section \<open>Branch filters\<close>

text \<open>
  \<^verbatim>\<open>path.Match\<close> as documented: a pattern is a sequence of terms; a star matches any run of
  characters other than a slash, a question mark any one of them, a class one character of its
  ranges, and everything else, escaped or not, itself. \<open>None\<close> is \<^verbatim>\<open>ErrBadPattern\<close>.
\<close>

datatype glob = Star | AnyChar | Class bool "(char \<times> char) list" | Lit char

text \<open>A possibly escaped character of a class; something must follow it.\<close>

fun getEsc :: "string \<Rightarrow> (char \<times> string) option" where
  "getEsc [] = None"
| "getEsc (c # cs) =
     (if c = CHR ''-'' \<or> c = CHR '']'' then None
      else if c = CHR 0x5C then (case cs of [] \<Rightarrow> None | [x] \<Rightarrow> None | x # y # rest \<Rightarrow> Some (x, y # rest))
      else if cs = [] then None else Some (c, cs))"

lemma getEsc_shorter: "getEsc s = Some (c, r) \<Longrightarrow> length r < length s"
  by (cases s) (auto split: if_splits list.splits)

function parse_ranges :: "nat \<Rightarrow> string \<Rightarrow> ((char \<times> char) list \<times> string) option" where
  "parse_ranges nrange chunk =
     (if nrange > 0 \<and> chunk \<noteq> [] \<and> hd chunk = CHR '']'' then Some ([], tl chunk)
      else case getEsc chunk of
             None \<Rightarrow> None
           | Some (lo, r1) \<Rightarrow>
               if hd r1 = CHR ''-'' then
                 (case getEsc (tl r1) of
                    None \<Rightarrow> None
                  | Some (hi, r2) \<Rightarrow>
                      (case parse_ranges (Suc nrange) r2 of None \<Rightarrow> None | Some (rs, rest) \<Rightarrow> Some ((lo, hi) # rs, rest)))
               else (case parse_ranges (Suc nrange) r1 of None \<Rightarrow> None | Some (rs, rest) \<Rightarrow> Some ((lo, lo) # rs, rest)))"
  by pat_completeness auto
termination
proof (relation "measure (\<lambda>(n, c). length c)", goal_cases)
  case 1
  then show ?case by simp
next
  case (2 nrange chunk p lo r1 q hi r2)
  then have "length r1 < length chunk" "length r2 < length (tl r1)" by (auto dest: getEsc_shorter)
  then show ?case by simp
next
  case (3 nrange chunk p lo r1)
  then show ?case by (auto dest: getEsc_shorter)
qed

declare parse_ranges.simps [simp del]

lemma parse_ranges_shorter: "parse_ranges n s = Some (rs, rest) \<Longrightarrow> length rest < length s"
proof (induction n s arbitrary: rs rest rule: parse_ranges.induct)
  case (1 nrange chunk)
  show ?case
  proof (cases "nrange > 0 \<and> chunk \<noteq> [] \<and> hd chunk = CHR '']''")
    case True
    with "1.prems" show ?thesis by (cases chunk) (simp_all add: parse_ranges.simps)
  next
    case False
    with "1.prems" obtain lo r1 where e: "getEsc chunk = Some (lo, r1)"
      by (auto simp: parse_ranges.simps split: option.splits)
    note l1 = getEsc_shorter [OF e]
    show ?thesis
    proof (cases "hd r1 = CHR ''-''")
      case True
      with "1.prems" e False obtain hi r2 rs' where "getEsc (tl r1) = Some (hi, r2)" "parse_ranges (Suc nrange) r2 = Some (rs', rest)"
        by (subst (asm) parse_ranges.simps) (auto split: option.splits)
      with "1.IH"(1) [OF False e refl True _ refl] getEsc_shorter [of "tl r1" hi r2] l1 show ?thesis by fastforce
    next
      case f: False
      with "1.prems" e False obtain rs' where "parse_ranges (Suc nrange) r1 = Some (rs', rest)"
        by (subst (asm) parse_ranges.simps) (auto split: option.splits)
      with "1.IH"(2) [OF False e refl f] l1 show ?thesis by fastforce
    qed
  qed
qed

function parse_glob :: "string \<Rightarrow> glob list option" where
  "parse_glob p =
     (case p of
        [] \<Rightarrow> Some []
      | c # cs \<Rightarrow>
          if c = CHR ''*'' then map_option (\<lambda>g. Star # g) (parse_glob cs)
          else if c = CHR ''?'' then map_option (\<lambda>g. AnyChar # g) (parse_glob cs)
          else if c = CHR ''['' then
            (let negated = (cs \<noteq> [] \<and> hd cs = CHR ''^''); body = (if negated then tl cs else cs) in
             case parse_ranges 0 body of
               None \<Rightarrow> None
             | Some (rs, rest) \<Rightarrow> map_option (\<lambda>g. Class negated rs # g) (parse_glob rest))
          else if c = CHR 0x5C then
            (case cs of [] \<Rightarrow> None | x # rest \<Rightarrow> map_option (\<lambda>g. Lit x # g) (parse_glob rest))
          else map_option (\<lambda>g. Lit c # g) (parse_glob cs))"
  by pat_completeness auto
termination
  by (relation "measure length") (auto split: if_splits dest!: parse_ranges_shorter)

declare parse_glob.simps [simp del]

fun glob_match :: "glob list \<Rightarrow> string \<Rightarrow> bool" where
  "glob_match [] s = (s = [])"
| "glob_match (Star # gs) [] = glob_match gs []"
| "glob_match (Star # gs) (c # cs) = (glob_match gs (c # cs) \<or> c \<noteq> CHR ''/'' \<and> glob_match (Star # gs) cs)"
| "glob_match (g # gs) [] = False"
| "glob_match (AnyChar # gs) (c # cs) = (c \<noteq> CHR ''/'' \<and> glob_match gs cs)"
| "glob_match (Class negated rs # gs) (c # cs) =
     ((list_ex (\<lambda>(lo, hi). lo \<le> c \<and> c \<le> hi) rs \<noteq> negated) \<and> glob_match gs cs)"
| "glob_match (Lit x # gs) (c # cs) = (x = c \<and> glob_match gs cs)"

definition matchGlob :: "string \<Rightarrow> string \<Rightarrow> bool" where
  "matchGlob pattern s = (case parse_glob pattern of None \<Rightarrow> False | Some g \<Rightarrow> glob_match g s)"

fun splitExclusions :: "string list \<Rightarrow> string list \<times> string list" where
  "splitExclusions [] = ([], [])"
| "splitExclusions (p # ps) =
     (let (inc, exc) = splitExclusions ps in
      if HasPrefix p ''!'' then (inc, TrimPrefix p ''!'' # exc) else (p # inc, exc))"

definition matchesFilters :: "PushTrigger \<Rightarrow> string \<Rightarrow> bool" where
  "matchesFilters trigger branch =
     (if list_ex (\<lambda>p. matchGlob p branch) (pt_BranchesIgnore trigger) then False
      else
        (let (inc, exc) = splitExclusions (pt_Branches trigger) in
         if list_ex (\<lambda>p. matchGlob p branch) exc then False
         else if length inc = 0 \<and> length exc = 0 then True
         else if length inc = 0 then True
         else list_ex (\<lambda>p. matchGlob p branch) inc))"

definition MatchesPush :: "Compiled \<Rightarrow> string \<Rightarrow> bool" where
  "MatchesPush c ref = (case c_push c of None \<Rightarrow> False | Some t \<Rightarrow> matchesFilters t (TrimRefPrefix ref))"

definition MatchesPullRequest :: "Compiled \<Rightarrow> string \<Rightarrow> bool" where
  "MatchesPullRequest c baseRef = (case c_pr c of None \<Rightarrow> False | Some t \<Rightarrow> matchesFilters t (TrimRefPrefix baseRef))"

end
