(* ===== verification/Edit_Distance.thy ===== *)
theory Edit_Distance
  imports Compiler
begin

text \<open>
  The suggestion for a mistyped action: the two-row dynamic program computes the least
  number of single-character edits, and the hint is a nearest registry name within two.
\<close>

section \<open>Edit scripts\<close>

text \<open>\<open>edits a b n\<close>: some way to turn \<open>a\<close> into \<open>b\<close> keeps, replaces, deletes and inserts characters with \<open>n\<close> changes.\<close>

inductive edits :: "string \<Rightarrow> string \<Rightarrow> nat \<Rightarrow> bool" where
  empty: "edits [] [] 0"
| keep: "edits a b n \<Longrightarrow> edits (c # a) (c # b) n"
| replace: "edits a b n \<Longrightarrow> edits (c # a) (d # b) (Suc n)"
| delete: "edits a b n \<Longrightarrow> edits (c # a) b (Suc n)"
| insert: "edits a b n \<Longrightarrow> edits a (d # b) (Suc n)"

text \<open>The textbook recursion.\<close>

fun lev :: "string \<Rightarrow> string \<Rightarrow> nat" where
  "lev [] b = length b"
| "lev (c # a) [] = Suc (length a)"
| "lev (c # a) (d # b) = min (min (Suc (lev a (d # b))) (Suc (lev (c # a) b))) (lev a b + (if c = d then 0 else 1))"

lemma lev_Nil2 [simp]: "lev a [] = length a"
  by (cases a) auto

lemma lev_delete: "lev (c # a) b \<le> Suc (lev a b)"
  by (cases b) auto

lemma lev_insert: "lev a (d # b) \<le> Suc (lev a b)"
  by (cases a) auto

lemma lev_step: "lev (c # a) (d # b) \<le> lev a b + (if c = d then 0 else 1)"
  by simp

lemma edits_lev: "edits a b n \<Longrightarrow> lev a b \<le> n"
proof (induction rule: edits.induct)
  case (keep a b n c)
  then show ?case using lev_step [of c a c b] by simp
next
  case (replace a b n c d)
  then show ?case using lev_step [of c a d b] by (auto split: if_splits)
next
  case (delete a b n c)
  then show ?case using lev_delete [of c a b] by simp
next
  case (insert a b n d)
  then show ?case using lev_insert [of a d b] by simp
qed simp

lemma edits_length: "edits a [] (length a)" "edits [] b (length b)"
  by (induction a, auto intro: edits.intros) (induction b, auto intro: edits.intros)

lemma lev_edits: "edits a b (lev a b)"
proof (induction a b rule: lev.induct)
  case (3 c a d b)
  consider "lev (c # a) (d # b) = Suc (lev a (d # b))" | "lev (c # a) (d # b) = Suc (lev (c # a) b)"
    | "c = d" "lev (c # a) (d # b) = lev a b" | "lev (c # a) (d # b) = Suc (lev a b)"
  proof -
    have "lev (c # a) (d # b) \<in> {Suc (lev a (d # b)), Suc (lev (c # a) b), lev a b + (if c = d then 0 else 1)}"
      by (simp add: min_def)
    then show thesis using that by (cases "c = d") auto
  qed
  then show ?case
  proof cases
    case 1
    show ?thesis unfolding 1 by (rule edits.delete) (rule "3.IH")
  next
    case 2
    show ?thesis unfolding 2 by (rule edits.insert) (rule "3.IH")
  next
    case 3
    show ?thesis unfolding 3(2) unfolding 3(1) by (rule edits.keep) (rule "3.IH")
  next
    case 4
    show ?thesis unfolding 4 by (rule edits.replace) (rule "3.IH")
  qed
qed (simp_all add: edits_length edits.delete)

text \<open>Edit scripts may be read from either end.\<close>

lemma edits_snoc:
  "edits a b n \<Longrightarrow> edits (a @ [c]) (b @ [c]) n \<and> edits (a @ [c]) (b @ [d]) (Suc n) \<and> edits (a @ [c]) b (Suc n) \<and> edits a (b @ [d]) (Suc n)"
  by (induction rule: edits.induct) (auto intro: edits.intros)

lemma edits_rev: "edits a b n \<Longrightarrow> edits (rev a) (rev b) n"
  by (induction rule: edits.induct) (auto dest: edits_snoc intro: edits.intros)

lemma lev_rev: "lev (rev a) (rev b) = lev a b"
  using edits_rev [of a b] edits_rev [of "rev a" "rev b"] lev_edits edits_lev by (metis le_antisym rev_rev_ident)

section \<open>The two-row program\<close>

text \<open>One row: the distances of a fixed string to the growing prefixes of the other, all reversed.\<close>

fun lev_row :: "string \<Rightarrow> string \<Rightarrow> string \<Rightarrow> int list" where
  "lev_row a p [] = [int (lev a p)]"
| "lev_row a p (c # b) = int (lev a p) # lev_row a (c # p) b"

lemma lev_row_hd: "lev_row a p b = int (lev a p) # tl (lev_row a p b)"
  by (cases b) auto

lemma edit_row_lev: "edit_row c b (lev_row a p b) (int (lev (c # a) p)) = tl (lev_row (c # a) p b)"
proof (induction b arbitrary: p)
  case (Cons d b)
  have m: "minInt (int (lev a (d # p)) + 1) (int (lev (c # a) p) + 1) [int (lev a p) + (if c = d then 0 else 1)] = int (lev (c # a) (d # p))"
    by (auto simp: minInt_def)
  have "lev_row a (d # p) b = int (lev a (d # p)) # tl (lev_row a (d # p) b)" by (rule lev_row_hd)
  then obtain rest where r: "lev_row a (d # p) b = int (lev a (d # p)) # rest" by blast
  have "edit_row c (d # b) (lev_row a p (d # b)) (int (lev (c # a) p))
      = int (lev (c # a) (d # p)) # edit_row c b (lev_row a (d # p) b) (int (lev (c # a) (d # p)))"
    unfolding lev_row.simps(2) r edit_row.simps(1) Let_def m by (rule refl)
  also have "\<dots> = lev_row (c # a) (d # p) b" unfolding Cons by (rule lev_row_hd [symmetric])
  finally show ?case by simp
qed simp

lemma edit_loop_lev:
  "edit_loop a b (int (length p) + 1) (lev_row p [] b) = lev_row (rev a @ p) [] b"
proof (induction a arbitrary: p)
  case (Cons c a)
  have "(int (length p) + 1) # edit_row c b (lev_row p [] b) (int (length p) + 1) = lev_row (c # p) [] b"
    using edit_row_lev [of c b p "[]"] lev_row_hd [of "c # p" "[]" b] by (simp add: add.commute)
  with Cons [of "c # p"] show ?case by (simp add: add.commute)
qed simp

lemma lev_row_last: "last (lev_row a p b) = int (lev a (rev b @ p))"
proof (induction b arbitrary: p)
  case (Cons c b)
  have "lev_row a (c # p) b \<noteq> []" using lev_row_hd [of a "c # p" b] by (metis list.distinct(1))
  with Cons show ?case by simp
qed simp

lemma lev_row_Nil: "lev_row [] p b = map int [length p..<Suc (length p + length b)]"
  by (induction b arbitrary: p) (auto simp: upt_conv_Cons simp del: upt_Suc)

lemma editDistance_lev: "editDistance a b = int (lev a b)"
proof -
  have "editDistance a b = last (edit_loop a b 1 (lev_row [] [] b))"
    unfolding editDistance_def lev_row_Nil by simp
  also have "\<dots> = last (lev_row (rev a) [] b)" using edit_loop_lev [of a b "[]"] by simp
  finally show ?thesis by (simp add: lev_row_last lev_rev)
qed

section \<open>The nearest name\<close>

definition closer :: "string \<Rightarrow> string \<Rightarrow> string \<times> int \<Rightarrow> string \<times> int" where
  "closer s n acc = (if editDistance s n < snd acc then (n, editDistance s n) else acc)"

lemma nearest_closer: "nearest reg s = fst (fold (closer (ToLower s)) (map fst reg) ('''', 3))"
  unfolding nearest_def closer_def [abs_def] by (simp add: Let_def case_prod_unfold cong: if_cong)

lemma fold_closer:
  "case fold (closer s) ns (b, d) of (b', d') \<Rightarrow>
     d' \<le> d \<and> (\<forall>n \<in> set ns. d' \<le> editDistance s n) \<and> (b' = b \<and> d' = d \<or> b' \<in> set ns \<and> d' = editDistance s b' \<and> d' < d)"
proof (induction ns arbitrary: b d)
  case (Cons n ns)
  show ?case
  proof (cases "editDistance s n < d")
    case True
    with Cons [where b = n and d = "editDistance s n"] show ?thesis by (auto simp: closer_def split: prod.splits)
  next
    case False
    with Cons [where b = b and d = d] show ?thesis by (auto simp: closer_def split: prod.splits)
  qed
qed simp

text \<open>
  C35. The suggestion offered for an unknown action is a registered name that some edit script of at most two
  single-character changes turns the lower-cased name into, and no script leads to any registered name with fewer changes;
  there is no suggestion exactly when every registered name needs three changes or more.
\<close>

theorem nearest_within_two_edits:
  assumes "'''' \<notin> set (map fst reg)"
  shows "if nearest reg s = ''''
     then \<forall>n \<in> set (map fst reg). \<forall>k. edits (ToLower s) n k \<longrightarrow> 3 \<le> k
     else nearest reg s \<in> set (map fst reg)
       \<and> (\<exists>k \<le> 2. edits (ToLower s) (nearest reg s) k \<and> (\<forall>n \<in> set (map fst reg). \<forall>m. edits (ToLower s) n m \<longrightarrow> k \<le> m))"
proof -
  let ?s = "ToLower s"
  obtain b d where r: "fold (closer ?s) (map fst reg) ('''', 3) = (b, d)" by fastforce
  have n: "nearest reg s = b" by (simp add: nearest_closer r)
  from fold_closer [where s = ?s and ns = "map fst reg" and b = "''''" and d = 3] r
  have f: "\<forall>n \<in> set (map fst reg). d \<le> editDistance ?s n" "b = '''' \<and> d = 3 \<or> b \<in> set (map fst reg) \<and> d = editDistance ?s b \<and> d < 3"
    by auto
  have least: "nat d \<le> k" if "n \<in> set (map fst reg)" "edits ?s n k" for n k
    using f(1) that edits_lev [OF that(2)] editDistance_lev [of ?s n] by fastforce
  show ?thesis
  proof (cases "b = ''''")
    case True
    with f(2) assms have "d = 3" by auto
    with True n least show ?thesis by fastforce
  next
    case False
    with f(2) have b: "b \<in> set (map fst reg)" "d = int (lev ?s b)" "d < 3" by (auto simp: editDistance_lev)
    then have "edits ?s b (nat d)" "nat d \<le> 2" using lev_edits [of ?s b] by auto
    with False n b(1) least show ?thesis by auto
  qed
qed

theorem nearest_within_two_edits_witness:
  "nearest Registry ''actions/chekcout'' = ''actions/checkout''
   \<and> (\<exists>k \<le> 2. edits (ToLower ''actions/chekcout'') ''actions/checkout'' k
        \<and> (\<forall>n \<in> set (map fst Registry). \<forall>m. edits (ToLower ''actions/chekcout'') n m \<longrightarrow> k \<le> m))"
proof -
  have r: "'''' \<notin> set (map fst Registry)" by code_simp
  have n: "nearest Registry ''actions/chekcout'' = ''actions/checkout''" by code_simp
  show ?thesis using nearest_within_two_edits [OF r, of "''actions/chekcout''"] unfolding n by simp
qed

end
