(* ===== verification/Run_Plan.thy ===== *)
theory Run_Plan
  imports Run_Model
begin

text \<open>
  The immutable plan of a job run (\<^verbatim>\<open>internal/run/plan\<close>): what the control plane hands to
  the executor. SHA-256 and the canonical JSON encoding are arguments.
\<close>

record SecretRef =
  sref_Scope :: string
  sref_Name :: string
  sref_Env :: string

record RunStep =
  rstep_Script :: string
  rstep_Shell :: string
  rstep_Env :: "(string, string) gomap"

record BuiltinStep =
  bs_Action :: string
  bs_Version :: string
  bs_Inputs :: "(string, string) gomap"

record JSStep =
  js_Repo :: string
  js_Ref :: string
  js_Path :: string
  js_Main :: string
  js_Script :: string
  js_Inputs :: "(string, string) gomap"

text \<open>A composite step carries the steps it stands for.\<close>

datatype PlanStep = PlanStep
  (ps_ID: string) (ps_Name: string) (ps_If: string) (ps_Run: RunStep)
  (ps_Builtin: "BuiltinStep option") (ps_JS: "JSStep option") (ps_Composite: "PlanStep list option")
  (ps_ContinueOnError: bool) (ps_WorkingDir: string)

record Plan =
  pl_JobRunID :: JobRunID
  pl_Repository :: RepositoryRef
  pl_EventName :: string
  pl_Actor :: string
  pl_SHA :: string
  pl_Ref :: string
  pl_RunnerClass :: string
  pl_Env :: "(string, string) gomap"
  pl_Steps :: "PlanStep list"
  pl_SecretRefs :: "SecretRef list"
  pl_TimeoutSecs :: int

definition plan_Digest :: "(string \<Rightarrow> string) \<Rightarrow> (Plan \<Rightarrow> string res) \<Rightarrow> Plan option \<Rightarrow> string res" where
  "plan_Digest sha canonicalJSON p =
     (case p of
        None \<Rightarrow> Inl (Errorf ''plan: digest of nil plan'')
      | Some p \<Rightarrow>
          if pl_JobRunID p = '''' then Inl (Errorf ''plan: empty job run id'')
          else if pl_Steps p = [] then Inl (Errorf (''plan '' @ pl_JobRunID p @ '': no steps''))
          else case canonicalJSON p of
                 Inl e \<Rightarrow> Inl (Wrapf (''plan '' @ pl_JobRunID p @ '': canonical encode'') e)
               | Inr b \<Rightarrow> Inr (sha b))"

end
