(* ===== verification/Go_Path.thy ===== *)
theory Go_Path
  imports Prelude
begin

text \<open>
  The functions of \<^verbatim>\<open>path/filepath\<close> that the sources call, on slash-separated paths.
\<close>

text \<open>The components kept so far, the last one first.\<close>

definition clean_step :: "bool \<Rightarrow> string list \<Rightarrow> string \<Rightarrow> string list" where
  "clean_step rooted stack part =
     (if part = '''' \<or> part = ''.'' then stack
      else if part = ''..'' then
        (if stack \<noteq> [] \<and> hd stack \<noteq> ''..'' then tl stack else if rooted then stack else ''..'' # stack)
      else part # stack)"

definition IsAbs :: "string \<Rightarrow> bool" where
  "IsAbs p = HasPrefix p ''/''"

definition components :: "string \<Rightarrow> string list" where
  "components p = rev (foldl (clean_step (IsAbs p)) [] (Split p (CHR ''/'')))"

definition of_components :: "bool \<Rightarrow> string list \<Rightarrow> string" where
  "of_components rooted cs =
     (if rooted then ''/'' @ Join cs ''/'' else if cs = [] then ''.'' else Join cs ''/'')"

definition Clean :: "string \<Rightarrow> string" where
  "Clean p = of_components (IsAbs p) (components p)"

definition path_Join :: "string list \<Rightarrow> string" where
  "path_Join elems = (let es = filter (\<lambda>e. e \<noteq> '''') elems in if es = [] then '''' else Clean (Join es ''/''))"

text \<open>Everything up to and including the last slash, cleaned.\<close>

definition Dir :: "string \<Rightarrow> string" where
  "Dir p = Clean (rev (dropWhile (\<lambda>c. c \<noteq> CHR ''/'') (rev p)))"

section \<open>Clean paths\<close>

text \<open>A component a clean rooted path can have.\<close>

definition proper :: "string \<Rightarrow> bool" where
  "proper c \<longleftrightarrow> c \<noteq> '''' \<and> c \<noteq> ''.'' \<and> c \<noteq> ''..'' \<and> CHR ''/'' \<notin> set c"

lemma Split_parts: "c \<in> set (Split s x) \<Longrightarrow> x \<notin> set c"
  by (induction s arbitrary: c) (auto split: if_splits list.splits)

lemma Split_append: "Split (s @ x # t) x = Split s x @ Split t x"
proof (induction s)
  case (Cons a s)
  obtain w ws where "Split s x = w # ws" by (meson Split_nonempty list.exhaust)
  with Cons show ?case by auto
qed simp

lemma clean_step_proper: "list_all proper stack \<Longrightarrow> CHR ''/'' \<notin> set part \<Longrightarrow> list_all proper (clean_step True stack part)"
  by (cases stack) (auto simp: clean_step_def proper_def)

lemma foldl_clean_proper:
  "list_all proper stack \<Longrightarrow> \<forall>c\<in>set cs. CHR ''/'' \<notin> set c \<Longrightarrow> list_all proper (foldl (clean_step True) stack cs)"
  by (induction cs arbitrary: stack) (simp_all add: clean_step_proper)

lemma components_proper: "IsAbs p \<Longrightarrow> list_all proper (components p)"
  using foldl_clean_proper [of "[]" "Split p (CHR ''/'')"] by (simp add: components_def Split_parts list_all_rev)

lemma foldl_clean_id: "list_all proper cs \<Longrightarrow> foldl (clean_step r) stack cs = rev cs @ stack"
  by (induction cs arbitrary: stack) (auto simp: clean_step_def proper_def)

lemma clean_step_empty [simp]: "clean_step r stack '''' = stack"
  by (simp add: clean_step_def)

text \<open>Clean paths are determined by their components, and cleaning them changes nothing.\<close>

lemma Split_of_components: "list_all proper cs \<Longrightarrow> Split (of_components True cs) (CHR ''/'') = '''' # (if cs = [] then [''''] else cs)"
  using Split_Join [of cs "CHR ''/''"] by (auto simp: of_components_def proper_def list_all_iff)

lemma components_of_components: "list_all proper cs \<Longrightarrow> components (of_components True cs) = cs"
  by (simp add: components_def Split_of_components foldl_clean_id)

lemma components_Clean: "IsAbs p \<Longrightarrow> components (Clean p) = components p"
  by (simp add: Clean_def components_of_components components_proper)

end
