(* ===== verification/Executor_Text.thy ===== *)
theory Executor_Text
  imports Prelude
begin

text \<open>
  The pure text packages of the executor: workflow commands on the output of a step
  (executor/command), the files a step writes (executor/filecommand) and secret masking
  (executor/mask).
\<close>

section \<open>Workflow commands\<close>

record Command =
  cmd_Name :: string
  cmd_Parameters :: "(string, string) gomap"
  cmd_Message :: string

definition command_names :: "string list" where
  "command_names = [''add-mask'', ''group'', ''endgroup'', ''warning'', ''error'', ''notice'', ''debug'']"

fun params_loop :: "string list \<Rightarrow> (string, string) gomap \<Rightarrow> (string, string) gomap" where
  "params_loop [] out = out"
| "params_loop (part # parts) out =
     params_loop parts
       (if part = '''' then out
        else case Index part ''='' of
               Some eq \<Rightarrow> if eq > 0 then mput out (take eq part) (drop (Suc eq) part) else out
             | None \<Rightarrow> out)"

definition parseParams :: "string \<Rightarrow> (string, string) gomap" where
  "parseParams s = params_loop (Split s (CHR '','')) []"

text \<open>\<open>None\<close> is ordinary output.\<close>

definition parse_command :: "string \<Rightarrow> Command option" where
  "parse_command line =
     (if \<not> HasPrefix line ''::'' then None
      else let rest = drop 2 line in
        case Index rest ''::'' of
          None \<Rightarrow> None
        | Some close \<Rightarrow>
            (let head = take close rest; message = drop (close + 2) rest;
                 (name, params) = (case Index head '' '' of
                    Some idx \<Rightarrow> (take idx head, parseParams (drop (Suc idx) head))
                  | None \<Rightarrow> (head, []));
                 lname = ToLower (TrimSpace name) in
             if lname \<in> set command_names
             then Some \<lparr>cmd_Name = lname, cmd_Parameters = params, cmd_Message = message\<rparr> else None))"

section \<open>File commands\<close>

definition newline :: char where
  "newline = char_of (10 :: nat)"

definition carriage :: char where
  "carriage = char_of (13 :: nat)"

definition splitLines :: "string \<Rightarrow> string list" where
  "splitLines s =
     (let s = ReplaceAll s [carriage, newline] [newline] in
      if s = '''' then [] else Split (TrimSuffix s [newline]) newline)"

text \<open>The lines of a heredoc up to its delimiter, and the lines after it.\<close>

fun heredoc_body :: "string \<Rightarrow> string list \<Rightarrow> string list \<Rightarrow> (string list \<times> string list) option" where
  "heredoc_body delim [] body = None"
| "heredoc_body delim (l # ls) body = (if l = delim then Some (body, ls) else heredoc_body delim ls (body @ [l]))"

lemma heredoc_body_shorter: "heredoc_body d ls b = Some (b', rest) \<Longrightarrow> length rest < length ls"
  by (induction d ls b rule: heredoc_body.induct) (auto split: if_splits)

type_synonym KV = "string \<times> string"

function kv_loop :: "string list \<Rightarrow> KV list \<Rightarrow> KV list res" where
  "kv_loop lines out =
     (case lines of
        [] \<Rightarrow> Inr out
      | line # ls \<Rightarrow>
          if TrimSpace line = '''' then kv_loop ls out
          else case Index line ''<<'' of
                 Some (Suc i) \<Rightarrow>
                   (let key = TrimSpace (take (Suc i) line); delim = TrimSpace (drop (Suc i + 2) line) in
                    if key = '''' \<or> delim = ''''
                    then Inl (Errorf (''filecommand: malformed heredoc opener '' @ Quote line))
                    else case heredoc_body delim ls [] of
                           None \<Rightarrow> Inl (Errorf (''filecommand: heredoc for '' @ Quote key @ '' not closed by '' @ Quote delim))
                         | Some (body, rest) \<Rightarrow> kv_loop rest (out @ [(key, Join body [newline])]))
               | _ \<Rightarrow>
                   (case Index line ''='' of
                      Some (Suc e) \<Rightarrow> kv_loop ls (out @ [(TrimSpace (take (Suc e) line), drop (Suc e + 1) line)])
                    | _ \<Rightarrow> Inl (Errorf (''filecommand: malformed line '' @ Quote line @ '' (want NAME=value or NAME<<DELIM)''))))"
  by pat_completeness auto
termination
  by (relation "measure (\<lambda>(lines, out). length lines)") (auto dest!: heredoc_body_shorter)

declare kv_loop.simps [simp del]

definition ParseKVFile :: "string \<Rightarrow> KV list res" where
  "ParseKVFile data = kv_loop (splitLines data) []"

definition apply_kvs :: "(string, string) gomap \<Rightarrow> KV list \<Rightarrow> (string, string) gomap" where
  "apply_kvs env kvs = foldl (\<lambda>m (k, v). mput m k v) env kvs"

definition ParsePathFile :: "string \<Rightarrow> string list" where
  "ParsePathFile data = filter (\<lambda>line. TrimSpace line \<noteq> '''') (splitLines data)"

section \<open>Masking\<close>

text \<open>The registered values, in the order of registration.\<close>

type_synonym Masker = "string list"

definition mask_Add :: "Masker \<Rightarrow> string \<Rightarrow> Masker" where
  "mask_Add m v = (if v = '''' then m else if v \<in> set m then m else m @ [v])"

text \<open>A stable sort with the longer values first.\<close>

definition by_length :: "Masker \<Rightarrow> Masker" where
  "by_length vals = sort_key (\<lambda>v. - int (length v)) vals"

fun replace_each :: "string list \<Rightarrow> string \<Rightarrow> string" where
  "replace_each [] s = s"
| "replace_each (v # vs) s = replace_each vs (if v \<noteq> '''' then ReplaceAll s v ''***'' else s)"

definition mask_Apply :: "Masker \<Rightarrow> string \<Rightarrow> string" where
  "mask_Apply m s = (if m = [] then s else replace_each (by_length m) s)"

text \<open>
  Log records: a message and attributes. An attribute that is not a string for
  \<^verbatim>\<open>slog\<close> (a number, a value of a named string type) is not masked. A handler carries
  the attributes added by \<^verbatim>\<open>WithAttrs\<close>, which go to the inner handler as they are.
\<close>

datatype attr_value = StrAttr string | OtherAttr string

record log_record =
  lr_Message :: string
  lr_Attrs :: "(string \<times> attr_value) list"

definition mask_attr :: "Masker \<Rightarrow> string \<times> attr_value \<Rightarrow> string \<times> attr_value" where
  "mask_attr m a = (fst a, case snd a of StrAttr s \<Rightarrow> StrAttr (mask_Apply m s) | OtherAttr s \<Rightarrow> OtherAttr s)"

definition handle_record :: "Masker \<Rightarrow> (string \<times> attr_value) list \<Rightarrow> log_record \<Rightarrow> log_record" where
  "handle_record m preset r = \<lparr>lr_Message = mask_Apply m (lr_Message r), lr_Attrs = preset @ map (mask_attr m) (lr_Attrs r)\<rparr>"

definition WithAttrs :: "(string \<times> attr_value) list \<Rightarrow> (string \<times> attr_value) list \<Rightarrow> (string \<times> attr_value) list" where
  "WithAttrs preset attrs = preset @ attrs"

section \<open>What masking hides\<close>

text \<open>Pieces of a text free of stars stay pieces of the text before a replacement.\<close>

definition star_free :: "string \<Rightarrow> bool" where
  "star_free v \<longleftrightarrow> CHR ''*'' \<notin> set v"

lemma star_free_prefix: "prefix w (CHR ''*'' # r) \<Longrightarrow> star_free w \<Longrightarrow> w = []"
  by (cases w) (auto simp: star_free_def)

lemma star_free_sublist: "sublist w (CHR ''*'' # r) \<Longrightarrow> star_free w \<Longrightarrow> sublist w r"
  by (auto simp: sublist_Cons_right dest: star_free_prefix)

lemma ReplaceAll_Nil: "s = [] \<or> v = [] \<Longrightarrow> ReplaceAll s v n = s"
  by (subst ReplaceAll.simps) (auto split: list.splits)

lemma ReplaceAll_hit: "v \<noteq> [] \<Longrightarrow> HasPrefix s v \<Longrightarrow> ReplaceAll s v n = n @ ReplaceAll (drop (length v) s) v n"
  by (subst ReplaceAll.simps) (auto split: list.splits)

lemma ReplaceAll_miss: "v \<noteq> [] \<Longrightarrow> \<not> HasPrefix (c # cs) v \<Longrightarrow> ReplaceAll (c # cs) v n = c # ReplaceAll cs v n"
  by (subst ReplaceAll.simps) simp

lemma ReplaceAll_prefix: "prefix w (ReplaceAll s v ''***'') \<Longrightarrow> star_free w \<Longrightarrow> prefix w s"
proof (induction s v "''***''" arbitrary: w rule: ReplaceAll.induct)
  case (1 s v)
  consider "v = [] \<or> s = []" | c cs where "v \<noteq> []" "s = c # cs" "HasPrefix s v"
    | c cs where "v \<noteq> []" "s = c # cs" "\<not> HasPrefix s v" by (cases s) auto
  then show ?case
  proof cases
    case 1
    with "1.prems"(1) show ?thesis by (auto simp: ReplaceAll_Nil)
  next
    case (2 c cs)
    with "1.prems" show ?thesis by (auto simp: ReplaceAll_hit dest: star_free_prefix)
  next
    case (3 c cs)
    then have R: "ReplaceAll s v ''***'' = c # ReplaceAll cs v ''***''" by (simp add: ReplaceAll_hit ReplaceAll_miss)
    show ?thesis
    proof (cases w)
      case (Cons d w')
      with "1.prems" R have "d = c" "prefix w' (ReplaceAll cs v ''***'')" "star_free w'" by (auto simp: star_free_def)
      with "1.hyps"(2) [of c cs w'] 3 Cons show ?thesis by simp
    qed simp
  qed
qed

lemma ReplaceAll_sublist: "sublist w (ReplaceAll s v ''***'') \<Longrightarrow> star_free w \<Longrightarrow> sublist w s"
proof (induction s v "''***''" rule: ReplaceAll.induct)
  case (1 s v)
  consider "v = [] \<or> s = []" | c cs where "v \<noteq> []" "s = c # cs" "HasPrefix s v"
    | c cs where "v \<noteq> []" "s = c # cs" "\<not> HasPrefix s v" by (cases s) auto
  then show ?case
  proof cases
    case 1
    with "1.prems"(1) show ?thesis by (auto simp: ReplaceAll_Nil)
  next
    case (2 c cs)
    then have R: "ReplaceAll s v ''***'' = ''***'' @ ReplaceAll (drop (length v) s) v ''***''"
      by (simp add: ReplaceAll_hit ReplaceAll_miss)
    with "1.prems" have "sublist w (ReplaceAll (drop (length v) s) v ''***'')"
      by (auto dest!: star_free_sublist)
    with "1.hyps"(1) [of c cs] 2 "1.prems"(2) have "sublist w (drop (length v) s)" by simp
    then show ?thesis using sublist_drop sublist_order.order_trans by blast
  next
    case (3 c cs)
    then have R: "ReplaceAll s v ''***'' = c # ReplaceAll cs v ''***''" by (simp add: ReplaceAll_hit ReplaceAll_miss)
    with "1.prems"(1) consider "prefix w (ReplaceAll s v ''***'')" | "sublist w (ReplaceAll cs v ''***'')"
      by (metis sublist_Cons_right)
    then show ?thesis
    proof cases
      case 1
      with ReplaceAll_prefix "1.prems"(2) show ?thesis by (metis prefix_imp_sublist)
    next
      case 2
      with "1.hyps"(2) [of c cs] 3 "1.prems"(2) show ?thesis by (simp add: sublist_Cons_right)
    qed
  qed
qed

lemma ReplaceAll_removes: "v \<noteq> [] \<Longrightarrow> star_free v \<Longrightarrow> \<not> sublist v (ReplaceAll s v ''***'')"
proof (induction s v "''***''" rule: ReplaceAll.induct)
  case (1 s v)
  consider "s = []" | c cs where "s = c # cs" "HasPrefix s v" | c cs where "s = c # cs" "\<not> HasPrefix s v" by (cases s) auto
  then show ?case
  proof cases
    case 1
    with "1.prems" show ?thesis by (auto simp: ReplaceAll_Nil)
  next
    case (2 c cs)
    then have R: "ReplaceAll s v ''***'' = ''***'' @ ReplaceAll (drop (length v) s) v ''***''"
      using "1.prems" by (simp add: ReplaceAll_hit ReplaceAll_miss)
    with "1.hyps"(1) [of c cs] 2 "1.prems" show ?thesis by (auto dest!: star_free_sublist)
  next
    case (3 c cs)
    then have R: "ReplaceAll s v ''***'' = c # ReplaceAll cs v ''***''" using "1.prems" by (simp add: ReplaceAll_hit ReplaceAll_miss)
    have "\<not> prefix v (ReplaceAll s v ''***'')" using ReplaceAll_prefix [of v s v] 3(2) "1.prems"(2) by (auto simp: HasPrefix_prefix)
    moreover have "\<not> sublist v (ReplaceAll cs v ''***'')" using "1.hyps"(2) [of c cs] 3 "1.prems" by simp
    ultimately show ?thesis unfolding R by (simp add: sublist_Cons_right)
  qed
qed

lemma replace_each_sublist: "sublist w (replace_each vs s) \<Longrightarrow> star_free w \<Longrightarrow> sublist w s"
  by (induction vs arbitrary: s) (auto split: if_splits dest: ReplaceAll_sublist)

lemma replace_each_removes:
  "v \<in> set vs \<Longrightarrow> v \<noteq> [] \<Longrightarrow> star_free v \<Longrightarrow> \<not> sublist v (replace_each vs s)"
proof (induction vs arbitrary: s)
  case (Cons x xs)
  show ?case
  proof (cases "v = x")
    case True
    with Cons.prems ReplaceAll_removes [of x s] replace_each_sublist show ?thesis by auto
  next
    case False
    with Cons show ?thesis by simp
  qed
qed simp

lemma mask_Apply_hides: "v \<in> set m \<Longrightarrow> v \<noteq> [] \<Longrightarrow> star_free v \<Longrightarrow> \<not> sublist v (mask_Apply m s)"
  using replace_each_removes [of v "by_length m" s] by (auto simp: mask_Apply_def by_length_def)

lemma mask_Add_members: "set (mask_Add m v) = set m \<union> (if v = '''' then {} else {v})"
  by (auto simp: mask_Add_def)

text \<open>Values that overlap leave a part of one of them behind.\<close>

lemma mask_overlap_leaks: "mask_Apply [''abc'', ''bcd''] ''abcd'' = ''***d''"
  by code_simp

text \<open>A value with a star can be completed by the replacement of its own occurrence.\<close>

lemma mask_star_leaks: "mask_Apply [''a*''] ''aa*'' = ''a***'' \<and> Contains ''a***'' ''a*''"
  by code_simp

end
