(* ===== verification/Expression_Value.thy ===== *)
theory Expression_Value
  imports Complex_Main Prelude
begin

text \<open>
  Values, environments and errors of the expression engine
  (\<^verbatim>\<open>internal/workflow/expression\<close>: value.go, env.go, errors.go). Numbers are
  float64: a finite one is its exact value, and a negative zero, which no operation of the
  engine tells from zero, is zero. Number parsing and shortest formatting
  (\<^verbatim>\<open>strconv\<close>) and JSON (\<^verbatim>\<open>encoding/json\<close>) are the fields of a record
  the definitions take as an argument.
\<close>

section \<open>Values\<close>

datatype num64 = NaN | Infinite bool | Fin rat

datatype Value =
    VNull
  | VBool bool
  | VNum num64
  | VStr string
  | VArr "Value list"
  | VObj "(string \<times> Value) list"

datatype Kind = KindNull | KindBool | KindNumber | KindString | KindArray | KindObject

fun v_Kind :: "Value \<Rightarrow> Kind" where
  "v_Kind VNull = KindNull"
| "v_Kind (VBool b) = KindBool"
| "v_Kind (VNum f) = KindNumber"
| "v_Kind (VStr s) = KindString"
| "v_Kind (VArr vs) = KindArray"
| "v_Kind (VObj m) = KindObject"

text \<open>The decoded JSON values of \<^verbatim>\<open>encoding/json\<close>: a number is its literal.\<close>

datatype any = JNil | JBool bool | JNumber string | JString string | JArray "any list" | JObject "(string \<times> any) list"

text \<open>
  \<open>ParseFloat\<close> reads a float64 or fails; \<open>FormatFloat\<close> is \<^verbatim>\<open>FormatFloat(f, 'g', -1, 64)\<close>;
  \<open>Marshal\<close> and \<open>Decode\<close> return an error message or the text and the value.
\<close>

record library =
  ParseFloat :: "string \<Rightarrow> num64 option"
  FormatFloat :: "rat \<Rightarrow> string"
  Marshal :: "any \<Rightarrow> string + string"
  Decode :: "string \<Rightarrow> string + any"

definition is_integral :: "rat \<Rightarrow> bool" where
  "is_integral r \<longleftrightarrow> r = of_int \<lfloor>r\<rfloor>"

definition FormatInt :: "int \<Rightarrow> string" where
  "FormatInt n = (if n < 0 then ''-'' @ itoa (nat (- n)) else itoa (nat n))"

definition FormatNumber :: "library \<Rightarrow> num64 \<Rightarrow> string" where
  "FormatNumber L f =
     (case f of
        NaN \<Rightarrow> ''NaN''
      | Infinite _ \<Rightarrow> ''Infinity''
      | Fin r \<Rightarrow> if is_integral r \<and> \<bar>r\<bar> < 10 ^ 15 then FormatInt \<lfloor>r\<rfloor> else FormatFloat L r)"

fun Truthy :: "Value \<Rightarrow> bool" where
  "Truthy VNull = False"
| "Truthy (VBool b) = b"
| "Truthy (VNum f) = (f \<noteq> Fin 0 \<and> f \<noteq> NaN)"
| "Truthy (VStr s) = (s \<noteq> '''')"
| "Truthy (VArr vs) = True"
| "Truthy (VObj m) = True"

text \<open>The parts of an array in order, those of an object sorted by key.\<close>

fun Value_String :: "library \<Rightarrow> Value \<Rightarrow> string"
  and array_parts :: "library \<Rightarrow> Value list \<Rightarrow> string list"
  and object_parts :: "library \<Rightarrow> (string \<times> Value) list \<Rightarrow> (string \<times> string) list" where
  "Value_String L VNull = ''''"
| "Value_String L (VBool b) = (if b then ''true'' else ''false'')"
| "Value_String L (VNum f) = FormatNumber L f"
| "Value_String L (VStr s) = s"
| "Value_String L (VArr vs) = Join (array_parts L vs) '',''"
| "Value_String L (VObj m) = Join (map (\<lambda>(k, s). k @ ''='' @ s) (sort_key fst (object_parts L m))) '',''"
| "array_parts L [] = []"
| "array_parts L (v # vs) = Value_String L v # array_parts L vs"
| "object_parts L [] = []"
| "object_parts L ((k, v) # m) = (k, Value_String L v) # object_parts L m"

section \<open>Errors\<close>

text \<open>
  The four typed errors, and the two of \<^verbatim>\<open>Interpolate\<close>: a template that is not closed and
  an error inside a placeholder.
\<close>

datatype ExprErr =
    ParseError string nat nat nat string
  | ContextUnavailableError string "string list"
  | NotSupportedError string
  | EvalError string string
  | Unterminated string
  | InTemplate string ExprErr

fun ExprErr_Error :: "ExprErr \<Rightarrow> string" where
  "ExprErr_Error (ParseError expr offset line col msg) =
     ''expression parse error at '' @ itoa line @ '':'' @ itoa col @ '': '' @ msg"
| "ExprErr_Error (ContextUnavailableError want available) =
     ''expression: context '' @ Quote want @ '' is not available in this phase (available: '' @ Join (sort available) '', '' @ '')''"
| "ExprErr_Error (NotSupportedError what) = ''expression: '' @ what @ '' is not supported in this build''"
| "ExprErr_Error (EvalError expr msg) = ''expression eval error in '' @ Quote expr @ '': '' @ msg"
| "ExprErr_Error (Unterminated tpl) = ''expression: unterminated ${{ in template: '' @ tpl"
| "ExprErr_Error (InTemplate inner e) = ''expression: template '' @ Quote inner @ '': '' @ ExprErr_Error e"

section \<open>Environments\<close>

text \<open>The workspace capability takes the patterns and returns an error message or the digest.\<close>

record Env =
  contexts :: "(string, Value) gomap"
  hasher :: "(string list \<Rightarrow> string + string) option"

definition NewEnv :: Env where
  "NewEnv = \<lparr>contexts = [], hasher = None\<rparr>"

definition With :: "Env \<Rightarrow> string \<Rightarrow> Value \<Rightarrow> Env" where
  "With e name v = e\<lparr>contexts := mput (contexts e) (ToLower name) v\<rparr>"

definition Lookup :: "Env \<Rightarrow> string \<Rightarrow> Value option" where
  "Lookup e name = mget (contexts e) (ToLower name)"

definition Available :: "Env \<Rightarrow> string list" where
  "Available e = map fst (contexts e)"

definition jobStatusContext :: string where
  "jobStatusContext = ''__jobstatus''"

definition WithJobStatus :: "Env \<Rightarrow> string \<Rightarrow> Env" where
  "WithJobStatus e status = With e jobStatusContext (VStr status)"

definition jobStatus :: "Env \<Rightarrow> string" where
  "jobStatus e = (case Lookup e jobStatusContext of Some (VStr s) \<Rightarrow> s | _ \<Rightarrow> ''success'')"

definition WithWorkspaceHasher :: "Env \<Rightarrow> (string list \<Rightarrow> string + string) \<Rightarrow> Env" where
  "WithWorkspaceHasher e h = (With e ''__workspacehasher'' (VStr ''registered''))\<lparr>hasher := Some h\<rparr>"

lemma Lookup_With: "Lookup (With e name v) other = (if EqualFold name other then Some v else Lookup e other)"
  by (auto simp: Lookup_def With_def EqualFold_def)

lemma jobStatus_WithJobStatus [simp]: "jobStatus (WithJobStatus e s) = s"
  by (simp add: jobStatus_def WithJobStatus_def Lookup_With)

end
