(* ===== verification/Expression_Lexer.thy ===== *)
theory Expression_Lexer
  imports Expression_Value
begin

text \<open>
  The lexer of the expression engine (lexer.go). The state is the text still to be read with
  its byte offset, line and column; every token carries the position it starts at.
\<close>

section \<open>State\<close>

datatype tokenKind = tkEOF | tkIdent | tkNumber | tkString | tkPunct

record token =
  tk_kind :: tokenKind
  tk_text :: string
  tk_num :: num64
  tk_str :: string
  tk_start :: nat
  tk_line :: nat
  tk_col :: nat

record lexer =
  lx_rest :: string
  lx_pos :: nat
  lx_line :: nat
  lx_col :: nat

definition newLexer :: "string \<Rightarrow> lexer" where
  "newLexer src = \<lparr>lx_rest = src, lx_pos = 0, lx_line = 1, lx_col = 1\<rparr>"

definition lx_errf :: "string \<Rightarrow> token \<Rightarrow> string \<Rightarrow> ExprErr" where
  "lx_errf src tok msg = ParseError src (tk_start tok) (tk_line tok) (tk_col tok) msg"

text \<open>\<^verbatim>\<open>peek\<close> is the byte 0 at the end of the text; \<^verbatim>\<open>advance\<close> is only called before the end.\<close>

definition peek :: "lexer \<Rightarrow> char" where
  "peek l = (case lx_rest l of [] \<Rightarrow> CHR 0x00 | c # _ \<Rightarrow> c)"

definition advance :: "lexer \<Rightarrow> char \<times> lexer" where
  "advance l =
     (case lx_rest l of
        [] \<Rightarrow> (CHR 0x00, l)
      | c # cs \<Rightarrow>
          (c, if c = CHR 0x0A then \<lparr>lx_rest = cs, lx_pos = lx_pos l + 1, lx_line = lx_line l + 1, lx_col = 1\<rparr>
              else \<lparr>lx_rest = cs, lx_pos = lx_pos l + 1, lx_line = lx_line l, lx_col = lx_col l + 1\<rparr>))"

definition here :: "lexer \<Rightarrow> token" where
  "here l = \<lparr>tk_kind = tkEOF, tk_text = '''', tk_num = Fin 0, tk_str = '''', tk_start = lx_pos l, tk_line = lx_line l, tk_col = lx_col l\<rparr>"

definition lx_isIdentStart :: "char \<Rightarrow> bool" where
  "lx_isIdentStart c \<longleftrightarrow> is_letter c \<or> c = CHR ''_''"

definition isIdentPart :: "char \<Rightarrow> bool" where
  "isIdentPart c \<longleftrightarrow> lx_isIdentStart c \<or> is_digit c \<or> c = CHR ''-''"

definition blank :: "char \<Rightarrow> bool" where
  "blank c \<longleftrightarrow> c = CHR '' '' \<or> c = CHR 0x09 \<or> c = CHR 0x0D \<or> c = CHR 0x0A"

lemma advance_shorter: "lx_rest l \<noteq> [] \<Longrightarrow> length (lx_rest (snd (advance l))) < length (lx_rest l)"
  by (auto simp: advance_def split: list.splits)

section \<open>Loops\<close>

function skip_blanks :: "lexer \<Rightarrow> lexer" where
  "skip_blanks l = (if lx_rest l \<noteq> [] \<and> blank (peek l) then skip_blanks (snd (advance l)) else l)"
  by pat_completeness auto
termination
  by (relation "measure (\<lambda>l. length (lx_rest l))") (auto simp: advance_shorter)

declare skip_blanks.simps [simp del]

function ident_loop :: "string \<Rightarrow> lexer \<Rightarrow> string \<times> lexer" where
  "ident_loop text l =
     (if lx_rest l \<noteq> [] \<and> isIdentPart (peek l)
      then (let (c, l') = advance l in ident_loop (text @ [c]) l') else (text, l))"
  by pat_completeness auto
termination
  by (relation "measure (\<lambda>(t, l). length (lx_rest l))") (simp, metis advance_shorter case_prod_conv in_measure snd_conv)

declare ident_loop.simps [simp del]

text \<open>The digits of a number, with at most one dot, which must be followed by a digit.\<close>

definition dot_digit :: "bool \<Rightarrow> lexer \<Rightarrow> bool" where
  "dot_digit hasDot l \<longleftrightarrow> peek l = CHR ''.'' \<and> \<not> hasDot \<and> length (lx_rest l) > 1 \<and> is_digit (lx_rest l ! 1)"

function number_loop :: "string \<Rightarrow> bool \<Rightarrow> lexer \<Rightarrow> string \<times> lexer" where
  "number_loop digits hasDot l =
     (if lx_rest l = [] then (digits, l)
      else if is_digit (peek l) then (let (c, l') = advance l in number_loop (digits @ [c]) hasDot l')
      else if dot_digit hasDot l then (let (c, l') = advance l in number_loop (digits @ [c]) True l')
      else (digits, l))"
  by pat_completeness auto
termination
  by (relation "measure (\<lambda>(t, b, l). length (lx_rest l))") (simp, (metis advance_shorter case_prod_conv in_measure snd_conv)+)

declare number_loop.simps [simp del]

text \<open>The inside of a string after its opening quote; \<open>None\<close> when it is not closed.\<close>

function string_loop :: "string \<Rightarrow> lexer \<Rightarrow> (string \<times> lexer) option" where
  "string_loop sb l =
     (if lx_rest l = [] then None
      else
        (let (ch, l1) = advance l in
         if ch = CHR 0x27 then
           (if lx_rest l1 \<noteq> [] \<and> peek l1 = CHR 0x27
            then (let (c2, l2) = advance l1 in string_loop (sb @ [c2]) l2)
            else Some (sb, l1))
         else string_loop (sb @ [ch]) l1))"
  by pat_completeness auto
termination
proof (relation "measure (\<lambda>(t, l). length (lx_rest l))", goal_cases)
  case 1
  then show ?case by simp
next
  case (2 sb l p ch l1 q c2 l2)
  then show ?case using advance_shorter [of l] advance_shorter [of l1] by (metis (no_types, lifting) case_prod_conv in_measure order.strict_trans snd_conv)
next
  case (3 sb l p ch l1)
  then show ?case using advance_shorter [of l] by (metis (no_types, lifting) case_prod_conv in_measure snd_conv)
qed

declare string_loop.simps [simp del]

section \<open>Tokens\<close>

text \<open>\<^verbatim>\<open>string(c)\<close> of a byte: the UTF-8 encoding of the character with that number.\<close>

definition byte_string :: "char \<Rightarrow> string" where
  "byte_string c = (let n = of_char c :: nat in if n < 128 then [c] else [char_of (192 + n div 64), char_of (128 + n mod 64)])"

definition punct_token :: "token \<Rightarrow> string \<Rightarrow> token" where
  "punct_token start text = start\<lparr>tk_kind := tkPunct, tk_text := text\<rparr>"

definition lex_number :: "library \<Rightarrow> string \<Rightarrow> token \<Rightarrow> lexer \<Rightarrow> ExprErr + token \<times> lexer" where
  "lex_number L src start l =
     (let (sign, l1) = (if peek l = CHR ''-'' then (let (c, l') = advance l in ([c], l')) else ('''', l));
          (digits, l2) = number_loop sign False l1
      in case ParseFloat L digits of
           None \<Rightarrow> Inl (lx_errf src start (''bad number '' @ Quote digits))
         | Some num \<Rightarrow> Inr (start\<lparr>tk_kind := tkNumber, tk_num := num, tk_text := digits\<rparr>, l2))"

definition lex_string :: "string \<Rightarrow> token \<Rightarrow> lexer \<Rightarrow> ExprErr + token \<times> lexer" where
  "lex_string src start l =
     (case string_loop '''' (snd (advance l)) of
        None \<Rightarrow> Inl (lx_errf src start ''unterminated string'')
      | Some (sb, l') \<Rightarrow> Inr (start\<lparr>tk_kind := tkString, tk_str := sb\<rparr>, l'))"

definition long_ops :: "string list" where
  "long_ops = [''&&'', ''||'', ''=='', ''!='', ''<='', ''>='']"

definition lex_punct :: "string \<Rightarrow> token \<Rightarrow> lexer \<Rightarrow> ExprErr + token \<times> lexer" where
  "lex_punct src start l =
     (let c = peek l in
      case find (HasPrefix (lx_rest l)) long_ops of
        Some op \<Rightarrow> Inr (punct_token start op, snd (advance (snd (advance l))))
      | None \<Rightarrow>
          if c \<in> set ''!<>.[](),'' then Inr (punct_token start (byte_string c), snd (advance l))
          else if c = CHR 0x22 then Inl (lx_errf src start ''double-quoted strings are not supported; use single quotes'')
          else if c \<in> set ''+-*/%''
          then Inl (lx_errf src start (''arithmetic operator '' @ Quote (byte_string c) @ '' is not in the supported subset''))
          else Inl (lx_errf src start (''unexpected character '' @ Quote (byte_string c))))"

definition lex_next :: "library \<Rightarrow> string \<Rightarrow> lexer \<Rightarrow> ExprErr + token \<times> lexer" where
  "lex_next L src l0 =
     (let l = skip_blanks l0; start = here l; c = peek l in
      if lx_rest l = [] then Inr (start\<lparr>tk_kind := tkEOF\<rparr>, l)
      else if lx_isIdentStart c then
        (let (text, l') = ident_loop '''' l in Inr (start\<lparr>tk_kind := tkIdent, tk_text := text\<rparr>, l'))
      else if is_digit c \<or> c = CHR ''-'' \<and> length (lx_rest l) > 1 \<and> is_digit (lx_rest l ! 1) then lex_number L src start l
      else if c = CHR 0x27 then lex_string src start l
      else lex_punct src start l)"

section \<open>What the loops read\<close>

text \<open>The loops depend on the text only; positions are carried along.\<close>

lemma advance_Cons: "lx_rest l = c # cs \<Longrightarrow> \<exists>l'. advance l = (c, l') \<and> lx_rest l' = cs"
  by (simp add: advance_def)

lemma peek_Cons [simp]: "lx_rest l = c # cs \<Longrightarrow> peek l = c"
  by (simp add: peek_def)

lemma skip_blanks_rest: "lx_rest (skip_blanks l) = dropWhile blank (lx_rest l)"
proof (induction "lx_rest l" arbitrary: l)
  case (Cons c cs)
  obtain l' where a: "advance l = (c, l')" "lx_rest l' = cs" using advance_Cons [of l c cs] Cons(2) by auto
  show ?case by (subst skip_blanks.simps) (use Cons(1) [of l'] Cons(2) [symmetric] a in simp)
qed (simp add: skip_blanks.simps)

lemma ident_loop_reads:
  "fst (ident_loop t l) = t @ takeWhile isIdentPart (lx_rest l) \<and> lx_rest (snd (ident_loop t l)) = dropWhile isIdentPart (lx_rest l)"
proof (induction "lx_rest l" arbitrary: t l)
  case (Cons c cs)
  obtain l' where a: "advance l = (c, l')" "lx_rest l' = cs" using advance_Cons [of l c cs] Cons(2) by auto
  show ?case by (subst (1 2) ident_loop.simps) (use Cons(1) [of l' "t @ [c]"] Cons(2) [symmetric] a in simp)
qed (simp add: ident_loop.simps)

fun digits_of :: "bool \<Rightarrow> string \<Rightarrow> string \<times> string" where
  "digits_of hasDot [] = ([], [])"
| "digits_of hasDot (c # cs) =
     (if is_digit c then (let (d, r) = digits_of hasDot cs in (c # d, r))
      else if c = CHR ''.'' \<and> \<not> hasDot \<and> cs \<noteq> [] \<and> is_digit (hd cs) then (let (d, r) = digits_of True cs in (c # d, r))
      else ([], c # cs))"

lemma number_loop_reads:
  "fst (number_loop t b l) = t @ fst (digits_of b (lx_rest l)) \<and> lx_rest (snd (number_loop t b l)) = snd (digits_of b (lx_rest l))"
proof (induction "lx_rest l" arbitrary: t b l)
  case (Cons c cs)
  obtain l' where a: "advance l = (c, l')" "lx_rest l' = cs" using advance_Cons [of l c cs] Cons(2) by auto
  have d: "dot_digit b l \<longleftrightarrow> c = CHR ''.'' \<and> \<not> b \<and> cs \<noteq> [] \<and> is_digit (hd cs)"
    using Cons(2) [symmetric] by (cases cs) (auto simp: dot_digit_def)
  show ?case by (subst (1 2) number_loop.simps)
      (use Cons(1) [of l' "t @ [c]"] Cons(2) [symmetric] a d in \<open>auto simp: case_prod_unfold Let_def\<close>)
qed (simp add: number_loop.simps)

fun string_of :: "string \<Rightarrow> (string \<times> string) option" where
  "string_of [] = None"
| "string_of (c # cs) =
     (if c = CHR 0x27 then
        (case cs of
           [] \<Rightarrow> Some ([], cs)
         | d # ds \<Rightarrow> if d = CHR 0x27 then (case string_of ds of None \<Rightarrow> None | Some (s, r) \<Rightarrow> Some (d # s, r)) else Some ([], cs))
      else (case string_of cs of None \<Rightarrow> None | Some (s, r) \<Rightarrow> Some (c # s, r)))"

lemma string_loop_reads:
  "case string_of (lx_rest l) of
     None \<Rightarrow> string_loop sb l = None
   | Some (s, r) \<Rightarrow> \<exists>l'. string_loop sb l = Some (sb @ s, l') \<and> lx_rest l' = r"
proof (induction "lx_rest l" arbitrary: sb l rule: string_of.induct)
  case (2 c cs)
  obtain l1 where a: "advance l = (c, l1)" "lx_rest l1 = cs" using advance_Cons [of l c cs] "2.hyps"(3) by auto
  note r = "2.hyps"(3) [symmetric]
  show ?case
  proof (cases "c = CHR 0x27")
    case quote: True
    show ?thesis
    proof (cases cs)
      case Nil
      then show ?thesis using a quote by (subst string_loop.simps) (simp add: r)
    next
      case (Cons d ds)
      obtain l2 where a2: "advance l1 = (d, l2)" "lx_rest l2 = ds" using advance_Cons [of l1 d ds] a(2) Cons by auto
      show ?thesis
      proof (cases "d = CHR 0x27")
        case True
        have "string_loop sb l = string_loop (sb @ [d]) l2"
          by (subst string_loop.simps) (use a a2 quote Cons True r in simp)
        then show ?thesis using "2.hyps"(1) [OF quote Cons [folded a2(2)] True, of "sb @ [d]"] a2(2) quote Cons True r by (auto split: option.splits)
      next
        case False
        have "string_loop sb l = Some (sb, l1)" by (subst string_loop.simps) (use a quote Cons False r in simp)
        then show ?thesis using a(2) quote Cons False r by simp
      qed
    qed
  next
    case False
    have "string_loop sb l = string_loop (sb @ [c]) l1" by (subst string_loop.simps) (use a False r in simp)
    then show ?thesis using "2.hyps"(2) [OF False a(2) [symmetric], of "sb @ [c]"] a(2) False r by (auto split: option.splits)
  qed
qed (simp add: string_loop.simps)

section \<open>Tokens without positions\<close>

datatype bare = BEOF | BIdent string | BNum num64 string | BStr string | BPunct string

definition bare_of :: "token \<Rightarrow> bare" where
  "bare_of t = (case tk_kind t of tkEOF \<Rightarrow> BEOF | tkIdent \<Rightarrow> BIdent (tk_text t) | tkNumber \<Rightarrow> BNum (tk_num t) (tk_text t)
     | tkString \<Rightarrow> BStr (tk_str t) | tkPunct \<Rightarrow> BPunct (tk_text t))"

text \<open>The next token and the rest of the text, as a function of the text alone.\<close>

definition scan_number :: "library \<Rightarrow> string \<Rightarrow> (bare \<times> string) option" where
  "scan_number L s =
     (let sign = (if hd s = CHR ''-'' then [hd s] else ''''); (d, r) = digits_of False (drop (length sign) s)
      in map_option (\<lambda>f. (BNum f (sign @ d), r)) (ParseFloat L (sign @ d)))"

definition scan_punct :: "string \<Rightarrow> (bare \<times> string) option" where
  "scan_punct s =
     (case find (HasPrefix s) long_ops of
        Some op \<Rightarrow> Some (BPunct op, drop 2 s)
      | None \<Rightarrow> if hd s \<in> set ''!<>.[](),'' then Some (BPunct [hd s], tl s) else None)"

definition scan :: "library \<Rightarrow> string \<Rightarrow> (bare \<times> string) option" where
  "scan L s0 =
     (let s = dropWhile blank s0 in
      if s = [] then Some (BEOF, [])
      else if lx_isIdentStart (hd s) then Some (BIdent (takeWhile isIdentPart s), dropWhile isIdentPart s)
      else if is_digit (hd s) \<or> hd s = CHR ''-'' \<and> length s > 1 \<and> is_digit (s ! 1) then scan_number L s
      else if hd s = CHR 0x27 then map_option (\<lambda>(x, r). (BStr x, r)) (string_of (tl s))
      else scan_punct s)"

lemma advance_rest: "lx_rest (snd (advance l)) = tl (lx_rest l)"
  by (auto simp: advance_def split: list.splits)

lemma lex_number_scan:
  assumes "lx_rest l \<noteq> []"
  shows "case scan_number L (lx_rest l) of
     None \<Rightarrow> \<exists>e. lex_number L src start l = Inl e
   | Some (b, r) \<Rightarrow> \<exists>t l'. lex_number L src start l = Inr (t, l') \<and> bare_of t = b \<and> lx_rest l' = r"
proof -
  let ?sign = "if peek l = CHR ''-'' then [hd (lx_rest l)] else ''''" let ?l1 = "if peek l = CHR ''-'' then snd (advance l) else l"
  have p: "peek l = hd (lx_rest l)" using assms by (cases "lx_rest l") auto
  have "(if peek l = CHR ''-'' then (let (c, l') = advance l in ([c], l')) else ('''', l)) = (?sign, ?l1)"
    using assms by (cases "lx_rest l") (auto simp: advance_def)
  moreover have "lx_rest ?l1 = drop (length ?sign) (lx_rest l)" by (simp add: advance_rest drop_Suc)
  moreover note number_loop_reads [of ?sign False ?l1]
  ultimately show ?thesis
    by (cases "ParseFloat L (?sign @ fst (digits_of False (drop (length ?sign) (lx_rest l))))")
       (auto simp: lex_number_def scan_number_def p Let_def case_prod_unfold bare_of_def split: option.splits)
qed

lemma lex_punct_scan:
  assumes "lx_rest l \<noteq> []"
  shows "case scan_punct (lx_rest l) of
     None \<Rightarrow> \<exists>e. lex_punct src start l = Inl e
   | Some (b, r) \<Rightarrow> \<exists>t l'. lex_punct src start l = Inr (t, l') \<and> bare_of t = b \<and> lx_rest l' = r"
proof -
  have p: "peek l = hd (lx_rest l)" using assms by (cases "lx_rest l") auto
  have one: "byte_string c = [c]" if "c \<in> set ''!<>.[](),''" for c using that by (auto simp: byte_string_def)
  have two: "lx_rest (snd (advance (snd (advance l)))) = drop 2 (lx_rest l)" by (simp add: advance_rest drop_Suc numeral_2_eq_2)
  show ?thesis
  proof (cases "find (HasPrefix (lx_rest l)) long_ops")
    case (Some op)
    then show ?thesis using two by (simp add: lex_punct_def scan_punct_def bare_of_def punct_token_def)
  next
    case None
    then show ?thesis using one [of "hd (lx_rest l)"] p
      by (simp add: lex_punct_def scan_punct_def bare_of_def punct_token_def Let_def advance_rest)
  qed
qed

lemma lex_string_scan:
  "case map_option (\<lambda>(x, r). (BStr x, r)) (string_of (tl (lx_rest l))) of
     None \<Rightarrow> \<exists>e. lex_string src start l = Inl e
   | Some (b, r) \<Rightarrow> \<exists>t l'. lex_string src start l = Inr (t, l') \<and> bare_of t = b \<and> lx_rest l' = r"
  using string_loop_reads [where l = "snd (advance l)" and sb = "''''"]
  by (auto simp: lex_string_def advance_rest bare_of_def split: option.splits)

lemma lex_next_scan:
  "case scan L (lx_rest l) of
     None \<Rightarrow> \<exists>e. lex_next L src l = Inl e
   | Some (b, r) \<Rightarrow> \<exists>t l'. lex_next L src l = Inr (t, l') \<and> bare_of t = b \<and> lx_rest l' = r"
proof (cases "lx_rest (skip_blanks l) = []")
  case True
  then show ?thesis using skip_blanks_rest [of l] by (auto simp: lex_next_def scan_def Let_def bare_of_def)
next
  case False
  let ?l = "skip_blanks l" let ?s = "dropWhile blank (lx_rest l)"
  have r: "lx_rest ?l = ?s" by (rule skip_blanks_rest)
  have p: "peek ?l = hd ?s" using False r by (cases ?s) auto
  show ?thesis
  proof (cases "lx_isIdentStart (hd ?s)")
    case True
    then show ?thesis using False r p ident_loop_reads [of "''''" ?l]
      by (auto simp: lex_next_def scan_def Let_def case_prod_unfold bare_of_def)
  next
    case ni: False
    let ?num = "is_digit (hd ?s) \<or> hd ?s = CHR ''-'' \<and> length ?s > 1 \<and> is_digit (?s ! 1)"
    have ne: "?s \<noteq> []" using False r by simp
    have n: "lex_next L src l = (if ?num then lex_number L src (here ?l) ?l
        else if hd ?s = CHR 0x27 then lex_string src (here ?l) ?l else lex_punct src (here ?l) ?l)"
      unfolding lex_next_def Let_def r p using ne ni by (simp only: if_False)
    have s: "scan L (lx_rest l) = (if ?num then scan_number L ?s
        else if hd ?s = CHR 0x27 then map_option (\<lambda>(x, r). (BStr x, r)) (string_of (tl ?s)) else scan_punct ?s)"
      unfolding scan_def Let_def using ne ni by (simp only: if_False)
    note sc = lex_number_scan [where l = ?l and L = L and src = src and start = "here ?l", unfolded r, OF ne]
      lex_string_scan [where l = ?l and src = src and start = "here ?l", unfolded r]
      lex_punct_scan [where l = ?l and src = src and start = "here ?l", unfolded r, OF ne]
    show ?thesis
    proof (cases ?num)
      case True
      show ?thesis unfolding n s if_P [OF True] by (rule sc(1))
    next
      case nn: False
      show ?thesis
      proof (cases "hd ?s = CHR 0x27")
        case True
        show ?thesis unfolding n s if_not_P [OF nn] if_P [OF True] by (rule sc(2))
      next
        case False
        show ?thesis unfolding n s if_not_P [OF nn] if_not_P [OF False] by (rule sc(3))
      qed
    qed
  qed
qed

lemma digits_of_append: "fst (digits_of b s) @ snd (digits_of b s) = s"
  by (induction b s rule: digits_of.induct) (auto simp: case_prod_unfold Let_def)

lemma string_of_shorter: "string_of s = Some (x, r) \<Longrightarrow> length r < length s"
  by (induction s arbitrary: x r rule: string_of.induct) (force split: if_splits list.splits option.splits)+

lemma scan_shorter:
  assumes "scan L s = Some (b, r)" "b \<noteq> BEOF"
  shows "length r < length s"
proof -
  let ?s = "dropWhile blank s"
  have le: "length ?s \<le> length s" by (rule length_dropWhile_le)
  have ne: "?s \<noteq> []"
  proof
    assume "?s = []"
    then have "scan L s = Some (BEOF, [])" by (simp only: scan_def Let_def if_True refl)
    with assms show False by simp
  qed
  then obtain c cs where c: "?s = c # cs" by (cases ?s) auto
  have num: "length r < length ?s" if n: "scan_number L ?s = Some (b, r)" "is_digit c \<or> c = CHR ''-''"
  proof -
    let ?sign = "if c = CHR ''-'' then [c] else ''''"
    from n(1) have r: "r = snd (digits_of False (drop (length ?sign) ?s))"
      by (auto simp: scan_number_def c Let_def case_prod_unfold split: if_splits)
    show ?thesis
    proof (cases "c = CHR ''-''")
      case True
      then show ?thesis using r c digits_of_append [of False cs] by simp (metis le_add2 length_append less_Suc_eq_le)
    next
      case False
      then have "is_digit c" using n(2) by simp
      then show ?thesis using r c False digits_of_append [of False cs]
        by (simp add: case_prod_unfold Let_def) (metis le_add2 length_append less_Suc_eq_le)
    qed
  qed
  have "length r < length ?s"
  proof (cases "lx_isIdentStart c")
    case True
    then have "r = dropWhile isIdentPart cs" using assms(1) c by (auto simp: scan_def isIdentPart_def)
    then show ?thesis using c length_dropWhile_le [of isIdentPart cs] by simp
  next
    case False
    then consider "scan_number L ?s = Some (b, r)" "is_digit c \<or> c = CHR ''-''"
      | "map_option (\<lambda>(x, r). (BStr x, r)) (string_of cs) = Some (b, r)" | "scan_punct ?s = Some (b, r)"
      using assms(1) c by (auto simp: scan_def Let_def split: if_splits)
    then show ?thesis
    proof cases
      case 1
      then show ?thesis by (rule num)
    next
      case 2
      then show ?thesis using string_of_shorter [of cs] c by fastforce
    next
      case 3
      then show ?thesis using c by (auto simp: scan_punct_def split: option.splits if_splits)
    qed
  qed
  with le show ?thesis by simp
qed

lemma lex_next_shorter:
  assumes "lex_next L src l = Inr (t, l')" "tk_kind t \<noteq> tkEOF"
  shows "length (lx_rest l') < length (lx_rest l)"
proof -
  have "bare_of t \<noteq> BEOF" using assms(2) by (cases "tk_kind t") (simp_all add: bare_of_def)
  then show ?thesis using lex_next_scan [where L = L and l = l and src = src] assms(1) scan_shorter [of L "lx_rest l"]
    by (auto split: option.splits)
qed

function tokens :: "library \<Rightarrow> string \<Rightarrow> lexer \<Rightarrow> ExprErr + token list" where
  "tokens L src l =
     (case lex_next L src l of
        Inl e \<Rightarrow> Inl e
      | Inr (tok, l') \<Rightarrow>
          if tk_kind tok = tkEOF then Inr [tok]
          else (case tokens L src l' of Inl e \<Rightarrow> Inl e | Inr ts \<Rightarrow> Inr (tok # ts)))"
  by pat_completeness auto
termination
  by (relation "measure (\<lambda>(L, src, l). length (lx_rest l))") (auto simp: lex_next_shorter)

declare tokens.simps [simp del]

text \<open>The whole token list as a function of the text.\<close>

function scan_all :: "library \<Rightarrow> string \<Rightarrow> bare list option" where
  "scan_all L s =
     (case scan L s of
        None \<Rightarrow> None
      | Some (b, r) \<Rightarrow> if b = BEOF then Some [BEOF] else map_option (\<lambda>bs. b # bs) (scan_all L r))"
  by pat_completeness auto
termination
  by (relation "measure (\<lambda>(L, s). length s)") (auto simp: scan_shorter)

declare scan_all.simps [simp del]

lemma tokens_scan:
  "case scan_all L (lx_rest l) of
     None \<Rightarrow> \<exists>e. tokens L src l = Inl e
   | Some bs \<Rightarrow> \<exists>ts. tokens L src l = Inr ts \<and> map bare_of ts = bs"
proof (induction L src l rule: tokens.induct)
  case (1 L src l)
  note n = lex_next_scan [where L = L and l = l and src = src]
  show ?case
  proof (cases "scan L (lx_rest l)")
    case None
    then show ?thesis using n by (auto simp: tokens.simps [of L src l] scan_all.simps [of L "lx_rest l"])
  next
    case (Some br)
    obtain b r where br: "br = (b, r)" by fastforce
    with n Some obtain t l' where t: "lex_next L src l = Inr (t, l')" "bare_of t = b" "lx_rest l' = r" by auto
    have k: "tk_kind t = tkEOF \<longleftrightarrow> b = BEOF" using t(2) by (cases "tk_kind t") (auto simp: bare_of_def)
    show ?thesis
    proof (cases "b = BEOF")
      case True
      then show ?thesis using Some br t k by (simp add: tokens.simps [of L src l] scan_all.simps [of L "lx_rest l"])
    next
      case False
      then show ?thesis using Some br t k 1 [OF t(1) refl]
        by (cases "scan_all L r") (auto simp: tokens.simps [of L src l] scan_all.simps [of L "lx_rest l"])
    qed
  qed
qed

lemma scan_all_ends: "scan_all L s = Some bs \<Longrightarrow> \<exists>xs. bs = xs @ [BEOF] \<and> BEOF \<notin> set xs"
proof (induction L s arbitrary: bs rule: scan_all.induct)
  case (1 L s)
  from "1.prems" obtain b r where s: "scan L s = Some (b, r)" by (subst (asm) scan_all.simps) (auto split: option.splits)
  show ?case
  proof (cases "b = BEOF")
    case True
    then show ?thesis using "1.prems" s by (simp add: scan_all.simps [of L s])
  next
    case False
    then obtain cs where "scan_all L r = Some cs" "bs = b # cs" using "1.prems" s by (auto simp: scan_all.simps [of L s])
    with "1.IH" [OF s refl False] False show ?thesis by (metis Cons_eq_appendI set_ConsD)
  qed
qed

end
