(* ===== verification/Expression_Parser.thy ===== *)
theory Expression_Parser
  imports Expression_Lexer
begin

text \<open>
  The recursive-descent parser of the expression engine (parser.go). The state is the list of
  tokens from the current one on, which always ends with the end token. Every function is
  given the parser of a whole sub-expression, \<open>por\<close>, and a bound on its own repetitions;
  \<open>None\<close> is running out of it. \<open>parseOr\<close> ties the knot, and a bound above the number of
  tokens is proved to be enough.
\<close>

section \<open>Syntax trees\<close>

datatype node =
    literalNode Value
  | identNode string
  | memberNode node node
  | unaryNode string node
  | binaryNode string node node
  | callNode string "node list"

type_synonym toks = "token list"
type_synonym 'a parse_res = "(ExprErr + 'a \<times> toks) option"

definition cur :: "toks \<Rightarrow> token" where
  "cur ts = hd ts"

definition p_next :: "toks \<Rightarrow> toks" where
  "p_next ts = (if tk_kind (cur ts) \<noteq> tkEOF then tl ts else ts)"

definition p_match :: "string \<Rightarrow> toks \<Rightarrow> toks option" where
  "p_match text ts = (if tk_kind (cur ts) = tkPunct \<and> tk_text (cur ts) = text then Some (p_next ts) else None)"

definition errAt :: "string \<Rightarrow> token \<Rightarrow> string \<Rightarrow> ExprErr" where
  "errAt expr tok msg = ParseError expr (tk_start tok) (tk_line tok) (tk_col tok) msg"

definition describe :: "token \<Rightarrow> string" where
  "describe t = (case tk_kind t of
     tkEOF \<Rightarrow> ''end of expression'' | tkIdent \<Rightarrow> ''identifier '' @ Quote (tk_text t)
   | tkNumber \<Rightarrow> ''number '' @ tk_text t | tkString \<Rightarrow> ''string '' @ Quote (tk_str t) | tkPunct \<Rightarrow> Quote (tk_text t))"

text \<open>Running out of the bound and errors end a parse; otherwise it goes on with the result.\<close>

definition and_then :: "'a parse_res \<Rightarrow> ('a \<Rightarrow> toks \<Rightarrow> 'b parse_res) \<Rightarrow> 'b parse_res" where
  "and_then r k = (case r of None \<Rightarrow> None | Some (Inl e) \<Rightarrow> Some (Inl e) | Some (Inr (x, ts)) \<Rightarrow> k x ts)"

definition squote :: "string \<Rightarrow> string" where
  "squote s = [CHR 0x27] @ s @ [CHR 0x27]"

section \<open>Primary and postfix expressions\<close>

fun arg_loop :: "string \<Rightarrow> (toks \<Rightarrow> node parse_res) \<Rightarrow> nat \<Rightarrow> node list \<Rightarrow> toks \<Rightarrow> node list parse_res" where
  "arg_loop expr por 0 args ts = None"
| "arg_loop expr por (Suc n) args ts =
     and_then (por ts) (\<lambda>arg ts1.
       case p_match '','' ts1 of
         Some ts2 \<Rightarrow> arg_loop expr por n (args @ [arg]) ts2
       | None \<Rightarrow>
           (case p_match '')'' ts1 of
              Some ts2 \<Rightarrow> Some (Inr (args @ [arg], ts2))
            | None \<Rightarrow> Some (Inl (errAt expr (cur ts1) (''expected '' @ squote '','' @ '' or '' @ squote '')'' @ '' in argument list'')))))"

definition parse_ident :: "string \<Rightarrow> (toks \<Rightarrow> node parse_res) \<Rightarrow> nat \<Rightarrow> string \<Rightarrow> toks \<Rightarrow> node parse_res" where
  "parse_ident expr por n name ts =
     (if name = ''null'' then Some (Inr (literalNode VNull, ts))
      else if name = ''true'' then Some (Inr (literalNode (VBool True), ts))
      else if name = ''false'' then Some (Inr (literalNode (VBool False), ts))
      else case p_match ''('' ts of
             None \<Rightarrow> Some (Inr (identNode name, ts))
           | Some ts1 \<Rightarrow>
               (case p_match '')'' ts1 of
                  Some ts2 \<Rightarrow> Some (Inr (callNode name [], ts2))
                | None \<Rightarrow> and_then (arg_loop expr por n [] ts1) (\<lambda>args ts2. Some (Inr (callNode name args, ts2)))))"

definition parsePrimary :: "string \<Rightarrow> (toks \<Rightarrow> node parse_res) \<Rightarrow> nat \<Rightarrow> toks \<Rightarrow> node parse_res" where
  "parsePrimary expr por n ts =
     (let t = cur ts; unexpected = Some (Inl (errAt expr t (''unexpected '' @ describe t))) in
      case tk_kind t of
        tkNumber \<Rightarrow> Some (Inr (literalNode (VNum (tk_num t)), p_next ts))
      | tkString \<Rightarrow> Some (Inr (literalNode (VStr (tk_str t)), p_next ts))
      | tkIdent \<Rightarrow> parse_ident expr por n (tk_text t) (p_next ts)
      | tkPunct \<Rightarrow>
          if tk_text t = ''('' then
            and_then (por (p_next ts)) (\<lambda>inner ts1.
              case p_match '')'' ts1 of
                Some ts2 \<Rightarrow> Some (Inr (inner, ts2))
              | None \<Rightarrow> Some (Inl (errAt expr (cur ts1) (''expected '' @ squote '')''))))
          else unexpected
      | tkEOF \<Rightarrow> unexpected)"

text \<open>After a dot the property must be an identifier or a number.\<close>

definition property_of :: "node \<Rightarrow> node option" where
  "property_of p = (case p of
     identNode name \<Rightarrow> Some (literalNode (VStr name))
   | literalNode (VNum f) \<Rightarrow> Some p
   | _ \<Rightarrow> None)"

fun post_loop :: "string \<Rightarrow> (toks \<Rightarrow> node parse_res) \<Rightarrow> nat \<Rightarrow> nat \<Rightarrow> node \<Rightarrow> toks \<Rightarrow> node parse_res" where
  "post_loop expr por m 0 x ts = None"
| "post_loop expr por m (Suc n) x ts =
     (case p_match ''.'' ts of
        Some ts1 \<Rightarrow>
          and_then (parsePrimary expr por m ts1) (\<lambda>prop ts2.
            case property_of prop of
              Some p \<Rightarrow> post_loop expr por m n (memberNode x p) ts2
            | None \<Rightarrow> Some (Inl (errAt expr (cur ts2) (''expected property name after '' @ squote ''.''))))
      | None \<Rightarrow>
          (case p_match ''['' ts of
             Some ts1 \<Rightarrow>
               and_then (por ts1) (\<lambda>idx ts2.
                 case p_match '']'' ts2 of
                   Some ts3 \<Rightarrow> post_loop expr por m n (memberNode x idx) ts3
                 | None \<Rightarrow> Some (Inl (errAt expr (cur ts2) (''expected '' @ squote '']''))))
           | None \<Rightarrow> Some (Inr (x, ts))))"

definition parsePostfix :: "string \<Rightarrow> (toks \<Rightarrow> node parse_res) \<Rightarrow> nat \<Rightarrow> toks \<Rightarrow> node parse_res" where
  "parsePostfix expr por n ts = and_then (parsePrimary expr por n ts) (\<lambda>x ts1. post_loop expr por n n x ts1)"

section \<open>Operators\<close>

fun parseUnary :: "string \<Rightarrow> (toks \<Rightarrow> node parse_res) \<Rightarrow> nat \<Rightarrow> nat \<Rightarrow> toks \<Rightarrow> node parse_res" where
  "parseUnary expr por m 0 ts = None"
| "parseUnary expr por m (Suc n) ts =
     (case p_match ''!'' ts of
        Some ts1 \<Rightarrow> and_then (parseUnary expr por m n ts1) (\<lambda>x ts2. Some (Inr (unaryNode ''!'' x, ts2)))
      | None \<Rightarrow> parsePostfix expr por m ts)"

definition compare_ops :: "string list" where
  "compare_ops = [''=='', ''!='', ''<'', ''<='', ''>'', ''>='']"

fun cmp_loop :: "string \<Rightarrow> (toks \<Rightarrow> node parse_res) \<Rightarrow> nat \<Rightarrow> nat \<Rightarrow> node \<Rightarrow> toks \<Rightarrow> node parse_res" where
  "cmp_loop expr por m 0 left ts = None"
| "cmp_loop expr por m (Suc n) left ts =
     (let t = cur ts in
      if tk_kind t \<noteq> tkPunct then Some (Inr (left, ts))
      else if tk_text t \<in> set compare_ops then
        and_then (parseUnary expr por m m (p_next ts)) (\<lambda>right ts1. cmp_loop expr por m n (binaryNode (tk_text t) left right) ts1)
      else Some (Inr (left, ts)))"

definition parseCompare :: "string \<Rightarrow> (toks \<Rightarrow> node parse_res) \<Rightarrow> nat \<Rightarrow> toks \<Rightarrow> node parse_res" where
  "parseCompare expr por n ts = and_then (parseUnary expr por n n ts) (\<lambda>left ts1. cmp_loop expr por n n left ts1)"

fun and_loop :: "string \<Rightarrow> (toks \<Rightarrow> node parse_res) \<Rightarrow> nat \<Rightarrow> nat \<Rightarrow> node \<Rightarrow> toks \<Rightarrow> node parse_res" where
  "and_loop expr por m 0 left ts = None"
| "and_loop expr por m (Suc n) left ts =
     (case p_match ''&&'' ts of
        Some ts1 \<Rightarrow> and_then (parseCompare expr por m ts1) (\<lambda>right ts2. and_loop expr por m n (binaryNode ''&&'' left right) ts2)
      | None \<Rightarrow> Some (Inr (left, ts)))"

definition parseAnd :: "string \<Rightarrow> (toks \<Rightarrow> node parse_res) \<Rightarrow> nat \<Rightarrow> toks \<Rightarrow> node parse_res" where
  "parseAnd expr por n ts = and_then (parseCompare expr por n ts) (\<lambda>left ts1. and_loop expr por n n left ts1)"

fun or_loop :: "string \<Rightarrow> (toks \<Rightarrow> node parse_res) \<Rightarrow> nat \<Rightarrow> nat \<Rightarrow> node \<Rightarrow> toks \<Rightarrow> node parse_res" where
  "or_loop expr por m 0 left ts = None"
| "or_loop expr por m (Suc n) left ts =
     (case p_match ''||'' ts of
        Some ts1 \<Rightarrow> and_then (parseAnd expr por m ts1) (\<lambda>right ts2. or_loop expr por m n (binaryNode ''||'' left right) ts2)
      | None \<Rightarrow> Some (Inr (left, ts)))"

primrec parseOr :: "string \<Rightarrow> nat \<Rightarrow> toks \<Rightarrow> node parse_res" where
  "parseOr expr 0 = (\<lambda>ts. None)"
| "parseOr expr (Suc n) = (\<lambda>ts.
     and_then (parseAnd expr (parseOr expr n) (Suc n) ts) (\<lambda>left ts1. or_loop expr (parseOr expr n) (Suc n) (Suc n) left ts1))"

section \<open>Whole expressions\<close>

definition parse_toks :: "string \<Rightarrow> toks \<Rightarrow> (ExprErr + node) option" where
  "parse_toks expr ts =
     (case parseOr expr (Suc (length ts)) ts of
        None \<Rightarrow> None
      | Some (Inl e) \<Rightarrow> Some (Inl e)
      | Some (Inr (n, rest)) \<Rightarrow>
          if tk_kind (cur rest) \<noteq> tkEOF
          then Some (Inl (errAt expr (cur rest) (''unexpected '' @ describe (cur rest) @ '' after expression'')))
          else Some (Inr n))"

definition parse :: "library \<Rightarrow> string \<Rightarrow> (ExprErr + node) option" where
  "parse L expr = (case tokens L expr (newLexer expr) of Inl e \<Rightarrow> Some (Inl e) | Inr ts \<Rightarrow> parse_toks expr ts)"

end
