(* ===== verification/Expression_Parsing.thy ===== *)
theory Expression_Parsing
  imports Expression_Parser
begin

text \<open>
  The parser returns on every input: each function leaves a shorter list of tokens, so a
  bound above the number of tokens is never exhausted.
\<close>

section \<open>Token lists\<close>

definition ended :: "toks \<Rightarrow> bool" where
  "ended ts \<longleftrightarrow> (\<exists>xs e. ts = xs @ [e] \<and> tk_kind e = tkEOF \<and> (\<forall>t \<in> set xs. tk_kind t \<noteq> tkEOF))"

lemma ended_tl: "ended ts \<Longrightarrow> tk_kind (cur ts) \<noteq> tkEOF \<Longrightarrow> ended (tl ts) \<and> length (tl ts) < length ts"
proof -
  assume "ended ts" and k: "tk_kind (cur ts) \<noteq> tkEOF"
  then obtain xs e where xs: "ts = xs @ [e]" "tk_kind e = tkEOF" "\<forall>t \<in> set xs. tk_kind t \<noteq> tkEOF" by (auto simp: ended_def)
  with k show ?thesis by (cases xs) (auto simp: ended_def cur_def)
qed

lemma p_match_shrinks: "ended ts \<Longrightarrow> p_match x ts = Some ts' \<Longrightarrow> ended ts' \<and> length ts' < length ts"
  using ended_tl [of ts] by (auto simp: p_match_def p_next_def split: if_splits)

lemma p_next_shrinks: "ended ts \<Longrightarrow> tk_kind (cur ts) \<noteq> tkEOF \<Longrightarrow> ended (p_next ts) \<and> length (p_next ts) < length ts"
  using ended_tl [of ts] by (simp add: p_next_def)

lemma and_then_Inr: "and_then r k = Some (Inr y) \<longleftrightarrow> (\<exists>x ts. r = Some (Inr (x, ts)) \<and> k x ts = Some (Inr y))"
  by (auto simp: and_then_def split: option.splits sum.splits)

lemma and_then_None: "and_then r k = None \<longleftrightarrow> r = None \<or> (\<exists>x ts. r = Some (Inr (x, ts)) \<and> k x ts = None)"
  by (auto simp: and_then_def split: option.splits sum.splits)

section \<open>Progress\<close>

definition shrinks :: "(toks \<Rightarrow> 'a parse_res) \<Rightarrow> bool" where
  "shrinks p \<longleftrightarrow> (\<forall>ts x ts'. ended ts \<longrightarrow> p ts = Some (Inr (x, ts')) \<longrightarrow> ended ts' \<and> length ts' < length ts)"

lemma shrinksD: "shrinks p \<Longrightarrow> ended ts \<Longrightarrow> p ts = Some (Inr (x, ts')) \<Longrightarrow> ended ts' \<and> length ts' < length ts"
  by (simp add: shrinks_def)

text \<open>A loop may stop at once.\<close>

definition keeps :: "(toks \<Rightarrow> 'a parse_res) \<Rightarrow> bool" where
  "keeps p \<longleftrightarrow> (\<forall>ts x ts'. ended ts \<longrightarrow> p ts = Some (Inr (x, ts')) \<longrightarrow> ended ts' \<and> length ts' \<le> length ts)"

lemma keepsD: "keeps p \<Longrightarrow> ended ts \<Longrightarrow> p ts = Some (Inr (x, ts')) \<Longrightarrow> ended ts' \<and> length ts' \<le> length ts"
  by (simp add: keeps_def)

lemma shrinks_then_keeps:
  assumes "shrinks p" "\<And>x. keeps (k x)"
  shows "shrinks (\<lambda>ts. and_then (p ts) k)"
  unfolding shrinks_def
proof (intro allI impI)
  fix ts x ts' assume e: "ended ts" "and_then (p ts) k = Some (Inr (x, ts'))"
  then obtain y ts1 where 1: "p ts = Some (Inr (y, ts1))" "k y ts1 = Some (Inr (x, ts'))" by (auto simp: and_then_Inr)
  note a = shrinksD [OF assms(1) e(1) 1(1)]
  with keepsD [OF assms(2) _ 1(2)] show "ended ts' \<and> length ts' < length ts" by fastforce
qed

lemma arg_loop_shrinks: "shrinks por \<Longrightarrow> shrinks (arg_loop expr por n args)"
proof (induction n arbitrary: args)
  case (Suc n)
  show ?case unfolding shrinks_def
  proof (intro allI impI)
    fix ts x ts' assume e: "ended ts" "arg_loop expr por (Suc n) args ts = Some (Inr (x, ts'))"
    then obtain a ts1 where a: "por ts = Some (Inr (a, ts1))" by (auto simp: and_then_Inr)
    note 1 = shrinksD [OF Suc.prems e(1) a]
    show "ended ts' \<and> length ts' < length ts"
    proof (cases "p_match '','' ts1")
      case (Some ts2)
      with e(2) a have "arg_loop expr por n (args @ [a]) ts2 = Some (Inr (x, ts'))" by (simp add: and_then_def)
      with shrinksD [OF Suc.IH [OF Suc.prems]] p_match_shrinks [OF _ Some] 1 show ?thesis by fastforce
    next
      case None
      with e(2) a have "p_match '')'' ts1 = Some ts'" by (auto simp: and_then_def split: option.splits)
      with p_match_shrinks 1 show ?thesis by fastforce
    qed
  qed
qed (simp add: shrinks_def)

lemma parse_ident_keeps: "shrinks por \<Longrightarrow> keeps (parse_ident expr por n name)"
  unfolding keeps_def
proof (intro allI impI)
  fix ts x ts' assume s: "shrinks por" and e: "ended ts" "parse_ident expr por n name ts = Some (Inr (x, ts'))"
  show "ended ts' \<and> length ts' \<le> length ts"
  proof (cases "name \<in> {''null'', ''true'', ''false''}")
    case True
    with e show ?thesis by (auto simp: parse_ident_def)
  next
    case nn: False
    show ?thesis
    proof (cases "p_match ''('' ts")
      case None
      with e nn show ?thesis by (simp add: parse_ident_def)
    next
      case (Some ts1)
      note 1 = p_match_shrinks [OF e(1) Some]
      show ?thesis
      proof (cases "p_match '')'' ts1")
        case (Some ts2)
        with e nn \<open>p_match ''('' ts = Some ts1\<close> have "ts' = ts2" by (simp add: parse_ident_def)
        with p_match_shrinks [OF _ Some] 1 show ?thesis by fastforce
      next
        case None
        with e nn Some obtain args where "arg_loop expr por n [] ts1 = Some (Inr (args, ts'))"
          by (auto simp: parse_ident_def and_then_Inr)
        with shrinksD [OF arg_loop_shrinks [OF s]] 1 show ?thesis by fastforce
      qed
    qed
  qed
qed

lemma parsePrimary_shrinks: "shrinks por \<Longrightarrow> shrinks (parsePrimary expr por n)"
  unfolding shrinks_def [of "parsePrimary expr por n"]
proof (intro allI impI)
  fix ts x ts' assume s: "shrinks por" and e: "ended ts" "parsePrimary expr por n ts = Some (Inr (x, ts'))"
  have k: "tk_kind (cur ts) \<noteq> tkEOF" using e(2) by (auto simp: parsePrimary_def Let_def)
  note 1 = p_next_shrinks [OF e(1) k]
  show "ended ts' \<and> length ts' < length ts"
  proof (cases "tk_kind (cur ts)")
    case tkIdent
    with e(2) have "parse_ident expr por n (tk_text (cur ts)) (p_next ts) = Some (Inr (x, ts'))" by (simp add: parsePrimary_def)
    with keepsD [OF parse_ident_keeps [OF s]] 1 show ?thesis by fastforce
  next
    case tkPunct
    with e(2) obtain ts1 where p: "por (p_next ts) = Some (Inr (x, ts1))" "p_match '')'' ts1 = Some ts'"
      by (auto simp: parsePrimary_def Let_def and_then_Inr split: if_splits option.splits)
    from shrinksD [OF s _ p(1)] 1 p_match_shrinks [OF _ p(2)] show ?thesis by fastforce
  qed (use e(2) 1 k in \<open>auto simp: parsePrimary_def\<close>)
qed

lemma keeps_stop: "keeps (\<lambda>ts. Some (Inr (x, ts)))"
  by (simp add: keeps_def)

lemma keepsI_shrink:
  assumes "shrinks p" "\<And>x. keeps (k x)" "ended ts" "and_then (p ts) k = Some (Inr (x, ts'))"
  shows "ended ts' \<and> length ts' < length ts"
  using shrinksD [OF shrinks_then_keeps [OF assms(1,2)] assms(3,4)] .

lemma post_loop_keeps: "shrinks por \<Longrightarrow> keeps (post_loop expr por m n x)"
proof (induction n arbitrary: x)
  case (Suc n)
  show ?case unfolding keeps_def
  proof (intro allI impI)
    fix ts y ts' assume e: "ended ts" "post_loop expr por m (Suc n) x ts = Some (Inr (y, ts'))"
    note ih = Suc.IH [OF Suc.prems]
    consider (dot) ts1 where "p_match ''.'' ts = Some ts1" | (brk) ts1 where "p_match ''.'' ts = None" "p_match ''['' ts = Some ts1"
      | (stop) "p_match ''.'' ts = None" "p_match ''['' ts = None" by (cases "p_match ''.'' ts"; cases "p_match ''['' ts") auto
    then show "ended ts' \<and> length ts' \<le> length ts"
    proof cases
      case dot
      with e(2) obtain pr ts2 p where p: "parsePrimary expr por m ts1 = Some (Inr (pr, ts2))"
        "post_loop expr por m n (memberNode x p) ts2 = Some (Inr (y, ts'))" by (auto simp: and_then_Inr split: option.splits)
      from p_match_shrinks [OF e(1) dot] shrinksD [OF parsePrimary_shrinks [OF Suc.prems] _ p(1)] keepsD [OF ih _ p(2)]
      show ?thesis by fastforce
    next
      case brk
      with e(2) obtain idx ts2 ts3 where p: "por ts1 = Some (Inr (idx, ts2))" "p_match '']'' ts2 = Some ts3"
        "post_loop expr por m n (memberNode x idx) ts3 = Some (Inr (y, ts'))" by (auto simp: and_then_Inr split: option.splits)
      from p_match_shrinks [OF e(1) brk(2)] shrinksD [OF Suc.prems _ p(1)] p_match_shrinks [OF _ p(2)] keepsD [OF ih _ p(3)]
      show ?thesis by fastforce
    qed (use e in simp)
  qed
qed (simp add: keeps_def)

lemma parsePostfix_shrinks: "shrinks por \<Longrightarrow> shrinks (parsePostfix expr por n)"
  unfolding parsePostfix_def [abs_def] by (intro shrinks_then_keeps parsePrimary_shrinks post_loop_keeps)

lemma parseUnary_shrinks: "shrinks por \<Longrightarrow> shrinks (parseUnary expr por m n)"
proof (induction n)
  case (Suc n)
  show ?case unfolding shrinks_def
  proof (intro allI impI)
    fix ts y ts' assume e: "ended ts" "parseUnary expr por m (Suc n) ts = Some (Inr (y, ts'))"
    show "ended ts' \<and> length ts' < length ts"
    proof (cases "p_match ''!'' ts")
      case None
      with e shrinksD [OF parsePostfix_shrinks [OF Suc.prems]] show ?thesis by simp
    next
      case (Some ts1)
      with e(2) obtain x where "parseUnary expr por m n ts1 = Some (Inr (x, ts'))" by (auto simp: and_then_Inr)
      with shrinksD [OF Suc.IH [OF Suc.prems]] p_match_shrinks [OF e(1) Some] show ?thesis by fastforce
    qed
  qed
qed (simp add: shrinks_def)

text \<open>The three operator loops share one argument: an operator and an operand are read, or nothing is.\<close>

lemma loop_step_keeps:
  assumes "shrinks p" "keeps k" "ended ts" "ended ts1" "length ts1 < length ts"
    and "p ts1 = Some (Inr (x, ts2))" "k ts2 = Some (Inr (y, ts'))"
  shows "ended ts' \<and> length ts' \<le> length ts"
  using shrinksD [OF assms(1,4,6)] keepsD [OF assms(2) _ assms(7)] assms(5) by fastforce

lemma cmp_loop_keeps: "shrinks por \<Longrightarrow> keeps (cmp_loop expr por m n x)"
proof (induction n arbitrary: x)
  case (Suc n)
  show ?case unfolding keeps_def
  proof (intro allI impI)
    fix ts y ts' assume e: "ended ts" "cmp_loop expr por m (Suc n) x ts = Some (Inr (y, ts'))"
    show "ended ts' \<and> length ts' \<le> length ts"
    proof (cases "tk_kind (cur ts) = tkPunct \<and> tk_text (cur ts) \<in> set compare_ops")
      case True
      with e(2) obtain r ts2 where r: "parseUnary expr por m m (p_next ts) = Some (Inr (r, ts2))"
        "cmp_loop expr por m n (binaryNode (tk_text (cur ts)) x r) ts2 = Some (Inr (y, ts'))" by (auto simp: Let_def and_then_Inr)
      have "ended (p_next ts)" "length (p_next ts) < length ts" using p_next_shrinks [OF e(1)] True by simp_all
      from loop_step_keeps [OF parseUnary_shrinks [OF Suc.prems] Suc.IH [OF Suc.prems] e(1) this r] show ?thesis .
    next
      case False
      with e have "ts' = ts" by (auto simp: Let_def split: if_splits)
      with e(1) show ?thesis by simp
    qed
  qed
qed (simp add: keeps_def)

lemma parseCompare_shrinks: "shrinks por \<Longrightarrow> shrinks (parseCompare expr por n)"
  unfolding parseCompare_def [abs_def] by (intro shrinks_then_keeps parseUnary_shrinks cmp_loop_keeps)

lemma and_loop_keeps: "shrinks por \<Longrightarrow> keeps (and_loop expr por m n x)"
proof (induction n arbitrary: x)
  case (Suc n)
  show ?case unfolding keeps_def
  proof (intro allI impI)
    fix ts y ts' assume e: "ended ts" "and_loop expr por m (Suc n) x ts = Some (Inr (y, ts'))"
    show "ended ts' \<and> length ts' \<le> length ts"
    proof (cases "p_match [CHR ''&'', CHR ''&''] ts")
      case (Some ts1)
      with e(2) obtain r ts2 where r: "parseCompare expr por m ts1 = Some (Inr (r, ts2))"
        "and_loop expr por m n (binaryNode [CHR ''&'', CHR ''&''] x r) ts2 = Some (Inr (y, ts'))" by (auto simp: and_then_Inr)
      note p = p_match_shrinks [OF e(1) Some]
      from loop_step_keeps [OF parseCompare_shrinks [OF Suc.prems] Suc.IH [OF Suc.prems] e(1) p [THEN conjunct1] p [THEN conjunct2] r] show ?thesis .
    qed (use e in simp)
  qed
qed (simp add: keeps_def)

lemma parseAnd_shrinks: "shrinks por \<Longrightarrow> shrinks (parseAnd expr por n)"
  unfolding parseAnd_def [abs_def] by (intro shrinks_then_keeps parseCompare_shrinks and_loop_keeps)

lemma or_loop_keeps: "shrinks por \<Longrightarrow> keeps (or_loop expr por m n x)"
proof (induction n arbitrary: x)
  case (Suc n)
  show ?case unfolding keeps_def
  proof (intro allI impI)
    fix ts y ts' assume e: "ended ts" "or_loop expr por m (Suc n) x ts = Some (Inr (y, ts'))"
    show "ended ts' \<and> length ts' \<le> length ts"
    proof (cases "p_match [CHR ''|'', CHR ''|''] ts")
      case (Some ts1)
      with e(2) obtain r ts2 where r: "parseAnd expr por m ts1 = Some (Inr (r, ts2))"
        "or_loop expr por m n (binaryNode [CHR ''|'', CHR ''|''] x r) ts2 = Some (Inr (y, ts'))" by (auto simp: and_then_Inr)
      note p = p_match_shrinks [OF e(1) Some]
      from loop_step_keeps [OF parseAnd_shrinks [OF Suc.prems] Suc.IH [OF Suc.prems] e(1) p [THEN conjunct1] p [THEN conjunct2] r] show ?thesis .
    qed (use e in simp)
  qed
qed (simp add: keeps_def)

lemma parseOr_shrinks: "shrinks (parseOr expr n)"
proof (induction n)
  case (Suc n)
  show ?case unfolding parseOr.simps by (intro shrinks_then_keeps parseAnd_shrinks or_loop_keeps Suc)
qed (simp add: shrinks_def)

section \<open>The bound is enough\<close>

definition returns :: "(toks \<Rightarrow> 'a parse_res) \<Rightarrow> nat \<Rightarrow> bool" where
  "returns p n \<longleftrightarrow> (\<forall>ts. ended ts \<longrightarrow> length ts < n \<longrightarrow> p ts \<noteq> None)"

lemma returnsD: "returns p n \<Longrightarrow> ended ts \<Longrightarrow> length ts < n \<Longrightarrow> \<exists>r. p ts = Some r"
  by (auto simp: returns_def)

lemma returns_then:
  assumes "returns p n" "shrinks p" "\<And>x. returns (k x) n"
  shows "returns (\<lambda>ts. and_then (p ts) k) n"
  unfolding returns_def
proof (intro allI impI notI)
  fix ts assume e: "ended ts" "length ts < n" "and_then (p ts) k = None"
  with returnsD [OF assms(1) e(1,2)] obtain x ts1 where 1: "p ts = Some (Inr (x, ts1))" "k x ts1 = None" by (auto simp: and_then_None)
  from shrinksD [OF assms(2) e(1) 1(1)] returnsD [OF assms(3) [of x], of ts1] e(2) 1(2) show False by fastforce
qed

lemma returns_mono: "returns p n \<Longrightarrow> m \<le> n \<Longrightarrow> returns p m"
  by (auto simp: returns_def)

lemma arg_loop_returns:
  assumes "shrinks por" "returns por k"
  shows "returns (arg_loop expr por n args) (min n k)"
proof (induction n arbitrary: args)
  case (Suc n)
  show ?case unfolding returns_def
  proof (intro allI impI)
    fix ts assume e: "ended ts" "length ts < min (Suc n) k"
    then obtain r where r: "por ts = Some r" using returnsD [OF assms(2)] by fastforce
    show "arg_loop expr por (Suc n) args ts \<noteq> None"
    proof (cases r)
      case (Inr p)
      obtain a ts1 where p: "p = (a, ts1)" by fastforce
      note 1 = shrinksD [OF assms(1) e(1) r [unfolded Inr p]]
      show ?thesis
      proof (cases "p_match '','' ts1")
        case (Some ts2)
        have "ended ts2" "length ts2 < min n k" using p_match_shrinks [OF 1 [THEN conjunct1] Some] 1 e(2) by auto
        then have "arg_loop expr por n (args @ [a]) ts2 \<noteq> None" using Suc by (simp add: returns_def)
        with r Inr p Some show ?thesis by (simp add: and_then_def)
      qed (use r Inr p in \<open>simp add: and_then_def split: option.splits\<close>)
    qed (use r in \<open>simp add: and_then_def\<close>)
  qed
qed (simp add: returns_def)

lemma parse_ident_returns:
  assumes "shrinks por" "returns por k"
  shows "returns (parse_ident expr por (Suc k) name) (Suc k)"
  unfolding returns_def
proof (intro allI impI)
  fix ts assume e: "ended ts" "length ts < Suc k"
  show "parse_ident expr por (Suc k) name ts \<noteq> None"
  proof (cases "p_match ''('' ts")
    case (Some ts1)
    note 1 = p_match_shrinks [OF e(1) Some]
    have "arg_loop expr por (Suc k) [] ts1 \<noteq> None"
      using arg_loop_returns [OF assms, of expr "Suc k" "[]"] 1 e(2) by (simp add: returns_def)
    then obtain r where r: "arg_loop expr por (Suc k) [] ts1 = Some r" by blast
    then have "and_then (arg_loop expr por (Suc k) [] ts1) (\<lambda>args ts2. Some (Inr (callNode name args, ts2))) \<noteq> None"
      by (auto simp: and_then_None)
    with Some show ?thesis by (simp add: parse_ident_def split: option.splits)
  qed (simp add: parse_ident_def)
qed

lemma parsePrimary_returns:
  assumes "shrinks por" "returns por k"
  shows "returns (parsePrimary expr por (Suc k)) (Suc k)"
  unfolding returns_def
proof (intro allI impI)
  fix ts assume e: "ended ts" "length ts < Suc k"
  show "parsePrimary expr por (Suc k) ts \<noteq> None"
  proof (cases "tk_kind (cur ts)")
    case tkIdent
    note 1 = p_next_shrinks [OF e(1)]
    have "parse_ident expr por (Suc k) (tk_text (cur ts)) (p_next ts) \<noteq> None"
      using parse_ident_returns [OF assms] 1 tkIdent e(2) by (simp add: returns_def)
    with tkIdent show ?thesis by (simp add: parsePrimary_def)
  next
    case tkPunct
    have "ended (p_next ts)" "length (p_next ts) < k" using p_next_shrinks [OF e(1)] tkPunct e(2) by auto
    with returnsD [OF assms(2)] obtain r where "por (p_next ts) = Some r" by blast
    with tkPunct show ?thesis by (cases r) (auto simp: parsePrimary_def Let_def and_then_def split: option.splits)
  qed (simp_all add: parsePrimary_def Let_def)
qed

lemma post_loop_returns:
  assumes "shrinks por" "returns por k"
  shows "returns (post_loop expr por (Suc k) n x) (min n (Suc k))"
proof (induction n arbitrary: x)
  case (Suc n)
  show ?case unfolding returns_def
  proof (intro allI impI notI)
    fix ts assume e: "ended ts" "length ts < min (Suc n) (Suc k)" "post_loop expr por (Suc k) (Suc n) x ts = None"
    show False
    proof (cases "p_match ''.'' ts")
      case (Some ts1)
      note 1 = p_match_shrinks [OF e(1) Some]
      obtain r where r: "parsePrimary expr por (Suc k) ts1 = Some r"
        using returnsD [OF parsePrimary_returns [OF assms]] 1 e(2) by fastforce
      with e(3) Some obtain pr ts2 p where p: "r = Inr (pr, ts2)" "post_loop expr por (Suc k) n (memberNode x p) ts2 = None"
        by (auto simp: and_then_None split: option.splits)
      from shrinksD [OF parsePrimary_shrinks [OF assms(1)] 1 [THEN conjunct1] r [unfolded p(1)]] 1 e(2)
      have "ended ts2" "length ts2 < min n (Suc k)" by auto
      then show False using returnsD [OF Suc] p(2) by (metis option.distinct(1))
    next
      case None
      with e(3) obtain ts1 where b: "p_match ''['' ts = Some ts1" by (auto split: option.splits)
      note 1 = p_match_shrinks [OF e(1) b]
      have "length ts1 < k" using 1 e(2) by (auto simp: min_def split: if_splits)
      with returnsD [OF assms(2)] 1 obtain r where r: "por ts1 = Some r" by blast
      with e(3) None b obtain idx ts2 ts3 where p: "r = Inr (idx, ts2)" "p_match '']'' ts2 = Some ts3"
        "post_loop expr por (Suc k) n (memberNode x idx) ts3 = None" by (auto simp: and_then_None split: option.splits)
      note 2 = shrinksD [OF assms(1) 1 [THEN conjunct1] r [unfolded p(1)]]
      from p_match_shrinks [OF 2 [THEN conjunct1] p(2)] 2 1 e(2) have "ended ts3" "length ts3 < min n (Suc k)" by auto
      then show False using returnsD [OF Suc] p(3) by (metis option.distinct(1))
    qed
  qed
qed (simp add: returns_def)

lemma parsePostfix_returns:
  assumes "shrinks por" "returns por k"
  shows "returns (parsePostfix expr por (Suc k)) (Suc k)"
  unfolding parsePostfix_def [abs_def]
proof (rule returns_then [OF parsePrimary_returns [OF assms] parsePrimary_shrinks [OF assms(1)]])
  show "returns (post_loop expr por (Suc k) (Suc k) x) (Suc k)" for x using post_loop_returns [OF assms, of expr "Suc k" x] by simp
qed

lemma parseUnary_returns:
  assumes "shrinks por" "returns por k"
  shows "returns (parseUnary expr por (Suc k) n) (min n (Suc k))"
proof (induction n)
  case (Suc n)
  show ?case unfolding returns_def
  proof (intro allI impI notI)
    fix ts assume e: "ended ts" "length ts < min (Suc n) (Suc k)" "parseUnary expr por (Suc k) (Suc n) ts = None"
    show False
    proof (cases "p_match ''!'' ts")
      case (Some ts1)
      with p_match_shrinks [OF e(1) Some] e(2) have "ended ts1" "length ts1 < min n (Suc k)" by auto
      with Suc have "parseUnary expr por (Suc k) n ts1 \<noteq> None" by (simp add: returns_def)
      with e(3) Some show False by (auto simp: and_then_None)
    next
      case None
      have "length ts < Suc k" using e(2) by (auto simp: min_def split: if_splits)
      from returnsD [OF parsePostfix_returns [OF assms, of expr] e(1) this] e(3) None show False by auto
    qed
  qed
qed (simp add: returns_def)

lemma loop_step_returns:
  assumes "shrinks p" "returns p m" "\<And>x. returns (k x) n" "ended ts1" "length ts1 < m" "length ts1 < Suc n"
  shows "and_then (p ts1) k \<noteq> None"
proof
  assume a: "and_then (p ts1) k = None"
  with returnsD [OF assms(2,4,5)] obtain x ts2 where x: "p ts1 = Some (Inr (x, ts2))" "k x ts2 = None" by (auto simp: and_then_None)
  from shrinksD [OF assms(1,4) x(1)] assms(6) returnsD [OF assms(3) [of x], of ts2] x(2) show False by auto
qed

lemma cmp_loop_returns:
  assumes "shrinks por" "returns por k"
  shows "returns (cmp_loop expr por (Suc k) n x) (min n (Suc k))"
proof (induction n arbitrary: x)
  case (Suc n)
  show ?case unfolding returns_def
  proof (intro allI impI)
    fix ts assume e: "ended ts" "length ts < min (Suc n) (Suc k)"
    show "cmp_loop expr por (Suc k) (Suc n) x ts \<noteq> None"
    proof (cases "tk_kind (cur ts) = tkPunct \<and> tk_text (cur ts) \<in> set compare_ops")
      case True
      have n: "ended (p_next ts)" "length (p_next ts) < Suc k" "length (p_next ts) < Suc (min n (Suc k))"
        using p_next_shrinks [OF e(1)] True e(2) by auto
      have "returns (parseUnary expr por (Suc k) (Suc k)) (Suc k)" using parseUnary_returns [OF assms, of expr "Suc k"] by simp
      from loop_step_returns [OF parseUnary_shrinks [OF assms(1)] this Suc n] True show ?thesis by (simp add: Let_def)
    qed (simp add: Let_def)
  qed
qed (simp add: returns_def)

lemma parseCompare_returns:
  assumes "shrinks por" "returns por k"
  shows "returns (parseCompare expr por (Suc k)) (Suc k)"
  unfolding parseCompare_def [abs_def]
proof (rule returns_then [OF _ parseUnary_shrinks [OF assms(1)]])
  show "returns (parseUnary expr por (Suc k) (Suc k)) (Suc k)" using parseUnary_returns [OF assms, of expr "Suc k"] by simp
  show "returns (cmp_loop expr por (Suc k) (Suc k) x) (Suc k)" for x using cmp_loop_returns [OF assms, of expr "Suc k" x] by simp
qed

lemma and_loop_returns:
  assumes "shrinks por" "returns por k"
  shows "returns (and_loop expr por (Suc k) n x) (min n (Suc k))"
proof (induction n arbitrary: x)
  case (Suc n)
  show ?case unfolding returns_def
  proof (intro allI impI)
    fix ts assume e: "ended ts" "length ts < min (Suc n) (Suc k)"
    show "and_loop expr por (Suc k) (Suc n) x ts \<noteq> None"
    proof (cases "p_match [CHR ''&'', CHR ''&''] ts")
      case (Some ts1)
      with p_match_shrinks [OF e(1) Some] e(2) have n: "ended ts1" "length ts1 < Suc k" "length ts1 < Suc (min n (Suc k))" by auto
      from loop_step_returns [OF parseCompare_shrinks [OF assms(1)] parseCompare_returns [OF assms] Suc n] Some show ?thesis by simp
    qed simp
  qed
qed (simp add: returns_def)

lemma parseAnd_returns:
  assumes "shrinks por" "returns por k"
  shows "returns (parseAnd expr por (Suc k)) (Suc k)"
  unfolding parseAnd_def [abs_def]
proof (rule returns_then [OF parseCompare_returns [OF assms] parseCompare_shrinks [OF assms(1)]])
  show "returns (and_loop expr por (Suc k) (Suc k) x) (Suc k)" for x using and_loop_returns [OF assms, of expr "Suc k" x] by simp
qed

lemma or_loop_returns:
  assumes "shrinks por" "returns por k"
  shows "returns (or_loop expr por (Suc k) n x) (min n (Suc k))"
proof (induction n arbitrary: x)
  case (Suc n)
  show ?case unfolding returns_def
  proof (intro allI impI)
    fix ts assume e: "ended ts" "length ts < min (Suc n) (Suc k)"
    show "or_loop expr por (Suc k) (Suc n) x ts \<noteq> None"
    proof (cases "p_match [CHR ''|'', CHR ''|''] ts")
      case (Some ts1)
      with p_match_shrinks [OF e(1) Some] e(2) have n: "ended ts1" "length ts1 < Suc k" "length ts1 < Suc (min n (Suc k))" by auto
      from loop_step_returns [OF parseAnd_shrinks [OF assms(1)] parseAnd_returns [OF assms] Suc n] Some show ?thesis by simp
    qed simp
  qed
qed (simp add: returns_def)

lemma parseOr_returns: "returns (parseOr expr n) n"
proof (induction n)
  case (Suc n)
  note s = parseOr_shrinks [of expr n]
  have "returns (or_loop expr (parseOr expr n) (Suc n) (Suc n) x) (Suc n)" for x using or_loop_returns [OF s Suc, of expr "Suc n" x] by simp
  from returns_then [OF parseAnd_returns [OF s Suc] parseAnd_shrinks [OF s] this]
  show ?case unfolding returns_def by (simp only: parseOr.simps) simp
qed (simp add: returns_def)

lemma tokens_ended: "tokens L expr l = Inr ts \<Longrightarrow> ended ts"
proof -
  assume t: "tokens L expr l = Inr ts"
  with tokens_scan [of L expr l] obtain bs where b: "scan_all L (lx_rest l) = Some bs" "map bare_of ts = bs" by (auto split: option.splits)
  from scan_all_ends [OF b(1)] b(2) obtain xs where "map bare_of ts = xs @ [BEOF]" "BEOF \<notin> set xs" by auto
  then obtain us e where u: "ts = us @ [e]" "bare_of e = BEOF" "BEOF \<notin> bare_of ` set us"
    by (auto simp: map_eq_append_conv)
  have k: "bare_of t = BEOF \<longleftrightarrow> tk_kind t = tkEOF" for t by (cases "tk_kind t") (simp_all add: bare_of_def)
  show ?thesis unfolding ended_def using u k by (metis (no_types, lifting) image_eqI)
qed

lemma parse_returns: "\<exists>r. parse L expr = Some r"
proof (cases "tokens L expr (newLexer expr)")
  case (Inr ts)
  with returnsD [OF parseOr_returns [of expr "Suc (length ts)"] tokens_ended [OF Inr]]
  obtain r where "parseOr expr (Suc (length ts)) ts = Some r" by auto
  with Inr show ?thesis by (auto simp: parse_def parse_toks_def split: sum.splits)
qed (simp add: parse_def)

end
