(* ===== verification/Expression_Eval.thy ===== *)
theory Expression_Eval
  imports Expression_Parsing
begin

text \<open>
  The evaluator of the expression engine (eval.go), its function table (functions.go),
  templates (interpolate.go) and \<^verbatim>\<open>if:\<close> conditions (conditions.go). A result is a typed
  error or a value. The parser always returns (\<open>parse_returns\<close>), so \<open>Eval\<close> takes
  its result out of the option.
\<close>

type_synonym 'a eval_res = "ExprErr + 'a"

section \<open>Comparisons\<close>

text \<open>
  Equality and order of float64. \<open>Infinite True\<close> is the positive infinity.
\<close>

fun num_eq :: "num64 \<Rightarrow> num64 \<Rightarrow> bool" where
  "num_eq (Fin a) (Fin b) = (a = b)"
| "num_eq (Infinite p) (Infinite q) = (p = q)"
| "num_eq _ _ = False"

fun num_less :: "num64 \<Rightarrow> num64 \<Rightarrow> bool" where
  "num_less (Fin a) (Fin b) = (a < b)"
| "num_less (Fin a) (Infinite q) = q"
| "num_less (Infinite p) (Fin b) = (\<not> p)"
| "num_less (Infinite p) (Infinite q) = (\<not> p \<and> q)"
| "num_less _ _ = False"

definition toNumber :: "library \<Rightarrow> Value \<Rightarrow> num64 option" where
  "toNumber L v = (case v of
     VNum f \<Rightarrow> Some f
   | VBool b \<Rightarrow> Some (if b then Fin 1 else Fin 0)
   | VStr s \<Rightarrow> ParseFloat L (TrimSpace s)
   | _ \<Rightarrow> None)"

definition looseEqual :: "library \<Rightarrow> Value \<Rightarrow> Value \<Rightarrow> bool" where
  "looseEqual L l r =
     (if v_Kind l = v_Kind r then
        (case (l, r) of
           (VNull, VNull) \<Rightarrow> True
         | (VBool a, VBool b) \<Rightarrow> a = b
         | (VNum a, VNum b) \<Rightarrow> num_eq a b
         | (VStr a, VStr b) \<Rightarrow> EqualFold a b
         | _ \<Rightarrow> Value_String L l = Value_String L r)
      else case (l, r) of
             (VNull, VStr s) \<Rightarrow> s = ''''
           | (VStr s, VNull) \<Rightarrow> s = ''''
           | _ \<Rightarrow>
               if v_Kind l = KindNumber \<or> v_Kind r = KindNumber then
                 (case (toNumber L l, toNumber L r) of (Some a, Some b) \<Rightarrow> num_eq a b | _ \<Rightarrow> False)
               else EqualFold (Value_String L l) (Value_String L r))"

definition compare_strings :: "string \<Rightarrow> string \<Rightarrow> int" where
  "compare_strings a b = (if a = b then 0 else if a < b then -1 else 1)"

text \<open>\<open>None\<close> is a pair that is not comparable.\<close>

definition compare :: "library \<Rightarrow> Value \<Rightarrow> Value \<Rightarrow> int option" where
  "compare L l r =
     (let strs = (case (l, r) of (VStr a, VStr b) \<Rightarrow> Some (compare_strings (ToLower a) (ToLower b)) | _ \<Rightarrow> None) in
      case (toNumber L l, toNumber L r) of
        (Some a, Some b) \<Rightarrow>
          if v_Kind l = KindNumber \<or> v_Kind r = KindNumber then
            Some (if num_less a b then -1 else if num_less b a then 1 else 0)
          else strs
      | _ \<Rightarrow> strs)"

section \<open>Member access\<close>

text \<open>
  \<^verbatim>\<open>int(f)\<close> of a float64 truncates; a value outside the range of int64 gives its least
  number, as on the amd64 the images are built for.
\<close>

definition float_to_int :: "num64 \<Rightarrow> int" where
  "float_to_int f = (case f of
     Fin r \<Rightarrow> (let i = (if r < 0 then \<lceil>r\<rceil> else \<lfloor>r\<rfloor>) in if - (2 ^ 63) \<le> i \<and> i < 2 ^ 63 then i else - (2 ^ 63))
   | _ \<Rightarrow> - (2 ^ 63))"

definition objKey :: "(string, Value) gomap \<Rightarrow> string \<Rightarrow> Value" where
  "objKey m key =
     (case mget m key of
        Some v \<Rightarrow> v
      | None \<Rightarrow> (case find (\<lambda>(k, v). EqualFold k key) m of Some (k, v) \<Rightarrow> v | None \<Rightarrow> VNull))"

definition evalMember :: "Value \<Rightarrow> Value \<Rightarrow> Value" where
  "evalMember obj prp =
     (case (obj, prp) of
        (VObj m, VStr s) \<Rightarrow> objKey m s
      | (VArr vs, VNum f) \<Rightarrow>
          (let idx = float_to_int f in
           if idx < 0 \<or> idx \<ge> int (length vs) then VNull else vs ! nat idx)
      | _ \<Rightarrow> VNull)"

section \<open>Functions\<close>

fun arity :: "string \<Rightarrow> Value list \<Rightarrow> nat list \<Rightarrow> ExprErr option" where
  "arity name args want =
     (if length args \<in> set want then None
      else Some (EvalError '''' (name @ ''() takes '' @ itoa (hd want) @ '' argument(s), got '' @ itoa (length args))))"

text \<open>\<^verbatim>\<open>strconv.Atoi\<close>: an optional sign and digits, within the range of int64.\<close>

definition digits_value :: "string \<Rightarrow> int" where
  "digits_value s = foldl (\<lambda>n c. 10 * n + (of_char c - 48)) 0 s"

definition Atoi :: "string \<Rightarrow> int option" where
  "Atoi s =
     (let neg = HasPrefix s ''-''; ds = (if neg \<or> HasPrefix s ''+'' then tl s else s);
          n = (if neg then - digits_value ds else digits_value ds) in
      if ds = [] \<or> \<not> list_all is_digit ds \<or> n < - (2 ^ 63) \<or> n \<ge> 2 ^ 63 then None else Some n)"

text \<open>The rest of the template and the text written so far.\<close>

function format_loop :: "library \<Rightarrow> Value list \<Rightarrow> string \<Rightarrow> string \<Rightarrow> Value eval_res" where
  "format_loop L args tpl sb =
     (case tpl of
        [] \<Rightarrow> Inr (VStr sb)
      | c # cs \<Rightarrow>
          if c = CHR ''{'' then
            if HasPrefix tpl ''{{'' then format_loop L args (drop 2 tpl) (sb @ ''{'')
            else case Index tpl ''}'' of
                   None \<Rightarrow> Inl (EvalError '''' ''format(): unterminated { in template'')
                 | Some close \<Rightarrow>
                     (case Atoi (drop 1 (take close tpl)) of
                        Some idx \<Rightarrow>
                          if idx < 0 \<or> idx \<ge> int (length args)
                          then Inl (EvalError '''' (''format(): bad placeholder '' @ Quote (take (Suc close) tpl)))
                          else format_loop L args (drop (Suc close) tpl) (sb @ Value_String L (args ! nat idx))
                      | None \<Rightarrow> Inl (EvalError '''' (''format(): bad placeholder '' @ Quote (take (Suc close) tpl))))
          else if c = CHR ''}'' then
            if HasPrefix tpl ''}}'' then format_loop L args (drop 2 tpl) (sb @ ''}'')
            else Inl (EvalError '''' ''format(): stray } in template'')
          else format_loop L args cs (sb @ [c]))"
  by pat_completeness auto
termination
  by (relation "measure (\<lambda>(L, args, tpl, sb). length tpl)") auto

declare format_loop.simps [simp del]

definition formatGitHub :: "library \<Rightarrow> string \<Rightarrow> Value list \<Rightarrow> Value eval_res" where
  "formatGitHub L tpl args = format_loop L args tpl ''''"

fun valueToAny :: "library \<Rightarrow> Value \<Rightarrow> any"
  and values_to_any :: "library \<Rightarrow> Value list \<Rightarrow> any list"
  and fields_to_any :: "library \<Rightarrow> (string \<times> Value) list \<Rightarrow> (string \<times> any) list" where
  "valueToAny L VNull = JNil"
| "valueToAny L (VBool b) = JBool b"
| "valueToAny L (VNum f) = JNumber (FormatNumber L f)"
| "valueToAny L (VStr s) = JString s"
| "valueToAny L (VArr vs) = JArray (values_to_any L vs)"
| "valueToAny L (VObj m) = JObject (fields_to_any L m)"
| "values_to_any L [] = []"
| "values_to_any L (v # vs) = valueToAny L v # values_to_any L vs"
| "fields_to_any L [] = []"
| "fields_to_any L ((k, v) # m) = (k, valueToAny L v) # fields_to_any L m"

fun anyToValue :: "library \<Rightarrow> any \<Rightarrow> Value"
  and anys_to_value :: "library \<Rightarrow> any list \<Rightarrow> Value list"
  and fields_to_value :: "library \<Rightarrow> (string \<times> any) list \<Rightarrow> (string \<times> Value) list" where
  "anyToValue L JNil = VNull"
| "anyToValue L (JBool b) = VBool b"
| "anyToValue L (JNumber s) = (case ParseFloat L s of Some f \<Rightarrow> VNum f | None \<Rightarrow> VStr s)"
| "anyToValue L (JString s) = VStr s"
| "anyToValue L (JArray xs) = VArr (anys_to_value L xs)"
| "anyToValue L (JObject m) = VObj (fields_to_value L m)"
| "anys_to_value L [] = []"
| "anys_to_value L (x # xs) = anyToValue L x # anys_to_value L xs"
| "fields_to_value L [] = []"
| "fields_to_value L ((k, x) # m) = (k, anyToValue L x) # fields_to_value L m"

text \<open>The patterns are checked in order before the capability is looked at.\<close>

fun hash_patterns :: "Value list \<Rightarrow> string list eval_res" where
  "hash_patterns [] = Inr []"
| "hash_patterns (VStr s # vs) =
     (if char_of (0 :: nat) \<in> set s then Inl (EvalError '''' ''hashFiles(): invalid pattern'')
      else map_sum (\<lambda>e. e) (\<lambda>ps. s # ps) (hash_patterns vs))"
| "hash_patterns (v # vs) = Inl (EvalError '''' ''hashFiles(): patterns must be strings'')"

definition hashFilesFn :: "Env \<Rightarrow> Value list \<Rightarrow> Value eval_res" where
  "hashFilesFn env args =
     (if args = [] then Inl (EvalError '''' ''hashFiles() takes at least one pattern'')
      else case hash_patterns args of
             Inl e \<Rightarrow> Inl e
           | Inr patterns \<Rightarrow>
               (case hasher env of
                  None \<Rightarrow> Inl (NotSupportedError ''function hashFiles() outside a workspace context'')
                | Some h \<Rightarrow>
                    (case h patterns of
                       Inl msg \<Rightarrow> Inl (EvalError '''' (''hashFiles(): '' @ msg))
                     | Inr digest \<Rightarrow> Inr (VStr digest))))"

definition fn_contains :: "library \<Rightarrow> Value list \<Rightarrow> Value eval_res" where
  "fn_contains L args =
     (case arity ''contains'' args [2] of
        Some e \<Rightarrow> Inl e
      | None \<Rightarrow>
          (case args ! 0 of
             VArr vs \<Rightarrow> Inr (VBool (list_ex (\<lambda>item. looseEqual L item (args ! 1)) vs))
           | v \<Rightarrow> Inr (VBool (Contains (ToLower (Value_String L v)) (ToLower (Value_String L (args ! 1)))))))"

definition fn_startsWith :: "library \<Rightarrow> Value list \<Rightarrow> Value eval_res" where
  "fn_startsWith L args =
     (case arity ''startsWith'' args [2] of
        Some e \<Rightarrow> Inl e
      | None \<Rightarrow> Inr (VBool (HasPrefix (ToLower (Value_String L (args ! 0))) (ToLower (Value_String L (args ! 1))))))"

definition fn_endsWith :: "library \<Rightarrow> Value list \<Rightarrow> Value eval_res" where
  "fn_endsWith L args =
     (case arity ''endsWith'' args [2] of
        Some e \<Rightarrow> Inl e
      | None \<Rightarrow> Inr (VBool (HasSuffix (ToLower (Value_String L (args ! 0))) (ToLower (Value_String L (args ! 1))))))"

definition fn_format :: "library \<Rightarrow> Value list \<Rightarrow> Value eval_res" where
  "fn_format L args =
     (case args of
        [] \<Rightarrow> Inl (EvalError '''' ''format() needs a template'')
      | a # rest \<Rightarrow> formatGitHub L (Value_String L a) rest)"

definition fn_join :: "library \<Rightarrow> Value list \<Rightarrow> Value eval_res" where
  "fn_join L args =
     (case arity ''join'' args [1, 2] of
        Some e \<Rightarrow> Inl e
      | None \<Rightarrow>
          (let sep = (if length args = 2 then Value_String L (args ! 1) else '','') in
           case args ! 0 of
             VArr vs \<Rightarrow> Inr (VStr (Join (array_parts L vs) sep))
           | v \<Rightarrow> Inr (VStr (Value_String L v))))"

definition fn_toJSON :: "library \<Rightarrow> Value list \<Rightarrow> Value eval_res" where
  "fn_toJSON L args =
     (case arity ''toJSON'' args [1] of
        Some e \<Rightarrow> Inl e
      | None \<Rightarrow>
          (case Marshal L (valueToAny L (args ! 0)) of
             Inl msg \<Rightarrow> Inl (EvalError '''' (''toJSON: '' @ msg))
           | Inr b \<Rightarrow> Inr (VStr b)))"

definition fn_fromJSON :: "library \<Rightarrow> Value list \<Rightarrow> Value eval_res" where
  "fn_fromJSON L args =
     (case arity ''fromJSON'' args [1] of
        Some e \<Rightarrow> Inl e
      | None \<Rightarrow>
          (case Decode L (Value_String L (args ! 0)) of
             Inl msg \<Rightarrow> Inl (EvalError '''' (''fromJSON: '' @ msg))
           | Inr raw \<Rightarrow> Inr (anyToValue L raw)))"

text \<open>The function table, by lower-case name.\<close>

definition function_table :: "library \<Rightarrow> (string, Env \<Rightarrow> Value list \<Rightarrow> Value eval_res) gomap" where
  "function_table L =
     [(''hashfiles'', hashFilesFn),
      (''success'', \<lambda>env args. Inr (VBool (jobStatus env = ''success''))),
      (''failure'', \<lambda>env args. Inr (VBool (jobStatus env = ''failure''))),
      (''cancelled'', \<lambda>env args. Inr (VBool (jobStatus env = ''cancelled''))),
      (''always'', \<lambda>env args. Inr (VBool True)),
      (''contains'', \<lambda>env. fn_contains L),
      (''startswith'', \<lambda>env. fn_startsWith L),
      (''endswith'', \<lambda>env. fn_endsWith L),
      (''format'', \<lambda>env. fn_format L),
      (''join'', \<lambda>env. fn_join L),
      (''tojson'', \<lambda>env. fn_toJSON L),
      (''fromjson'', \<lambda>env. fn_fromJSON L)]"

section \<open>Evaluation\<close>

text \<open>
  A binary operator on the results of its operands: the logical operators return the left
  value when it decides and then ignore the right one, errors included.
\<close>

definition evalBinary :: "library \<Rightarrow> string \<Rightarrow> string \<Rightarrow> Value eval_res \<Rightarrow> Value eval_res \<Rightarrow> Value eval_res" where
  "evalBinary L expr oper lres rres =
     (case lres of
        Inl e \<Rightarrow> Inl e
      | Inr l \<Rightarrow>
          if oper = ''&&'' then (if \<not> Truthy l then Inr l else rres)
          else if oper = ''||'' then (if Truthy l then Inr l else rres)
          else case rres of
                 Inl e \<Rightarrow> Inl e
               | Inr r \<Rightarrow>
                   if oper = ''=='' then Inr (VBool (looseEqual L l r))
                   else if oper = ''!='' then Inr (VBool (\<not> looseEqual L l r))
                   else if oper \<in> {''<'', ''<='', ''>'', ''>=''} then
                     (case compare L l r of
                        None \<Rightarrow> Inr (VBool False)
                      | Some c \<Rightarrow>
                          Inr (VBool (if oper = ''<'' then c < 0 else if oper = ''<='' then c \<le> 0
                            else if oper = ''>'' then c > 0 else c \<ge> 0)))
                   else Inl (EvalError expr (''unknown operator '' @ oper)))"

fun evalNode :: "library \<Rightarrow> Env \<Rightarrow> string \<Rightarrow> node \<Rightarrow> Value eval_res"
  and evalArgs :: "library \<Rightarrow> Env \<Rightarrow> string \<Rightarrow> node list \<Rightarrow> Value list eval_res" where
  "evalNode L env expr (literalNode v) = Inr v"
| "evalNode L env expr (identNode name) =
     (case Lookup env name of None \<Rightarrow> Inl (ContextUnavailableError name (Available env)) | Some v \<Rightarrow> Inr v)"
| "evalNode L env expr (memberNode obj prp) =
     (case evalNode L env expr obj of
        Inl e \<Rightarrow> Inl e
      | Inr ov \<Rightarrow> (case evalNode L env expr prp of Inl e \<Rightarrow> Inl e | Inr pv \<Rightarrow> Inr (evalMember ov pv)))"
| "evalNode L env expr (unaryNode oper x) =
     (case evalNode L env expr x of Inl e \<Rightarrow> Inl e | Inr v \<Rightarrow> Inr (VBool (\<not> Truthy v)))"
| "evalNode L env expr (binaryNode oper l r) =
     evalBinary L expr oper (evalNode L env expr l) (evalNode L env expr r)"
| "evalNode L env expr (callNode name args) =
     (case mget (function_table L) (ToLower name) of
        None \<Rightarrow> Inl (NotSupportedError (''function '' @ name @ ''()''))
      | Some f \<Rightarrow> (case evalArgs L env expr args of Inl e \<Rightarrow> Inl e | Inr vs \<Rightarrow> f env vs))"
| "evalArgs L env expr [] = Inr []"
| "evalArgs L env expr (a # as) =
     (case evalNode L env expr a of
        Inl e \<Rightarrow> Inl e
      | Inr v \<Rightarrow> (case evalArgs L env expr as of Inl e \<Rightarrow> Inl e | Inr vs \<Rightarrow> Inr (v # vs)))"

definition Eval :: "library \<Rightarrow> string \<Rightarrow> Env option \<Rightarrow> Value eval_res" where
  "Eval L expr env =
     (case the (parse L expr) of
        Inl e \<Rightarrow> Inl e
      | Inr ast \<Rightarrow> evalNode L (case env of None \<Rightarrow> NewEnv | Some e \<Rightarrow> e) expr ast)"

section \<open>Templates and conditions\<close>

text \<open>The rest of the template, and the text written so far.\<close>

function interpolate_loop :: "library \<Rightarrow> Env option \<Rightarrow> string \<Rightarrow> string \<Rightarrow> string \<Rightarrow> string eval_res" where
  "interpolate_loop L env tpl rest sb =
     (case rest of
        [] \<Rightarrow> Inr sb
      | c # cs \<Rightarrow>
          if \<not> HasPrefix rest ''${{'' then interpolate_loop L env tpl cs (sb @ [c])
          else case Index rest ''}}'' of
                 None \<Rightarrow> Inl (Unterminated tpl)
               | Some close \<Rightarrow>
                   (let inner = TrimSpace (drop 3 (take close rest)) in
                    case Eval L inner env of
                      Inl e \<Rightarrow> Inl (InTemplate inner e)
                    | Inr v \<Rightarrow> interpolate_loop L env tpl (drop (close + 2) rest) (sb @ Value_String L v)))"
  by pat_completeness auto
termination
  by (relation "measure (\<lambda>(L, env, tpl, rest, sb). length rest)") auto

declare interpolate_loop.simps [simp del]

definition Interpolate :: "library \<Rightarrow> string \<Rightarrow> Env option \<Rightarrow> string eval_res" where
  "Interpolate L tpl env = interpolate_loop L env tpl tpl ''''"

definition HasExpression :: "string \<Rightarrow> bool" where
  "HasExpression s = Contains s ''${{''"

definition mentionsStatusFunction :: "string \<Rightarrow> bool" where
  "mentionsStatusFunction cond =
     list_ex (\<lambda>fn. Contains (ToLower cond) fn) [''success('', ''failure('', ''cancelled('', ''always('']"

text \<open>Whether the condition gets the implicit \<open>success()\<close>.\<close>

definition implicit_success :: "string \<Rightarrow> bool" where
  "implicit_success cond \<longleftrightarrow>
     \<not> mentionsStatusFunction cond \<and> \<not> Contains (ToLower cond) ''needs.'' \<and> \<not> Contains (ToLower cond) ''job.''"

definition eval_truthy :: "library \<Rightarrow> string \<Rightarrow> Env option \<Rightarrow> bool eval_res" where
  "eval_truthy L cond env = (case Eval L cond env of Inl e \<Rightarrow> Inl e | Inr v \<Rightarrow> Inr (Truthy v))"

definition EvaluateCondition :: "library \<Rightarrow> string \<Rightarrow> Env option \<Rightarrow> bool eval_res" where
  "EvaluateCondition L raw env =
     (let cond = TrimSpace raw in
      if cond = '''' then Inr True
      else if Contains cond ''${{'' then
        (case Interpolate L cond env of
           Inl e \<Rightarrow> Inl e
         | Inr rendered \<Rightarrow>
             (let cond = TrimSpace rendered in if cond = '''' then Inr True else eval_truthy L cond env))
      else if implicit_success cond then eval_truthy L (''success() && ('' @ cond @ '')'') env
      else eval_truthy L cond env)"

end
