(* ===== verification/Expression_Hash.thy ===== *)
theory Expression_Hash
  imports Expression_Eval Compiler
begin

text \<open>
  The workspace capability behind \<^verbatim>\<open>hashFiles()\<close> (hashfiles.go). The file system and SHA-256
  are not part of the repository: the walk over the workspace is a list of entries in the order
  \<^verbatim>\<open>fs.WalkDir\<close> visits them, reading a file is a function of its path, and the digest is a
  function of the bytes written to it.
\<close>

section \<open>Patterns\<close>

text \<open>\<open>None\<close> is \<^verbatim>\<open>path.ErrBadPattern\<close>.\<close>

definition path_Match :: "string \<Rightarrow> string \<Rightarrow> bool option" where
  "path_Match pattern name = map_option (\<lambda>g. glob_match g name) (parse_glob pattern)"

text \<open>A double star tries to consume none, then one, then more of the segments; errors of a try are dropped.\<close>

primrec matchSegments :: "string list \<Rightarrow> string list \<Rightarrow> bool option" where
  "matchSegments [] seg = Some (seg = [])"
| "matchSegments (p # pat) seg =
     (if p = ''**'' then Some (list_ex (\<lambda>i. matchSegments pat (drop i seg) = Some True) [0..<Suc (length seg)])
      else case seg of
             [] \<Rightarrow> Some False
           | s # rest \<Rightarrow>
               (case path_Match p s of
                  None \<Rightarrow> None
                | Some ok \<Rightarrow> if ok then matchSegments pat rest else Some False))"

definition trim_slashes :: "string \<Rightarrow> string" where
  "trim_slashes s = rev (dropWhile (\<lambda>c. c = CHR ''/'') (rev (dropWhile (\<lambda>c. c = CHR ''/'') s)))"

definition path_glob :: "string \<Rightarrow> string \<Rightarrow> bool option" where
  "path_glob pattern name =
     matchSegments (Split (trim_slashes pattern) (CHR ''/'')) (Split (trim_slashes name) (CHR ''/''))"

section \<open>The directory hasher\<close>

text \<open>
  What the walk reports for an entry: an error (whether the path does not exist, and its
  message), a regular file, or anything else.
\<close>

datatype walk_entry = WalkError bool string | Regular | NotRegular

record workspace =
  ws_walk :: "(string \<times> walk_entry) list"
  ws_read :: "string \<Rightarrow> string + string"

text \<open>The patterns in order up to the first that matches or is malformed.\<close>

fun any_pattern :: "string list \<Rightarrow> string \<Rightarrow> string + bool" where
  "any_pattern [] p = Inr False"
| "any_pattern (pat # pats) p =
     (case path_glob pat p of
        None \<Rightarrow> Inl (''pattern '' @ Quote pat @ '': syntax error in pattern'')
      | Some ok \<Rightarrow> if ok then Inr True else any_pattern pats p)"

text \<open>The set of matches so far; an error carries whether it is a missing path.\<close>

fun walk_loop :: "string list \<Rightarrow> (string \<times> walk_entry) list \<Rightarrow> string list \<Rightarrow> (bool \<times> string) + string list" where
  "walk_loop patterns [] matched = Inr matched"
| "walk_loop patterns ((p, en) # rest) matched =
     (case en of
        WalkError missing msg \<Rightarrow> Inl (missing, msg)
      | NotRegular \<Rightarrow> walk_loop patterns rest matched
      | Regular \<Rightarrow>
          (case any_pattern patterns p of
             Inl msg \<Rightarrow> Inl (False, msg)
           | Inr ok \<Rightarrow> walk_loop patterns rest (if ok then List.insert p matched else matched)))"

fun copy_loop :: "(string \<Rightarrow> string + string) \<Rightarrow> string list \<Rightarrow> string \<Rightarrow> string + string" where
  "copy_loop rd [] written = Inr written"
| "copy_loop rd (f # fs) written = (case rd f of Inl msg \<Rightarrow> Inl msg | Inr content \<Rightarrow> copy_loop rd fs (written @ content))"

definition HashFiles :: "(string \<Rightarrow> string) \<Rightarrow> workspace \<Rightarrow> string list \<Rightarrow> string + string" where
  "HashFiles sha ws patterns =
     (case walk_loop patterns (ws_walk ws) [] of
        Inl (missing, msg) \<Rightarrow> if missing then Inr '''' else Inl msg
      | Inr matched \<Rightarrow>
          if matched = [] then Inr ''''
          else case copy_loop (ws_read ws) (sort matched) '''' of
                 Inl msg \<Rightarrow> Inl msg
               | Inr written \<Rightarrow> Inr (sha written))"

section \<open>What a pattern matches\<close>

text \<open>
  The meaning of a pattern: a double star stands for any run of whole segments, any other
  segment for one that it matches.
\<close>

inductive spans :: "string list \<Rightarrow> string list \<Rightarrow> bool" where
  spans_Nil: "spans [] []"
| spans_star: "spans pat seg \<Longrightarrow> spans (''**'' # pat) (xs @ seg)"
| spans_one: "p \<noteq> ''**'' \<Longrightarrow> path_Match p s = Some True \<Longrightarrow> spans pat seg \<Longrightarrow> spans (p # pat) (s # seg)"

inductive_cases spans_NilE: "spans [] seg"
inductive_cases spans_ConsE: "spans (p # pat) seg"

lemma matchSegments_spans: "matchSegments pat seg = Some True \<longleftrightarrow> spans pat seg"
proof (induction pat arbitrary: seg)
  case Nil
  show ?case by (auto intro: spans_Nil elim: spans_NilE)
next
  case (Cons p pat)
  show ?case
  proof (cases "p = ''**''")
    case True
    have "matchSegments (p # pat) seg = Some True \<longleftrightarrow> (\<exists>i\<le>length seg. spans pat (drop i seg))"
      using True Cons by (simp add: list_ex_iff Bex_def less_Suc_eq_le del: upt_Suc)
    also have "\<dots> \<longleftrightarrow> spans (p # pat) seg"
    proof
      assume "\<exists>i\<le>length seg. spans pat (drop i seg)"
      then obtain i where "spans pat (drop i seg)" by blast
      from spans_star [OF this, of "take i seg"] True show "spans (p # pat) seg" by simp
    next
      assume "spans (p # pat) seg"
      with True obtain xs seg' where "seg = xs @ seg'" "spans pat seg'" by (auto elim: spans_ConsE)
      then show "\<exists>i\<le>length seg. spans pat (drop i seg)" by (intro exI [of _ "length xs"]) simp
    qed
    finally show ?thesis .
  next
    case False
    with Cons show ?thesis
      by (cases seg) (auto split: option.splits if_splits elim!: spans_ConsE intro: spans_one)
  qed
qed

text \<open>The segments of a path, and the patterns whose every segment is well formed.\<close>

definition segments :: "string \<Rightarrow> string list" where
  "segments s = Split (trim_slashes s) (CHR ''/'')"

definition good_pattern :: "string \<Rightarrow> bool" where
  "good_pattern pat \<longleftrightarrow> (\<forall>p\<in>set (segments pat). parse_glob p \<noteq> None)"

lemma matchSegments_defined: "\<forall>p\<in>set pat. parse_glob p \<noteq> None \<Longrightarrow> matchSegments pat seg \<noteq> None"
  by (induction pat arbitrary: seg) (auto simp: path_Match_def split: list.splits option.splits)

lemma path_glob_spans: "good_pattern pat \<Longrightarrow> path_glob pat p = Some (spans (segments pat) (segments p))"
  using matchSegments_defined [of "segments pat" "segments p"] matchSegments_spans [of "segments pat" "segments p"]
  by (auto simp: path_glob_def good_pattern_def segments_def)

lemma any_pattern_spans:
  "\<forall>pat\<in>set pats. good_pattern pat \<Longrightarrow> any_pattern pats p = Inr (\<exists>pat\<in>set pats. spans (segments pat) (segments p))"
  by (induction pats) (simp_all add: path_glob_spans)

definition walk_ok :: "workspace \<Rightarrow> bool" where
  "walk_ok ws \<longleftrightarrow> (\<forall>(p, en)\<in>set (ws_walk ws). en = Regular \<or> en = NotRegular)"

definition hashed :: "workspace \<Rightarrow> string list \<Rightarrow> string set" where
  "hashed ws pats = {p. (p, Regular) \<in> set (ws_walk ws) \<and> (\<exists>pat\<in>set pats. spans (segments pat) (segments p))}"

lemma walk_loop_spans:
  assumes "\<forall>pat\<in>set pats. good_pattern pat"
  shows "\<forall>(p, en)\<in>set w. en = Regular \<or> en = NotRegular \<Longrightarrow> distinct acc \<Longrightarrow>
    \<exists>ms. walk_loop pats w acc = Inr ms \<and> distinct ms \<and>
      set ms = set acc \<union> {p. (p, Regular) \<in> set w \<and> (\<exists>pat\<in>set pats. spans (segments pat) (segments p))}"
proof (induction w arbitrary: acc)
  case (Cons x w)
  obtain p en where x: "x = (p, en)" by fastforce
  with Cons.prems(1) have "en = Regular \<or> en = NotRegular" by simp
  then show ?case
  proof
    assume en: "en = NotRegular"
    from Cons.IH [of acc] Cons.prems en x show ?case by simp
  next
    assume en: "en = Regular"
    define acc' where "acc' = (if \<exists>pat\<in>set pats. spans (segments pat) (segments p) then List.insert p acc else acc)"
    have "walk_loop pats (x # w) acc = walk_loop pats w acc'"
      by (simp add: x en any_pattern_spans [OF assms] acc'_def)
    moreover obtain ms where "walk_loop pats w acc' = Inr ms" "distinct ms"
      "set ms = set acc' \<union> {p. (p, Regular) \<in> set w \<and> (\<exists>pat\<in>set pats. spans (segments pat) (segments p))}"
    proof -
      have "distinct acc'" using Cons.prems(2) by (simp add: acc'_def)
      moreover have "\<forall>(p, en)\<in>set w. en = Regular \<or> en = NotRegular" using Cons.prems(1) by simp
      ultimately show ?thesis using Cons.IH [of acc'] that by blast
    qed
    moreover have "set acc' \<union> {p. (p, Regular) \<in> set w \<and> (\<exists>pat\<in>set pats. spans (segments pat) (segments p))} =
      set acc \<union> {p. (p, Regular) \<in> set (x # w) \<and> (\<exists>pat\<in>set pats. spans (segments pat) (segments p))}"
      by (auto simp: x en acc'_def)
    ultimately show ?case by metis
  qed
qed simp

lemma copy_loop_all:
  "\<forall>f\<in>set fs. rd f = Inr (content f) \<Longrightarrow> copy_loop rd fs w = Inr (w @ concat (map content fs))"
  by (induction fs arbitrary: w) simp_all

text \<open>
  C33. On a workspace that can be read, with well-formed patterns, the digest is that of the
  contents of exactly the regular files some pattern spans, each once and in the order of their
  paths, and the empty string when there is none: neither the order of the walk nor that of the
  patterns matters.
\<close>

theorem hash_files_spec:
  assumes "\<forall>pat\<in>set pats. good_pattern pat" "walk_ok ws"
    and "\<forall>f\<in>hashed ws pats. ws_read ws f = Inr (content f)"
  shows "HashFiles sha ws pats =
    Inr (if hashed ws pats = {} then '''' else sha (concat (map content (sorted_list_of_set (hashed ws pats)))))"
proof -
  obtain ms where ms: "walk_loop pats (ws_walk ws) [] = Inr ms" "distinct ms" "set ms = hashed ws pats"
    using walk_loop_spans [OF assms(1), of "ws_walk ws" "[]"] assms(2) by (auto simp: walk_ok_def hashed_def)
  from ms(2,3) have s: "sort ms = sorted_list_of_set (hashed ws pats)"
    by (metis sorted_list_of_set_sort_remdups distinct_remdups_id)
  have "\<forall>f\<in>set (sort ms). ws_read ws f = Inr (content f)" using assms(3) ms(3) by simp
  from copy_loop_all [OF this, of "''''"] ms s show ?thesis by (auto simp: HashFiles_def)
qed

definition demo_workspace :: workspace where
  "demo_workspace = \<lparr>ws_walk = [(''sub'', NotRegular), (''sub/go.sum'', Regular), (''go.mod'', Regular), (''main.c'', Regular)],
     ws_read = (\<lambda>f. Inr (if f = ''go.mod'' then ''1'' else ''2''))\<rparr>"

lemma demo_patterns_good: "\<forall>pat\<in>set [''**/go.*'', ''go.mod'']. good_pattern pat"
  unfolding good_pattern_def by code_simp

theorem hash_files_spec_witness:
  "HashFiles rev demo_workspace [''**/go.*'', ''go.mod''] = Inr ''21'' \<and>
   (let H = hashed demo_workspace [''**/go.*'', ''go.mod''] in
    Inr ''21'' = (Inr (if H = {} then '''' else rev (concat (map (\<lambda>f. if f = ''go.mod'' then ''1'' else ''2'') (sorted_list_of_set H)))) :: string + string))"
proof -
  have c: "HashFiles rev demo_workspace [''**/go.*'', ''go.mod''] = Inr ''21''" by code_simp
  have w: "walk_ok demo_workspace" by code_simp
  have r: "\<forall>f\<in>hashed demo_workspace [''**/go.*'', ''go.mod''].
      ws_read demo_workspace f = Inr (if f = ''go.mod'' then ''1'' else ''2'')"
    by (simp add: demo_workspace_def)
  from hash_files_spec [OF demo_patterns_good w r, of rev] c show ?thesis by (simp add: Let_def)
qed

end
