(* ===== verification/Executor_Engine.thy ===== *)
theory Executor_Engine
  imports Run_Plan Go_Path Executor_Text Expression_Hash
begin

text \<open>
  The executor engine (executor: engine.go, expr.go, js.go, port.go). It runs the steps of a
  plan one after the other. Processes, files, the JavaScript engine and the control plane are
  outside: a record of what they answer is an argument of the definitions, indexed by the
  position of the step where the answer depends on when it is asked. The log and the reports to
  the control plane are part of the state.
\<close>

section \<open>Results and the world outside\<close>

record StepResult =
  sr_StepID :: string
  sr_ExitCode :: int
  sr_DurationMs :: int
  sr_Outcome :: string
  sr_Conclusion :: string

record JobResult =
  res_JobRunID :: JobRunID
  res_Success :: bool
  res_Cancelled :: bool
  res_Steps :: "StepResult list"
  res_Error :: string

record stepState =
  ss_outputs :: "(string, string) gomap"
  ss_outcome :: string
  ss_conclusion :: string

text \<open>
  A started process: the chunks its output arrives in, whether the context was done when it was
  waited for, and what waiting returned.
\<close>

datatype wait_res = WaitOK | WaitExit int | WaitError Err

record process =
  pr_write_err :: "Err option"
  pr_pipe_err :: "Err option"
  pr_start_err :: "Err option"
  pr_chunks :: "string list"
  pr_ctx_done :: bool
  pr_wait :: wait_res

record script_call =
  call_script :: string
  call_shell :: string
  call_dir :: string
  call_env :: "(string, string) gomap"

text \<open>The contents of the files of a step when it is over; a file that cannot be read counts as empty.\<close>

record command_files =
  cf_env :: string
  cf_output :: string
  cf_path :: string
  cf_state :: string

text \<open>What an in-process action is given, and what it leaves: outputs, log records, an error.\<close>

record BuiltinContext =
  bc_Inputs :: "(string, string) gomap"
  bc_Env :: "(string, string) gomap"

record handler_run =
  hr_outputs :: "(string, string) gomap"
  hr_logs :: "log_record list"
  hr_err :: "Err option"

text \<open>The calls a script makes on the objects the engine gives it, and how the script ends.\<close>

datatype js_call =
    SetOutput string string
  | SetFailed string
  | AddPath string
  | ExportVariable string string
  | ConsoleLog string

datatype js_end = JSDone | JSException string | JSError Err

record exec_world =
  w_lib :: library
  w_sha :: "string \<Rightarrow> string"
  w_GOOS :: string
  w_GOARCH :: string
  w_workspace :: "nat \<Rightarrow> workspace"
  w_FetchSecrets :: "SecretRef list \<Rightarrow> (string, string) gomap res"
  w_ReportJob :: "JobResult \<Rightarrow> Err option"
  w_mkdir :: "Err option"
  w_prepare :: "nat \<Rightarrow> (string \<times> Err) option"
  w_ctx_done :: "nat \<Rightarrow> bool"
  w_process :: "nat \<Rightarrow> script_call \<Rightarrow> process"
  w_builtin :: "nat \<Rightarrow> (string, BuiltinContext \<Rightarrow> handler_run) gomap"
  w_goja :: "nat \<Rightarrow> BuiltinContext \<Rightarrow> string \<Rightarrow> js_call list \<times> js_end"
  w_files :: "nat \<Rightarrow> command_files"
  w_ms :: "nat \<Rightarrow> int"

record Engine =
  e_JobRunID :: JobRunID
  e_WorkDir :: string
  e_Shell :: string
  e_DefaultEnv :: "(string, string) gomap"

record engine_state =
  es_env :: "(string, string) gomap"
  es_with :: "(string, string) gomap"
  es_states :: "(string, stepState) gomap"
  es_path :: "string list"
  es_result :: JobResult
  es_mask :: Masker
  es_logs :: "log_record list"
  es_reports :: "JobResult list"

text \<open>After a step the loop goes on or the run returns with an error.\<close>

datatype flow = Next engine_state | Return engine_state Err

section \<open>Logging and reporting\<close>

definition log_with :: "(string \<times> attr_value) list \<Rightarrow> string \<Rightarrow> (string \<times> attr_value) list \<Rightarrow> engine_state \<Rightarrow> engine_state" where
  "log_with preset msg attrs st =
     st\<lparr>es_logs := es_logs st @ [handle_record (es_mask st) preset \<lparr>lr_Message = msg, lr_Attrs = attrs\<rparr>]\<rparr>"

definition report_job :: "exec_world \<Rightarrow> engine_state \<Rightarrow> engine_state" where
  "report_job W st =
     (let st1 = st\<lparr>es_reports := es_reports st @ [es_result st]\<rparr> in
      case w_ReportJob W (es_result st) of
        None \<Rightarrow> st1
      | Some e \<Rightarrow> log_with [] ''report job failed''
          [(''jobRun'', OtherAttr (res_JobRunID (es_result st))), (''err'', StrAttr (Err_Error e))] st1)"

definition skipped_result :: "PlanStep \<Rightarrow> StepResult" where
  "skipped_result step = \<lparr>sr_StepID = ps_ID step, sr_ExitCode = 0, sr_DurationMs = 0,
     sr_Outcome = ''skipped'', sr_Conclusion = ''skipped''\<rparr>"

definition add_result :: "StepResult \<Rightarrow> engine_state \<Rightarrow> engine_state" where
  "add_result sr st = st\<lparr>es_result := (es_result st)\<lparr>res_Steps := res_Steps (es_result st) @ [sr]\<rparr>\<rparr>"

definition set_error :: "string \<Rightarrow> engine_state \<Rightarrow> engine_state" where
  "set_error msg st = st\<lparr>es_result := (es_result st)\<lparr>res_Error := msg\<rparr>\<rparr>"

text \<open>The steps from \<open>from\<close> on are recorded as skipped.\<close>

definition failJob :: "exec_world \<Rightarrow> PlanStep list \<Rightarrow> engine_state \<Rightarrow> flow" where
  "failJob W remaining st =
     (let st1 = st\<lparr>es_result := (es_result st)\<lparr>res_Steps := res_Steps (es_result st) @ map skipped_result remaining\<rparr>\<rparr> in
      Return (report_job W st1) (Detailf ErrStepFailed (res_Error (es_result st1))))"

definition abort_job :: "exec_world \<Rightarrow> string \<Rightarrow> engine_state \<Rightarrow> flow" where
  "abort_job W msg st =
     Return (report_job W (st\<lparr>es_result := (es_result st)\<lparr>res_Cancelled := True, res_Error := msg\<rparr>\<rparr>)) ErrCancelled"

section \<open>Expression environments\<close>

definition githubOf :: "Plan \<Rightarrow> Value" where
  "githubOf p = VObj
     [(''event_name'', VStr (pl_EventName p)), (''actor'', VStr (pl_Actor p)), (''ref'', VStr (pl_Ref p)),
      (''sha'', VStr (pl_SHA p)),
      (''repository'', VObj
         [(''owner'', VStr (repo_Owner (pl_Repository p))), (''name'', VStr (repo_Name (pl_Repository p))),
          (''full_name'', VStr (repo_Owner (pl_Repository p) @ ''/'' @ repo_Name (pl_Repository p)))])]"

definition jobStatusFor :: "(string, stepState) gomap \<Rightarrow> string" where
  "jobStatusFor states =
     (if list_ex (\<lambda>(id, st). ss_outcome st = ''failure'' \<and> ss_conclusion st \<noteq> ''success'') states
      then ''failure'' else ''success'')"

definition str_fields :: "(string, string) gomap \<Rightarrow> Value" where
  "str_fields m = VObj (map (\<lambda>(k, v). (k, VStr v)) m)"

definition exprEnv :: "exec_world \<Rightarrow> nat \<Rightarrow> Plan \<Rightarrow> (string, string) gomap \<Rightarrow> (string, stepState) gomap \<Rightarrow> Env" where
  "exprEnv W i p env states =
     WithWorkspaceHasher
       (With (With (With (With (With NewEnv ''github'' (githubOf p)) ''env'' (str_fields env))
          ''steps'' (VObj (map (\<lambda>(id, st). (id, VObj
             [(''outputs'', str_fields (ss_outputs st)), (''outcome'', VStr (ss_outcome st)),
              (''conclusion'', VStr (ss_conclusion st))])) states)))
          ''job'' (VObj [(''status'', VStr (jobStatusFor states))]))
          ''runner'' (VObj [(''os'', VStr (w_GOOS W)), (''arch'', VStr (w_GOARCH W))]))
       (HashFiles (w_sha W) (w_workspace W i))"

text \<open>Values of a map that carry an expression are rendered in place; the first error stops.\<close>

fun interp_env :: "library \<Rightarrow> Env \<Rightarrow> (string, string) gomap \<Rightarrow> (string, string) gomap \<Rightarrow> (string \<times> ExprErr) + (string, string) gomap" where
  "interp_env L x [] env = Inr env"
| "interp_env L x ((k, v) # todo) env =
     (if \<not> HasExpression v then interp_env L x todo env
      else case Interpolate L v (Some x) of
             Inl e \<Rightarrow> Inl (k, e)
           | Inr rendered \<Rightarrow> interp_env L x todo (mput env k rendered))"

fun interp_inputs :: "library \<Rightarrow> Env \<Rightarrow> (string, string) gomap \<Rightarrow> (string, string) gomap \<Rightarrow> (string \<times> ExprErr) + (string, string) gomap" where
  "interp_inputs L x [] out = Inr out"
| "interp_inputs L x ((k, v) # todo) out =
     (if HasExpression v then
        (case Interpolate L v (Some x) of
           Inl e \<Rightarrow> Inl (k, e)
         | Inr rendered \<Rightarrow> interp_inputs L x todo (mput out k rendered))
      else interp_inputs L x todo (mput out k v))"

text \<open>The secrets meant for an input of the step replace the input.\<close>

fun overlay_secrets :: "string \<Rightarrow> (string, string) gomap \<Rightarrow> (string, string) gomap \<Rightarrow> (string, string) gomap" where
  "overlay_secrets pre [] inputs = inputs"
| "overlay_secrets pre ((k, v) # rest) inputs =
     overlay_secrets pre rest (if HasPrefix k pre then mput inputs (TrimPrefix k pre) v else inputs)"

section \<open>Output of a step\<close>

definition sprint_map :: "(string, string) gomap \<Rightarrow> string" where
  "sprint_map m = ''map['' @ Join (map (\<lambda>(k, v). k @ '':'' @ v) (sort_key fst m)) '' '' @ '']''"

definition emitLine :: "(string \<times> attr_value) list \<Rightarrow> string \<Rightarrow> engine_state \<Rightarrow> engine_state" where
  "emitLine preset line st =
     (case parse_command line of
        Some cmd \<Rightarrow>
          if cmd_Name cmd = ''add-mask'' then st\<lparr>es_mask := mask_Add (es_mask st) (cmd_Message cmd)\<rparr>
          else if cmd_Name cmd \<in> {''group'', ''endgroup''} then
            log_with preset ''group'' [(''action'', StrAttr (cmd_Name cmd)), (''title'', StrAttr (cmd_Message cmd))] st
          else
            log_with preset ''annotation'' [(''level'', StrAttr (cmd_Name cmd)), (''message'', StrAttr (cmd_Message cmd)),
              (''params'', StrAttr (sprint_map (cmd_Parameters cmd)))] st
      | None \<Rightarrow> log_with preset ''out'' [(''message'', StrAttr line)] st)"

text \<open>The complete lines of the buffer are emitted, the rest is kept.\<close>

function drain_lines :: "(string \<times> attr_value) list \<Rightarrow> string \<Rightarrow> engine_state \<Rightarrow> string \<times> engine_state" where
  "drain_lines preset buf st =
     (case Index buf [newline] of
        None \<Rightarrow> (buf, st)
      | Some idx \<Rightarrow> drain_lines preset (drop (Suc idx) buf) (emitLine preset (TrimSuffix (take idx buf) [carriage]) st))"
  by pat_completeness auto
termination
proof (relation "measure (\<lambda>(preset, buf, st). length buf)", goal_cases)
  case (2 preset buf st idx)
  then have "buf \<noteq> []" by (cases buf) auto
  then show ?case by simp
qed simp

declare drain_lines.simps [simp del]

fun read_loop :: "(string \<times> attr_value) list \<Rightarrow> string \<Rightarrow> string list \<Rightarrow> engine_state \<Rightarrow> engine_state" where
  "read_loop preset buf [] st = (if buf \<noteq> [] then emitLine preset buf st else st)"
| "read_loop preset buf (chunk # chunks) st =
     (let (rest, st1) = drain_lines preset (buf @ chunk) st in read_loop preset rest chunks st1)"

section \<open>Running a script\<close>

definition step_call :: "Engine \<Rightarrow> PlanStep \<Rightarrow> string \<Rightarrow> (string, string) gomap \<Rightarrow> script_call" where
  "step_call e step script env = \<lparr>call_script = script,
     call_shell = (if rstep_Shell (ps_Run step) \<noteq> '''' then rstep_Shell (ps_Run step) else e_Shell e),
     call_dir = (if ps_WorkingDir step \<noteq> '''' then path_Join [e_WorkDir e, ps_WorkingDir step] else e_WorkDir e),
     call_env = env\<rparr>"

text \<open>The exit code and the error of a process whose output has been read.\<close>

definition exit_of :: "PlanStep \<Rightarrow> process \<Rightarrow> int \<times> Err option" where
  "exit_of step pr =
     (if pr_ctx_done pr then (-1, Some ErrCancelled)
      else case pr_wait pr of
             WaitOK \<Rightarrow> (0, None)
           | WaitExit code \<Rightarrow> (code, Some ErrStepFailed)
           | WaitError err \<Rightarrow> (-1, Some (Wrapf (''executor: wait step '' @ ps_ID step) err)))"

definition follow_process :: "Engine \<Rightarrow> PlanStep \<Rightarrow> process \<Rightarrow> engine_state \<Rightarrow> (int \<times> Err option) \<times> engine_state" where
  "follow_process e step pr st =
     (case pr_write_err pr of
        Some err \<Rightarrow> ((0, Some (Wrapf ''executor: write script'' err)), st)
      | None \<Rightarrow>
          (case pr_pipe_err pr of
             Some err \<Rightarrow> ((0, Some (Wrapf ''executor: stdout pipe'' err)), st)
           | None \<Rightarrow>
               (case pr_start_err pr of
                  Some err \<Rightarrow> ((0, Some (Wrapf (''executor: start step '' @ ps_ID step) err)), st)
                | None \<Rightarrow>
                    (exit_of step pr,
                     read_loop (WithAttrs [] [(''jobRun'', StrAttr (e_JobRunID e)), (''step'', StrAttr (ps_ID step))])
                       '''' (pr_chunks pr) st))))"

definition runStepScript ::
  "exec_world \<Rightarrow> Engine \<Rightarrow> nat \<Rightarrow> PlanStep \<Rightarrow> string \<Rightarrow> (string, string) gomap \<Rightarrow> engine_state \<Rightarrow> (int \<times> Err option) \<times> engine_state" where
  "runStepScript W e i step script env st = follow_process e step (w_process W i (step_call e step script env)) st"

section \<open>JavaScript actions\<close>

definition js_call_log :: "js_call \<Rightarrow> log_record list" where
  "js_call_log c = (case c of
     SetOutput k v \<Rightarrow> []
   | SetFailed msg \<Rightarrow> [\<lparr>lr_Message = ''js setFailed'', lr_Attrs = [(''msg'', StrAttr msg)]\<rparr>]
   | AddPath p \<Rightarrow> [\<lparr>lr_Message = ''js addPath'', lr_Attrs = [(''path'', StrAttr p)]\<rparr>]
   | ExportVariable k v \<Rightarrow> [\<lparr>lr_Message = ''js exportVariable'', lr_Attrs = [(''key'', StrAttr k), (''value'', StrAttr v)]\<rparr>]
   | ConsoleLog s \<Rightarrow> [\<lparr>lr_Message = ''js console.log'', lr_Attrs = [(''args'', StrAttr s)]\<rparr>])"

fun js_outputs :: "js_call list \<Rightarrow> (string, string) gomap \<Rightarrow> (string, string) gomap" where
  "js_outputs [] out = out"
| "js_outputs (c # cs) out = js_outputs cs (case c of SetOutput k v \<Rightarrow> mput out k v | _ \<Rightarrow> out)"

definition runJS :: "(BuiltinContext \<Rightarrow> string \<Rightarrow> js_call list \<times> js_end) \<Rightarrow> BuiltinContext \<Rightarrow> string \<Rightarrow> JSStep option \<Rightarrow> handler_run" where
  "runJS goja bc script js =
     (let fail = (\<lambda>msg. \<lparr>hr_outputs = [], hr_logs = [], hr_err = Some (Errorf msg)\<rparr>);
          script = (case js of Some j \<Rightarrow> if script = '''' \<and> js_Script j \<noteq> '''' then js_Script j else script | None \<Rightarrow> script);
          script = (if script = '''' then (case mget (bc_Inputs bc) ''script'' of Some s \<Rightarrow> s | None \<Rightarrow> '''') else script) in
      if script = '''' then fail ''js: no script to execute''
      else if (case js of Some j \<Rightarrow> js_Repo j \<noteq> ''actions/github-script'' \<and> js_Repo j \<noteq> '''' | None \<Rightarrow> False)
      then fail (''js: action '' @ js_Repo (the js) @ '' not yet supported (only actions/github-script)'')
      else
        (let (calls, over) = goja bc script; outs = js_outputs calls []; logs = concat (map js_call_log calls) in
         case over of
           JSException v \<Rightarrow> \<lparr>hr_outputs = outs, hr_logs = logs, hr_err = Some (Errorf (''js: '' @ v))\<rparr>
         | JSError err \<Rightarrow> \<lparr>hr_outputs = outs, hr_logs = logs, hr_err = Some (Wrapf ''js'' err)\<rparr>
         | JSDone \<Rightarrow> \<lparr>hr_outputs = outs,
             hr_logs = logs @ [\<lparr>lr_Message = ''js executed'', lr_Attrs = [(''script'', StrAttr (take 100 script))]\<rparr>],
             hr_err = None\<rparr>))"

section \<open>Steps\<close>

text \<open>
  What a step wrote to its files goes into the environment, its outputs, the path and, with a
  prefix, the environment again; a malformed file is only logged.
\<close>

definition fold_env_file :: "PlanStep \<Rightarrow> command_files \<Rightarrow> engine_state \<Rightarrow> engine_state" where
  "fold_env_file step cf st =
     (case ParseKVFile (cf_env cf) of
        Inr kvs \<Rightarrow> st\<lparr>es_env := apply_kvs (es_env st) kvs\<rparr>
      | Inl e \<Rightarrow> log_with [] ''malformed GITHUB_ENV'' [(''step'', StrAttr (ps_ID step)), (''err'', StrAttr (Err_Error e))] st)"

definition log_output :: "PlanStep \<Rightarrow> engine_state \<Rightarrow> KV \<Rightarrow> engine_state" where
  "log_output step st kv =
     log_with [] ''step output'' [(''step'', StrAttr (ps_ID step)), (''key'', StrAttr (fst kv)), (''value'', StrAttr (snd kv))] st"

definition fold_output_file :: "PlanStep \<Rightarrow> command_files \<Rightarrow> (string, string) gomap \<Rightarrow> engine_state \<Rightarrow> (string, string) gomap \<times> engine_state" where
  "fold_output_file step cf outs st =
     (case ParseKVFile (cf_output cf) of
        Inr kvs \<Rightarrow> (apply_kvs outs kvs, foldl (log_output step) st kvs)
      | Inl e \<Rightarrow> (outs, log_with [] ''malformed GITHUB_OUTPUT'' [(''step'', StrAttr (ps_ID step)), (''err'', StrAttr (Err_Error e))] st))"

definition fold_state_file :: "PlanStep \<Rightarrow> command_files \<Rightarrow> engine_state \<Rightarrow> engine_state" where
  "fold_state_file step cf st =
     (case ParseKVFile (cf_state cf) of
        Inr kvs \<Rightarrow> st\<lparr>es_env := apply_kvs (es_env st) (map (\<lambda>(k, v). (''STATE_'' @ k, v)) kvs)\<rparr>
      | Inl e \<Rightarrow> log_with [] ''malformed GITHUB_STATE'' [(''step'', StrAttr (ps_ID step)), (''err'', StrAttr (Err_Error e))] st)"

definition fold_files :: "PlanStep \<Rightarrow> command_files \<Rightarrow> (string, string) gomap \<Rightarrow> engine_state \<Rightarrow> (string, string) gomap \<times> engine_state" where
  "fold_files step cf outs st =
     (let (outs1, st1) = fold_output_file step cf outs (fold_env_file step cf st) in
      (outs1, fold_state_file step cf (st1\<lparr>es_path := ParsePathFile (cf_path cf) @ es_path st1\<rparr>)))"

definition record_step :: "PlanStep \<Rightarrow> StepResult \<Rightarrow> (string, string) gomap \<Rightarrow> engine_state \<Rightarrow> engine_state" where
  "record_step step sr outs st =
     add_result sr (st\<lparr>es_states := mput (es_states st) (ps_ID step)
       \<lparr>ss_outputs = outs, ss_outcome = sr_Outcome sr, ss_conclusion = sr_Conclusion sr\<rparr>\<rparr>)"

text \<open>
  The end of a step that was run: success, cancellation, a failure that is continued, or a
  failure that ends the job and skips the steps after it.
\<close>

definition conclude_step ::
  "exec_world \<Rightarrow> PlanStep \<Rightarrow> PlanStep list \<Rightarrow> StepResult \<Rightarrow> (string, string) gomap \<Rightarrow> Err option
     \<Rightarrow> (string \<times> attr_value) list \<Rightarrow> string \<Rightarrow> engine_state \<Rightarrow> flow" where
  "conclude_step W step after sr outs err warn failure st =
     (case err of
        None \<Rightarrow> Next (record_step step (sr\<lparr>sr_Outcome := ''success'', sr_Conclusion := ''success''\<rparr>) outs st)
      | Some e \<Rightarrow>
          if errors_Is e ContextCanceled \<or> errors_Is e ErrCancelled
          then abort_job W (''step '' @ ps_ID step @ '' cancelled'') st
          else if ps_ContinueOnError step then
            Next (record_step step (sr\<lparr>sr_Outcome := ''failure'', sr_Conclusion := ''success''\<rparr>) outs
              (log_with [] ''step failed but continue-on-error is set'' ((''step'', StrAttr (ps_ID step)) # warn) st))
          else failJob W after
            (set_error failure (add_result (sr\<lparr>sr_Outcome := ''failure'', sr_Conclusion := ''failure''\<rparr>) st)))"

text \<open>The log records of an in-process action go through the masking handler.\<close>

definition log_all :: "log_record list \<Rightarrow> engine_state \<Rightarrow> engine_state" where
  "log_all rs st = foldl (\<lambda>s r. log_with [] (lr_Message r) (lr_Attrs r) s) st rs"

text \<open>The part that JavaScript and builtin steps share: from the run of the action to its end.\<close>

definition finish_action :: "exec_world \<Rightarrow> nat \<Rightarrow> PlanStep \<Rightarrow> PlanStep list \<Rightarrow> handler_run \<Rightarrow> engine_state \<Rightarrow> flow" where
  "finish_action W i step after hr st =
     (let sr = \<lparr>sr_StepID = ps_ID step, sr_ExitCode = (if hr_err hr = None then 0 else 1), sr_DurationMs = w_ms W i,
                sr_Outcome = '''', sr_Conclusion = ''''\<rparr>;
          msg = (case hr_err hr of None \<Rightarrow> '''' | Some e \<Rightarrow> Err_Error e);
          (outs, st1) = fold_files step (w_files W i) (hr_outputs hr) (log_all (hr_logs hr) st) in
      conclude_step W step after sr outs (hr_err hr) [(''err'', StrAttr msg)] (''step '' @ ps_ID step @ '' failed: '' @ msg) st1)"

definition final_inputs :: "exec_world \<Rightarrow> PlanStep \<Rightarrow> (string, string) gomap \<Rightarrow> Env \<Rightarrow> engine_state \<Rightarrow> string + (string, string) gomap" where
  "final_inputs W step inputs x st =
     (case interp_inputs (w_lib W) x inputs [] of
        Inl (k, e) \<Rightarrow> Inl (''step '' @ ps_ID step @ '' with.'' @ k @ '': '' @ ExprErr_Error e)
      | Inr ins \<Rightarrow> Inr (overlay_secrets (''$with:'' @ ps_ID step @ '':'') (es_with st) ins))"

definition js_step :: "exec_world \<Rightarrow> nat \<Rightarrow> PlanStep \<Rightarrow> PlanStep list \<Rightarrow> JSStep \<Rightarrow> Env \<Rightarrow> (string, string) gomap \<Rightarrow> engine_state \<Rightarrow> flow" where
  "js_step W i step after js x stepEnv st =
     (case final_inputs W step (js_Inputs js) x st of
        Inl msg \<Rightarrow> failJob W (step # after) (set_error msg st)
      | Inr inputs \<Rightarrow>
          (let script = (case mget inputs ''script'' of Some s \<Rightarrow> s | None \<Rightarrow> '''');
               script = (if script = '''' \<and> js_Script js \<noteq> '''' then js_Script js else script) in
           finish_action W i step after
             (runJS (w_goja W i) \<lparr>bc_Inputs = inputs, bc_Env = stepEnv\<rparr> script (Some js)) st))"

definition builtin_step :: "exec_world \<Rightarrow> nat \<Rightarrow> PlanStep \<Rightarrow> PlanStep list \<Rightarrow> BuiltinStep \<Rightarrow> Env \<Rightarrow> (string, string) gomap \<Rightarrow> engine_state \<Rightarrow> flow" where
  "builtin_step W i step after b x stepEnv st =
     (case final_inputs W step (bs_Inputs b) x st of
        Inl msg \<Rightarrow> failJob W (step # after) (set_error msg st)
      | Inr inputs \<Rightarrow>
          (case mget (w_builtin W i) (bs_Action b) of
             None \<Rightarrow> failJob W (step # after) (set_error (''builtin '' @ bs_Action b @ '' not found'') st)
           | Some handler \<Rightarrow> finish_action W i step after (handler \<lparr>bc_Inputs = inputs, bc_Env = stepEnv\<rparr>) st))"

definition run_step :: "exec_world \<Rightarrow> Engine \<Rightarrow> nat \<Rightarrow> PlanStep \<Rightarrow> PlanStep list \<Rightarrow> Env \<Rightarrow> (string, string) gomap \<Rightarrow> engine_state \<Rightarrow> flow" where
  "run_step W e i step after x stepEnv st =
     (let L = w_lib W; script = rstep_Script (ps_Run step) in
      case (if HasExpression script then Interpolate L script (Some x) else Inr script) of
        Inl err \<Rightarrow> failJob W (step # after) (set_error (''step '' @ ps_ID step @ '': '' @ ExprErr_Error err) st)
      | Inr script \<Rightarrow>
          (case interp_env L x (rstep_Env (ps_Run step)) stepEnv of
             Inl (k, err) \<Rightarrow>
               failJob W (step # after) (set_error (''step '' @ ps_ID step @ '' env '' @ k @ '': '' @ ExprErr_Error err) st)
           | Inr env \<Rightarrow>
               (let ((exit, err), st1) = runStepScript W e i step script env st;
                    sr = \<lparr>sr_StepID = ps_ID step, sr_ExitCode = exit, sr_DurationMs = w_ms W i, sr_Outcome = '''', sr_Conclusion = ''''\<rparr>;
                    (outs, st2) = fold_files step (w_files W i) [] st1 in
                conclude_step W step after sr outs err [(''exitCode'', OtherAttr (FormatInt exit))]
                  (''step '' @ ps_ID step @ '' exited with code '' @ FormatInt exit) st2)))"

section \<open>The job\<close>

text \<open>The names of the files of a step, in the order they are prepared.\<close>

definition step_file :: "Engine \<Rightarrow> nat \<Rightarrow> string \<Rightarrow> string" where
  "step_file e i kind = path_Join [path_Join [e_WorkDir e, ''.forgelet''], ''step-'' @ itoa i @ ''.'' @ kind]"

definition file_env :: "Engine \<Rightarrow> nat \<Rightarrow> (string, string) gomap \<Rightarrow> (string, string) gomap" where
  "file_env e i env =
     mput (mput (mput (mput (mput env ''GITHUB_ENV'' (step_file e i ''env'')) ''GITHUB_OUTPUT'' (step_file e i ''output''))
       ''GITHUB_PATH'' (step_file e i ''path'')) ''GITHUB_STATE'' (step_file e i ''state''))
       ''GITHUB_STEP_SUMMARY'' (step_file e i ''summary'')"

definition step_env :: "PlanStep \<Rightarrow> engine_state \<Rightarrow> (string, string) gomap" where
  "step_env step st =
     (let env = apply_kvs (es_env st) (rstep_Env (ps_Run step)) in
      if es_path st = [] then env
      else mput env ''PATH'' (Join (es_path st) '':'' @ '':'' @ (case mget env ''PATH'' of Some v \<Rightarrow> v | None \<Rightarrow> '''')))"

definition skip_step :: "PlanStep \<Rightarrow> engine_state \<Rightarrow> engine_state" where
  "skip_step step st =
     add_result (skipped_result step)
       (st\<lparr>es_states := mput (es_states st) (ps_ID step) \<lparr>ss_outputs = [], ss_outcome = ''skipped'', ss_conclusion = ''skipped''\<rparr>\<rparr>)"

text \<open>A composite step does nothing and succeeds.\<close>

definition composite_step :: "PlanStep \<Rightarrow> engine_state \<Rightarrow> engine_state" where
  "composite_step step st =
     record_step step \<lparr>sr_StepID = ps_ID step, sr_ExitCode = 0, sr_DurationMs = 0, sr_Outcome = ''success'', sr_Conclusion = ''success''\<rparr> [] st"

definition run_any :: "exec_world \<Rightarrow> Engine \<Rightarrow> nat \<Rightarrow> PlanStep \<Rightarrow> PlanStep list \<Rightarrow> Env \<Rightarrow> (string, string) gomap \<Rightarrow> engine_state \<Rightarrow> flow" where
  "run_any W e i step after x stepEnv st =
     (case ps_JS step of
        Some js \<Rightarrow> js_step W i step after js x stepEnv st
      | None \<Rightarrow>
          if ps_Composite step \<noteq> None then Next (composite_step step st)
          else case ps_Builtin step of
                 Some b \<Rightarrow> builtin_step W i step after b x stepEnv st
               | None \<Rightarrow> run_step W e i step after x stepEnv st)"

definition one_step :: "exec_world \<Rightarrow> Engine \<Rightarrow> Plan \<Rightarrow> nat \<Rightarrow> PlanStep \<Rightarrow> PlanStep list \<Rightarrow> engine_state \<Rightarrow> flow" where
  "one_step W e p i step after st =
     (if w_ctx_done W i then abort_job W (''cancelled before step '' @ ps_ID step) st
      else case w_prepare W i of
             Some (f, err) \<Rightarrow> Return st (Wrapf (''executor: prepare '' @ f) err)
           | None \<Rightarrow>
               (let st1 = st\<lparr>es_env := file_env e i (es_env st)\<rparr>; stepEnv = step_env step st1;
                    x = exprEnv W i p stepEnv (es_states st1) in
                if ps_If step = '''' then run_any W e i step after x stepEnv st1
                else case EvaluateCondition (w_lib W) (ps_If step) (Some x) of
                       Inl err \<Rightarrow> failJob W (step # after) (set_error (''step '' @ ps_ID step @ '' if: '' @ ExprErr_Error err) st1)
                     | Inr run \<Rightarrow> if run then run_any W e i step after x stepEnv st1 else Next (skip_step step st1)))"

fun steps_loop :: "exec_world \<Rightarrow> Engine \<Rightarrow> Plan \<Rightarrow> nat \<Rightarrow> PlanStep list \<Rightarrow> engine_state \<Rightarrow> flow" where
  "steps_loop W e p i [] st = Next st"
| "steps_loop W e p i (step # steps) st =
     (case one_step W e p i step steps st of
        Return st1 err \<Rightarrow> Return st1 err
      | Next st1 \<Rightarrow> steps_loop W e p (Suc i) steps st1)"

text \<open>Every secret that was resolved is masked; it goes to an input of a step or to the environment.\<close>

fun secrets_loop :: "(string, string) gomap \<Rightarrow> SecretRef list \<Rightarrow> engine_state \<Rightarrow> engine_state" where
  "secrets_loop secrets [] st = st"
| "secrets_loop secrets (ref # refs) st =
     secrets_loop secrets refs
       (case mget secrets (sref_Scope ref @ ''/'' @ sref_Name ref) of
          None \<Rightarrow> st
        | Some val \<Rightarrow>
            (let st1 = st\<lparr>es_mask := mask_Add (es_mask st) val\<rparr> in
             if HasPrefix (sref_Env ref) ''$with:'' then st1\<lparr>es_with := mput (es_with st1) (sref_Env ref) val\<rparr>
             else if sref_Env ref \<noteq> '''' then st1\<lparr>es_env := mput (es_env st1) (sref_Env ref) val\<rparr>
             else st1))"

definition initial_env :: "Engine \<Rightarrow> Plan \<Rightarrow> (string, string) gomap" where
  "initial_env e p =
     mput (mput (mput (mput (apply_kvs (apply_kvs [] (e_DefaultEnv e)) (pl_Env p)) ''CI'' ''true'')
       ''GITHUB_SHA'' (pl_SHA p)) ''GITHUB_REF'' (pl_Ref p)) ''GITHUB_JOB'' (CRName (pl_JobRunID p))"

definition initial_state :: "Engine \<Rightarrow> Plan \<Rightarrow> engine_state" where
  "initial_state e p = \<lparr>es_env = initial_env e p, es_with = [], es_states = [], es_path = [],
     es_result = \<lparr>res_JobRunID = e_JobRunID e, res_Success = False, res_Cancelled = False, res_Steps = [], res_Error = ''''\<rparr>,
     es_mask = [], es_logs = [], es_reports = []\<rparr>"

definition job_env :: "exec_world \<Rightarrow> Plan \<Rightarrow> Env" where
  "job_env W p = WithWorkspaceHasher (With NewEnv ''github'' (githubOf p)) (HashFiles (w_sha W) (w_workspace W 0))"

definition with_shell :: "Engine \<Rightarrow> Engine" where
  "with_shell e = (if e_Shell e = '''' then e\<lparr>e_Shell := ''bash''\<rparr> else e)"

text \<open>The state the run leaves, with the result and the log in it, and its error.\<close>

definition Engine_Run :: "exec_world \<Rightarrow> Engine \<Rightarrow> Plan \<Rightarrow> Err option \<times> engine_state" where
  "Engine_Run W e0 p =
     (let e = with_shell e0; st0 = initial_state e p in
      case interp_env (w_lib W) (job_env W p) (es_env st0) (es_env st0) of
        Inl (k, err) \<Rightarrow>
          (let st1 = set_error (''job env '' @ k @ '': '' @ ExprErr_Error err) st0 in
           (Some (Detailf ErrStepFailed (res_Error (es_result st1))), report_job W st1))
      | Inr env \<Rightarrow>
          (let st1 = st0\<lparr>es_env := env\<rparr> in
           case (if pl_SecretRefs p = [] then Inr [] else w_FetchSecrets W (pl_SecretRefs p)) of
             Inl err \<Rightarrow> (Some (Wrapf ''executor: fetch secrets'' err), st1)
           | Inr secrets \<Rightarrow>
               (let st2 = secrets_loop secrets (pl_SecretRefs p) st1 in
                case w_mkdir W of
                  Some err \<Rightarrow> (Some (Wrapf ''executor: workspace metadata dir'' err), st2)
                | None \<Rightarrow>
                    (case steps_loop W e p 0 (pl_Steps p) st2 of
                       Return st3 err \<Rightarrow> (Some err, st3)
                     | Next st3 \<Rightarrow> (None, report_job W (st3\<lparr>es_result := (es_result st3)\<lparr>res_Success := True\<rparr>\<rparr>))))))"

end
