(* ===== verification/Executor_Properties.thy ===== *)
theory Executor_Properties
  imports Executor_Engine
begin

text \<open>
  What the executor promises: output is cut into the same lines however it arrives, a secret of
  the plan that masking can recognise reaches the log nowhere, and every run that is not stopped by a
  failure to prepare it sends one report, its result, which accounts for the steps of the plan.
\<close>

section \<open>Lines\<close>

lemma Index_char: "Index s [c] = (if c \<in> set s then Some (length (takeWhile (\<lambda>x. x \<noteq> c) s)) else None)"
  by (induction s) auto

lemma drain_lines_none: "newline \<notin> set buf \<Longrightarrow> drain_lines preset buf st = (buf, st)"
  by (subst drain_lines.simps) (simp add: Index_char)

lemma drain_lines_line:
  "newline \<notin> set l \<Longrightarrow>
   drain_lines preset (l @ newline # r) st = drain_lines preset r (emitLine preset (TrimSuffix l [carriage]) st)"
  by (subst drain_lines.simps) (simp add: Index_char takeWhile_append)

lemma drain_lines_rest: "newline \<notin> set (fst (drain_lines preset buf st))"
proof (induction preset buf st rule: drain_lines.induct)
  case (1 preset buf st)
  then show ?case by (subst drain_lines.simps) (auto simp: Index_char split: if_splits)
qed

lemma drain_lines_append:
  "drain_lines preset (a @ b) st = (let (r, st1) = drain_lines preset a st in drain_lines preset (r @ b) st1)"
proof (induction preset a st rule: drain_lines.induct)
  case (1 preset a st)
  show ?case
  proof (cases "newline \<in> set a")
    case True
    then obtain l r where a: "a = l @ newline # r" "newline \<notin> set l" by (metis split_list_first)
    then have i: "Index a [newline] = Some (length l)" by (simp add: Index_char takeWhile_append)
    from "1.IH" [OF i] a show ?thesis by (simp add: drain_lines_line)
  next
    case False
    then show ?thesis by (simp add: drain_lines_none)
  qed
qed

lemma read_loop_whole:
  "newline \<notin> set buf \<Longrightarrow>
   read_loop preset buf chunks st =
     (let (r, st1) = drain_lines preset (buf @ concat chunks) st in if r \<noteq> [] then emitLine preset r st1 else st1)"
proof (induction chunks arbitrary: buf st)
  case Nil
  then show ?case by (simp add: drain_lines_none)
next
  case (Cons c cs)
  obtain r st1 where d: "drain_lines preset (buf @ c) st = (r, st1)" by fastforce
  with drain_lines_rest [of preset "buf @ c" st] have "newline \<notin> set r" by simp
  from Cons.IH [OF this, of st1] d drain_lines_append [of preset "buf @ c" "concat cs" st] show ?case by simp
qed

text \<open>
  C32. The log of a step does not depend on how its output is cut into reads: reading it in any
  chunks leaves the engine as reading it at once does.
\<close>

theorem output_chunks_irrelevant:
  "read_loop preset '''' chunks st = read_loop preset '''' [concat chunks] st"
  using read_loop_whole [of "[]" preset chunks st] read_loop_whole [of "[]" preset "[concat chunks]" st]
  by (simp del: read_loop.simps)

section \<open>Secrets and the log\<close>

text \<open>
  A log record in which neither the message nor an attribute shows the value. The one attribute
  left out is the exit code of a step, a number.
\<close>

definition hidden_attr :: "string \<Rightarrow> string \<times> attr_value \<Rightarrow> bool" where
  "hidden_attr v a = (case snd a of StrAttr s \<Rightarrow> \<not> Contains s v | OtherAttr s \<Rightarrow> fst a = ''exitCode'' \<or> \<not> Contains s v)"

text \<open>An attribute as it is passed to the handler, which masks strings only.\<close>

definition maskable :: "string \<Rightarrow> string \<times> attr_value \<Rightarrow> bool" where
  "maskable v a = (case snd a of StrAttr s \<Rightarrow> True | OtherAttr s \<Rightarrow> fst a = ''exitCode'' \<or> \<not> Contains s v)"

lemma maskable_simps [simp]:
  "maskable v (k, StrAttr s)" "maskable v (k, OtherAttr s) \<longleftrightarrow> k = ''exitCode'' \<or> \<not> Contains s v"
  by (simp_all add: maskable_def)

definition hides :: "string \<Rightarrow> log_record \<Rightarrow> bool" where
  "hides v r \<longleftrightarrow> \<not> Contains (lr_Message r) v \<and> list_all (hidden_attr v) (lr_Attrs r)"

definition secret_value :: "string \<Rightarrow> bool" where
  "secret_value v \<longleftrightarrow> v \<noteq> '''' \<and> star_free v"

text \<open>The value is registered, and the log and the job id of the result hide it.\<close>

definition keeps_hidden :: "string \<Rightarrow> engine_state \<Rightarrow> bool" where
  "keeps_hidden v st \<longleftrightarrow> v \<in> set (es_mask st) \<and> list_all (hides v) (es_logs st) \<and> \<not> Contains (res_JobRunID (es_result st)) v"

lemma handle_record_hides:
  "v \<in> set m \<Longrightarrow> secret_value v \<Longrightarrow> list_all (hidden_attr v) preset \<Longrightarrow> list_all (maskable v) (lr_Attrs r) \<Longrightarrow> hides v (handle_record m preset r)"
  by (auto simp: hides_def handle_record_def mask_attr_def hidden_attr_def maskable_def Contains_sublist secret_value_def
      list_all_iff mask_Apply_hides split: attr_value.splits)

lemma log_with_hidden [intro]:
  "keeps_hidden v st \<Longrightarrow> secret_value v \<Longrightarrow> list_all (hidden_attr v) preset \<Longrightarrow> list_all (maskable v) attrs \<Longrightarrow> keeps_hidden v (log_with preset msg attrs st)"
  by (simp add: keeps_hidden_def log_with_def handle_record_hides)

lemma log_hidden [simp]: "keeps_hidden v st \<Longrightarrow> secret_value v \<Longrightarrow> list_all (maskable v) attrs \<Longrightarrow> keeps_hidden v (log_with [] msg attrs st)"
  by (rule log_with_hidden) simp_all

lemma keeps_hidden_updates [simp]:
  "keeps_hidden v (st\<lparr>es_env := a\<rparr>) = keeps_hidden v st" "keeps_hidden v (st\<lparr>es_with := b\<rparr>) = keeps_hidden v st"
  "keeps_hidden v (st\<lparr>es_states := c\<rparr>) = keeps_hidden v st" "keeps_hidden v (st\<lparr>es_path := d\<rparr>) = keeps_hidden v st"
  "res_JobRunID g = res_JobRunID (es_result st) \<Longrightarrow> keeps_hidden v (st\<lparr>es_result := g\<rparr>) = keeps_hidden v st" "keeps_hidden v (st\<lparr>es_reports := h\<rparr>) = keeps_hidden v st"
  "keeps_hidden v (add_result sr st) = keeps_hidden v st" "keeps_hidden v (set_error msg st) = keeps_hidden v st"
  "keeps_hidden v (record_step step sr outs st) = keeps_hidden v st" "keeps_hidden v (skip_step step st) = keeps_hidden v st"
  "keeps_hidden v (composite_step step st) = keeps_hidden v st"
  by (simp_all add: keeps_hidden_def add_result_def set_error_def record_step_def skip_step_def composite_step_def)

lemma emitLine_hidden:
  "keeps_hidden v st \<Longrightarrow> secret_value v \<Longrightarrow> list_all (hidden_attr v) preset \<Longrightarrow> keeps_hidden v (emitLine preset line st)"
  by (auto simp: emitLine_def split: option.splits) (auto simp: keeps_hidden_def mask_Add_members)

lemma drain_lines_hidden:
  "keeps_hidden v st \<Longrightarrow> secret_value v \<Longrightarrow> list_all (hidden_attr v) preset \<Longrightarrow>
   keeps_hidden v (snd (drain_lines preset buf st))"
proof (induction preset buf st rule: drain_lines.induct)
  case (1 preset buf st)
  then show ?case by (subst drain_lines.simps) (auto split: option.splits intro: emitLine_hidden)
qed

lemma read_loop_hidden:
  "keeps_hidden v st \<Longrightarrow> secret_value v \<Longrightarrow> list_all (hidden_attr v) preset \<Longrightarrow>
   keeps_hidden v (read_loop preset buf chunks st)"
proof (induction chunks arbitrary: buf st)
  case (Cons c cs)
  then show ?case using drain_lines_hidden [of v st preset "buf @ c"] by (simp add: case_prod_unfold Let_def)
qed (simp add: emitLine_hidden)

definition flow_state :: "flow \<Rightarrow> engine_state" where
  "flow_state f = (case f of Next st \<Rightarrow> st | Return st e \<Rightarrow> st)"

lemma flow_state_simps [simp]: "flow_state (Next st) = st" "flow_state (Return st e) = st"
  by (simp_all add: flow_state_def)

lemma report_job_hidden [simp]:
  assumes "keeps_hidden v st" "secret_value v"
  shows "keeps_hidden v (report_job W st)"
proof -
  have "\<not> Contains (res_JobRunID (es_result st)) v" using assms(1) by (simp add: keeps_hidden_def)
  with assms show ?thesis by (simp add: report_job_def Let_def split: option.splits)
qed

lemma failJob_hidden [simp]: "keeps_hidden v st \<Longrightarrow> secret_value v \<Longrightarrow> keeps_hidden v (flow_state (failJob W rs st))"
  by (simp add: failJob_def Let_def)

lemma abort_job_hidden [simp]: "keeps_hidden v st \<Longrightarrow> secret_value v \<Longrightarrow> keeps_hidden v (flow_state (abort_job W m st))"
  by (simp add: abort_job_def)

lemma fold_outputs_hidden:
  "keeps_hidden v st \<Longrightarrow> secret_value v \<Longrightarrow> keeps_hidden v (foldl (log_output step) st kvs)"
  by (induction kvs arbitrary: st) (auto simp: log_output_def)

lemma log_all_hidden:
  "keeps_hidden v st \<Longrightarrow> secret_value v \<Longrightarrow> list_all (\<lambda>r. list_all (maskable v) (lr_Attrs r)) rs \<Longrightarrow> keeps_hidden v (log_all rs st)"
  unfolding log_all_def by (induction rs arbitrary: st) auto

lemma fold_files_hidden:
  "keeps_hidden v st \<Longrightarrow> secret_value v \<Longrightarrow> keeps_hidden v (snd (fold_files step cf outs st))"
  by (auto simp: fold_files_def fold_env_file_def fold_output_file_def fold_state_file_def
      fold_outputs_hidden split: sum.splits prod.splits)

lemma conclude_step_hidden:
  "keeps_hidden v st \<Longrightarrow> secret_value v \<Longrightarrow> list_all (maskable v) warn \<Longrightarrow>
   keeps_hidden v (flow_state (conclude_step W step after sr outs err warn failure st))"
  by (auto simp: conclude_step_def split: option.splits)

text \<open>The attributes an in-process action logs are strings.\<close>

definition logs_strings :: "handler_run \<Rightarrow> bool" where
  "logs_strings hr \<longleftrightarrow> list_all (\<lambda>r. list_all (\<lambda>a. \<exists>s. snd a = StrAttr s) (lr_Attrs r)) (hr_logs hr)"

lemma logs_strings_maskable: "logs_strings hr \<Longrightarrow> list_all (\<lambda>r. list_all (maskable v) (lr_Attrs r)) (hr_logs hr)"
  by (fastforce simp: logs_strings_def list_all_iff maskable_def split: attr_value.splits)

lemma runJS_logs_strings: "logs_strings (runJS goja bc script js)"
  by (auto simp: runJS_def logs_strings_def js_call_log_def list_all_iff Let_def split: prod.splits js_end.splits js_call.splits)

lemma finish_action_hidden:
  "keeps_hidden v st \<Longrightarrow> secret_value v \<Longrightarrow> logs_strings hr \<Longrightarrow> keeps_hidden v (flow_state (finish_action W i step after hr st))"
  by (simp add: finish_action_def Let_def case_prod_unfold conclude_step_hidden fold_files_hidden log_all_hidden logs_strings_maskable)

lemma runStepScript_hidden:
  assumes "keeps_hidden v st" "secret_value v" "\<not> Contains (e_JobRunID e) v" "\<not> Contains (ps_ID step) v"
  shows "keeps_hidden v (snd (runStepScript W e i step script env st))"
proof -
  have "list_all (hidden_attr v) [(''jobRun'', StrAttr (e_JobRunID e)), (''step'', StrAttr (ps_ID step))]"
    using assms by (simp add: hidden_attr_def)
  note r = read_loop_hidden [OF assms(1,2) this]
  show ?thesis by (simp add: runStepScript_def follow_process_def WithAttrs_def r assms(1) split: option.split)
qed

definition handlers_log_strings :: "exec_world \<Rightarrow> bool" where
  "handlers_log_strings W \<longleftrightarrow> (\<forall>i a h bc. mget (w_builtin W i) a = Some h \<longrightarrow> logs_strings (h bc))"

lemma run_any_hidden:
  assumes "keeps_hidden v st" "secret_value v" "\<not> Contains (e_JobRunID e) v" "\<not> Contains (ps_ID step) v" "handlers_log_strings W"
  shows "keeps_hidden v (flow_state (run_any W e i step after x stepEnv st))"
proof -
  have "keeps_hidden v (flow_state (run_step W e i step after x stepEnv st))"
    using fold_files_hidden [OF runStepScript_hidden [OF assms(1-4)] assms(2)] assms(1,2)
    by (auto simp: run_step_def Let_def case_prod_unfold conclude_step_hidden split: sum.splits)
  moreover have "logs_strings (h bc)" if "mget (w_builtin W i) a = Some h" for a h bc using assms(5) that by (simp add: handlers_log_strings_def)
  ultimately show ?thesis using assms(1,2)
    by (auto simp: run_any_def js_step_def builtin_step_def finish_action_hidden runJS_logs_strings Let_def split: option.splits sum.splits)
qed

lemma one_step_hidden:
  assumes "keeps_hidden v st" "secret_value v" "\<not> Contains (e_JobRunID e) v" "\<not> Contains (ps_ID step) v" "handlers_log_strings W"
  shows "keeps_hidden v (flow_state (one_step W e p i step after st))"
  using assms by (auto simp: one_step_def Let_def run_any_hidden split: option.splits sum.splits)

lemma steps_loop_hidden:
  assumes "secret_value v" "\<not> Contains (e_JobRunID e) v" "handlers_log_strings W"
  shows "keeps_hidden v st \<Longrightarrow> \<forall>step\<in>set steps. \<not> Contains (ps_ID step) v \<Longrightarrow>
    keeps_hidden v (flow_state (steps_loop W e p i steps st))"
proof (induction steps arbitrary: i st)
  case (Cons step steps)
  from one_step_hidden [OF Cons.prems(1) assms(1,2) _ assms(3), of step p i steps] Cons.prems(2)
  have "keeps_hidden v (flow_state (one_step W e p i step steps st))" by simp
  with Cons.IH Cons.prems(2) show ?case by (auto split: flow.splits)
qed simp

lemma secrets_loop_result [simp]: "es_result (secrets_loop secrets refs st) = es_result st"
  by (induction refs arbitrary: st) (simp_all add: Let_def split: option.splits)

lemma secrets_loop_keeps:
  "es_logs (secrets_loop secrets refs st) = es_logs st"
  "set (es_mask st) \<subseteq> set (es_mask (secrets_loop secrets refs st))"
proof (induction refs arbitrary: st)
  case (Cons ref refs)
  {
    case 1
    show ?case by (simp add: Cons Let_def split: option.splits)
  next
    case 2
    have "set (es_mask st) \<subseteq> set (es_mask (case mget secrets (sref_Scope ref @ ''/'' @ sref_Name ref) of None \<Rightarrow> st
        | Some val \<Rightarrow> (let st1 = st\<lparr>es_mask := mask_Add (es_mask st) val\<rparr> in
             if HasPrefix (sref_Env ref) ''$with:'' then st1\<lparr>es_with := mput (es_with st1) (sref_Env ref) val\<rparr>
             else if sref_Env ref \<noteq> '''' then st1\<lparr>es_env := mput (es_env st1) (sref_Env ref) val\<rparr> else st1)))"
      by (auto simp: Let_def mask_Add_members split: option.splits)
    also note Cons(2)
    finally show ?case by simp
  }
qed simp_all

lemma secrets_loop_registers:
  assumes "ref \<in> set refs" "mget secrets (sref_Scope ref @ ''/'' @ sref_Name ref) = Some v" "v \<noteq> ''''"
  shows "v \<in> set (es_mask (secrets_loop secrets refs st))"
  using assms(1)
proof (induction refs arbitrary: st)
  case (Cons r refs)
  show ?case
  proof (cases "ref = r")
    case True
    with assms(2,3) show ?thesis
      using secrets_loop_keeps(2) [of _ secrets refs] by (auto simp: Let_def mask_Add_members subset_iff)
  next
    case False
    with Cons show ?thesis by simp
  qed
qed simp

lemma initial_state_logs [simp]: "es_logs (initial_state e p) = []" "es_env (initial_state e p) = initial_env e p"
  by (simp_all add: initial_state_def)

lemma with_shell_simps [simp]:
  "e_JobRunID (with_shell e) = e_JobRunID e" "initial_env (with_shell e) p = initial_env e p"
  "initial_state (with_shell e) p = initial_state e p"
  by (simp_all add: with_shell_def initial_env_def initial_state_def)

text \<open>
  C5. Let a value that the control plane resolved for a secret of the plan be not empty, contain no
  star, and not be part of the names of the job and its steps, which are logged as they are.
  Then it appears nowhere in the log of the run, in no message and no attribute but the
  exit code, a number: not in the output of the steps, in their outputs, in the text of
  errors or in what the actions log, as long as the builtin actions pass strings to the logger, as those of the
  code do. The condition on stars is needed: the replacement of one occurrence can complete another.
\<close>

theorem secrets_never_logged:
  assumes "Engine_Run W e p = (err, st)"
    and "interp_env (w_lib W) (job_env W p) (initial_env e p) (initial_env e p) = Inr env"
    and "w_FetchSecrets W (pl_SecretRefs p) = Inr secrets"
    and "ref \<in> set (pl_SecretRefs p)" "mget secrets (sref_Scope ref @ ''/'' @ sref_Name ref) = Some v"
    and "v \<noteq> ''''" "star_free v"
    and "\<not> Contains (e_JobRunID e) v" "\<forall>step\<in>set (pl_Steps p). \<not> Contains (ps_ID step) v" "handlers_log_strings W"
  shows "list_all (hides v) (es_logs st)"
proof -
  have sv: "secret_value v" using assms(6,7) by (simp add: secret_value_def)
  define st2 where "st2 = secrets_loop secrets (pl_SecretRefs p) ((initial_state e p)\<lparr>es_env := env\<rparr>)"
  have j: "\<not> Contains (e_JobRunID (with_shell e)) v" using assms(8) by simp
  have "res_JobRunID (es_result st2) = e_JobRunID e" by (simp add: st2_def) (simp add: initial_state_def)
  then have "keeps_hidden v st2"
    using secrets_loop_registers [OF assms(4,5,6)] assms(8) by (simp add: keeps_hidden_def st2_def secrets_loop_keeps)
  note loop = steps_loop_hidden [OF sv j assms(10) this assms(9), of p 0]
  have "pl_SecretRefs p \<noteq> []" using assms(4) by auto
  then have "Engine_Run W e p = (case w_mkdir W of
      Some err \<Rightarrow> (Some (Wrapf ''executor: workspace metadata dir'' err), st2)
    | None \<Rightarrow> (case steps_loop W (with_shell e) p 0 (pl_Steps p) st2 of
         Return st3 err \<Rightarrow> (Some err, st3)
       | Next st3 \<Rightarrow> (None, report_job W (st3\<lparr>es_result := (es_result st3)\<lparr>res_Success := True\<rparr>\<rparr>))))"
    using assms(2,3) unfolding st2_def by (simp add: Engine_Run_def Let_def)
  with assms(1) \<open>keeps_hidden v st2\<close> loop sv have "keeps_hidden v st" by (auto split: option.splits flow.splits)
  then show ?thesis by (simp add: keeps_hidden_def)
qed

section \<open>Reports\<close>

text \<open>
  While the steps run nothing has been reported and every step so far has a result that does not
  fail the job.
\<close>

definition ended_well :: "StepResult \<Rightarrow> bool" where
  "ended_well sr \<longleftrightarrow> sr_Conclusion sr = ''success'' \<or> sr_Conclusion sr = ''skipped''"

definition underway :: "string list \<Rightarrow> engine_state \<Rightarrow> bool" where
  "underway ids st \<longleftrightarrow> es_reports st = [] \<and> \<not> res_Success (es_result st) \<and> \<not> res_Cancelled (es_result st) \<and>
     map sr_StepID (res_Steps (es_result st)) = ids \<and> list_all ended_well (res_Steps (es_result st))"

text \<open>The steps that ended before a run was left have their results, and those do not fail the job.\<close>

definition cut_off :: "string list \<Rightarrow> StepResult list \<Rightarrow> bool" where
  "cut_off ids rs \<longleftrightarrow> list_all ended_well rs \<and> (\<exists>n<length ids. map sr_StepID rs = take n ids)"

text \<open>
  How a run ends early: as a failed step, with a result for every step of the plan; as cancelled,
  with results for the steps before; both reported; or because a file could not be prepared,
  which is not reported.
\<close>

definition ended_early :: "string list \<Rightarrow> engine_state \<Rightarrow> Err \<Rightarrow> bool" where
  "ended_early ids st err \<longleftrightarrow>
     \<not> res_Success (es_result st) \<and>
     (es_reports st = [es_result st] \<and> \<not> res_Cancelled (es_result st) \<and> err = Detailf ErrStepFailed (res_Error (es_result st))
        \<and> map sr_StepID (res_Steps (es_result st)) = ids
      \<or> es_reports st = [es_result st] \<and> res_Cancelled (es_result st) \<and> err = ErrCancelled \<and> cut_off ids (res_Steps (es_result st))
      \<or> es_reports st = [] \<and> \<not> res_Cancelled (es_result st) \<and> (\<exists>f e. err = Wrapf (''executor: prepare '' @ f) e) \<and> cut_off ids (res_Steps (es_result st)))"

definition accounted :: "string list \<Rightarrow> string list \<Rightarrow> flow \<Rightarrow> bool" where
  "accounted ids all_ids f = (case f of Next st \<Rightarrow> underway ids st | Return st err \<Rightarrow> ended_early all_ids st err)"

lemma log_with_underway [simp]:
  "es_reports (log_with preset m a st) = es_reports st" "es_result (log_with preset m a st) = es_result st"
  by (simp_all add: log_with_def)

lemma report_job_simps [simp]:
  "es_reports (report_job W st) = es_reports st @ [es_result st]" "es_result (report_job W st) = es_result st"
  by (simp_all add: report_job_def Let_def split: option.splits)

lemma underway_updates [simp]:
  "underway ids (st\<lparr>es_env := a\<rparr>) = underway ids st" "underway ids (st\<lparr>es_with := b\<rparr>) = underway ids st"
  "underway ids (st\<lparr>es_states := c\<rparr>) = underway ids st" "underway ids (st\<lparr>es_path := d\<rparr>) = underway ids st"
  "underway ids (st\<lparr>es_mask := g\<rparr>) = underway ids st" "underway ids (log_with preset m as st) = underway ids st"
  "underway ids (set_error msg st) = underway ids st"
  by (simp_all add: underway_def set_error_def)

lemma emitLine_underway [simp]: "underway ids (emitLine preset line st) = underway ids st"
  by (auto simp: emitLine_def split: option.splits)

lemma drain_lines_underway: "underway ids (snd (drain_lines preset buf st)) = underway ids st"
proof (induction preset buf st rule: drain_lines.induct)
  case (1 preset buf st)
  then show ?case by (subst drain_lines.simps) (simp split: option.splits)
qed

lemma read_loop_underway [simp]: "underway ids (read_loop preset buf chunks st) = underway ids st"
proof (induction chunks arbitrary: buf st)
  case (Cons c cs)
  then show ?case by (simp add: case_prod_unfold Let_def drain_lines_underway)
qed simp

lemma log_all_underway [simp]: "underway ids (log_all rs st) = underway ids st"
  unfolding log_all_def by (induction rs arbitrary: st) simp_all

lemma fold_outputs_underway [simp]: "underway ids (foldl (log_output step) st kvs) = underway ids st"
  by (induction kvs arbitrary: st) (simp_all add: log_output_def)

lemma fold_files_underway [simp]: "underway ids (snd (fold_files step cf outs st)) = underway ids st"
  by (simp add: fold_files_def fold_env_file_def fold_output_file_def fold_state_file_def case_prod_unfold Let_def split: sum.splits)

lemma add_result_underway:
  "underway ids st \<Longrightarrow> ended_well sr \<Longrightarrow> underway (ids @ [sr_StepID sr]) (add_result sr st)"
  by (simp add: underway_def add_result_def)

lemma failJob_accounted:
  "underway ids st \<Longrightarrow> accounted ids' (ids @ map ps_ID rs) (failJob W rs (set_error msg st))"
  by (auto simp: accounted_def ended_early_def failJob_def underway_def set_error_def skipped_result_def Let_def)

lemma underway_cut_off: "underway ids st \<Longrightarrow> cut_off (ids @ i # rest) (res_Steps (es_result st))"
  unfolding cut_off_def underway_def by (auto intro!: exI [of _ "length ids"])

lemma abort_job_accounted: "underway ids st \<Longrightarrow> accounted ids' (ids @ i # rest) (abort_job W msg st)"
  using underway_cut_off [of ids st i rest] by (simp add: accounted_def ended_early_def abort_job_def underway_def)

lemma record_step_underway:
  "underway ids st \<Longrightarrow> ended_well sr \<Longrightarrow> underway (ids @ [sr_StepID sr]) (record_step step sr outs st)"
  by (simp add: underway_def record_step_def add_result_def)

lemma fail_step_accounted:
  "underway ids st \<Longrightarrow>
   accounted ids' (ids @ sr_StepID sr # map ps_ID rs) (failJob W rs (set_error msg (add_result sr st)))"
  by (simp add: accounted_def ended_early_def failJob_def underway_def set_error_def add_result_def skipped_result_def Let_def comp_def)

lemma conclude_step_accounted:
  assumes "underway ids st" "sr_StepID sr = ps_ID step"
  shows "accounted (ids @ [ps_ID step]) (ids @ ps_ID step # map ps_ID after)
    (conclude_step W step after sr outs err warn failure st)"
proof (cases err)
  case None
  have "underway (ids @ [ps_ID step]) (record_step step (sr\<lparr>sr_Outcome := ''success'', sr_Conclusion := ''success''\<rparr>) outs st)"
    using record_step_underway [OF assms(1), of "sr\<lparr>sr_Outcome := ''success'', sr_Conclusion := ''success''\<rparr>" step outs] assms(2)
    by (simp add: ended_well_def)
  with None show ?thesis by (simp add: conclude_step_def accounted_def)
next
  case (Some er)
  let ?c = "sr\<lparr>sr_Outcome := ''failure'', sr_Conclusion := ''success''\<rparr>"
  let ?f = "sr\<lparr>sr_Outcome := ''failure'', sr_Conclusion := ''failure''\<rparr>"
  let ?st = "log_with [] ''step failed but continue-on-error is set'' ((''step'', StrAttr (ps_ID step)) # warn) st"
  consider (cancel) "errors_Is er ContextCanceled \<or> errors_Is er ErrCancelled"
    | (continue) "\<not> (errors_Is er ContextCanceled \<or> errors_Is er ErrCancelled)" "ps_ContinueOnError step"
    | (fail) "\<not> (errors_Is er ContextCanceled \<or> errors_Is er ErrCancelled)" "\<not> ps_ContinueOnError step" by blast
  then show ?thesis
  proof cases
    case cancel
    with Some abort_job_accounted [OF assms(1)] show ?thesis by (simp add: conclude_step_def)
  next
    case continue
    have "underway ids ?st" using assms(1) by simp
    from record_step_underway [OF this, of ?c step outs] assms(2)
    have "underway (ids @ [ps_ID step]) (record_step step ?c outs ?st)" by (simp add: ended_well_def)
    with Some continue show ?thesis by (simp add: conclude_step_def accounted_def)
  next
    case fail
    from fail_step_accounted [OF assms(1), of _ ?f "after"] assms(2) Some fail show ?thesis by (simp add: conclude_step_def)
  qed
qed

lemma finish_action_accounted:
  "underway ids st \<Longrightarrow>
   accounted (ids @ [ps_ID step]) (ids @ ps_ID step # map ps_ID after) (finish_action W i step after hr st)"
  by (simp add: finish_action_def Let_def case_prod_unfold conclude_step_accounted)

lemma runStepScript_underway [simp]: "underway ids (snd (runStepScript W e i step script env st)) = underway ids st"
  by (simp add: runStepScript_def follow_process_def split: option.splits)

lemma run_any_accounted:
  assumes "underway ids st"
  shows "accounted (ids @ [ps_ID step]) (ids @ ps_ID step # map ps_ID after) (run_any W e i step after x stepEnv st)"
proof -
  note fail = failJob_accounted [OF assms, of "ids @ [ps_ID step]" "step # after", simplified]
  note fin = finish_action_accounted [OF assms]
  have "accounted (ids @ [ps_ID step]) (ids @ ps_ID step # map ps_ID after) (run_step W e i step after x stepEnv st)"
    using assms by (simp add: run_step_def Let_def case_prod_unfold fail conclude_step_accounted split: sum.splits)
  moreover have "accounted (ids @ [ps_ID step]) (ids @ ps_ID step # map ps_ID after) (Next (composite_step step st))"
    using add_result_underway [of ids "st\<lparr>es_states := X\<rparr>" "\<lparr>sr_StepID = ps_ID step, sr_ExitCode = 0, sr_DurationMs = 0,
      sr_Outcome = ''success'', sr_Conclusion = ''success''\<rparr>" for X] assms
    by (simp add: accounted_def composite_step_def record_step_def ended_well_def)
  moreover have "accounted (ids @ [ps_ID step]) (ids @ ps_ID step # map ps_ID after) (js_step W i step after js x stepEnv st)" for js
    by (simp add: js_step_def Let_def fail fin split: sum.splits)
  moreover have "accounted (ids @ [ps_ID step]) (ids @ ps_ID step # map ps_ID after) (builtin_step W i step after b x stepEnv st)" for b
    by (simp add: builtin_step_def fail fin split: sum.splits option.splits)
  ultimately show ?thesis by (simp add: run_any_def split: option.splits)
qed

lemma one_step_accounted:
  assumes "underway ids st"
  shows "accounted (ids @ [ps_ID step]) (ids @ ps_ID step # map ps_ID after) (one_step W e p i step after st)"
proof -
  let ?st = "st\<lparr>es_env := file_env e i (es_env st)\<rparr>"
  have u: "underway ids ?st" using assms by simp
  have "accounted (ids @ [ps_ID step]) (ids @ ps_ID step # map ps_ID after) (Next (skip_step step ?st))"
    using add_result_underway [of ids "?st\<lparr>es_states := X\<rparr>" "skipped_result step" for X] u
    by (simp add: accounted_def skip_step_def skipped_result_def ended_well_def)
  moreover note run_any_accounted [OF u, of step after W e i]
    and failJob_accounted [OF u, of "ids @ [ps_ID step]" "step # after", simplified]
    and abort_job_accounted [OF assms]
  moreover have "accounted ids' (ids @ ps_ID step # map ps_ID after) (Return st (Wrapf (''executor: prepare '' @ f) err))" for ids' f err
    using assms underway_cut_off [OF assms] by (auto simp: accounted_def ended_early_def underway_def)
  ultimately show ?thesis by (simp add: one_step_def Let_def split: option.splits sum.splits)
qed

lemma steps_loop_accounted:
  "underway ids st \<Longrightarrow>
   accounted (ids @ map ps_ID steps) (ids @ map ps_ID steps) (steps_loop W e p i steps st)"
proof (induction steps arbitrary: ids i st)
  case (Cons step steps)
  note o = one_step_accounted [OF Cons.prems, of step steps W e p i]
  show ?case
  proof (cases "one_step W e p i step steps st")
    case (Next st1)
    with o Cons.IH [of "ids @ [ps_ID step]" st1 "Suc i"] show ?thesis by (simp add: accounted_def)
  next
    case (Return st1 err)
    with o show ?thesis by (simp add: accounted_def)
  qed
qed (simp add: accounted_def)

lemma secrets_loop_underway: "underway ids (secrets_loop secrets refs st) = underway ids st"
  by (induction refs arbitrary: st) (simp_all add: Let_def split: option.splits)

text \<open>
  C31. Every run ends in one of five ways. It succeeds, and then each step of the plan has
  exactly one result, in the order of the plan, that is a success or a skip. Or a step fails it,
  and then each step still has exactly one result, in order, and the error text is that of the
  result. Or it is cancelled, and then exactly the steps before the one that was cancelled have results, in order, none of
  which fails the job. Or the environment of the job cannot be computed, and no step has a
  result. In these cases exactly one report has been sent, which is the result the run
  returns. Or the secrets, the metadata directory or the files of a step could not be
  prepared: then no report is sent at all, and exactly the steps before have results.
\<close>

theorem engine_accounts_for_every_step:
  "case Engine_Run W e p of (err, st) \<Rightarrow>
     (err = None \<and> es_reports st = [es_result st] \<and> res_Success (es_result st) \<and> \<not> res_Cancelled (es_result st)
        \<and> map sr_StepID (res_Steps (es_result st)) = map ps_ID (pl_Steps p) \<and> list_all ended_well (res_Steps (es_result st)))
   \<or> (err = Some (Detailf ErrStepFailed (res_Error (es_result st))) \<and> es_reports st = [es_result st]
        \<and> \<not> res_Success (es_result st) \<and> \<not> res_Cancelled (es_result st)
        \<and> (map sr_StepID (res_Steps (es_result st)) = map ps_ID (pl_Steps p)
           \<or> res_Steps (es_result st) = [] \<and> (\<exists>k e'. interp_env (w_lib W) (job_env W p) (initial_env e p) (initial_env e p) = Inl (k, e'))))
   \<or> (err = Some ErrCancelled \<and> es_reports st = [es_result st] \<and> \<not> res_Success (es_result st) \<and> res_Cancelled (es_result st)
        \<and> cut_off (map ps_ID (pl_Steps p)) (res_Steps (es_result st)))
   \<or> (es_reports st = [] \<and> \<not> res_Success (es_result st) \<and> \<not> res_Cancelled (es_result st)
        \<and> ((\<exists>m e'. err = Some (Wrapf m e') \<and> m \<in> {''executor: fetch secrets'', ''executor: workspace metadata dir''}) \<and> res_Steps (es_result st) = []
           \<or> (\<exists>f e'. err = Some (Wrapf (''executor: prepare '' @ f) e')) \<and> cut_off (map ps_ID (pl_Steps p)) (res_Steps (es_result st))))"
proof (cases "interp_env (w_lib W) (job_env W p) (initial_env e p) (initial_env e p)")
  case (Inl ke)
  obtain k er where ke: "ke = (k, er)" by fastforce
  show ?thesis using Inl by (simp add: Engine_Run_def ke set_error_def Let_def) (simp add: initial_state_def)
next
  case (Inr env)
  let ?secrets = "if pl_SecretRefs p = [] then Inr [] else w_FetchSecrets W (pl_SecretRefs p)"
  have u0: "underway [] ((initial_state e p)\<lparr>es_env := env\<rparr>)" by (simp add: underway_def initial_state_def)
  show ?thesis
  proof (cases ?secrets)
    case (Inl er)
    with Inr u0 show ?thesis by (simp add: Engine_Run_def Let_def underway_def)
  next
    case s: (Inr secrets)
    define st2 where "st2 = secrets_loop secrets (pl_SecretRefs p) ((initial_state e p)\<lparr>es_env := env\<rparr>)"
    have u: "underway [] st2" using u0 by (simp only: st2_def secrets_loop_underway)
    note loop = steps_loop_accounted [OF u, of "pl_Steps p" W "with_shell e" p 0]
    have run: "Engine_Run W e p = (case w_mkdir W of
        Some err \<Rightarrow> (Some (Wrapf ''executor: workspace metadata dir'' err), st2)
      | None \<Rightarrow> (case steps_loop W (with_shell e) p 0 (pl_Steps p) st2 of
           Return st3 err \<Rightarrow> (Some err, st3)
         | Next st3 \<Rightarrow> (None, report_job W (st3\<lparr>es_result := (es_result st3)\<lparr>res_Success := True\<rparr>\<rparr>))))"
      using Inr s unfolding st2_def by (simp add: Engine_Run_def Let_def)
    show ?thesis unfolding run using loop u
      by (auto simp: accounted_def ended_early_def underway_def split: option.splits flow.splits)
  qed
qed

section \<open>A run\<close>

text \<open>A plan of two steps, a script that prints a secret and fails but is continued, and one that is skipped.\<close>

definition demo_library :: library where
  "demo_library = \<lparr>ParseFloat = (\<lambda>s. None), FormatFloat = (\<lambda>r. ''''), Marshal = (\<lambda>a. Inl ''unsupported''),
     Decode = (\<lambda>s. Inl ''unsupported'')\<rparr>"

definition demo_world :: exec_world where
  "demo_world = \<lparr>w_lib = demo_library, w_sha = rev, w_GOOS = ''linux'', w_GOARCH = ''amd64'',
     w_workspace = (\<lambda>i. demo_workspace), w_FetchSecrets = (\<lambda>refs. Inr [(''repository/TOKEN'', ''hunter2'')]),
     w_ReportJob = (\<lambda>r. None), w_mkdir = None, w_prepare = (\<lambda>i. None), w_ctx_done = (\<lambda>i. False),
     w_process = (\<lambda>i call. \<lparr>pr_write_err = None, pr_pipe_err = None, pr_start_err = None,
        pr_chunks = [''the token is hun'', ''ter2'' @ [newline] @ ''bye''], pr_ctx_done = False, pr_wait = WaitExit 3\<rparr>),
     w_builtin = (\<lambda>i. []), w_goja = (\<lambda>i bc s. ([], JSDone)),
     w_files = (\<lambda>i. \<lparr>cf_env = '''', cf_output = ''out=hunter2'', cf_path = '''', cf_state = ''''\<rparr>), w_ms = (\<lambda>i. 1)\<rparr>"

definition demo_engine :: Engine where
  "demo_engine = \<lparr>e_JobRunID = ''job1'', e_WorkDir = ''/workspace'', e_Shell = '''', e_DefaultEnv = []\<rparr>"

definition demo_plan_step :: "string \<Rightarrow> string \<Rightarrow> PlanStep" where
  "demo_plan_step i cond = PlanStep i '''' cond \<lparr>rstep_Script = ''echo'', rstep_Shell = '''', rstep_Env = []\<rparr> None None None True ''''"

definition demo_ref :: SecretRef where
  "demo_ref = \<lparr>sref_Scope = ''repository'', sref_Name = ''TOKEN'', sref_Env = ''TOKEN''\<rparr>"

definition demo_plan :: Plan where
  "demo_plan = \<lparr>pl_JobRunID = ''job1'', pl_Repository = \<lparr>repo_Provider = ''github'', repo_Owner = ''o'', repo_Name = ''r''\<rparr>,
     pl_EventName = ''push'', pl_Actor = ''a'', pl_SHA = ''abc'', pl_Ref = ''refs/heads/main'', pl_RunnerClass = ''default'',
     pl_Env = [], pl_Steps = [demo_plan_step ''s1'' '''', demo_plan_step ''s2'' ''failure()''],
     pl_SecretRefs = [demo_ref], pl_TimeoutSecs = 0\<rparr>"

theorem secrets_never_logged_witness:
  "(case Engine_Run demo_world demo_engine demo_plan of (err, st) \<Rightarrow>
      err = None \<and> list_all (hides ''hunter2'') (es_logs st) \<and>
      map lr_Message (es_logs st) = [''out'', ''out'', ''step output'', ''step failed but continue-on-error is set''] \<and>
      map sr_Outcome (res_Steps (es_result st)) = [''failure'', ''skipped''])"
proof -
  obtain err st where r: "Engine_Run demo_world demo_engine demo_plan = (err, st)" by fastforce
  have c: "(case Engine_Run demo_world demo_engine demo_plan of (err, st) \<Rightarrow>
      (err, map lr_Message (es_logs st), map sr_Outcome (res_Steps (es_result st)))) =
    (None, [''out'', ''out'', ''step output'', ''step failed but continue-on-error is set''], [''failure'', ''skipped''])"
    by code_simp
  have i: "interp_env (w_lib demo_world) (job_env demo_world demo_plan) (initial_env demo_engine demo_plan)
      (initial_env demo_engine demo_plan) = Inr (initial_env demo_engine demo_plan)" by code_simp
  have "list_all (hides ''hunter2'') (es_logs st)"
    by (rule secrets_never_logged [OF r i, where ref = demo_ref and secrets = "[(''repository/TOKEN'', ''hunter2'')]"])
      (simp_all add: demo_world_def demo_plan_def demo_ref_def demo_engine_def demo_plan_step_def mget_def star_free_def
        Contains_def handlers_log_strings_def)
  with c r show ?thesis by simp
qed

end
