(* ===== verification/Security.thy ===== *)
theory Security
  imports Run_Model Base64 Go_Path
begin

text \<open>
  Workload identities (\<^verbatim>\<open>security/identity\<close>), the authorization decisions
  (\<^verbatim>\<open>security/policy\<close>) and the verifier that asks the API server
  (\<^verbatim>\<open>security/tokenreview\<close>). HMAC-SHA256, the JSON form of the claims and the
  cluster's answers are parameters.
\<close>

section \<open>Identities and tokens\<close>

definition Audience :: string where "Audience = ''forgelet-control-plane''"
definition ScopePlanRead :: string where "ScopePlanRead = ''plan:read''"
definition ScopeSecretsRead :: string where "ScopeSecretsRead = ''secrets:read''"
definition ScopeStatusWrite :: string where "ScopeStatusWrite = ''status:write''"
definition ScopeObservedWrite :: string where "ScopeObservedWrite = ''observed:write''"

definition MaxTTL :: time where "MaxTTL = 3600 * 1000000000"

record Identity =
  id_Audience :: string
  id_Namespace :: string
  id_PodUID :: string
  id_JobRunID :: JobRunID
  id_Scopes :: "string list"
  id_TokenID :: string
  id_IssuedAt :: time
  id_ExpiresAt :: time

definition HasScope :: "Identity \<Rightarrow> string \<Rightarrow> bool" where
  "HasScope i scope \<longleftrightarrow> scope \<in> set (id_Scopes i)"

text \<open>The primitives a token is made of: \<^verbatim>\<open>json.Marshal\<close>, \<^verbatim>\<open>json.Unmarshal\<close> and the MAC under a key.\<close>

record token_lib =
  marshal_claims :: "Identity \<Rightarrow> bytes res"
  unmarshal_claims :: "bytes \<Rightarrow> Identity res"
  hmac_sha256 :: "bytes \<Rightarrow> bytes \<Rightarrow> bytes"

text \<open>\<^verbatim>\<open>now\<close> is what the clock says and \<^verbatim>\<open>rng\<close> what the token id source answers.\<close>

definition fill_claims :: "time \<Rightarrow> string \<Rightarrow> Identity \<Rightarrow> Identity" where
  "fill_claims now tid i =
     (let j = (if id_IssuedAt i = 0 then i\<lparr>id_IssuedAt := now\<rparr> else i) in
      if id_TokenID j = '''' then j\<lparr>id_TokenID := tid\<rparr> else j)"

definition sign :: "token_lib \<Rightarrow> bytes \<Rightarrow> Identity \<Rightarrow> string res" where
  "sign T key i =
     (case marshal_claims T i of
        Inl e \<Rightarrow> Inl (Wrapf ''identity: encode claims'' e)
      | Inr payload \<Rightarrow> Inr (b64_encode payload @ ''.'' @ b64_encode (hmac_sha256 T key payload)))"

definition Issue :: "token_lib \<Rightarrow> bytes \<Rightarrow> time \<Rightarrow> string res \<Rightarrow> Identity \<Rightarrow> string res" where
  "Issue T key now rng i =
     (if id_Audience i \<noteq> Audience then Inl (Detailf ErrInvalidToken (''audience must be '' @ Quote Audience))
      else if id_Namespace i = '''' \<or> id_PodUID i = '''' \<or> id_JobRunID i = ''''
        then Inl (Detailf ErrInvalidToken ''namespace, pod uid and job run id are required bindings'')
      else if id_ExpiresAt i = 0 \<or> id_ExpiresAt i > now + MaxTTL
        then Inl (Detailf ErrInvalidToken ''expiry required and must be within 1h0m0s of now'')
      else (case (if id_TokenID i = '''' then rng else Inr '''') of
              Inl e \<Rightarrow> Inl e
            | Inr tid \<Rightarrow> sign T key (fill_claims now tid i)))"

text \<open>The position that the text of a decoding error names is left out.\<close>

definition splitToken :: "string \<Rightarrow> (bytes \<times> bytes) res" where
  "splitToken raw =
     (case Split raw (CHR ''.'') of
        [p, s] \<Rightarrow>
          (case b64_decode p of
             None \<Rightarrow> Inl (Detailf ErrInvalidToken ''payload decode'')
           | Some payload \<Rightarrow>
               (case b64_decode s of
                  None \<Rightarrow> Inl (Detailf ErrInvalidToken ''signature decode'')
                | Some sig \<Rightarrow> Inr (payload, sig)))
      | _ \<Rightarrow> Inl (Detailf ErrInvalidToken ''malformed token''))"

definition check_claims :: "time \<Rightarrow> time \<Rightarrow> Identity \<Rightarrow> Identity res" where
  "check_claims now maxSkew i =
     (if id_Audience i \<noteq> Audience then Inl (Detailf ErrInvalidToken ''wrong audience'')
      else if \<not> id_ExpiresAt i > now then Inl (Detailf ErrInvalidToken ''token expired'')
      else if id_IssuedAt i > now + maxSkew then Inl (Detailf ErrInvalidToken ''issued in the future'')
      else Inr i)"

definition local_Verify :: "token_lib \<Rightarrow> bytes \<Rightarrow> time \<Rightarrow> time \<Rightarrow> string \<Rightarrow> Identity res" where
  "local_Verify T key now maxSkew raw =
     (case splitToken raw of
        Inl e \<Rightarrow> Inl e
      | Inr (payload, sig) \<Rightarrow>
          if sig \<noteq> hmac_sha256 T key payload then Inl (Detailf ErrInvalidToken ''bad signature'')
          else (case unmarshal_claims T payload of
                  Inl e \<Rightarrow> Inl (Detailf ErrInvalidToken (''malformed claims: '' @ Err_Error e))
                | Inr i \<Rightarrow> check_claims now maxSkew i))"

lemma splitToken_parts: "splitToken (b64_encode p @ ''.'' @ b64_encode s) = Inr (p, s)"
  using b64_encode_no_dot [of p] b64_encode_no_dot [of s]
  by (simp add: splitToken_def Split_append_sep Split_no_sep b64_roundtrip)

lemma splitToken_invalid: "splitToken raw = Inl e \<Longrightarrow> errors_Is e ErrInvalidToken"
  by (auto simp: splitToken_def errors_Is_def split: list.splits option.splits)

section \<open>Replay protection\<close>

record MemoryNonceCache =
  nc_seen :: "(string, time) gomap"
  nc_ttl :: time

definition evict :: "time \<Rightarrow> MemoryNonceCache \<Rightarrow> MemoryNonceCache" where
  "evict now c = c\<lparr>nc_seen := filter (\<lambda>(k, exp). now < exp) (nc_seen c)\<rparr>"

definition Claim :: "time \<Rightarrow> string \<Rightarrow> MemoryNonceCache \<Rightarrow> bool \<times> MemoryNonceCache" where
  "Claim now tokenID c =
     (if (case mget (nc_seen c) tokenID of Some exp \<Rightarrow> now < exp | None \<Rightarrow> False) then (False, c)
      else (let c' = (if length (nc_seen c) > 1024 then evict now c else c)
            in (True, c'\<lparr>nc_seen := mput (nc_seen c') tokenID (now + nc_ttl c)\<rparr>)))"

section \<open>Authorization\<close>

datatype TrustLevel = NoTrust | TrustTrusted | TrustSameRepo | TrustFork

record Ref =
  ref_Scope :: string
  ref_Name :: string

definition bound_error :: "Identity \<Rightarrow> JobRunID \<Rightarrow> Err" where
  "bound_error i j = Detailf ErrNotAuthorized (''identity bound to job run '' @ id_JobRunID i @ '', requested '' @ j)"

definition AuthorizeExecution :: "Identity \<Rightarrow> JobRunID \<Rightarrow> unit res" where
  "AuthorizeExecution i jobRun = (if id_JobRunID i \<noteq> jobRun then Inl (bound_error i jobRun) else Inr ())"

definition AuthorizeObservation :: "Identity \<Rightarrow> JobRunID \<Rightarrow> unit res" where
  "AuthorizeObservation i jobRun =
     (if HasScope i ScopeObservedWrite then Inr ()
      else if id_JobRunID i = jobRun then Inr () else Inl (bound_error i jobRun))"

record DeniedRef =
  dr_Ref :: Ref
  dr_Reason :: string

record Decision =
  dc_Allowed :: "Ref list"
  dc_Denied :: "DeniedRef list"

definition deny_all :: "string \<Rightarrow> Ref list \<Rightarrow> Decision" where
  "deny_all reason requested =
     \<lparr>dc_Allowed = [], dc_Denied = map (\<lambda>r. \<lparr>dr_Ref = r, dr_Reason = reason\<rparr>) requested\<rparr>"

definition DecideSecrets :: "Identity \<Rightarrow> Ref list \<Rightarrow> Ref list \<Rightarrow> TrustLevel \<Rightarrow> Decision" where
  "DecideSecrets i requested planRefs trust =
     (if \<not> HasScope i ScopeSecretsRead then deny_all (''identity lacks scope '' @ ScopeSecretsRead) requested
      else if trust = TrustFork then deny_all ''fork-pull-request runs receive no secrets'' requested
      else \<lparr>dc_Allowed = filter (\<lambda>r. r \<in> set planRefs) requested,
            dc_Denied = map (\<lambda>r. \<lparr>dr_Ref = r, dr_Reason = ''not referenced by the job plan''\<rparr>)
                          (filter (\<lambda>r. r \<notin> set planRefs) requested)\<rparr>)"

lemma allowed_secrets:
  "set (dc_Allowed (DecideSecrets i requested planRefs trust)) =
     (if HasScope i ScopeSecretsRead \<and> trust \<noteq> TrustFork then set requested \<inter> set planRefs else {})"
  by (auto simp: DecideSecrets_def deny_all_def)

section \<open>Verification by the API server\<close>

definition PodUIDExtraKey :: string where "PodUIDExtraKey = ''authentication.k8s.io/pod-uid''"
definition PodNameExtraKey :: string where "PodNameExtraKey = ''authentication.k8s.io/pod-name''"
definition podUIDExtraKeyNew :: string where "podUIDExtraKeyNew = ''authentication.kubernetes.io/pod-uid''"
definition podNameExtraKeyNew :: string where "podNameExtraKeyNew = ''authentication.kubernetes.io/pod-name''"

text \<open>The status of a TokenReview, and the pods the API server knows.\<close>

record TokenReviewStatus =
  tr_Authenticated :: bool
  tr_Error :: string
  tr_Username :: string
  tr_Extra :: "(string, string list) gomap"

record PodMeta =
  pm_UID :: string
  pm_Labels :: "(string, string) gomap"

record kube_api =
  kube_review :: "string \<Rightarrow> string list \<Rightarrow> TokenReviewStatus res"
  kube_pod :: "string \<Rightarrow> string \<Rightarrow> PodMeta res"

type_synonym BindingSource = "string \<Rightarrow> string \<Rightarrow> string \<Rightarrow> JobRunID res"

definition memory_JobRunForPod :: "(string, JobRunID) gomap \<Rightarrow> BindingSource" where
  "memory_JobRunForPod byUID ns podName podUID =
     (case mget byUID podUID of
        None \<Rightarrow> Inl (Errorf (''pod '' @ Quote podUID @ '' is not bound to any job run''))
      | Some i \<Rightarrow> Inr i)"

definition JobRunForPod :: "kube_api \<Rightarrow> string \<Rightarrow> BindingSource" where
  "JobRunForPod K label ns podName podUID =
     (case kube_pod K ns podName of
        Inl e \<Rightarrow> Inl (Wrapf (''load pod '' @ ns @ ''/'' @ podName) e)
      | Inr pod \<Rightarrow>
          if pm_UID pod \<noteq> podUID
          then Inl (Errorf (''pod '' @ ns @ ''/'' @ podName @ '' uid '' @ Quote (pm_UID pod) @ '' does not match the reviewed '' @ Quote podUID))
          else (case mget (pm_Labels pod) label of
                  Some j \<Rightarrow> if j = '''' then Inl (Errorf (''pod '' @ ns @ ''/'' @ podName @ '' has no '' @ Quote label @ '' label'')) else Inr j
                | None \<Rightarrow> Inl (Errorf (''pod '' @ ns @ ''/'' @ podName @ '' has no '' @ Quote label @ '' label''))))"

definition parseServiceAccount :: "string \<Rightarrow> (string \<times> string) res" where
  "parseServiceAccount username =
     (if \<not> HasPrefix username ''system:serviceaccount:''
      then Inl (Detailf ErrInvalidToken (''user '' @ Quote username @ '' is not a service account''))
      else (case Cut (TrimPrefix username ''system:serviceaccount:'') (CHR '':'') of
              (ns, sa, ok) \<Rightarrow>
                if \<not> ok \<or> ns = '''' \<or> sa = '''' \<or> Contains sa '':''
                then Inl (Detailf ErrInvalidToken (''malformed service account username '' @ Quote username))
                else Inr (ns, sa)))"

fun extra_lookup :: "(string, string list) gomap \<Rightarrow> string list \<Rightarrow> string option" where
  "extra_lookup m [] = None"
| "extra_lookup m (k # ks) = (case mget m k of Some [v] \<Rightarrow> Some v | _ \<Rightarrow> extra_lookup m ks)"

definition extras :: "(string, string list) gomap \<Rightarrow> (string \<times> string) res" where
  "extras m =
     (case extra_lookup m [PodUIDExtraKey, podUIDExtraKeyNew] of
        None \<Rightarrow> Inl (Detailf ErrInvalidToken ''no pod uid extra'')
      | Some podUID \<Rightarrow>
          (case extra_lookup m [PodNameExtraKey, podNameExtraKeyNew] of
             None \<Rightarrow> Inl (Detailf ErrInvalidToken ''no pod name extra'')
           | Some podName \<Rightarrow> Inr (podUID, podName)))"

record TokenReviewer =
  rv_Audience :: string
  rv_Namespace :: string
  rv_SAName :: string
  rv_Scopes :: "string list"
  rv_Bindings :: "BindingSource option"

definition reviewed_user :: "TokenReviewer \<Rightarrow> TokenReviewStatus \<Rightarrow> (string \<times> string) res" where
  "reviewed_user v st =
     (if \<not> tr_Authenticated st
      then Inl (Detailf ErrInvalidToken (if tr_Error st = '''' then ''token not authenticated'' else tr_Error st))
      else (case parseServiceAccount (tr_Username st) of
              Inl e \<Rightarrow> Inl e
            | Inr (ns, sa) \<Rightarrow>
                if ns \<noteq> rv_Namespace v then Inl (Detailf ErrInvalidToken (''namespace '' @ Quote ns @ '' is not an executor namespace''))
                else if sa \<noteq> rv_SAName v then Inl (Detailf ErrInvalidToken (''service account '' @ Quote sa @ '' may not execute jobs''))
                else Inr (ns, sa)))"

definition reviewed_identity :: "TokenReviewer \<Rightarrow> time \<Rightarrow> string \<Rightarrow> string \<Rightarrow> string \<Rightarrow> JobRunID \<Rightarrow> Identity" where
  "reviewed_identity v now ns sa podUID j =
     \<lparr>id_Audience = rv_Audience v, id_Namespace = ns, id_PodUID = podUID, id_JobRunID = j,
      id_Scopes = rv_Scopes v, id_TokenID = ''sa:'' @ sa @ '':'' @ podUID, id_IssuedAt = now, id_ExpiresAt = 0\<rparr>"

definition review_Verify :: "kube_api \<Rightarrow> TokenReviewer \<Rightarrow> time \<Rightarrow> string \<Rightarrow> Identity res" where
  "review_Verify K v now raw =
     (case rv_Bindings v of
        None \<Rightarrow> Inl (Errorf ''tokenreview: Audience, Namespace, SAName and Bindings are required'')
      | Some bind \<Rightarrow>
          if rv_Audience v = '''' \<or> rv_Namespace v = '''' \<or> rv_SAName v = ''''
          then Inl (Errorf ''tokenreview: Audience, Namespace, SAName and Bindings are required'')
          else (case kube_review K raw [rv_Audience v] of
                  Inl e \<Rightarrow> Inl (Detailf ErrInvalidToken (''review failed: '' @ Err_Error e))
                | Inr st \<Rightarrow>
                    (case reviewed_user v st of
                       Inl e \<Rightarrow> Inl e
                     | Inr (ns, sa) \<Rightarrow>
                         (case extras (tr_Extra st) of
                            Inl e \<Rightarrow> Inl e
                          | Inr (podUID, podName) \<Rightarrow>
                              (case bind ns podName podUID of
                                 Inl e \<Rightarrow> Inl (Detailf ErrInvalidToken (Err_Error e))
                               | Inr j \<Rightarrow> Inr (reviewed_identity v now ns sa podUID j))))))"

end
