(* ===== verification/Security_Properties.thy ===== *)
theory Security_Properties
  imports Security
begin

text \<open>
  Tokens round trip within their lifetime, a token id is not accepted twice within its
  window, and an identity verified by the API server belongs to the pod of its job.
\<close>

section \<open>Tokens\<close>

text \<open>The claims of an issued token: those asked for, with the issue time and the token id filled in when they were missing.\<close>

definition issued_claims :: "time \<Rightarrow> string \<Rightarrow> Identity \<Rightarrow> Identity" where
  "issued_claims now tid i =
     \<lparr>id_Audience = Audience, id_Namespace = id_Namespace i, id_PodUID = id_PodUID i, id_JobRunID = id_JobRunID i, id_Scopes = id_Scopes i,
      id_TokenID = (if id_TokenID i = '''' then tid else id_TokenID i),
      id_IssuedAt = (if id_IssuedAt i = 0 then now else id_IssuedAt i), id_ExpiresAt = id_ExpiresAt i\<rparr>"

lemma fill_claims_issued: "id_Audience i = Audience \<Longrightarrow> fill_claims now tid i = issued_claims now tid i"
  by (simp add: fill_claims_def issued_claims_def Let_def)

lemma Issue_signs:
  assumes "Issue T key now rng i = Inr raw"
  obtains tid where "sign T key (issued_claims now tid i) = Inr raw" "id_TokenID i = '''' \<longrightarrow> rng = Inr tid"
    "id_ExpiresAt i \<le> now + MaxTTL" "id_JobRunID i \<noteq> ''''" "id_Namespace i \<noteq> ''''" "id_PodUID i \<noteq> ''''"
  using assms by (auto simp: Issue_def fill_claims_issued split: if_splits sum.splits)

lemma local_Verify_signed:
  assumes "sign T key c = Inr raw" and "\<And>b. marshal_claims T c = Inr b \<Longrightarrow> unmarshal_claims T b = Inr c"
  shows "local_Verify T key t skew raw = check_claims t skew c"
  using assms splitToken_parts by (auto simp: sign_def local_Verify_def split: sum.splits)

text \<open>
  C19. A token of the issuer carries exactly the claims it was asked for, the expiry included, for a
  namespace, a pod and a job that are not empty; only a missing issue time and a missing
  token id are filled in, from the clock and the random source. It verifies under the issuer's
  key to exactly those claims while the clock of the verifier is before the expiry, which is at
  most an hour after the token was made, and not earlier than the issue time by more than the skew; from the expiry
  on it is refused as invalid.
\<close>

theorem issued_token_verifies:
  assumes "Issue T key now rng i = Inr raw"
    and "\<And>c b. marshal_claims T c = Inr b \<Longrightarrow> unmarshal_claims T b = Inr c"
  shows "\<exists>tid. (id_TokenID i = '''' \<longrightarrow> rng = Inr tid)
           \<and> id_Namespace i \<noteq> '''' \<and> id_PodUID i \<noteq> '''' \<and> id_JobRunID i \<noteq> '''' \<and> id_ExpiresAt i \<le> now + MaxTTL
           \<and> (\<forall>t skew. t < id_ExpiresAt i \<and> (if id_IssuedAt i = 0 then now else id_IssuedAt i) \<le> t + skew \<longrightarrow>
                local_Verify T key t skew raw = Inr
                  \<lparr>id_Audience = Audience, id_Namespace = id_Namespace i, id_PodUID = id_PodUID i, id_JobRunID = id_JobRunID i,
                   id_Scopes = id_Scopes i, id_TokenID = (if id_TokenID i = '''' then tid else id_TokenID i),
                   id_IssuedAt = (if id_IssuedAt i = 0 then now else id_IssuedAt i), id_ExpiresAt = id_ExpiresAt i\<rparr>)
           \<and> (\<forall>t skew. id_ExpiresAt i \<le> t \<longrightarrow> (\<exists>e. local_Verify T key t skew raw = Inl e \<and> errors_Is e ErrInvalidToken))"
proof -
  obtain tid where sg: "sign T key (issued_claims now tid i) = Inr raw" "id_TokenID i = '''' \<longrightarrow> rng = Inr tid"
      "id_ExpiresAt i \<le> now + MaxTTL" "id_JobRunID i \<noteq> ''''" "id_Namespace i \<noteq> ''''" "id_PodUID i \<noteq> ''''"
    using assms(1) by (rule Issue_signs)
  have "local_Verify T key t skew raw = check_claims t skew (issued_claims now tid i)" for t skew
    by (rule local_Verify_signed [OF sg(1) assms(2)])
  with sg(2-) show ?thesis
    by (intro exI [of _ tid]) (auto simp: check_claims_def issued_claims_def)
qed

definition demo_claims :: Identity where
  "demo_claims = \<lparr>id_Audience = Audience, id_Namespace = ''jobs'', id_PodUID = ''u1'', id_JobRunID = ''J1'',
     id_Scopes = [ScopePlanRead], id_TokenID = ''t1'', id_IssuedAt = 5, id_ExpiresAt = 100\<rparr>"

definition demo_tokens :: token_lib where
  "demo_tokens = \<lparr>marshal_claims = (\<lambda>c. if c = demo_claims then Inr ''claims'' else Inl (Errorf ''json'')),
     unmarshal_claims = (\<lambda>b. if b = ''claims'' then Inr demo_claims else Inl (Errorf ''json'')),
     hmac_sha256 = (\<lambda>k m. k @ m)\<rparr>"

lemma demo_Issue: "Issue demo_tokens ''key'' 7 (Inr ''r'') demo_claims = Inr (b64_encode ''claims'' @ ''.'' @ b64_encode ''keyclaims'')"
  by (simp add: Issue_def demo_claims_def demo_tokens_def fill_claims_def sign_def Audience_def MaxTTL_def)

theorem issued_token_verifies_witness:
  "local_Verify demo_tokens ''key'' 99 0 (b64_encode ''claims'' @ ''.'' @ b64_encode ''keyclaims'') = Inr demo_claims
   \<and> (\<exists>e. local_Verify demo_tokens ''key'' 100 0 (b64_encode ''claims'' @ ''.'' @ b64_encode ''keyclaims'') = Inl e \<and> errors_Is e ErrInvalidToken)"
proof -
  have m: "marshal_claims demo_tokens c = Inr b \<Longrightarrow> unmarshal_claims demo_tokens b = Inr c" for c b
    by (auto simp: demo_tokens_def split: if_splits)
  have d: "id_ExpiresAt demo_claims = 100" "id_IssuedAt demo_claims = 5" "id_TokenID demo_claims = ''t1''"
    "demo_claims = \<lparr>id_Audience = Audience, id_Namespace = id_Namespace demo_claims, id_PodUID = id_PodUID demo_claims, id_JobRunID = id_JobRunID demo_claims,
       id_Scopes = id_Scopes demo_claims, id_TokenID = ''t1'', id_IssuedAt = 5, id_ExpiresAt = 100\<rparr>"
    by (simp_all add: demo_claims_def)
  from issued_token_verifies [OF demo_Issue m] d show ?thesis by simp
qed

section \<open>Replay\<close>

text \<open>A sequence of calls, each with the time the clock showed.\<close>

fun claims :: "MemoryNonceCache \<Rightarrow> (time \<times> string) list \<Rightarrow> bool list" where
  "claims c [] = []"
| "claims c ((t, k) # r) = fst (Claim t k c) # claims (snd (Claim t k c)) r"

text \<open>A token that is remembered until \<^verbatim>\<open>exp\<close> stays so while the clock has not reached it.\<close>

definition remembered :: "string \<Rightarrow> time \<Rightarrow> MemoryNonceCache \<Rightarrow> bool" where
  "remembered k exp c \<longleftrightarrow> mget (nc_seen c) k = Some exp"

lemma mget_filter_live: "mget m k = Some exp \<Longrightarrow> now < exp \<Longrightarrow> mget (filter (\<lambda>(k, exp). now < exp) m) k = Some exp"
  by (induction m) (auto simp: mget_def split: if_splits)

lemma Claim_ttl [simp]: "nc_ttl (snd (Claim t k c)) = nc_ttl c"
  by (simp add: Claim_def evict_def Let_def)

lemma Claim_remembers: "fst (Claim t k c) \<Longrightarrow> remembered k (t + nc_ttl c) (snd (Claim t k c))"
  by (auto simp: Claim_def remembered_def Let_def go_map split: if_splits)

lemma Claim_refused: "remembered k exp c \<Longrightarrow> t < exp \<Longrightarrow> Claim t k c = (False, c)"
  by (simp add: Claim_def remembered_def)

lemma Claim_keeps: "remembered k exp c \<Longrightarrow> t < exp \<Longrightarrow> remembered k exp (snd (Claim t k' c))"
proof (cases "k' = k")
  case False
  assume "remembered k exp c" "t < exp"
  with False show ?thesis
    by (auto simp: Claim_def remembered_def evict_def Let_def go_map mget_filter_live split: if_splits)
qed (simp add: Claim_refused)

lemma claims_refused:
  assumes "remembered k exp c" "sorted (map fst ts)" "j < length ts" "snd (ts ! j) = k" "fst (ts ! j) < exp"
  shows "\<not> claims c ts ! j"
  using assms
proof (induction ts arbitrary: c j)
  case (Cons p ts)
  obtain t k' where p: "p = (t, k')" by (cases p)
  show ?case
  proof (cases j)
    case 0
    with Cons.prems p show ?thesis by (simp add: Claim_refused)
  next
    case (Suc n)
    then have "t \<le> fst (ts ! n)" using Cons.prems p by auto
    also have "\<dots> < exp" using Cons.prems Suc by simp
    finally have "remembered k exp (snd (Claim t k' c))" using Cons.prems(1) by (intro Claim_keeps)
    from Cons.IH [OF this] Cons.prems Suc p show ?thesis by (simp split: prod.splits)
  qed
qed simp

text \<open>
  C22. While the clock does not run backwards, two accepted uses of one token id are at least the
  cache's window apart, whatever other ids are claimed in between and whatever is evicted.
\<close>

theorem token_not_replayed:
  assumes "sorted (map fst ts)" "i < j" "j < length ts" "snd (ts ! i) = snd (ts ! j)"
    and "claims c ts ! i" "claims c ts ! j"
  shows "fst (ts ! i) + nc_ttl c \<le> fst (ts ! j)"
  using assms
proof (induction ts arbitrary: c i j)
  case (Cons p ts)
  obtain t k where p: "p = (t, k)" by (cases p)
  obtain n where j: "j = Suc n" using Cons.prems(2) by (cases j) auto
  show ?case
  proof (cases i)
    case 0
    then have "remembered k (t + nc_ttl c) (snd (Claim t k c))"
      using Cons.prems p by (intro Claim_remembers) (simp split: prod.splits)
    from claims_refused [OF this, of ts n] Cons.prems p j 0 have "\<not> fst (ts ! n) < t + nc_ttl c"
      by (auto split: prod.splits)
    with p j 0 show ?thesis by simp
  next
    case (Suc m)
    with Cons.IH [of m n "snd (Claim t k c)"] Cons.prems p j show ?thesis
      by (simp split: prod.splits)
  qed
qed simp

definition demo_cache :: MemoryNonceCache where
  "demo_cache = \<lparr>nc_seen = [], nc_ttl = 10\<rparr>"

theorem token_not_replayed_witness:
  "claims demo_cache [(1, ''a''), (2, ''a''), (3, ''b''), (11, ''a'')] = [True, False, True, True] \<and> (1 :: time) + 10 \<le> 11"
proof -
  have c: "claims demo_cache [(1, ''a''), (2, ''a''), (3, ''b''), (11, ''a'')] = [True, False, True, True]"
    by (simp add: demo_cache_def Claim_def mget_def mput_def)
  have "fst ([(1, ''a''), (2, ''a''), (3, ''b''), (11, ''a'')] ! 0) + nc_ttl demo_cache \<le> fst ([(1, ''a''), (2, ''a''), (3, ''b''), (11, ''a'')] ! 3)"
    by (rule token_not_replayed) (simp_all only: c, simp_all)
  with c show ?thesis by (simp add: demo_cache_def)
qed

section \<open>The API server's verdict\<close>

lemma Cut_joins: "Cut s x = (a, b, True) \<Longrightarrow> s = a @ x # b"
  by (induction s arbitrary: a) (auto simp: Cut_def split: list.splits if_splits)

lemma HasPrefix_rest: "HasPrefix s p \<Longrightarrow> s = p @ TrimPrefix s p"
  by (auto simp: go_string prefix_def)

lemma parseServiceAccount_name:
  "parseServiceAccount u = Inr (ns, sa) \<Longrightarrow> u = ''system:serviceaccount:'' @ ns @ '':'' @ sa"
  using Cut_joins [of "TrimPrefix u ''system:serviceaccount:''" "CHR '':''" ns sa] HasPrefix_rest [of u "''system:serviceaccount:''"]
  unfolding parseServiceAccount_def by (simp split: if_splits prod.splits)

lemma JobRunForPod_label:
  "JobRunForPod K label ns podName podUID = Inr j \<Longrightarrow>
   \<exists>pod. kube_pod K ns podName = Inr pod \<and> pm_UID pod = podUID \<and> mget (pm_Labels pod) label = Some j \<and> j \<noteq> ''''"
  by (auto simp: JobRunForPod_def split: sum.splits if_splits option.splits)

text \<open>A value of the review's extra fields: the one under the first of two keys that has exactly one.\<close>

definition extra_value :: "(string, string list) gomap \<Rightarrow> string \<Rightarrow> string \<Rightarrow> string \<Rightarrow> bool" where
  "extra_value m k k' v \<longleftrightarrow> mget m k = Some [v] \<or> (\<forall>u. mget m k \<noteq> Some [u]) \<and> mget m k' = Some [v]"

lemma extra_lookup_value: "extra_lookup m [k, k'] = Some v \<longleftrightarrow> extra_value m k k' v"
  by (auto simp: extra_value_def split: option.splits list.splits)

lemma extras_values:
  "extras m = Inr (podUID, podName) \<Longrightarrow>
   extra_value m PodUIDExtraKey podUIDExtraKeyNew podUID \<and> extra_value m PodNameExtraKey podNameExtraKeyNew podName"
  unfolding extras_def extra_lookup_value [symmetric] by (auto split: option.splits)

text \<open>
  C20. An identity accepted through the API server was authenticated for the verifier's audience as
  the executor service account of the executor namespace. The pod it is bound to is the one
  the review of this token names in its extra fields, by name and by UID: that pod exists in
  the executor namespace with that UID, and the job of the identity is the one on its label.
  Its audience, namespace and scopes are the verifier's.
\<close>

theorem reviewed_identity_bound:
  assumes "review_Verify K (v\<lparr>rv_Bindings := Some (JobRunForPod K label)\<rparr>) now raw = Inr i"
  shows "\<exists>st podName pod. kube_review K raw [rv_Audience v] = Inr st \<and> tr_Authenticated st
           \<and> tr_Username st = ''system:serviceaccount:'' @ rv_Namespace v @ '':'' @ rv_SAName v
           \<and> extra_value (tr_Extra st) PodUIDExtraKey podUIDExtraKeyNew (id_PodUID i)
           \<and> extra_value (tr_Extra st) PodNameExtraKey podNameExtraKeyNew podName
           \<and> kube_pod K (rv_Namespace v) podName = Inr pod \<and> pm_UID pod = id_PodUID i
           \<and> mget (pm_Labels pod) label = Some (id_JobRunID i) \<and> id_JobRunID i \<noteq> ''''
           \<and> id_Audience i = rv_Audience v \<and> id_Namespace i = rv_Namespace v \<and> id_Scopes i = rv_Scopes v"
proof -
  obtain st ns sa podUID podName j where
      r: "kube_review K raw [rv_Audience v] = Inr st" "reviewed_user (v\<lparr>rv_Bindings := Some (JobRunForPod K label)\<rparr>) st = Inr (ns, sa)"
      "JobRunForPod K label ns podName podUID = Inr j" "extras (tr_Extra st) = Inr (podUID, podName)"
      "i = reviewed_identity (v\<lparr>rv_Bindings := Some (JobRunForPod K label)\<rparr>) now ns sa podUID j"
    using assms by (auto simp: review_Verify_def split: if_splits sum.splits)
  have u: "tr_Authenticated st" "ns = rv_Namespace v" "sa = rv_SAName v" "parseServiceAccount (tr_Username st) = Inr (ns, sa)"
    using r(2) by (auto simp: reviewed_user_def split: if_splits sum.splits)
  show ?thesis
    using r u JobRunForPod_label [OF r(3)] parseServiceAccount_name [OF u(4)] extras_values [OF r(4)]
    by (auto simp: reviewed_identity_def)
qed

definition demo_kube :: kube_api where
  "demo_kube = \<lparr>kube_review = (\<lambda>raw auds. Inr \<lparr>tr_Authenticated = True, tr_Error = '''', tr_Username = ''system:serviceaccount:jobs:exec'',
       tr_Extra = [(PodUIDExtraKey, [''u1'']), (PodNameExtraKey, [''p1''])]\<rparr>),
     kube_pod = (\<lambda>ns name. Inr \<lparr>pm_UID = ''u1'', pm_Labels = [(''jobrun'', ''J1'')]\<rparr>)\<rparr>"

definition demo_reviewer :: TokenReviewer where
  "demo_reviewer = \<lparr>rv_Audience = Audience, rv_Namespace = ''jobs'', rv_SAName = ''exec'', rv_Scopes = [ScopePlanRead], rv_Bindings = None\<rparr>"

theorem reviewed_identity_bound_witness:
  "\<exists>i pod. review_Verify demo_kube (demo_reviewer\<lparr>rv_Bindings := Some (JobRunForPod demo_kube ''jobrun'')\<rparr>) 9 ''raw'' = Inr i
     \<and> kube_pod demo_kube ''jobs'' ''p1'' = Inr pod \<and> pm_UID pod = ''u1'' \<and> id_PodUID i = ''u1'' \<and> id_JobRunID i = ''J1''"
proof -
  let ?v = "demo_reviewer\<lparr>rv_Bindings := Some (JobRunForPod demo_kube ''jobrun'')\<rparr>"
  have v: "review_Verify demo_kube ?v 9 ''raw'' = Inr (reviewed_identity ?v 9 ''jobs'' ''exec'' ''u1'' ''J1'')"
    by (simp add: review_Verify_def demo_kube_def demo_reviewer_def reviewed_user_def parseServiceAccount_def extras_def JobRunForPod_def
        Audience_def PodUIDExtraKey_def PodNameExtraKey_def podUIDExtraKeyNew_def podNameExtraKeyNew_def mget_def Cut_def TrimPrefix_def Contains_def
        HasPrefix_def)
  have e: "extra_value [(PodUIDExtraKey, [''u1'']), (PodNameExtraKey, [''p1''])] PodNameExtraKey podNameExtraKeyNew n \<longleftrightarrow> n = ''p1''" for n
    by (auto simp: extra_value_def mget_def PodUIDExtraKey_def PodNameExtraKey_def)
  from reviewed_identity_bound [OF v] v show ?thesis
    by (auto simp: reviewed_identity_def demo_reviewer_def demo_kube_def e)
qed

end
