(* ===== verification/Github_Events.thy ===== *)
theory Github_Events
  imports Store_Port Base64
begin

text \<open>
  The GitHub provider: webhook signatures and payloads (\<^verbatim>\<open>webhook.go\<close>), the webhook
  endpoint (\<^verbatim>\<open>webhook_handler.go\<close>) and action references and metadata (\<^verbatim>\<open>action.go\<close>).
  HMAC-SHA256 and the JSON and YAML decoders are parameters.
\<close>

section \<open>HTTP\<close>

text \<open>A response is \<^verbatim>\<open>http.Error\<close> with a message, or a JSON body.\<close>

datatype 'b response = http_Error nat string | writeJSON nat 'b

datatype jval = JStr string | JBool bool

fun status_code :: "'b response \<Rightarrow> nat" where
  "status_code (http_Error n m) = n"
| "status_code (writeJSON n b) = n"

section \<open>Signatures\<close>

definition VerifySignature :: "(bytes \<Rightarrow> bytes \<Rightarrow> bytes) \<Rightarrow> bytes \<Rightarrow> bytes \<Rightarrow> string \<Rightarrow> unit res" where
  "VerifySignature hmac secret body header =
     (if \<not> HasPrefix header ''sha256='' then Inl (Detailf ErrBadSignature (''missing '' @ Quote ''sha256='' @ '' prefix''))
      else case hex_decode (TrimPrefix header ''sha256='') of
             None \<Rightarrow> Inl (Detailf ErrBadSignature ''hex decode'')
           | Some got \<Rightarrow>
               if got \<noteq> hmac secret body then Inl (Detailf ErrBadSignature ''digest mismatch'') else Inr ())"

section \<open>Payloads\<close>

record pushPayload =
  pp_Ref :: string
  pp_After :: string
  pp_Deleted :: bool
  pp_RepositoryName :: string
  pp_OwnerLogin :: string
  pp_PusherName :: string

record PullRequestInfo =
  pi_Action :: string
  pi_Fork :: bool
  pi_BaseRef :: string
  pi_HeadRef :: string

record prPayload =
  pr_Action :: string
  pr_Number :: int
  pr_HeadRef :: string
  pr_HeadSHA :: string
  pr_HeadFork :: bool
  pr_HeadRepoName :: string
  pr_HeadOwnerLogin :: string
  pr_BaseRef :: string
  pr_BaseRepoName :: string
  pr_BaseOwnerLogin :: string

record checkRunPayload =
  cp_Action :: string
  cp_ExternalID :: string
  cp_HeadSHA :: string

record payload_json =
  json_push :: "bytes \<Rightarrow> pushPayload res"
  json_pull :: "bytes \<Rightarrow> prPayload res"
  json_check_run :: "bytes \<Rightarrow> checkRunPayload res"

definition isZeroSHA :: "string \<Rightarrow> bool" where
  "isZeroSHA s \<longleftrightarrow> list_all (\<lambda>r. r = CHR ''0'') s \<and> length s > 0"

definition DecodePush :: "payload_json \<Rightarrow> bytes \<Rightarrow> string \<Rightarrow> Event res" where
  "DecodePush J body deliveryID =
     (case json_push J body of
        Inl e \<Rightarrow> Inl (Detailf ErrMalformedPayload (Err_Error e))
      | Inr p \<Rightarrow>
          if pp_Deleted p \<or> isZeroSHA (pp_After p) then Inl ErrIgnoredPush
          else if pp_Ref p = '''' \<or> pp_After p = '''' \<or> pp_RepositoryName p = '''' \<or> pp_OwnerLogin p = ''''
            then Inl (Detailf ErrMalformedPayload ''push payload missing ref/after/repository'')
          else Inr \<lparr>ev_Provider = ''github'', ev_Name = ''push'', ev_DeliveryID = deliveryID,
                 ev_Repository = \<lparr>repo_Provider = ''github'', repo_Owner = pp_OwnerLogin p, repo_Name = pp_RepositoryName p\<rparr>,
                 ev_Ref = pp_Ref p, ev_SHA = pp_After p,
                 ev_Actor = (if pp_PusherName p = '''' then ''unknown'' else pp_PusherName p)\<rparr>)"

definition prRunActions :: "string list" where
  "prRunActions = [''opened'', ''synchronize'', ''reopened'']"

definition zero_PullRequestInfo :: PullRequestInfo where
  "zero_PullRequestInfo = \<lparr>pi_Action = '''', pi_Fork = False, pi_BaseRef = '''', pi_HeadRef = ''''\<rparr>"

text \<open>The information is returned beside the error, as the handler reads it for ignored actions.\<close>

definition DecodePull :: "payload_json \<Rightarrow> bytes \<Rightarrow> string \<Rightarrow> Event res \<times> PullRequestInfo" where
  "DecodePull J body deliveryID =
     (case json_pull J body of
        Inl e \<Rightarrow> (Inl (Detailf ErrMalformedPayload (Err_Error e)), zero_PullRequestInfo)
      | Inr p \<Rightarrow>
          if pr_Action p = ''''
          then (Inl (Detailf ErrMalformedPayload ''pull_request payload missing action''), zero_PullRequestInfo)
          else if pr_Action p \<notin> set prRunActions then (Inl ErrIgnoredPush, zero_PullRequestInfo\<lparr>pi_Action := pr_Action p\<rparr>)
          else if pr_HeadSHA p = '''' \<or> pr_HeadRepoName p = '''' \<or> pr_HeadOwnerLogin p = '''' \<or> pr_BaseRepoName p = ''''
          then (Inl (Detailf ErrMalformedPayload ''pull_request payload missing head/base fields''), zero_PullRequestInfo)
          else (Inr \<lparr>ev_Provider = ''github'', ev_Name = ''pull_request'', ev_DeliveryID = deliveryID,
                  ev_Repository = \<lparr>repo_Provider = ''github'', repo_Owner = pr_HeadOwnerLogin p, repo_Name = pr_HeadRepoName p\<rparr>,
                  ev_Ref = ''refs/heads/'' @ pr_HeadRef p, ev_SHA = pr_HeadSHA p, ev_Actor = pr_HeadOwnerLogin p\<rparr>,
                \<lparr>pi_Action = pr_Action p, pi_Fork = pr_HeadFork p, pi_BaseRef = pr_BaseRef p, pi_HeadRef = pr_HeadRef p\<rparr>))"

definition DecodeCheckRunRerequest :: "payload_json \<Rightarrow> bytes \<Rightarrow> JobRunID res" where
  "DecodeCheckRunRerequest J body =
     (case json_check_run J body of
        Inl e \<Rightarrow> Inl (Detailf ErrMalformedPayload (Err_Error e))
      | Inr p \<Rightarrow>
          if cp_Action p \<noteq> ''rerequested'' then Inl ErrIgnoredPush
          else if cp_ExternalID p = '''' then Inl (Detailf ErrMalformedPayload ''check_run missing external_id'')
          else Inr (cp_ExternalID p))"

section \<open>The webhook endpoint\<close>

definition MaxWebhookBody :: nat where
  "MaxWebhookBody = 10 * 2 ^ 20"

text \<open>A request: its method, what reading the body yields, and its headers, absent ones being empty.\<close>

record request =
  rq_Method :: string
  rq_Body :: "bytes res"
  rq_Header :: "(string, string) gomap"

definition Header_Get :: "request \<Rightarrow> string \<Rightarrow> string" where
  "Header_Get r k = (case mget (rq_Header r) k of Some v \<Rightarrow> v | None \<Rightarrow> '''')"

text \<open>The ports of the handler, over the state of the control plane behind them.\<close>

record 's WebhookHandler =
  wh_secret :: bytes
  wh_ingest :: "Delivery \<Rightarrow> ('s, RunID \<times> bool) op"
  wh_rerequest :: "(JobRunID \<Rightarrow> ('s, JobRunID) op) option"
  wh_json :: payload_json
  wh_hmac :: "bytes \<Rightarrow> bytes \<Rightarrow> bytes"

type_synonym webhook_response = "(string \<times> jval) list response"

definition ignored :: "string \<Rightarrow> webhook_response" where
  "ignored reason = writeJSON 200 [(''ignored'', JBool True), (''reason'', JStr reason)]"

definition ingest_event :: "'s WebhookHandler \<Rightarrow> Delivery \<Rightarrow> (string \<times> jval) list \<Rightarrow> 's \<Rightarrow> webhook_response \<times> 's" where
  "ingest_event h d extra s =
     (case wh_ingest h d s of
        (Inl e, s') \<Rightarrow> (http_Error 500 ''ingest failed'', s')
      | (Inr (runID, created), s') \<Rightarrow>
          if runID = '''' then (ignored ''no matching workflow'', s')
          else (writeJSON 200 ([(''runId'', JStr runID), (''created'', JBool created)] @ extra), s'))"

definition on_pull_request :: "'s WebhookHandler \<Rightarrow> DeliveryKey \<Rightarrow> bytes \<Rightarrow> 's \<Rightarrow> webhook_response \<times> 's" where
  "on_pull_request h key body s =
     (case DecodePull (wh_json h) body (dk_DeliveryID key) of
        (Inl err, info) \<Rightarrow>
          if errors_Is err ErrIgnoredPush then (ignored (''action '' @ pi_Action info), s)
          else (http_Error 400 ''malformed pull_request payload'', s)
      | (Inr ev, info) \<Rightarrow>
          ingest_event h \<lparr>d_Key = key, d_Event = ev, d_Payload = body\<rparr> [(''fork'', JBool (pi_Fork info))] s)"

definition on_push :: "'s WebhookHandler \<Rightarrow> DeliveryKey \<Rightarrow> bytes \<Rightarrow> 's \<Rightarrow> webhook_response \<times> 's" where
  "on_push h key body s =
     (case DecodePush (wh_json h) body (dk_DeliveryID key) of
        Inl err \<Rightarrow>
          if errors_Is err ErrIgnoredPush then (ignored ''branch deleted'', s)
          else (http_Error 400 ''malformed push payload'', s)
      | Inr ev \<Rightarrow> ingest_event h \<lparr>d_Key = key, d_Event = ev, d_Payload = body\<rparr> [] s)"

definition on_check_run :: "'s WebhookHandler \<Rightarrow> bytes \<Rightarrow> 's \<Rightarrow> webhook_response \<times> 's" where
  "on_check_run h body s =
     (case DecodeCheckRunRerequest (wh_json h) body of
        Inl err \<Rightarrow>
          if errors_Is err ErrIgnoredPush then (ignored ''action not rerequested'', s)
          else (http_Error 400 ''malformed check_run payload'', s)
      | Inr jobID \<Rightarrow>
          (case wh_rerequest h of
             None \<Rightarrow> (http_Error 501 ''rerequest not configured'', s)
           | Some rerequest \<Rightarrow>
               (case rerequest jobID s of
                  (Inl e, s') \<Rightarrow> (http_Error 500 ''rerequest failed'', s')
                | (Inr newID, s') \<Rightarrow> (writeJSON 200 [(''jobRunId'', JStr jobID), (''newJobRunId'', JStr newID)], s'))))"

definition ServeHTTP :: "'s WebhookHandler \<Rightarrow> request \<Rightarrow> 's \<Rightarrow> webhook_response \<times> 's" where
  "ServeHTTP h r s =
     (if rq_Method r \<noteq> ''POST'' then (http_Error 405 ''method not allowed'', s)
      else case rq_Body r of
        Inl e \<Rightarrow> (http_Error 400 ''read body'', s)
      | Inr full \<Rightarrow>
          (let body = take MaxWebhookBody full in
           case VerifySignature (wh_hmac h) (wh_secret h) body (Header_Get r ''X-Hub-Signature-256'') of
             Inl e \<Rightarrow> (http_Error 403 ''invalid signature'', s)
           | Inr _ \<Rightarrow>
               (let deliveryID = Header_Get r ''X-GitHub-Delivery''; event = Header_Get r ''X-GitHub-Event'';
                    key = \<lparr>dk_Provider = ''github'', dk_DeliveryID = deliveryID\<rparr> in
                if deliveryID = '''' then (http_Error 400 ''missing delivery id'', s)
                else if event = ''pull_request'' then on_pull_request h key body s
                else if event = ''push'' then on_push h key body s
                else if event = ''check_run'' then on_check_run h body s
                else (writeJSON 200 [(''ignored'', JBool True), (''event'', JStr event)], s))))"

section \<open>Actions\<close>

record CompositeActionStep =
  ca_Name :: string
  ca_Run :: string
  ca_Uses :: string
  ca_With :: "(string, string) gomap"

record ActionMeta =
  am_RunsUsing :: string
  am_Main :: string
  am_Inputs :: "string list"
  am_Steps :: "CompositeActionStep list"

text \<open>The index of the last occurrence of a byte.\<close>

fun LastIndex :: "string \<Rightarrow> char \<Rightarrow> nat option" where
  "LastIndex [] c = None"
| "LastIndex (x # xs) c =
     (case LastIndex xs c of Some i \<Rightarrow> Some (Suc i) | None \<Rightarrow> if x = c then Some 0 else None)"

definition uses_error :: "string \<Rightarrow> string \<Rightarrow> Err" where
  "uses_error uses form = Errorf (''uses '' @ Quote uses @ '' must be '' @ form)"

definition ParseUses :: "string \<Rightarrow> (string \<times> string \<times> string \<times> string) res" where
  "ParseUses raw =
     (let uses = TrimSpace raw in
      case LastIndex uses (CHR ''@'') of
        None \<Rightarrow> Inl (uses_error uses ''<owner>/<repo>[@<ref>]'')
      | Some i \<Rightarrow>
          (let ref = drop (Suc i) uses; parts = Split (take i uses) (CHR ''/'') in
           if ref = '''' then Inl (uses_error uses ''<owner>/<repo>@<ref>'')
           else case parts of
                  owner # repo # rest \<Rightarrow>
                    if owner = '''' \<or> repo = '''' then Inl (uses_error uses ''<owner>/<repo>[@<ref>]'')
                    else Inr (owner, repo, Join rest ''/'', ref)
                | _ \<Rightarrow> Inl (uses_error uses ''<owner>/<repo>[@<ref>]'')))"

text \<open>The decoded \<^verbatim>\<open>action.yml\<close>: the keys of its inputs and its \<^verbatim>\<open>runs\<close> section.\<close>

record raw_action =
  ra_Inputs :: "string list"
  ra_Using :: string
  ra_Main :: string
  ra_Steps :: "CompositeActionStep list"

definition parseActionMeta :: "(bytes \<Rightarrow> raw_action res) \<Rightarrow> bytes \<Rightarrow> ActionMeta res" where
  "parseActionMeta unmarshal data =
     (case unmarshal data of
        Inl e \<Rightarrow> Inl (Wrapf ''parse action.yml'' e)
      | Inr raw \<Rightarrow> Inr \<lparr>am_RunsUsing = ToLower (ra_Using raw), am_Main = ra_Main raw, am_Inputs = ra_Inputs raw, am_Steps = ra_Steps raw\<rparr>)"

definition trim_slashes :: "string \<Rightarrow> string" where
  "trim_slashes s = rev (dropWhile (\<lambda>c. c = CHR ''/'') (rev (dropWhile (\<lambda>c. c = CHR ''/'') s)))"

definition action_error :: "string \<Rightarrow> string \<Rightarrow> string \<Rightarrow> Err \<Rightarrow> Err" where
  "action_error owner repo ref e = Wrapf (''github action: '' @ owner @ ''/'' @ repo @ ''@'' @ ref) e"

definition FetchAction :: "(bytes \<Rightarrow> raw_action res) \<Rightarrow> (string \<Rightarrow> string \<Rightarrow> string \<Rightarrow> string \<Rightarrow> bytes res)
    \<Rightarrow> string \<Rightarrow> string \<Rightarrow> string \<Rightarrow> string \<Rightarrow> ActionMeta res" where
  "FetchAction unmarshal fetchFile owner repo ref subpath =
     (let at = (\<lambda>c. if subpath = '''' then c else trim_slashes subpath @ ''/'' @ c) in
      case fetchFile owner repo (at ''action.yml'') ref of
        Inr data \<Rightarrow> parseActionMeta unmarshal data
      | Inl _ \<Rightarrow>
          (case fetchFile owner repo (at ''action.yaml'') ref of
             Inr data \<Rightarrow> parseActionMeta unmarshal data
           | Inl e \<Rightarrow> Inl (action_error owner repo ref e)))"

end
