(* ===== verification/Github_Properties.thy ===== *)
theory Github_Properties
  imports Github_Events
begin

text \<open>The signature gate of the webhook endpoint and the splitting of action references.\<close>

section \<open>The webhook endpoint\<close>

definition signed :: "'s WebhookHandler \<Rightarrow> bytes \<Rightarrow> string \<Rightarrow> bool" where
  "signed h body header \<longleftrightarrow> (\<exists>x. header = ''sha256='' @ x \<and> hex_decode x = Some (wh_hmac h (wh_secret h) body))"

lemma VerifySignature_signed: "VerifySignature (wh_hmac h) (wh_secret h) body header = Inr () \<longleftrightarrow> signed h body header"
  unfolding VerifySignature_def signed_def
  by (auto simp: go_string prefix_def TrimPrefix_def split: option.splits)

text \<open>What a delivery of the endpoint looks like.\<close>

definition delivery_of :: "request \<Rightarrow> bytes \<Rightarrow> Event \<Rightarrow> Delivery" where
  "delivery_of r body ev =
     \<lparr>d_Key = \<lparr>dk_Provider = ''github'', dk_DeliveryID = Header_Get r ''X-GitHub-Delivery''\<rparr>, d_Event = ev, d_Payload = body\<rparr>"

definition event_of :: "'s WebhookHandler \<Rightarrow> request \<Rightarrow> bytes \<Rightarrow> Event \<Rightarrow> bool" where
  "event_of h r body ev \<longleftrightarrow>
     (Header_Get r ''X-GitHub-Event'' = ''push'' \<and> DecodePush (wh_json h) body (Header_Get r ''X-GitHub-Delivery'') = Inr ev)
     \<or> (Header_Get r ''X-GitHub-Event'' = ''pull_request''
        \<and> fst (DecodePull (wh_json h) body (Header_Get r ''X-GitHub-Delivery'')) = Inr ev)"

lemma ingest_event_state: "snd (ingest_event h d extra s) = snd (wh_ingest h d s)"
  by (auto simp: ingest_event_def split: prod.splits sum.splits)

lemma on_push_state: "snd (on_push h key body s) = s \<or> (\<exists>ev. DecodePush (wh_json h) body (dk_DeliveryID key) = Inr ev
    \<and> snd (on_push h key body s) = snd (wh_ingest h \<lparr>d_Key = key, d_Event = ev, d_Payload = body\<rparr> s))"
  by (auto simp: on_push_def ingest_event_state split: sum.splits)

lemma on_pull_request_state: "snd (on_pull_request h key body s) = s \<or> (\<exists>ev. fst (DecodePull (wh_json h) body (dk_DeliveryID key)) = Inr ev
    \<and> snd (on_pull_request h key body s) = snd (wh_ingest h \<lparr>d_Key = key, d_Event = ev, d_Payload = body\<rparr> s))"
  by (auto simp: on_pull_request_def ingest_event_state split: sum.splits prod.splits)

lemma on_check_run_state: "snd (on_check_run h body s) = s \<or> (\<exists>f j. wh_rerequest h = Some f \<and> DecodeCheckRunRerequest (wh_json h) body = Inr j
    \<and> snd (on_check_run h body s) = snd (f j s))"
  by (auto simp: on_check_run_def split: sum.splits option.splits prod.splits)

lemma ServeHTTP_accepted:
  assumes "snd (ServeHTTP h r s) \<noteq> s"
  obtains full where "rq_Method r = ''POST''" "rq_Body r = Inr full" "signed h (take MaxWebhookBody full) (Header_Get r ''X-Hub-Signature-256'')"
    "Header_Get r ''X-GitHub-Delivery'' \<noteq> ''''"
  using assms VerifySignature_signed unfolding ServeHTTP_def Let_def
  by (fastforce split: if_splits sum.splits)

lemma ServeHTTP_dispatch:
  assumes "snd (ServeHTTP h r s) \<noteq> s" "rq_Body r = Inr full"
  shows "snd (ServeHTTP h r s) \<in> snd ` {on_push h \<lparr>dk_Provider = ''github'', dk_DeliveryID = Header_Get r ''X-GitHub-Delivery''\<rparr> (take MaxWebhookBody full) s | x :: unit. Header_Get r ''X-GitHub-Event'' = ''push''}
     \<union> snd ` {on_pull_request h \<lparr>dk_Provider = ''github'', dk_DeliveryID = Header_Get r ''X-GitHub-Delivery''\<rparr> (take MaxWebhookBody full) s | x :: unit. Header_Get r ''X-GitHub-Event'' = ''pull_request''}
     \<union> snd ` {on_check_run h (take MaxWebhookBody full) s | x :: unit. Header_Get r ''X-GitHub-Event'' = ''check_run''}"
  using assms unfolding ServeHTTP_def Let_def by (auto split: if_splits sum.splits)

text \<open>
  C21. Whatever a request makes the endpoint change, it changes through one call of a port, and only
  for a POST whose body, read up to the limit, carries a valid signature under the webhook
  secret and whose delivery id is not empty. The delivery it ingests has that id as its key,
  the signed body as its payload and the event decoded from it.
\<close>

theorem webhook_signature_gate:
  assumes "snd (ServeHTTP h r s) \<noteq> s"
  shows "\<exists>full. rq_Method r = ''POST'' \<and> rq_Body r = Inr full
    \<and> signed h (take MaxWebhookBody full) (Header_Get r ''X-Hub-Signature-256'') \<and> Header_Get r ''X-GitHub-Delivery'' \<noteq> ''''
    \<and> ((\<exists>ev. event_of h r (take MaxWebhookBody full) ev
            \<and> snd (ServeHTTP h r s) = snd (wh_ingest h (delivery_of r (take MaxWebhookBody full) ev) s))
       \<or> (\<exists>f j. Header_Get r ''X-GitHub-Event'' = ''check_run'' \<and> wh_rerequest h = Some f
            \<and> DecodeCheckRunRerequest (wh_json h) (take MaxWebhookBody full) = Inr j \<and> snd (ServeHTTP h r s) = snd (f j s)))"
proof -
  obtain full where a: "rq_Method r = ''POST''" "rq_Body r = Inr full" "signed h (take MaxWebhookBody full) (Header_Get r ''X-Hub-Signature-256'')"
      "Header_Get r ''X-GitHub-Delivery'' \<noteq> ''''"
    using assms by (rule ServeHTTP_accepted)
  let ?b = "take MaxWebhookBody full" and ?k = "\<lparr>dk_Provider = ''github'', dk_DeliveryID = Header_Get r ''X-GitHub-Delivery''\<rparr>"
  have "(\<exists>ev. event_of h r ?b ev \<and> snd (ServeHTTP h r s) = snd (wh_ingest h (delivery_of r ?b ev) s))
     \<or> (\<exists>f j. Header_Get r ''X-GitHub-Event'' = ''check_run'' \<and> wh_rerequest h = Some f
            \<and> DecodeCheckRunRerequest (wh_json h) ?b = Inr j \<and> snd (ServeHTTP h r s) = snd (f j s))"
    using ServeHTTP_dispatch [OF assms a(2)] assms on_push_state [of h ?k ?b s] on_pull_request_state [of h ?k ?b s] on_check_run_state [of h ?b s]
    unfolding event_of_def delivery_of_def by auto
  with a show ?thesis by blast
qed

definition demo_handler :: "nat WebhookHandler" where
  "demo_handler = \<lparr>wh_secret = ''k'', wh_ingest = (\<lambda>d n. (Inr (''R1'', True), Suc n)), wh_rerequest = None,
     wh_json = \<lparr>json_push = (\<lambda>b. Inr \<lparr>pp_Ref = ''refs/heads/main'', pp_After = ''abc'', pp_Deleted = False, pp_RepositoryName = ''r'', pp_OwnerLogin = ''o'', pp_PusherName = ''''\<rparr>),
       json_pull = (\<lambda>b. Inl (Errorf ''json'')), json_check_run = (\<lambda>b. Inl (Errorf ''json''))\<rparr>,
     wh_hmac = (\<lambda>k b. k @ b)\<rparr>"

definition demo_request :: request where
  "demo_request = \<lparr>rq_Method = ''POST'', rq_Body = Inr ''b'',
     rq_Header = [(''X-Hub-Signature-256'', ''sha256='' @ hex_encode ''kb''), (''X-GitHub-Delivery'', ''d1''), (''X-GitHub-Event'', ''push'')]\<rparr>"

lemma demo_ServeHTTP: "ServeHTTP demo_handler demo_request 0 = (writeJSON 200 [(''runId'', JStr ''R1''), (''created'', JBool True)], 1)"
proof -
  have "MaxWebhookBody = Suc (MaxWebhookBody - 1)" by (simp add: MaxWebhookBody_def)
  then have t: "take MaxWebhookBody ''b'' = ''b''" by (metis take_Suc_Cons take_Nil)
  have "VerifySignature (\<lambda>k b. k @ b) ''k'' ''b'' (''sha256='' @ hex_encode ''kb'') = Inr ()"
    using VerifySignature_signed [of demo_handler "''b''"] hex_roundtrip [of "''kb''"]
    by (simp add: demo_handler_def signed_def)
  with t show ?thesis
    by (simp add: ServeHTTP_def Let_def demo_request_def demo_handler_def Header_Get_def mget_def on_push_def DecodePush_def isZeroSHA_def ingest_event_def)
qed

theorem webhook_signature_gate_witness:
  "\<exists>full. rq_Body demo_request = Inr full \<and> signed demo_handler (take MaxWebhookBody full) (Header_Get demo_request ''X-Hub-Signature-256'')"
proof -
  have "snd (ServeHTTP demo_handler demo_request 0) \<noteq> 0" by (simp add: demo_ServeHTTP)
  from webhook_signature_gate [OF this] show ?thesis by blast
qed

section \<open>Action references\<close>

lemma LastIndex_append: "c \<notin> set t \<Longrightarrow> LastIndex (s @ c # t) c = Some (length s)"
proof (induction s)
  case Nil
  have "LastIndex t c = None" using Nil by (induction t) auto
  then show ?case by simp
qed simp

end
