(* ===== verification/Secret_Cipher.thy ===== *)
theory Secret_Cipher
  imports Base64 "HOL-Library.Word"
begin

text \<open>
  Envelope encryption of stored secrets (\<^verbatim>\<open>internal/security/secret\<close>): keyrings, sealing,
  opening and rewrapping. AES-GCM is a parameter; the random source is the list of bytes it
  will still deliver. Key versions are 32-bit words.
\<close>

declare itoa.simps [simp del]

section \<open>Keyrings\<close>

record Key =
  key_Version :: "32 word"
  key_Material :: bytes

record StaticKeyring =
  kr_keys :: "(32 word, Key) gomap"
  kr_currentVer :: "32 word"

fun add_keys :: "Key list \<Rightarrow> (32 word, Key) gomap \<Rightarrow> (32 word, Key) gomap res" where
  "add_keys [] m = Inr m"
| "add_keys (k # ks) m =
     (if key_Version k = 0 then Inl (Errorf ''secret: key version 0 is reserved'')
      else if length (key_Material k) \<noteq> 32
      then Inl (Errorf (''secret: key '' @ itoa (unat (key_Version k)) @ '': material must be 32 bytes, got '' @ itoa (length (key_Material k))))
      else if mget m (key_Version k) \<noteq> None then Inl (Errorf (''secret: duplicate key version '' @ itoa (unat (key_Version k))))
      else add_keys ks (mput m (key_Version k) k))"

definition NewStaticKeyring :: "32 word \<Rightarrow> Key list \<Rightarrow> StaticKeyring res" where
  "NewStaticKeyring cur keys =
     (if length keys = 0 then Inl (Errorf ''secret: keyring needs at least one key'')
      else case add_keys keys [] of
             Inl e \<Rightarrow> Inl e
           | Inr m \<Rightarrow>
               if mget m cur = None then Inl (Errorf (''secret: current version '' @ itoa (unat cur) @ '' not among keys''))
               else Inr \<lparr>kr_keys = m, kr_currentVer = cur\<rparr>)"

text \<open>A missing map entry is the zero key.\<close>

definition Current :: "StaticKeyring \<Rightarrow> Key" where
  "Current r = (case mget (kr_keys r) (kr_currentVer r) of Some k \<Rightarrow> k | None \<Rightarrow> \<lparr>key_Version = 0, key_Material = ''''\<rparr>)"

definition ring_Key :: "StaticKeyring \<Rightarrow> 32 word \<Rightarrow> Key option" where
  "ring_Key r version = mget (kr_keys r) version"

definition file_material :: "bytes \<Rightarrow> bytes option" where
  "file_material data =
     (let s = TrimSpace data; hexed = (case hex_decode s of Some d \<Rightarrow> if length d = 32 then Some d else None | None \<Rightarrow> None) in
      if length s = 64 \<and> hexed \<noteq> None then hexed
      else if length data = 32 then Some data
      else if length data = 33 \<and> data ! 32 = CHR 0x0A then Some (take 32 data)
      else hexed)"

definition NewFileKeyring :: "string \<Rightarrow> bytes res \<Rightarrow> StaticKeyring res" where
  "NewFileKeyring path file =
     (case file of
        Inl e \<Rightarrow> Inl (Wrapf (''secret: read key file '' @ Quote path) e)
      | Inr data \<Rightarrow>
          (case file_material data of
             None \<Rightarrow> Inl (Errorf (''secret: key file '' @ Quote path @ '' must be 32 raw bytes or 64 hex chars, got '' @ itoa (length data) @ '' bytes''))
           | Some material \<Rightarrow> NewStaticKeyring 1 [\<lparr>key_Version = 1, key_Material = material\<rparr>]))"

section \<open>Sealing\<close>

record Sealed =
  sl_Nonce :: bytes
  sl_Ciphertext :: bytes
  sl_WrappedDEK :: bytes
  sl_MasterKeyVersion :: "32 word"

text \<open>AES-GCM under a key: sealing and opening with a nonce and additional data.\<close>

record gcm =
  gcm_Seal :: "bytes \<Rightarrow> bytes \<Rightarrow> bytes \<Rightarrow> bytes \<Rightarrow> bytes"
  gcm_Open :: "bytes \<Rightarrow> bytes \<Rightarrow> bytes \<Rightarrow> bytes \<Rightarrow> bytes res"

definition NonceSize :: nat where
  "NonceSize = 12"

text \<open>\<^verbatim>\<open>aes.NewCipher\<close> takes keys of 16, 24 or 32 bytes.\<close>

definition newGCM :: "bytes \<Rightarrow> bytes res" where
  "newGCM key =
     (if length key \<in> {16, 24, 32} then Inr key
      else Inl (Wrapf ''secret: init cipher'' (Errorf (''crypto/aes: invalid key size '' @ itoa (length key)))))"

definition ReadFull :: "nat \<Rightarrow> (bytes, bytes) op" where
  "ReadFull n rng =
     (if n \<le> length rng then (Inr (take n rng), drop n rng)
      else (Inl (Errorf (if rng = [] then ''EOF'' else ''unexpected EOF'')), []))"

text \<open>A failing read, with the message it is wrapped in.\<close>

definition read_or :: "string \<Rightarrow> nat \<Rightarrow> (bytes, bytes) op" where
  "read_or what n rng = (case ReadFull n rng of (Inl e, rng') \<Rightarrow> (Inl (Wrapf what e), rng') | (Inr b, rng') \<Rightarrow> (Inr b, rng'))"

definition wrap_key :: "gcm \<Rightarrow> Key \<Rightarrow> bytes \<Rightarrow> bytes \<Rightarrow> bytes \<Rightarrow> bytes \<Rightarrow> (bytes, Sealed) op" where
  "wrap_key G mk dek nonce ciphertext aad rng =
     (case newGCM (key_Material mk) of
        Inl e \<Rightarrow> (Inl e, rng)
      | Inr wrapKey \<Rightarrow>
          (case read_or ''secret: wrap nonce'' NonceSize rng of
             (Inl e, rng1) \<Rightarrow> (Inl e, rng1)
           | (Inr wrapNonce, rng1) \<Rightarrow>
               (Inr \<lparr>sl_Nonce = nonce, sl_Ciphertext = ciphertext, sl_WrappedDEK = wrapNonce @ gcm_Seal G wrapKey wrapNonce dek aad,
                  sl_MasterKeyVersion = key_Version mk\<rparr>, rng1)))"

definition Seal :: "gcm \<Rightarrow> StaticKeyring \<Rightarrow> bytes \<Rightarrow> bytes \<Rightarrow> (bytes, Sealed) op" where
  "Seal G ring plaintext aad rng =
     (case read_or ''secret: data key'' 32 rng of
        (Inl e, rng1) \<Rightarrow> (Inl e, rng1)
      | (Inr dek, rng1) \<Rightarrow>
          (case newGCM dek of
             Inl e \<Rightarrow> (Inl e, rng1)
           | Inr payloadKey \<Rightarrow>
               (case read_or ''secret: payload nonce'' NonceSize rng1 of
                  (Inl e, rng2) \<Rightarrow> (Inl e, rng2)
                | (Inr nonce, rng2) \<Rightarrow> wrap_key G (Current ring) dek nonce (gcm_Seal G payloadKey nonce plaintext aad) aad rng2)))"

definition open_payload :: "gcm \<Rightarrow> bytes \<Rightarrow> Sealed \<Rightarrow> bytes \<Rightarrow> bytes res" where
  "open_payload G dek s aad =
     (case newGCM dek of
        Inl e \<Rightarrow> Inl e
      | Inr payloadKey \<Rightarrow>
          if length (sl_Nonce s) \<noteq> NonceSize then Inl (Errorf ''secret: payload nonce size mismatch'')
          else (case gcm_Open G payloadKey (sl_Nonce s) (sl_Ciphertext s) aad of
                  Inl e \<Rightarrow> Inl (Wrapf ''secret: open payload'' e)
                | Inr plaintext \<Rightarrow> Inr plaintext))"

definition Open :: "gcm \<Rightarrow> StaticKeyring \<Rightarrow> Sealed \<Rightarrow> bytes \<Rightarrow> bytes res" where
  "Open G ring s aad =
     (case ring_Key ring (sl_MasterKeyVersion s) of
        None \<Rightarrow> Inl (Errorf (''secret: master key version '' @ itoa (unat (sl_MasterKeyVersion s)) @ '' not available''))
      | Some mk \<Rightarrow>
          (case newGCM (key_Material mk) of
             Inl e \<Rightarrow> Inl e
           | Inr wrapKey \<Rightarrow>
               if length (sl_WrappedDEK s) < NonceSize + 1 then Inl (Errorf ''secret: wrapped data key too short'')
               else (case gcm_Open G wrapKey (take NonceSize (sl_WrappedDEK s)) (drop NonceSize (sl_WrappedDEK s)) aad of
                       Inl e \<Rightarrow> Inl (Wrapf ''secret: unwrap data key'' e)
                     | Inr dek \<Rightarrow> open_payload G dek s aad)))"

definition Rewrap :: "gcm \<Rightarrow> StaticKeyring \<Rightarrow> Sealed \<Rightarrow> bytes \<Rightarrow> (bytes, Sealed) op" where
  "Rewrap G ring s aad rng =
     (case Open G ring s aad of
        Inl e \<Rightarrow> (Inl (Wrapf ''secret: rewrap'' e), rng)
      | Inr plaintext \<Rightarrow> Seal G ring plaintext aad rng)"

definition SecretAAD :: "string \<Rightarrow> string \<Rightarrow> bytes" where
  "SecretAAD scope name = ''forgelet-secret'' @ [CHR 0x00] @ scope @ [CHR 0x00] @ name"

section \<open>Round trips\<close>

text \<open>
  What the package documents of an AEAD: opening a sealed value with the same key, nonce and
  additional data gives the plaintext back, and a sealed value carries a tag.
\<close>

definition aead :: "gcm \<Rightarrow> bool" where
  "aead G \<longleftrightarrow> (\<forall>k n p a. gcm_Open G k n (gcm_Seal G k n p a) a = Inr p \<and> gcm_Seal G k n p a \<noteq> [])"

lemma read_or_length: "read_or m n rng = (Inr b, rng') \<Longrightarrow> length b = n"
  by (auto simp: read_or_def ReadFull_def split: if_splits)

lemma newGCM_key: "newGCM k = Inr x \<Longrightarrow> x = k"
  by (simp add: newGCM_def split: if_splits)

lemma Seal_shape:
  assumes "Seal G ring p aad rng = (Inr s, rng')"
  shows "\<exists>dek wn. newGCM dek = Inr dek \<and> length (sl_Nonce s) = NonceSize \<and> length wn = NonceSize
    \<and> newGCM (key_Material (Current ring)) = Inr (key_Material (Current ring))
    \<and> sl_Ciphertext s = gcm_Seal G dek (sl_Nonce s) p aad
    \<and> sl_WrappedDEK s = wn @ gcm_Seal G (key_Material (Current ring)) wn dek aad \<and> sl_MasterKeyVersion s = key_Version (Current ring)"
proof -
  obtain dek pk rng1 nonce rng2 wk wn where
    r: "newGCM dek = Inr pk" "read_or ''secret: payload nonce'' NonceSize rng1 = (Inr nonce, rng2)"
       "read_or ''secret: wrap nonce'' NonceSize rng2 = (Inr wn, rng')" "newGCM (key_Material (Current ring)) = Inr wk"
       "s = \<lparr>sl_Nonce = nonce, sl_Ciphertext = gcm_Seal G pk nonce p aad,
          sl_WrappedDEK = wn @ gcm_Seal G wk wn dek aad, sl_MasterKeyVersion = key_Version (Current ring)\<rparr>"
    using assms by (auto simp: Seal_def wrap_key_def split: prod.splits sum.splits)
  note k = newGCM_key [OF r(1)] newGCM_key [OF r(4)]
  have "newGCM dek = Inr dek \<and> length (sl_Nonce s) = NonceSize \<and> length wn = NonceSize
    \<and> newGCM (key_Material (Current ring)) = Inr (key_Material (Current ring))
    \<and> sl_Ciphertext s = gcm_Seal G dek (sl_Nonce s) p aad
    \<and> sl_WrappedDEK s = wn @ gcm_Seal G (key_Material (Current ring)) wn dek aad \<and> sl_MasterKeyVersion s = key_Version (Current ring)"
    using r k read_or_length [OF r(2)] read_or_length [OF r(3)] by simp
  then show ?thesis by blast
qed

definition ring_ok :: "(32 word, Key) gomap \<Rightarrow> bool" where
  "ring_ok m \<longleftrightarrow> (\<forall>v k. mget m v = Some k \<longrightarrow> key_Version k = v \<and> length (key_Material k) = 32)"

lemma ring_ok_mput: "ring_ok m \<Longrightarrow> length (key_Material k) = 32 \<Longrightarrow> ring_ok (mput m (key_Version k) k)"
  unfolding ring_ok_def by (metis mget_mput option.inject)

lemma add_keys_sound:
  assumes "add_keys ks m = Inr m'" "ring_ok m"
  shows "ring_ok m' \<and> (\<forall>k\<in>set ks. mget m' (key_Version k) = Some k) \<and> (\<forall>v k. mget m v = Some k \<longrightarrow> mget m' v = Some k)"
  using assms
proof (induction ks arbitrary: m)
  case (Cons k ks)
  have k: "add_keys ks (mput m (key_Version k) k) = Inr m'" "length (key_Material k) = 32" "mget m (key_Version k) = None"
    using Cons.prems(1) by (simp_all split: if_splits)
  note ih = Cons.IH [OF k(1) ring_ok_mput [OF Cons.prems(2) k(2)]]
  have "mget m' v = Some l" if "mget m v = Some l" for v l
    using that k(3) ih by (cases "v = key_Version k") simp_all
  moreover have "mget m' (key_Version k) = Some k" using ih by simp
  ultimately show ?case using ih by simp
qed simp

lemma keyring_keys:
  assumes "NewStaticKeyring cur keys = Inr ring"
  shows "\<forall>k\<in>set keys. ring_Key ring (key_Version k) = Some k" "key_Version (Current ring) = cur"
    "ring_Key ring cur = Some (Current ring)" "length (key_Material (Current ring)) = 32"
proof -
  obtain m where m: "add_keys keys [] = Inr m" "mget m cur \<noteq> None" "ring = \<lparr>kr_keys = m, kr_currentVer = cur\<rparr>"
    using assms by (auto simp: NewStaticKeyring_def split: if_splits sum.splits)
  have "ring_ok []" by (simp add: ring_ok_def)
  note k = add_keys_sound [OF m(1) this]
  obtain c where c: "mget m cur = Some c" using m(2) by blast
  then have "key_Version c = cur \<and> length (key_Material c) = 32" using k by (simp add: ring_ok_def)
  with c m(3) k show "\<forall>k\<in>set keys. ring_Key ring (key_Version k) = Some k" "key_Version (Current ring) = cur"
    "ring_Key ring cur = Some (Current ring)" "length (key_Material (Current ring)) = 32"
    by (simp_all add: ring_Key_def Current_def)
qed

lemma Open_sealed:
  assumes "aead G" "Seal G ring p aad rng = (Inr s, rng')" "ring_Key ring' (key_Version (Current ring)) = Some (Current ring)"
  shows "Open G ring' s aad = Inr p"
proof -
  let ?k = "key_Material (Current ring)"
  from Seal_shape [OF assms(2)] obtain dek wn where s: "newGCM dek = Inr dek" "length (sl_Nonce s) = NonceSize" "length wn = NonceSize"
    "newGCM ?k = Inr ?k" "sl_Ciphertext s = gcm_Seal G dek (sl_Nonce s) p aad"
    "sl_WrappedDEK s = wn @ gcm_Seal G ?k wn dek aad" "sl_MasterKeyVersion s = key_Version (Current ring)" by blast
  have "open_payload G dek s aad = Inr p" using s assms(1) by (simp add: open_payload_def aead_def)
  moreover have "gcm_Open G ?k wn (gcm_Seal G ?k wn dek aad) aad = Inr dek" "gcm_Seal G ?k wn dek aad \<noteq> []"
    using assms(1) by (simp_all add: aead_def)
  ultimately show ?thesis using s assms(3) by (cases "gcm_Seal G ?k wn dek aad") (simp_all add: Open_def)
qed

lemma Seal_returns:
  assumes "length (key_Material (Current ring)) = 32" "56 \<le> length rng"
  shows "\<exists>s rng'. Seal G ring p aad rng = (Inr s, rng')"
proof -
  have "read_or m n r = (Inr (take n r), drop n r)" if "n \<le> length r" for m n r
    using that by (simp add: read_or_def ReadFull_def)
  then have "read_or m 32 rng = (Inr (take 32 rng), drop 32 rng)" "read_or m NonceSize (drop 32 rng) = (Inr (take 12 (drop 32 rng)), drop 44 rng)"
    "read_or m NonceSize (drop 44 rng) = (Inr (take 12 (drop 44 rng)), drop 56 rng)" for m
    using assms(2) by (simp_all add: NonceSize_def)
  with assms show ?thesis by (simp add: Seal_def wrap_key_def newGCM_def)
qed

text \<open>
  C23. Rotating the master key loses no secret: a value sealed under one keyring opens to its
  plaintext under every later keyring that still holds the key it was sealed with, whatever
  is current there. Rewrapping it there, when the random source does not run dry, yields a
  value under the new current key that opens to the same plaintext even after the old key
  is gone.
\<close>

theorem rotation_keeps_secrets:
  assumes "aead G"
    and "NewStaticKeyring cur keys = Inr ring" "Seal G ring p aad rng = (Inr s, rng')"
    and "NewStaticKeyring cur2 keys2 = Inr ring2" "Current ring \<in> set keys2"
    and "NewStaticKeyring cur3 keys3 = Inr ring3" "Current ring2 \<in> set keys3"
    and "56 \<le> length rng2"
  shows "Open G ring2 s aad = Inr p
    \<and> (\<exists>s2 rng3. Rewrap G ring2 s aad rng2 = (Inr s2, rng3) \<and> sl_MasterKeyVersion s2 = cur2 \<and> Open G ring3 s2 aad = Inr p)"
proof -
  have o: "Open G ring2 s aad = Inr p"
    using Open_sealed [OF assms(1,3)] keyring_keys(1) [OF assms(4)] assms(5) by blast
  obtain s2 rng3 where s2: "Seal G ring2 p aad rng2 = (Inr s2, rng3)"
    using Seal_returns [OF keyring_keys(4) [OF assms(4)] assms(8)] by blast
  have "sl_MasterKeyVersion s2 = cur2" using keyring_keys(2) [OF assms(4)] Seal_shape [OF s2] by auto
  moreover have "Open G ring3 s2 aad = Inr p"
    using Open_sealed [OF assms(1) s2] keyring_keys(1) [OF assms(6)] assms(7) by blast
  ultimately show ?thesis using o s2 by (simp add: Rewrap_def)
qed

text \<open>A transparent sealing that satisfies the law, and keyrings before, during and after a rotation.\<close>

definition demo_gcm :: gcm where
  "demo_gcm = \<lparr>gcm_Seal = (\<lambda>k n p a. CHR ''!'' # p), gcm_Open = (\<lambda>k n c a. case c of [] \<Rightarrow> Inl (Errorf ''cipher: message authentication failed'') | _ # p \<Rightarrow> Inr p)\<rparr>"

definition demo_mk :: "32 word \<Rightarrow> Key" where
  "demo_mk v = \<lparr>key_Version = v, key_Material = replicate 32 (CHR ''k'')\<rparr>"

definition demo_ring :: "32 word \<Rightarrow> Key list \<Rightarrow> StaticKeyring" where
  "demo_ring v ks = \<lparr>kr_keys = map (\<lambda>k. (key_Version k, k)) ks, kr_currentVer = v\<rparr>"

lemma demo_rings:
  "NewStaticKeyring 1 [demo_mk 1] = Inr (demo_ring 1 [demo_mk 1])"
  "NewStaticKeyring 2 [demo_mk 1, demo_mk 2] = Inr (demo_ring 2 [demo_mk 1, demo_mk 2])"
  "NewStaticKeyring 2 [demo_mk 2] = Inr (demo_ring 2 [demo_mk 2])"
  by (simp_all add: NewStaticKeyring_def demo_mk_def demo_ring_def mget_def mput_def)

theorem rotation_keeps_secrets_witness:
  "\<exists>s rng'. Seal demo_gcm (demo_ring 1 [demo_mk 1]) ''hunter2'' (SecretAAD ''repository'' ''TOKEN'') (replicate 56 (CHR ''r'')) = (Inr s, rng')
     \<and> Open demo_gcm (demo_ring 2 [demo_mk 1, demo_mk 2]) s (SecretAAD ''repository'' ''TOKEN'') = Inr ''hunter2''"
proof -
  let ?a = "SecretAAD ''repository'' ''TOKEN''"
  have g: "aead demo_gcm" by (simp add: aead_def demo_gcm_def)
  have c: "Current (demo_ring 1 [demo_mk 1]) \<in> set [demo_mk 1, demo_mk 2]" "Current (demo_ring 2 [demo_mk 1, demo_mk 2]) \<in> set [demo_mk 2]"
    by (simp_all add: Current_def demo_ring_def demo_mk_def mget_def)
  obtain s rng' where s: "Seal demo_gcm (demo_ring 1 [demo_mk 1]) ''hunter2'' ?a (replicate 56 (CHR ''r'')) = (Inr s, rng')"
    using Seal_returns [OF keyring_keys(4) [OF demo_rings(1)], of "replicate 56 (CHR ''r'')"] length_replicate [of 56 "CHR ''r''"] by (metis order_refl)
  from rotation_keeps_secrets [OF g demo_rings(1) s demo_rings(2) c(1) demo_rings(3) c(2), of "replicate 56 (CHR ''r'')"] s
  show ?thesis by auto
qed

text \<open>The additional data tells scope and name apart as long as scopes have no zero byte.\<close>

lemma SecretAAD_inj:
  assumes "CHR 0x00 \<notin> set scope" "CHR 0x00 \<notin> set scope'" "SecretAAD scope name = SecretAAD scope' name'"
  shows "scope = scope' \<and> name = name'"
proof -
  have "scope @ CHR 0x00 # name = scope' @ CHR 0x00 # name'" using assms(3) by (simp add: SecretAAD_def)
  then have "Cut (scope @ CHR 0x00 # name) (CHR 0x00) = Cut (scope' @ CHR 0x00 # name') (CHR 0x00)" by simp
  with assms(1,2) show ?thesis by (simp add: Cut_sep)
qed

lemma SecretAAD_ambiguous: "SecretAAD ''a'' ([CHR ''b'', CHR 0x00, CHR ''c'']) = SecretAAD [CHR ''a'', CHR 0x00, CHR ''b''] ''c''"
  by (simp add: SecretAAD_def)

end
