(* ===== verification/Topo_Sort.thy ===== *)
theory Topo_Sort
  imports Compiler "HOL-Library.Multiset"
begin

text \<open>
  Correctness of the job ordering: it terminates, accepts exactly the workflows whose job
  identifiers are distinct and whose needs are known and acyclic, and then returns the jobs
  once each with every job after the ones it needs.
\<close>

section \<open>The validation passes\<close>

lemma index_jobs_Inr:
  "index_jobs js m = Inr m' \<Longrightarrow> distinct (map job_ID js)
     \<and> (\<forall>j \<in> set js. m (job_ID j) = None \<and> m' (job_ID j) = Some j) \<and> (\<forall>x. x \<notin> job_ID ` set js \<longrightarrow> m' x = m x)"
proof (induction js arbitrary: m)
  case (Cons j js)
  then have "m (job_ID j) = None" and r: "index_jobs js (m(job_ID j \<mapsto> j)) = Inr m'" by (auto split: if_splits)
  from Cons.IH [OF r] have ih: "distinct (map job_ID js)"
    "\<forall>k \<in> set js. (m(job_ID j \<mapsto> j)) (job_ID k) = None \<and> m' (job_ID k) = Some k"
    "\<forall>x. x \<notin> job_ID ` set js \<longrightarrow> m' x = (m(job_ID j \<mapsto> j)) x" by auto
  have nj: "job_ID j \<notin> job_ID ` set js" using ih(2) by force
  with ih \<open>m (job_ID j) = None\<close> show ?case by (auto split: if_splits)
qed simp

lemma index_jobs_total:
  "distinct (map job_ID js) \<Longrightarrow> \<forall>j \<in> set js. m (job_ID j) = None \<Longrightarrow> \<exists>m'. index_jobs js m = Inr m'"
proof (induction js arbitrary: m)
  case (Cons j js)
  have "\<exists>m'. index_jobs js (m(job_ID j \<mapsto> j)) = Inr m'"
    by (rule Cons.IH) (use Cons.prems in \<open>auto simp: image_iff\<close>)
  then show ?case using Cons.prems by simp
qed simp

lemma check_needs_None: "check_needs byID i ds = None \<longleftrightarrow> (\<forall>d \<in> set ds. byID d \<noteq> None)"
  by (induction ds) auto

lemma check_all_needs_None:
  "check_all_needs byID js = None \<longleftrightarrow> (\<forall>j \<in> set js. \<forall>d \<in> set (job_Needs j). byID d \<noteq> None)"
proof (induction js)
  case (Cons j js)
  then show ?case using check_needs_None [of byID "job_ID j" "job_Needs j"]
    by (cases "check_needs byID (job_ID j) (job_Needs j)") auto
qed simp

section \<open>The walk\<close>

text \<open>What the walk knows of the jobs: the index is exact and every need is known.\<close>

definition indexed :: "Job set \<Rightarrow> (string \<rightharpoonup> Job) \<Rightarrow> bool" where
  "indexed J byID \<longleftrightarrow> finite J \<and> (\<forall>j \<in> J. byID (job_ID j) = Some j)
     \<and> (\<forall>x j. byID x = Some j \<longrightarrow> j \<in> J \<and> job_ID j = x) \<and> (\<forall>j \<in> J. \<forall>d \<in> set (job_Needs j). byID d \<noteq> None)"

text \<open>Every job comes after the ones it needs.\<close>

definition needs_first :: "Job list \<Rightarrow> bool" where
  "needs_first out \<longleftrightarrow> (\<forall>pre j post. out = pre @ j # post \<longrightarrow> set (job_Needs j) \<subseteq> job_ID ` set pre)"

lemma needs_first_Nil [simp]: "needs_first []"
  by (simp add: needs_first_def)

lemma needs_first_snoc:
  assumes "needs_first out" "set (job_Needs j) \<subseteq> job_ID ` set out"
  shows "needs_first (out @ [j])"
  unfolding needs_first_def
proof (intro allI impI)
  fix pre k post assume "out @ [j] = pre @ k # post"
  then consider "pre = out" "k = j" | post' where "out = pre @ k # post'"
    by (cases post rule: rev_cases) auto
  then show "set (job_Needs k) \<subseteq> job_ID ` set pre"
    using assms by cases (auto simp: needs_first_def)
qed

definition walk_inv :: "Job set \<Rightarrow> walk \<Rightarrow> bool" where
  "walk_inv J acc \<longleftrightarrow> (\<forall>x. fst acc x \<le> 2) \<and> set (snd acc) = {j \<in> J. fst acc (job_ID j) = 2}
     \<and> distinct (snd acc) \<and> needs_first (snd acc)"

text \<open>A walk never forgets: what is visited stays as it is, the rest stays or becomes done.\<close>

definition seen :: "walk \<Rightarrow> string \<Rightarrow> bool" where
  "seen acc x \<longleftrightarrow> fst acc x = 1 \<or> fst acc x = 2"

definition walk_mono :: "walk \<Rightarrow> walk \<Rightarrow> bool" where
  "walk_mono acc acc' \<longleftrightarrow> (\<forall>x. fst acc' x = fst acc x \<or> \<not> seen acc x \<and> fst acc' x = 2)"

lemma walk_mono_refl [simp]: "walk_mono acc acc"
  by (simp add: walk_mono_def)

lemma walk_mono_trans: "walk_mono a b \<Longrightarrow> walk_mono b c \<Longrightarrow> walk_mono a c"
  unfolding walk_mono_def seen_def by metis

lemma walk_mono_open: "walk_mono acc acc' \<Longrightarrow> fst acc' x = 1 \<Longrightarrow> fst acc x = 1"
  unfolding walk_mono_def seen_def by (metis num.distinct(1) numeral_eq_one_iff)

lemma visit_Inr:
  assumes "visit n byID j acc = Some (Inr acc')"
  obtains "fst acc (job_ID j) = 2" "acc' = acc"
  | m st out where "n = Suc m" "\<not> seen acc (job_ID j)"
      "visit_needs m byID (job_Needs j) ((fst acc)(job_ID j := 1), snd acc) = Some (Inr (st, out))"
      "acc' = (st(job_ID j := 2), out @ [j])"
  using assms
  by (cases n; cases acc) (auto simp: seen_def split: if_splits option.splits sum.splits prod.splits)

lemma visit_needs_Inr:
  assumes "visit_needs n byID (dep # deps) acc = Some (Inr acc')"
  obtains d acc1 where "byID dep = Some d" "visit n byID d acc = Some (Inr acc1)" "visit_needs n byID deps acc1 = Some (Inr acc')"
  using assms by (auto split: option.splits sum.splits)

text \<open>Induction over the depth: a visit rests on the needs one level down, the needs on visits of their level.\<close>

lemma walk_induct [case_names zero visit needs]:
  assumes "\<And>j. V 0 j" "\<And>n j. (\<And>ds. N n ds) \<Longrightarrow> V (Suc n) j" "\<And>n ds. (\<And>j. V n j) \<Longrightarrow> N n ds"
  shows "V n j \<and> N n ds"
proof -
  have "\<forall>j. V n j" by (induction n) (use assms in blast)+
  with assms(3) show ?thesis by blast
qed

lemma visit_mono_aux:
  "(\<forall>acc acc'. visit n byID j acc = Some (Inr acc') \<longrightarrow> walk_mono acc acc')
   \<and> (\<forall>acc acc'. visit_needs n byID ds acc = Some (Inr acc') \<longrightarrow> walk_mono acc acc')"
proof (rule walk_induct [where V = "\<lambda>n j. \<forall>acc acc'. visit n byID j acc = Some (Inr acc') \<longrightarrow> walk_mono acc acc'"
      and N = "\<lambda>n ds. \<forall>acc acc'. visit_needs n byID ds acc = Some (Inr acc') \<longrightarrow> walk_mono acc acc'"])
  fix n j assume ih: "\<And>ds. \<forall>acc acc'. visit_needs n byID ds acc = Some (Inr acc') \<longrightarrow> walk_mono acc acc'"
  show "\<forall>acc acc'. visit (Suc n) byID j acc = Some (Inr acc') \<longrightarrow> walk_mono acc acc'"
  proof (intro allI impI)
    fix acc acc' assume "visit (Suc n) byID j acc = Some (Inr acc')"
    then show "walk_mono acc acc'"
    proof (cases rule: visit_Inr)
      case (2 m st out)
      with ih have "walk_mono ((fst acc)(job_ID j := 1), snd acc) (st, out)" by blast
      with 2 show ?thesis by (auto simp: walk_mono_def seen_def split: if_splits)
    qed simp
  qed
next
  fix n ds assume ih: "\<And>j. \<forall>acc acc'. visit n byID j acc = Some (Inr acc') \<longrightarrow> walk_mono acc acc'"
  show "\<forall>acc acc'. visit_needs n byID ds acc = Some (Inr acc') \<longrightarrow> walk_mono acc acc'"
  proof (induction ds)
    case (Cons d ds)
    with ih show ?case by (blast elim: visit_needs_Inr intro: walk_mono_trans)
  qed simp
qed simp

lemmas visit_mono = visit_mono_aux [THEN conjunct1, rule_format] visit_mono_aux [THEN conjunct2, rule_format]

text \<open>A finished visit has put the job and everything it needs into the output, in order.\<close>

lemma walk_inv_enter:
  assumes "walk_inv J acc" "\<not> seen acc x"
  shows "walk_inv J ((fst acc)(x := 1), snd acc)"
  using assms by (auto simp: walk_inv_def seen_def)

lemma walk_inv_leave:
  assumes "walk_inv J (st, out)" "indexed J byID" "j \<in> J" "st (job_ID j) = 1" "\<forall>d \<in> set (job_Needs j). st d = 2"
  shows "walk_inv J (st(job_ID j := 2), out @ [j])"
proof -
  have id: "k = j" if "k \<in> J" "job_ID k = job_ID j" for k
    using that assms(2,3) unfolding indexed_def by (metis option.inject)
  have "set (job_Needs j) \<subseteq> job_ID ` set out"
  proof
    fix d assume d: "d \<in> set (job_Needs j)"
    with assms(2,3) obtain k where "byID d = Some k" unfolding indexed_def by blast
    with assms(2) have "k \<in> J" "job_ID k = d" by (auto simp: indexed_def)
    with d assms(1,5) show "d \<in> job_ID ` set out" by (auto simp: walk_inv_def)
  qed
  then have "needs_first (out @ [j])" using assms(1) by (simp add: walk_inv_def needs_first_snoc)
  moreover have "j \<notin> set out" using assms(1,4) by (auto simp: walk_inv_def)
  ultimately show ?thesis
    using assms(1,3,4) id by (auto simp: walk_inv_def)
qed

lemma visit_inv_aux:
  assumes ix: "indexed J byID"
  shows "(\<forall>acc acc'. j \<in> J \<longrightarrow> walk_inv J acc \<longrightarrow> visit n byID j acc = Some (Inr acc') \<longrightarrow>
      walk_inv J acc' \<and> fst acc' (job_ID j) = 2)
   \<and> (\<forall>acc acc'. walk_inv J acc \<longrightarrow> visit_needs n byID ds acc = Some (Inr acc') \<longrightarrow>
      walk_inv J acc' \<and> (\<forall>d \<in> set ds. fst acc' d = 2))"
proof (rule walk_induct [where V = "\<lambda>n j. \<forall>acc acc'. j \<in> J \<longrightarrow> walk_inv J acc \<longrightarrow> visit n byID j acc = Some (Inr acc') \<longrightarrow>
      walk_inv J acc' \<and> fst acc' (job_ID j) = 2"
      and N = "\<lambda>n ds. \<forall>acc acc'. walk_inv J acc \<longrightarrow> visit_needs n byID ds acc = Some (Inr acc') \<longrightarrow>
      walk_inv J acc' \<and> (\<forall>d \<in> set ds. fst acc' d = 2)"])
  fix n j assume ih: "\<And>ds. \<forall>acc acc'. walk_inv J acc \<longrightarrow> visit_needs n byID ds acc = Some (Inr acc') \<longrightarrow>
      walk_inv J acc' \<and> (\<forall>d \<in> set ds. fst acc' d = 2)"
  show "\<forall>acc acc'. j \<in> J \<longrightarrow> walk_inv J acc \<longrightarrow> visit (Suc n) byID j acc = Some (Inr acc') \<longrightarrow>
      walk_inv J acc' \<and> fst acc' (job_ID j) = 2"
  proof (intro allI impI)
    fix acc acc' assume j: "j \<in> J" and inv: "walk_inv J acc" and v: "visit (Suc n) byID j acc = Some (Inr acc')"
    from v show "walk_inv J acc' \<and> fst acc' (job_ID j) = 2"
    proof (cases rule: visit_Inr)
      case 1
      with inv show ?thesis by simp
    next
      case (2 m st out)
      then have r: "visit_needs n byID (job_Needs j) ((fst acc)(job_ID j := 1), snd acc) = Some (Inr (st, out))" by simp
      with ih walk_inv_enter [OF inv 2(2)] have "walk_inv J (st, out)" "\<forall>d \<in> set (job_Needs j). st d = 2" by fastforce+
      moreover have "st (job_ID j) = 1" using visit_mono(2) [OF r] by (auto simp: walk_mono_def seen_def split: if_splits)
      ultimately show ?thesis using walk_inv_leave [OF _ ix j] 2(4) by simp
    qed
  qed
next
  fix n ds assume ih: "\<And>j. \<forall>acc acc'. j \<in> J \<longrightarrow> walk_inv J acc \<longrightarrow> visit n byID j acc = Some (Inr acc') \<longrightarrow>
      walk_inv J acc' \<and> fst acc' (job_ID j) = 2"
  show "\<forall>acc acc'. walk_inv J acc \<longrightarrow> visit_needs n byID ds acc = Some (Inr acc') \<longrightarrow>
      walk_inv J acc' \<and> (\<forall>d \<in> set ds. fst acc' d = 2)"
  proof (induction ds)
    case (Cons d ds)
    show ?case
    proof (intro allI impI)
      fix acc acc' assume inv: "walk_inv J acc" and v: "visit_needs n byID (d # ds) acc = Some (Inr acc')"
      from v obtain k acc1 where k: "byID d = Some k" "visit n byID k acc = Some (Inr acc1)" "visit_needs n byID ds acc1 = Some (Inr acc')"
        by (rule visit_needs_Inr)
      then have kJ: "k \<in> J" "job_ID k = d" using ix by (auto simp: indexed_def)
      with ih k(2) inv have 1: "walk_inv J acc1" "fst acc1 d = 2" by blast+
      with Cons k(3) have "walk_inv J acc'" "\<forall>d \<in> set ds. fst acc' d = 2" by blast+
      moreover have "fst acc' d = 2" using visit_mono(2) [OF k(3)] 1(2) unfolding walk_mono_def by metis
      ultimately show "walk_inv J acc' \<and> (\<forall>d \<in> set (d # ds). fst acc' d = 2)" by simp
    qed
  qed simp
qed simp

lemmas visit_inv = visit_inv_aux [THEN conjunct1, rule_format]

section \<open>Enough depth\<close>

definition unseen :: "Job set \<Rightarrow> walk \<Rightarrow> string set" where
  "unseen J acc = {x \<in> job_ID ` J. \<not> seen acc x}"

lemma unseen_mono: "walk_mono acc acc' \<Longrightarrow> unseen J acc' \<subseteq> unseen J acc"
  unfolding unseen_def walk_mono_def seen_def by force

lemma visit_fuel_aux:
  assumes ix: "indexed J byID"
  shows "(\<forall>acc. j \<in> J \<longrightarrow> card (unseen J acc) < n \<longrightarrow> visit n byID j acc \<noteq> None)
   \<and> (\<forall>acc. card (unseen J acc) < n \<longrightarrow> visit_needs n byID ds acc \<noteq> None)"
proof (rule walk_induct [where V = "\<lambda>n j. \<forall>acc. j \<in> J \<longrightarrow> card (unseen J acc) < n \<longrightarrow> visit n byID j acc \<noteq> None"
      and N = "\<lambda>n ds. \<forall>acc. card (unseen J acc) < n \<longrightarrow> visit_needs n byID ds acc \<noteq> None"])
  have fin: "finite (unseen J acc)" for acc using ix by (simp add: unseen_def indexed_def)
  fix n j assume ih: "\<And>ds. \<forall>acc. card (unseen J acc) < n \<longrightarrow> visit_needs n byID ds acc \<noteq> None"
  show "\<forall>acc. j \<in> J \<longrightarrow> card (unseen J acc) < Suc n \<longrightarrow> visit (Suc n) byID j acc \<noteq> None"
  proof (intro allI impI)
    fix acc :: walk assume j: "j \<in> J" and c: "card (unseen J acc) < Suc n"
    obtain st out where acc: "acc = (st, out)" by fastforce
    show "visit (Suc n) byID j acc \<noteq> None"
    proof (cases "seen acc (job_ID j)")
      case False
      let ?acc = "(st(job_ID j := 1), out)"
      have "unseen J ?acc \<subset> unseen J acc" using False j by (auto simp: unseen_def seen_def acc)
      then have "card (unseen J ?acc) < card (unseen J acc)" using fin psubset_card_mono by blast
      with c ih have "visit_needs n byID (job_Needs j) ?acc \<noteq> None" by simp
      then show ?thesis by (auto simp: acc split: sum.splits)
    qed (auto simp: acc seen_def)
  qed
next
  fix n ds assume ih: "\<And>j. \<forall>acc. j \<in> J \<longrightarrow> card (unseen J acc) < n \<longrightarrow> visit n byID j acc \<noteq> None"
  have fin: "finite (unseen J acc)" for acc using ix by (simp add: unseen_def indexed_def)
  show "\<forall>acc. card (unseen J acc) < n \<longrightarrow> visit_needs n byID ds acc \<noteq> None"
  proof (induction ds)
    case (Cons d ds)
    show ?case
    proof (intro allI impI)
      fix acc assume c: "card (unseen J acc) < n"
      show "visit_needs n byID (d # ds) acc \<noteq> None"
      proof (cases "byID d")
        case (Some k)
        with ix have "k \<in> J" by (auto simp: indexed_def)
        with ih c obtain r where r: "visit n byID k acc = Some r" by blast
        show ?thesis
        proof (cases r)
          case (Inr acc1)
          with r have "card (unseen J acc1) \<le> card (unseen J acc)"
            using unseen_mono visit_mono(1) card_mono fin by metis
          with Cons c have "visit_needs n byID ds acc1 \<noteq> None" by (meson le_less_trans)
          with Some r Inr show ?thesis by simp
        qed (use Some r in simp)
      qed simp
    qed
  qed simp
qed simp

lemmas visit_fuel = visit_fuel_aux [THEN conjunct1, rule_format]

section \<open>Acyclic needs are accepted\<close>

text \<open>A ranking in which every job stands above the ones it needs: what it means that there is no cycle.\<close>

definition ranked :: "(string \<Rightarrow> nat) \<Rightarrow> Job list \<Rightarrow> bool" where
  "ranked f jobs \<longleftrightarrow> (\<forall>j \<in> set jobs. \<forall>d \<in> set (job_Needs j). f d < f (job_ID j))"

definition clear :: "(string \<Rightarrow> nat) \<Rightarrow> walk \<Rightarrow> string \<Rightarrow> bool" where
  "clear f acc d \<longleftrightarrow> (\<forall>x. fst acc x = 1 \<longrightarrow> f d < f x)"

lemma clear_enter: "clear f (st, out) i \<Longrightarrow> f d < f i \<Longrightarrow> clear f (st(i := 1), out) d"
  by (auto simp: clear_def intro: less_trans)

lemma clear_mono: "walk_mono acc acc' \<Longrightarrow> clear f acc d \<Longrightarrow> clear f acc' d"
  using walk_mono_open unfolding clear_def by blast

lemma visit_ranked_step:
  assumes v: "visit (Suc n) byID j acc = Some r" and cl: "clear f acc (job_ID j)"
    and low: "\<forall>d \<in> set (job_Needs j). f d < f (job_ID j)"
    and needs: "\<And>acc r. \<forall>d \<in> set (job_Needs j). clear f acc d \<Longrightarrow> visit_needs n byID (job_Needs j) acc = Some r \<Longrightarrow> \<exists>acc'. r = Inr acc'"
  shows "\<exists>acc'. r = Inr acc'"
proof (cases acc)
  case acc: (Pair st out)
  have n1: "st (job_ID j) \<noteq> 1" using cl by (auto simp: acc clear_def)
  show ?thesis
  proof (cases "st (job_ID j) = 2")
    case False
    with v n1 obtain r' where r': "visit_needs n byID (job_Needs j) (st(job_ID j := 1), out) = Some r'"
      by (simp add: acc split: option.splits)
    have "\<forall>d \<in> set (job_Needs j). clear f (st(job_ID j := 1), out) d"
      using low clear_enter [OF cl [unfolded acc]] by blast
    from needs [OF this r'] obtain st' out' where "r' = Inr (st', out')" by (metis surj_pair)
    with v n1 False r' have "r = Inr (st'(job_ID j := 2), out' @ [j])" by (simp add: acc)
    then show ?thesis by blast
  qed (use v acc in auto)
qed

lemma visit_needs_ranked_step:
  assumes ix: "indexed (set jobs) byID"
    and one: "\<And>j acc r. j \<in> set jobs \<Longrightarrow> clear f acc (job_ID j) \<Longrightarrow> visit n byID j acc = Some r \<Longrightarrow> \<exists>acc'. r = Inr acc'"
  shows "\<forall>d \<in> set ds. byID d \<noteq> None \<and> clear f acc d \<Longrightarrow> visit_needs n byID ds acc = Some r \<Longrightarrow> \<exists>acc'. r = Inr acc'"
proof (induction ds arbitrary: acc)
  case (Cons d ds)
  then obtain k where k: "byID d = Some k" by auto
  with ix have kJ: "k \<in> set jobs" "job_ID k = d" unfolding indexed_def by blast+
  from Cons.prems(2) k obtain r1 where r1: "visit n byID k acc = Some r1" by (simp split: option.splits)
  have "clear f acc (job_ID k)" using Cons.prems(1) kJ(2) by simp
  from one [OF kJ(1) this r1] obtain acc1 where acc1: "r1 = Inr acc1" by blast
  with r1 have "walk_mono acc acc1" using visit_mono(1) by simp
  with Cons.prems(1) have "\<forall>d \<in> set ds. byID d \<noteq> None \<and> clear f acc1 d" using clear_mono by (meson list.set_intros(2))
  moreover have "visit_needs n byID ds acc1 = Some r" using Cons.prems(2) k r1 acc1 by simp
  ultimately show ?case by (rule Cons.IH)
qed auto

lemma visit_ranked:
  assumes ix: "indexed (set jobs) byID" and f: "ranked f jobs"
  shows "j \<in> set jobs \<Longrightarrow> clear f acc (job_ID j) \<Longrightarrow> visit n byID j acc = Some r \<Longrightarrow> \<exists>acc'. r = Inr acc'"
proof (induction n arbitrary: j acc r)
  case (Suc n)
  show ?case
  proof (rule visit_ranked_step [OF Suc.prems(3,2)])
    show "\<forall>d \<in> set (job_Needs j). f d < f (job_ID j)" using f Suc.prems(1) by (simp add: ranked_def)
    fix acc r assume "\<forall>d \<in> set (job_Needs j). clear f acc d" and v: "visit_needs n byID (job_Needs j) acc = Some r"
    then have "\<forall>d \<in> set (job_Needs j). byID d \<noteq> None \<and> clear f acc d" using ix Suc.prems(1) unfolding indexed_def by blast
    from visit_needs_ranked_step [OF ix Suc.IH this v] show "\<exists>acc'. r = Inr acc'" .
  qed
qed simp

section \<open>The whole sort\<close>

lemma visit_all_ok:
  assumes ix: "indexed J byID" and n: "card (job_ID ` J) < n"
  shows "set js \<subseteq> J \<Longrightarrow> walk_inv J acc \<Longrightarrow> \<exists>r. visit_all n byID js acc = Some r
    \<and> (\<forall>acc'. r = Inr acc' \<longrightarrow> walk_inv J acc' \<and> walk_mono acc acc' \<and> (\<forall>j \<in> set js. fst acc' (job_ID j) = 2))"
proof (induction js arbitrary: acc)
  case (Cons j js)
  have "card (unseen J acc) \<le> card (job_ID ` J)"
    using ix by (intro card_mono) (auto simp: unseen_def indexed_def)
  with n have "card (unseen J acc) < n" by simp
  with visit_fuel [OF ix] Cons.prems(1) obtain r where r: "visit n byID j acc = Some r" by fastforce
  show ?case
  proof (cases r)
    case (Inr acc1)
    with r have r1: "visit n byID j acc = Some (Inr acc1)" by simp
    have "j \<in> J" using Cons.prems(1) by simp
    from visit_inv [OF ix this Cons.prems(2) r1] visit_mono(1) [OF r1]
    have 1: "walk_inv J acc1" "fst acc1 (job_ID j) = 2" "walk_mono acc acc1" by blast+
    from Cons.IH [OF _ 1(1)] Cons.prems(1) obtain r' where r': "visit_all n byID js acc1 = Some r'"
      "\<forall>acc'. r' = Inr acc' \<longrightarrow> walk_inv J acc' \<and> walk_mono acc1 acc' \<and> (\<forall>j \<in> set js. fst acc' (job_ID j) = 2)" by auto
    have "visit_all n byID (j # js) acc = Some r'" using r1 r'(1) by simp
    moreover have "walk_inv J acc' \<and> walk_mono acc acc' \<and> (\<forall>j \<in> set (j # js). fst acc' (job_ID j) = 2)" if "r' = Inr acc'" for acc'
    proof -
      have "walk_inv J acc'" and m: "walk_mono acc1 acc'" and "\<forall>j \<in> set js. fst acc' (job_ID j) = 2" using r'(2) that by blast+
      moreover have "fst acc' (job_ID j) = 2" using m 1(2) unfolding walk_mono_def by metis
      ultimately show ?thesis using walk_mono_trans [OF 1(3) m] by simp
    qed
    ultimately show ?thesis by (intro exI [of _ r']) simp
  next
    case (Inl e)
    with r have "visit_all n byID (j # js) acc = Some (Inl e)" by simp
    then show ?thesis by (intro exI [of _ "Inl e"]) simp
  qed
next
  case (Nil acc)
  then show ?case by (intro exI [of _ "Inr acc"]) simp
qed

lemma visit_all_ranked:
  assumes ix: "indexed (set jobs) byID" and f: "ranked f jobs"
  shows "set js \<subseteq> set jobs \<Longrightarrow> \<forall>x. fst acc x \<noteq> 1 \<Longrightarrow> visit_all n byID js acc = Some r \<Longrightarrow> \<exists>acc'. r = Inr acc'"
proof (induction js arbitrary: acc)
  case (Cons j js)
  from Cons.prems(3) obtain r1 where r1: "visit n byID j acc = Some r1" by (auto split: option.splits)
  have "\<exists>acc1. r1 = Inr acc1" by (rule visit_ranked [OF ix f _ _ r1]) (use Cons.prems(1,2) in \<open>auto simp: clear_def\<close>)
  then obtain acc1 where "r1 = Inr acc1" by blast
  with r1 have "visit n byID j acc = Some (Inr acc1)" by simp
  then have "walk_mono acc acc1" by (rule visit_mono(1))
  then have "\<forall>x. fst acc1 x \<noteq> 1" using Cons.prems(2) walk_mono_open by blast
  with Cons.IH [of acc1] Cons.prems r1 \<open>r1 = Inr acc1\<close> show ?case by simp
qed auto

lemma indexed_jobs:
  assumes "index_jobs jobs Map.empty = Inr byID" "check_all_needs byID jobs = None"
  shows "indexed (set jobs) byID"
  unfolding indexed_def
proof (intro conjI allI ballI impI)
  note ix = index_jobs_Inr [OF assms(1)]
  show "finite (set jobs)" by simp
  show "byID (job_ID j) = Some j" if "j \<in> set jobs" for j using ix that by blast
  show "byID d \<noteq> None" if "j \<in> set jobs" "d \<in> set (job_Needs j)" for j d
    using assms(2) that by (simp add: check_all_needs_None)
  fix x j assume x: "byID x = Some j"
  with ix obtain k where "k \<in> set jobs" "x = job_ID k" by force
  with ix x show "j \<in> set jobs" "job_ID j = x" by (metis option.inject)+
qed

lemma index_jobs_dom:
  "index_jobs jobs Map.empty = Inr byID \<Longrightarrow> byID x = None \<longleftrightarrow> x \<notin> job_ID ` set jobs"
  using index_jobs_Inr [of jobs Map.empty byID] by force

text \<open>Why a workflow is refused.\<close>

definition orderable :: "Job list \<Rightarrow> bool" where
  "orderable jobs \<longleftrightarrow> distinct (map job_ID jobs) \<and> (\<forall>j \<in> set jobs. set (job_Needs j) \<subseteq> job_ID ` set jobs)
     \<and> (\<exists>f. ranked f jobs)"

lemma topoSort_walk:
  assumes ix: "index_jobs jobs Map.empty = Inr byID" and ck: "check_all_needs byID jobs = None"
  obtains r where "visit_all (Suc (length jobs)) byID jobs (\<lambda>_. 0, []) = Some r"
    "\<And>st out. r = Inr (st, out) \<Longrightarrow> mset out = mset jobs \<and> needs_first out"
proof -
  have i: "indexed (set jobs) byID" using indexed_jobs [OF assms] .
  have "card (job_ID ` set jobs) \<le> length jobs" using card_image_le card_length le_trans by blast
  then have c: "card (job_ID ` set jobs) < Suc (length jobs)" by simp
  have "walk_inv (set jobs) (\<lambda>_. 0, [])" by (simp add: walk_inv_def)
  from visit_all_ok [OF i c subset_refl this] obtain r
    where r: "visit_all (Suc (length jobs)) byID jobs (\<lambda>_. 0, []) = Some r"
      and ok: "\<forall>acc. r = Inr acc \<longrightarrow> walk_inv (set jobs) acc \<and> (\<forall>j \<in> set jobs. fst acc (job_ID j) = 2)" by blast
  have "mset out = mset jobs \<and> needs_first out" if "r = Inr (st, out)" for st out
  proof -
    have "set out = set jobs" "distinct out" "needs_first out" using ok that by (auto simp: walk_inv_def)
    moreover have "distinct jobs" using index_jobs_Inr [OF ix] by (simp add: distinct_map)
    ultimately show ?thesis by (simp add: set_eq_iff_mset_eq_distinct [symmetric])
  qed
  with r that show thesis by blast
qed

lemma needs_first_rank:
  assumes "needs_first out" "distinct (map job_ID out)"
  shows "\<exists>f. ranked f out"
  using assms
proof (induction out rule: rev_induct)
  case (snoc j out)
  have "needs_first out" using snoc.prems(1) by (auto simp: needs_first_def)
  with snoc obtain f where f: "ranked f out" by auto
  have j: "set (job_Needs j) \<subseteq> job_ID ` set out" using snoc.prems(1) by (auto simp: needs_first_def)
  have nj: "job_ID j \<notin> job_ID ` set out" using snoc.prems(2) by simp
  let ?g = "f(job_ID j := Suc (\<Sum>d \<in> set (job_Needs j). f d))"
  have needs: "d \<in> job_ID ` set out" if "k \<in> set out" "d \<in> set (job_Needs k)" for k d
  proof -
    from that(1) obtain pre post where "out = pre @ k # post" by (meson split_list)
    with \<open>needs_first out\<close> that(2) show ?thesis unfolding needs_first_def by force
  qed
  have "?g d < ?g (job_ID j)" if "d \<in> set (job_Needs j)" for d
    using that j nj member_le_sum [of d "set (job_Needs j)" f] by auto
  moreover have "?g d < ?g (job_ID k)" if "k \<in> set out" "d \<in> set (job_Needs k)" for k d
  proof -
    have "job_ID k \<noteq> job_ID j" "d \<noteq> job_ID j" using that(1) needs [OF that] nj by (metis imageI)+
    then show ?thesis using f that by (simp add: ranked_def)
  qed
  ultimately have "ranked ?g (out @ [j])" unfolding ranked_def by auto
  then show ?case by blast
qed (simp add: ranked_def)

lemma topoSort_cases:
  "\<exists>r. topoSort jobs = Some r \<and> (case r of Inr out \<Rightarrow> mset out = mset jobs \<and> needs_first out \<and> distinct (map job_ID jobs) | Inl _ \<Rightarrow> \<not> orderable jobs)"
proof (cases "index_jobs jobs Map.empty")
  case (Inl e)
  then have "\<not> distinct (map job_ID jobs)" using index_jobs_total [of jobs Map.empty] by force
  with Inl show ?thesis by (simp add: topoSort_def orderable_def)
next
  case ix: (Inr byID)
  show ?thesis
  proof (cases "check_all_needs byID jobs")
    case (Some e)
    then have "\<not> (\<forall>j \<in> set jobs. \<forall>d \<in> set (job_Needs j). byID d \<noteq> None)" using check_all_needs_None [of byID jobs] by simp
    then have "\<not> (\<forall>j \<in> set jobs. set (job_Needs j) \<subseteq> job_ID ` set jobs)" by (auto simp: index_jobs_dom [OF ix])
    with Some ix show ?thesis by (simp add: topoSort_def orderable_def)
  next
    case None
    obtain r where r: "visit_all (Suc (length jobs)) byID jobs (\<lambda>_. 0, []) = Some r"
      and ok: "\<And>st out. r = Inr (st, out) \<Longrightarrow> mset out = mset jobs \<and> needs_first out"
      using topoSort_walk [OF ix None] by blast
    show ?thesis
    proof (cases r)
      case (Inl e)
      then have "\<not> ranked f jobs" for f
        using visit_all_ranked [OF indexed_jobs [OF ix None] _ subset_refl _ r] by auto
      with ix None r Inl show ?thesis by (simp add: topoSort_def orderable_def)
    next
      case (Inr acc)
      obtain st out where "acc = (st, out)" by fastforce
      with ix None r Inr ok show ?thesis using index_jobs_Inr [OF ix] by (simp add: topoSort_def)
    qed
  qed
qed

text \<open>
  C11. The ordering of a workflow's jobs always returns, whatever the jobs: it refuses exactly the workflows that repeat
  a job identifier, need an unknown job or need one another in a circle (no ranking puts every job above its needs);
  otherwise it returns each job exactly once, with every job after all the jobs it needs.
\<close>

theorem topo_sort_correct:
  "\<exists>r. topoSort jobs = Some r
     \<and> (case r of
          Inr out \<Rightarrow> mset out = mset jobs \<and> needs_first out \<and> orderable jobs
        | Inl _ \<Rightarrow> \<not> orderable jobs)"
proof -
  from topoSort_cases obtain r where r: "topoSort jobs = Some r"
    "case r of Inr out \<Rightarrow> mset out = mset jobs \<and> needs_first out \<and> distinct (map job_ID jobs) | Inl _ \<Rightarrow> \<not> orderable jobs" by blast
  have "orderable jobs" if "mset out = mset jobs" "needs_first out" "distinct (map job_ID jobs)" for out
  proof -
    have s: "set out = set jobs" using that(1) mset_eq_setD by blast
    have "distinct (map job_ID out)" using that(1,3) by (metis mset_map mset_eq_imp_distinct_iff)
    from needs_first_rank [OF that(2) this] s have "\<exists>f. ranked f jobs" by (simp add: ranked_def)
    moreover have "set (job_Needs j) \<subseteq> job_ID ` set jobs" if "j \<in> set jobs" for j
    proof -
      from that s obtain pre post where "out = pre @ j # post" by (metis split_list)
      with \<open>needs_first out\<close> have "set (job_Needs j) \<subseteq> job_ID ` set pre" by (simp add: needs_first_def)
      then show ?thesis using \<open>out = pre @ j # post\<close> s by auto
    qed
    ultimately show ?thesis using that(3) by (simp add: orderable_def)
  qed
  with r show ?thesis by (auto split: sum.splits)
qed

end
