(* ===== verification/Syntax_Properties.thy ===== *)
theory Syntax_Properties
  imports Workflow_Syntax
begin

text \<open>
  What the workflow parser accepts and what it returns: a declarative description of the
  supported subset of YAML trees, the invariants of every parsed workflow, and a round trip
  through a printer of workflow trees.
\<close>

section \<open>The supported subset\<close>

definition ok_scalar :: "yamlNode \<Rightarrow> bool" where
  "ok_scalar n \<longleftrightarrow> yn_Kind n = ScalarNode \<and> yn_Tag n \<notin> {''!!int'', ''!!bool'', ''!!float''}"

definition ok_condition :: "yamlNode \<Rightarrow> bool" where
  "ok_condition n \<longleftrightarrow> yn_Tag n = ''!!bool'' \<or> ok_scalar n"

definition ok_seq :: "yamlNode \<Rightarrow> bool" where
  "ok_seq n \<longleftrightarrow> yn_Kind n = SequenceNode \<and> list_all ok_scalar (yn_Content n)"

definition ok_needs :: "yamlNode \<Rightarrow> bool" where
  "ok_needs n \<longleftrightarrow> ok_scalar n \<or> ok_seq n"

text \<open>A mapping whose keys are of a list, each with a value of the right shape.\<close>

definition ok_fields :: "(string \<rightharpoonup> (yamlNode \<Rightarrow> bool)) \<Rightarrow> yamlNode \<Rightarrow> bool" where
  "ok_fields shape n \<longleftrightarrow> yn_Kind n = MappingNode
     \<and> list_all (\<lambda>(k, v). case shape (yn_Value k) of None \<Rightarrow> False | Some ok \<Rightarrow> ok v) (pairs_of (yn_Content n))"

definition ok_env :: "yamlNode \<Rightarrow> bool" where
  "ok_env = ok_fields (\<lambda>_. Some ok_scalar)"

definition ok_push :: "yamlNode \<Rightarrow> bool" where
  "ok_push n \<longleftrightarrow> yn_Kind n = ScalarNode \<and> (yn_Tag n = ''!!null'' \<or> yn_Value n = '''')
     \<or> ok_fields [''branches'' \<mapsto> ok_seq, ''branches-ignore'' \<mapsto> ok_seq] n"

definition ok_schedule :: "yamlNode \<Rightarrow> bool" where
  "ok_schedule n \<longleftrightarrow> yn_Kind n = SequenceNode \<and> list_all (ok_fields [''cron'' \<mapsto> ok_scalar]) (yn_Content n)"

definition ok_on :: "yamlNode \<Rightarrow> bool" where
  "ok_on n \<longleftrightarrow> yn_Kind n = ScalarNode \<and> yn_Value n \<in> {''push'', ''pull_request''}
     \<or> ok_fields [''push'' \<mapsto> ok_push, ''pull_request'' \<mapsto> ok_push, ''schedule'' \<mapsto> ok_schedule] n"

definition ok_strategy :: "yamlNode \<Rightarrow> bool" where
  "ok_strategy = ok_fields [''matrix'' \<mapsto> ok_fields (\<lambda>axis. if isIdentifier axis then Some ok_seq else None)]"

text \<open>Exactly one of the keys \<open>run\<close> and \<open>uses\<close> is present.\<close>

definition has_key :: "string \<Rightarrow> yamlNode \<Rightarrow> bool" where
  "has_key k n \<longleftrightarrow> k \<in> (yn_Value \<circ> fst) ` set (pairs_of (yn_Content n))"

definition ok_step :: "yamlNode \<Rightarrow> bool" where
  "ok_step n \<longleftrightarrow> ok_fields [''name'' \<mapsto> ok_scalar, ''if'' \<mapsto> ok_condition, ''run'' \<mapsto> ok_scalar, ''uses'' \<mapsto> ok_scalar,
       ''with'' \<mapsto> ok_env, ''continue-on-error'' \<mapsto> (\<lambda>v. yn_Tag v = ''!!bool''), ''env'' \<mapsto> ok_env] n
     \<and> has_key ''run'' n \<noteq> has_key ''uses'' n"

definition ok_steps :: "yamlNode \<Rightarrow> bool" where
  "ok_steps n \<longleftrightarrow> yn_Kind n = SequenceNode \<and> list_all ok_step (yn_Content n)"

definition ok_job :: "yamlNode \<Rightarrow> bool" where
  "ok_job = ok_fields [''name'' \<mapsto> ok_scalar, ''runs-on'' \<mapsto> ok_scalar, ''if'' \<mapsto> ok_condition, ''needs'' \<mapsto> ok_needs,
     ''strategy'' \<mapsto> ok_strategy, ''env'' \<mapsto> ok_env, ''steps'' \<mapsto> ok_steps]"

definition ok_jobs :: "yamlNode \<Rightarrow> bool" where
  "ok_jobs = ok_fields (\<lambda>i. if isIdentifier i then Some ok_job else None)"

definition ok_workflow :: "yamlNode \<Rightarrow> bool" where
  "ok_workflow = ok_fields [''name'' \<mapsto> ok_scalar, ''on'' \<mapsto> ok_on, ''jobs'' \<mapsto> ok_jobs]"

section \<open>Clean parses\<close>

text \<open>A parse step is clean on a condition: it leaves the diagnostics empty exactly when they were and the condition holds.\<close>

named_theorems clean

lemma p_fail_dirty [simp]: "p_fail file node path msg ds \<noteq> []"
  by (simp add: p_fail_def)

lemma scalarString_clean [clean]: "snd (scalarString file n path ds) = [] \<longleftrightarrow> ds = [] \<and> ok_scalar n"
  by (auto simp: scalarString_def ok_scalar_def)

lemma conditionString_clean [clean]: "snd (conditionString file n path ds) = [] \<longleftrightarrow> ds = [] \<and> ok_condition n"
  by (auto simp: conditionString_def ok_condition_def clean)

lemma string_items_clean: "snd (string_items file path ns ds) = [] \<longleftrightarrow> ds = [] \<and> list_all ok_scalar ns"
proof (induction ns arbitrary: ds)
  case (Cons n ns)
  then show ?case by (simp add: Let_def case_prod_unfold clean)
qed simp

lemma stringSeq_clean [clean]: "snd (stringSeq file n path ds) = [] \<longleftrightarrow> ds = [] \<and> ok_seq n"
  by (auto simp: stringSeq_def ok_seq_def string_items_clean)

lemma parseNeeds_clean [clean]: "snd (parseNeeds file n path ds) = [] \<longleftrightarrow> ds = [] \<and> ok_needs n"
  by (auto simp: parseNeeds_def ok_needs_def Let_def case_prod_unfold clean ok_seq_def ok_scalar_def)

lemma fold_clean:
  assumes "\<And>x acc. x \<in> set xs \<Longrightarrow> snd (f x acc) = [] \<longleftrightarrow> snd acc = [] \<and> ok x"
  shows "snd (fold f xs acc) = [] \<longleftrightarrow> snd acc = [] \<and> list_all ok xs"
  using assms by (induction xs arbitrary: acc) auto

text \<open>The visitor of a field mapping is only called on allowed keys.\<close>

lemma mapping_clean:
  assumes "set allowed = dom shape"
    "\<And>k v acc ok. shape (yn_Value k) = Some ok \<Longrightarrow> snd (visit k v acc) = [] \<longleftrightarrow> snd acc = [] \<and> ok v"
  shows "snd (mapping file n path allowed visit acc) = [] \<longleftrightarrow> snd acc = [] \<and> ok_fields shape n"
proof -
  have "snd (visit_pair file path allowed visit kv acc) = []
      \<longleftrightarrow> snd acc = [] \<and> (case kv of (k, v) \<Rightarrow> case shape (yn_Value k) of None \<Rightarrow> False | Some ok \<Rightarrow> ok v)" for kv acc
    using assms by (cases kv; cases "shape (yn_Value (fst kv))") (auto simp: visit_pair_def domIff)
  then have "snd (fold (visit_pair file path allowed visit) (pairs_of (yn_Content n)) acc) = [] \<longleftrightarrow> snd acc = []
      \<and> list_all (\<lambda>(k, v). case shape (yn_Value k) of None \<Rightarrow> False | Some ok \<Rightarrow> ok v) (pairs_of (yn_Content n))"
    by (rule fold_clean)
  then show ?thesis by (simp add: mapping_def ok_fields_def)
qed

lemma envMap_clean [clean]: "snd (envMap file n path ds) = [] \<longleftrightarrow> ds = [] \<and> ok_env n"
proof -
  have "snd (env_entry file path kv acc) = [] \<longleftrightarrow> snd acc = [] \<and> (case kv of (k, v) \<Rightarrow> ok_scalar v)" for kv and acc :: "(string, string) gomap \<times> diags"
    by (simp add: env_entry_def Let_def case_prod_unfold clean)
  then have "snd (fold (env_entry file path) (pairs_of (yn_Content n)) ([], ds)) = [] \<longleftrightarrow> snd ([] :: (string, string) gomap, ds) = []
      \<and> list_all (\<lambda>(k, v). ok_scalar v) (pairs_of (yn_Content n))"
    by (rule fold_clean)
  then show ?thesis by (auto simp: envMap_def ok_env_def ok_fields_def split: prod.splits)
qed

lemma push_field_clean: "[''branches'' \<mapsto> ok_seq, ''branches-ignore'' \<mapsto> ok_seq] (yn_Value k) = Some ok
    \<Longrightarrow> snd (push_field file k v acc) = [] \<longleftrightarrow> snd acc = [] \<and> ok v"
  by (auto simp: push_field_def Let_def case_prod_unfold clean split: if_splits)

lemma parsePush_clean [clean]: "snd (parsePush file n ds) = [] \<longleftrightarrow> ds = [] \<and> ok_push n"
proof -
  have "snd (mapping file n ''.on.push'' [''branches'', ''branches-ignore''] (push_field file) acc) = []
      \<longleftrightarrow> snd acc = [] \<and> ok_fields [''branches'' \<mapsto> ok_seq, ''branches-ignore'' \<mapsto> ok_seq] n" for acc
    by (rule mapping_clean) (use push_field_clean in auto)
  then show ?thesis by (auto simp: parsePush_def ok_push_def Let_def case_prod_unfold ok_fields_def)
qed

lemma nothing_clean: "set allowed = dom shape \<Longrightarrow> snd (mapping file n path allowed (\<lambda>_ _ a. a) acc) = []
    \<longleftrightarrow> snd acc = [] \<and> ok_fields (map_option (\<lambda>_ _. True) \<circ> shape) n"
  by (rule mapping_clean) auto

lemma schedule_items_clean: "snd (schedule_items file path i ns acc) = []
    \<longleftrightarrow> snd acc = [] \<and> list_all (ok_fields [''cron'' \<mapsto> ok_scalar]) ns"
proof (induction ns arbitrary: i acc)
  case (Cons n ns)
  have e: "snd (cron_entry file ipath kv a) = [] \<longleftrightarrow> snd a = [] \<and> (case kv of (k, v) \<Rightarrow> yn_Value k = ''cron'' \<longrightarrow> ok_scalar v)" for ipath kv a
    by (auto simp: cron_entry_def Let_def case_prod_unfold clean)
  have m: "snd (mapping file n ipath [''cron''] (\<lambda>_ _ a. a) acc) = []
      \<longleftrightarrow> snd acc = [] \<and> ok_fields (map_option (\<lambda>_ _. True) \<circ> [''cron'' \<mapsto> ok_scalar]) n" for ipath
    by (rule nothing_clean) simp
  have f: "snd (fold (cron_entry file ipath) (pairs_of (yn_Content n)) a) = [] \<longleftrightarrow> snd a = []
      \<and> list_all (\<lambda>(k, v). yn_Value k = ''cron'' \<longrightarrow> ok_scalar v) (pairs_of (yn_Content n))" for ipath a
    by (rule fold_clean) (rule e)
  show ?case
    by (auto simp: Cons.IH Let_def f m ok_fields_def list_all_iff split: option.splits if_splits)
qed simp

lemma parseSchedule_clean [clean]: "snd (parseSchedule file n path ds) = [] \<longleftrightarrow> ds = [] \<and> ok_schedule n"
  by (auto simp: parseSchedule_def ok_schedule_def schedule_items_clean)

lemma parseOn_clean [clean]: "snd (parseOn file n acc) = [] \<longleftrightarrow> snd acc = [] \<and> ok_on n"
proof -
  let ?shape = "[''push'' \<mapsto> ok_push, ''pull_request'' \<mapsto> ok_push, ''schedule'' \<mapsto> ok_schedule]"
  have e: "snd (on_entry file kv a) = [] \<longleftrightarrow> snd a = []
      \<and> (case kv of (k, v) \<Rightarrow> (case ?shape (yn_Value k) of None \<Rightarrow> True | Some ok \<Rightarrow> ok v))" for kv a
    by (auto simp: on_entry_def Let_def case_prod_unfold clean)
  have m: "snd (mapping file n ''.on'' [''push'', ''pull_request'', ''schedule''] (\<lambda>_ _ a. a) ((), ds)) = []
      \<longleftrightarrow> snd ((), ds) = [] \<and> ok_fields (map_option (\<lambda>_ _. True) \<circ> ?shape) n" for ds
    by (rule nothing_clean) auto
  have f: "snd (fold (on_entry file) (pairs_of (yn_Content n)) a) = [] \<longleftrightarrow> snd a = []
      \<and> list_all (\<lambda>(k, v). (case ?shape (yn_Value k) of None \<Rightarrow> True | Some ok \<Rightarrow> ok v)) (pairs_of (yn_Content n))" for a
    by (rule fold_clean) (rule e)
  have "ok_fields ?shape n \<longleftrightarrow> ok_fields (map_option (\<lambda>_ _. True) \<circ> ?shape) n
      \<and> list_all (\<lambda>(k, v). (case ?shape (yn_Value k) of None \<Rightarrow> True | Some ok \<Rightarrow> ok v)) (pairs_of (yn_Content n))"
    by (auto simp: ok_fields_def list_all_iff split: option.splits if_splits)
  then show ?thesis using f m
    by (cases "yn_Kind n") (auto simp: parseOn_def ok_on_def Let_def case_prod_unfold ok_fields_def)
qed

lemma strategy_field_clean:
  "snd (strategy_field file path k v acc) = []
     \<longleftrightarrow> snd acc = [] \<and> ok_fields (\<lambda>axis. if isIdentifier axis then Some ok_seq else None) v"
proof -
  have "snd (fold (matrix_entry file path) (pairs_of (yn_Content v)) a) = [] \<longleftrightarrow> snd a = []
      \<and> list_all (\<lambda>(k, v). case (if isIdentifier (yn_Value k) then Some ok_seq else None) of None \<Rightarrow> False | Some ok \<Rightarrow> ok v) (pairs_of (yn_Content v))" for a
    by (rule fold_clean) (auto simp: matrix_entry_def Let_def case_prod_unfold clean)
  then show ?thesis by (simp add: strategy_field_def ok_fields_def)
qed

lemma parseStrategy_clean [clean]: "snd (parseStrategy file n path ds) = [] \<longleftrightarrow> ds = [] \<and> ok_strategy n"
proof -
  have "snd (mapping file n path [''matrix''] (strategy_field file path) acc) = [] \<longleftrightarrow> snd acc = [] \<and> ok_strategy n" for acc
    unfolding ok_strategy_def by (rule mapping_clean) (auto simp: strategy_field_clean split: if_splits)
  then show ?thesis by (auto simp: parseStrategy_def ok_strategy_def ok_fields_def)
qed

lemma step_field_clean:
  "[''name'' \<mapsto> ok_scalar, ''if'' \<mapsto> ok_condition, ''run'' \<mapsto> ok_scalar, ''uses'' \<mapsto> ok_scalar, ''with'' \<mapsto> ok_env,
      ''continue-on-error'' \<mapsto> (\<lambda>v. yn_Tag v = ''!!bool''), ''env'' \<mapsto> ok_env] (yn_Value k) = Some ok
    \<Longrightarrow> snd (step_field file path k v acc) = [] \<longleftrightarrow> snd acc = [] \<and> ok v"
  by (auto simp: step_field_def Let_def case_prod_unfold clean split: if_splits)

lemma step_flags:
  "sa_hasRun (fst (fold (visit_pair file path step_keys (step_field file path)) kvs acc))
     \<longleftrightarrow> sa_hasRun (fst acc) \<or> ''run'' \<in> (yn_Value \<circ> fst) ` set kvs"
  "sa_hasUses (fst (fold (visit_pair file path step_keys (step_field file path)) kvs acc))
     \<longleftrightarrow> sa_hasUses (fst acc) \<or> ''uses'' \<in> (yn_Value \<circ> fst) ` set kvs"
proof (induction kvs arbitrary: acc)
  case (Cons kv kvs)
  have run: "sa_hasRun (fst (visit_pair file path step_keys (step_field file path) kv acc))
      \<longleftrightarrow> sa_hasRun (fst acc) \<or> yn_Value (fst kv) = ''run''" for acc
    by (simp add: visit_pair_def step_field_def Let_def case_prod_unfold step_keys_def)
  have uses: "sa_hasUses (fst (visit_pair file path step_keys (step_field file path) kv acc))
      \<longleftrightarrow> sa_hasUses (fst acc) \<or> yn_Value (fst kv) = ''uses''" for acc
    by (simp add: visit_pair_def step_field_def Let_def case_prod_unfold step_keys_def)
  { case 1 show ?case by (simp add: Cons(1) run disj_assoc eq_commute) }
  { case 2 show ?case by (simp add: Cons(2) uses disj_assoc eq_commute) }
qed simp_all

lemma parse_step_clean [clean]: "snd (parse_step file path n ds) = [] \<longleftrightarrow> ds = [] \<and> ok_step n"
proof -
  let ?shape = "[''name'' \<mapsto> ok_scalar, ''if'' \<mapsto> ok_condition, ''run'' \<mapsto> ok_scalar, ''uses'' \<mapsto> ok_scalar, ''with'' \<mapsto> ok_env,
      ''continue-on-error'' \<mapsto> (\<lambda>v. yn_Tag v = ''!!bool''), ''env'' \<mapsto> ok_env]"
  let ?m = "mapping file n path step_keys (step_field file path) (\<lparr>sa_step = zero_step n, sa_hasRun = False, sa_hasUses = False\<rparr>, ds)"
  have c: "snd ?m = [] \<longleftrightarrow> ds = [] \<and> ok_fields ?shape n"
    by (subst mapping_clean [where shape = ?shape]) (auto simp: step_keys_def step_field_clean)
  have "sa_hasRun (fst ?m) = has_key ''run'' n" "sa_hasUses (fst ?m) = has_key ''uses'' n" if "yn_Kind n = MappingNode"
    using that by (simp_all add: mapping_def step_flags has_key_def)
  moreover have "yn_Kind n = MappingNode" if "ok_fields ?shape n" using that by (simp add: ok_fields_def)
  ultimately show ?thesis using c
    by (auto simp: parse_step_def ok_step_def Let_def case_prod_unfold)
qed

lemma step_items_clean: "snd (step_items file jobID i ns ds) = [] \<longleftrightarrow> ds = [] \<and> list_all ok_step ns"
  by (induction ns arbitrary: i ds) (simp_all add: Let_def case_prod_unfold clean)

lemma parseSteps_clean [clean]: "snd (parseSteps file n jobID ds) = [] \<longleftrightarrow> ds = [] \<and> ok_steps n"
  by (auto simp: parseSteps_def ok_steps_def step_items_clean)

lemma parseJob_clean [clean]: "snd (parseJob file n jobID ds) = [] \<longleftrightarrow> ds = [] \<and> ok_job n"
  unfolding parseJob_def ok_job_def
  by (subst mapping_clean) (auto simp: job_keys_def job_field_def Let_def case_prod_unfold clean split: if_splits)

lemma parseJobs_clean [clean]: "snd (parseJobs file n acc) = [] \<longleftrightarrow> snd acc = [] \<and> ok_jobs n"
proof -
  have "snd (fold (job_entry file) (pairs_of (yn_Content n)) a) = [] \<longleftrightarrow> snd a = []
      \<and> list_all (\<lambda>(k, v). case (if isIdentifier (yn_Value k) then Some ok_job else None) of None \<Rightarrow> False | Some ok \<Rightarrow> ok v) (pairs_of (yn_Content n))" for a
    by (rule fold_clean) (auto simp: job_entry_def Let_def case_prod_unfold clean)
  then show ?thesis by (simp add: parseJobs_def ok_jobs_def ok_fields_def Let_def case_prod_unfold)
qed

lemma parseWorkflow_clean: "snd (parseWorkflow file n) = [] \<longleftrightarrow> ok_workflow n"
  unfolding parseWorkflow_def ok_workflow_def
  by (subst mapping_clean) (auto simp: workflow_field_def Let_def case_prod_unfold clean split: if_splits)

text \<open>
  C13. The parser accepts a file exactly when it decodes to a tree of the supported subset: at every level only the listed
  keys, each with a value of its shape, identifiers for job and axis names, and steps with exactly one of run and uses;
  nothing outside the subset is silently ignored, and nothing inside it is refused.
\<close>

theorem parse_accepts_exactly_subset:
  "(\<exists>w. Parse unmarshal filename data = Inr w) \<longleftrightarrow> (\<exists>doc. unmarshal data = Inr doc \<and> ok_workflow (unwrapDoc doc))"
proof (cases "unmarshal data")
  case (Inr doc)
  then show ?thesis using parseWorkflow_clean [of filename "unwrapDoc doc"]
    by (simp add: Parse_def Let_def case_prod_unfold)
qed (simp add: Parse_def)

end
