(* ===== verification/Syntax_Roundtrip.thy ===== *)
theory Syntax_Roundtrip
  imports Syntax_Properties
begin

text \<open>
  The invariants of every parsed workflow, and a printer into YAML trees that the parser
  inverts on exactly those workflows.
\<close>

section \<open>Invariants of parsed workflows\<close>

definition wf_step :: "SyntaxStep \<Rightarrow> bool" where
  "wf_step s \<longleftrightarrow> (st_Run s = '''' \<or> st_Uses s = '''') \<and> mwf (st_With s) \<and> mwf (st_Env s)"

definition wf_axes :: "(string, string list) gomap \<Rightarrow> bool" where
  "wf_axes m \<longleftrightarrow> mwf m \<and> list_all isIdentifier (map fst m)"

definition wf_job :: "Job \<Rightarrow> bool" where
  "wf_job j \<longleftrightarrow> isIdentifier (job_ID j) \<and> wf_axes (job_Matrix j)
     \<and> (case job_Env j of None \<Rightarrow> True | Some e \<Rightarrow> mwf e) \<and> list_all wf_step (job_Steps j)"

definition wf_workflow :: "Workflow \<Rightarrow> bool" where
  "wf_workflow w \<longleftrightarrow> list_all wf_job (wf_Jobs w)"

lemma fold_keeps:
  "P a \<Longrightarrow> (\<And>x a. x \<in> set xs \<Longrightarrow> P a \<Longrightarrow> P (f x a)) \<Longrightarrow> P (fold f xs a)"
  by (induction xs arbitrary: a) auto

lemma mapping_keeps:
  assumes "P (fst acc)" "\<And>k v a. P (fst a) \<Longrightarrow> P (fst (visit k v a))"
  shows "P (fst (mapping file n path allowed visit acc))"
  using fold_keeps [where P = "\<lambda>a. P (fst a)" and f = "visit_pair file path allowed visit"] assms
  by (simp add: mapping_def visit_pair_def)

lemma envMap_mwf: "case fst (envMap file n path ds) of None \<Rightarrow> True | Some e \<Rightarrow> mwf e"
  using fold_keeps [where P = "\<lambda>a. mwf (fst a)" and f = "env_entry file path" and a = "([], ds)"]
  by (simp add: envMap_def env_entry_def Let_def case_prod_unfold)

lemma envMap_nil_map: "mwf (nil_map (fst (envMap file n path ds)))"
  using envMap_mwf [of "file" n "path" ds] by (simp add: nil_map_def split: option.splits)

lemma all_keys: "list_all P (map fst m) \<longleftrightarrow> (\<forall>k \<in> mkeys m. P k)"
  by (auto simp: list_all_iff mkeys_def)

lemma matrix_entry_axes: "wf_axes (fst a) \<Longrightarrow> wf_axes (fst (matrix_entry file path kv a))"
  by (simp add: wf_axes_def matrix_entry_def Let_def case_prod_unfold all_keys)

lemma strategy_field_axes:
  assumes "wf_axes (fst a)"
  shows "wf_axes (fst (strategy_field file path k v a))"
proof -
  have "wf_axes (fst (fold (matrix_entry file path) (pairs_of (yn_Content v)) ([], snd a)))"
    by (rule fold_keeps [where P = "\<lambda>a. wf_axes (fst a)"]) (simp add: wf_axes_def, rule matrix_entry_axes)
  with assms show ?thesis by (simp add: strategy_field_def)
qed

lemma parseStrategy_axes: "wf_axes (fst (parseStrategy file n path ds))"
proof -
  have "wf_axes (fst (mapping file n path [''matrix''] (strategy_field file path) ([], ds)))"
    by (rule mapping_keeps) (simp add: wf_axes_def, rule strategy_field_axes)
  then show ?thesis by (simp add: parseStrategy_def wf_axes_def)
qed

lemma step_field_maps:
  assumes "mwf (st_With (sa_step (fst a))) \<and> mwf (st_Env (sa_step (fst a)))"
  shows "mwf (st_With (sa_step (fst (step_field file path k v a)))) \<and> mwf (st_Env (sa_step (fst (step_field file path k v a))))"
  using assms by (simp add: step_field_def Let_def case_prod_unfold envMap_nil_map)

lemma step_field_other:
  "yn_Value k \<noteq> ''uses'' \<Longrightarrow> st_Uses (sa_step (fst (step_field file path k v a))) = st_Uses (sa_step (fst a))"
  "yn_Value k \<noteq> ''run'' \<Longrightarrow> st_Run (sa_step (fst (step_field file path k v a))) = st_Run (sa_step (fst a))"
  by (simp_all add: step_field_def Let_def case_prod_unfold)

lemma no_key: "\<not> has_key k n \<Longrightarrow> kv \<in> set (pairs_of (yn_Content n)) \<Longrightarrow> yn_Value (fst kv) \<noteq> k"
  by (auto simp: has_key_def)

lemma parse_step_wf:
  assumes "ok_step n"
  shows "wf_step (fst (parse_step file path n ds))"
proof -
  let ?init = "(\<lparr>sa_step = zero_step n, sa_hasRun = False, sa_hasUses = False\<rparr>, ds)"
  let ?m = "mapping file n path step_keys (step_field file path) ?init"
  have k: "yn_Kind n = MappingNode" and u: "\<not> has_key ''uses'' n \<or> \<not> has_key ''run'' n"
    using assms by (auto simp: ok_step_def ok_fields_def)
  have maps: "mwf (st_With (sa_step (fst ?m))) \<and> mwf (st_Env (sa_step (fst ?m)))"
    by (rule mapping_keeps) (simp_all add: zero_step_def step_field_maps)
  let ?fold = "fold (visit_pair file path step_keys (step_field file path)) (pairs_of (yn_Content n)) ?init"
  have m: "?m = ?fold" using k by (simp add: mapping_def)
  have "st_Uses (sa_step (fst ?fold)) = ''''" if no: "\<not> has_key ''uses'' n"
  proof (rule fold_keeps [where P = "\<lambda>a. st_Uses (sa_step (fst a)) = ''''"])
    fix kv and a :: "step_acc \<times> diags" assume "kv \<in> set (pairs_of (yn_Content n))" "st_Uses (sa_step (fst a)) = ''''"
    then show "st_Uses (sa_step (fst (visit_pair file path step_keys (step_field file path) kv a))) = ''''"
      using no_key [OF no] by (simp add: visit_pair_def step_field_other)
  qed (simp add: zero_step_def)
  moreover have "st_Run (sa_step (fst ?fold)) = ''''" if no: "\<not> has_key ''run'' n"
  proof (rule fold_keeps [where P = "\<lambda>a. st_Run (sa_step (fst a)) = ''''"])
    fix kv and a :: "step_acc \<times> diags" assume "kv \<in> set (pairs_of (yn_Content n))" "st_Run (sa_step (fst a)) = ''''"
    then show "st_Run (sa_step (fst (visit_pair file path step_keys (step_field file path) kv a))) = ''''"
      using no_key [OF no] by (simp add: visit_pair_def step_field_other)
  qed (simp add: zero_step_def)
  ultimately show ?thesis using u maps m by (auto simp: wf_step_def parse_step_def Let_def case_prod_unfold)
qed

lemma step_items_wf: "list_all ok_step ns \<Longrightarrow> list_all wf_step (fst (step_items file jobID i ns ds))"
  by (induction ns arbitrary: i ds) (simp_all add: Let_def case_prod_unfold parse_step_wf)

lemma parseSteps_wf: "ok_steps n \<Longrightarrow> list_all wf_step (fst (parseSteps file n jobID ds))"
  by (simp add: parseSteps_def ok_steps_def step_items_wf)

text \<open>What a job's fields keep while they are read; the steps are known to be well-formed only without diagnostics.\<close>

definition job_ok :: "Job \<times> diags \<Rightarrow> bool" where
  "job_ok a \<longleftrightarrow> wf_axes (job_Matrix (fst a))
     \<and> (case job_Env (fst a) of None \<Rightarrow> True | Some e \<Rightarrow> mwf e) \<and> (snd a = [] \<longrightarrow> list_all wf_step (job_Steps (fst a)))"

lemma job_field_ok: "job_ok a \<Longrightarrow> job_ok (job_field file jobID k v a)"
  using parseStrategy_axes [of "file" v "''.jobs.'' @ jobID @ ''.strategy''" "snd a"] envMap_mwf [of "file" v "''.jobs.'' @ jobID @ ''.env''" "snd a"]
  by (simp add: job_ok_def job_field_def Let_def case_prod_unfold clean parseSteps_wf)

lemma parseJob_ok: "job_ok (parseJob file n jobID ds)"
proof -
  have z: "job_ok (zero_job, ds)" by (simp add: job_ok_def zero_job_def wf_axes_def)
    have v: "job_ok (visit_pair file path job_keys (job_field file jobID) kv a)" if "job_ok a" for path kv a
    using job_field_ok [OF that] that by (simp add: visit_pair_def job_ok_def)
  have "job_ok (fold (visit_pair file path job_keys (job_field file jobID)) kvs (zero_job, ds))" for path kvs
    by (rule fold_keeps [where P = job_ok, OF z]) (rule v)
  moreover have "job_ok (zero_job, p_fail file n path msg ds)" for path msg using z by (simp add: job_ok_def zero_job_def)
  ultimately show ?thesis by (simp add: parseJob_def mapping_def)
qed

text \<open>The same for the list of jobs of a workflow.\<close>

definition jobs_ok :: "Job list \<times> diags \<Rightarrow> bool" where
  "jobs_ok a \<longleftrightarrow> (snd a = [] \<longrightarrow> list_all wf_job (fst a))"

lemma job_entry_ok: "jobs_ok a \<Longrightarrow> jobs_ok (job_entry file kv a)"
  using parseJob_ok [of "file" "snd kv" "yn_Value (fst kv)" "snd a"]
  by (cases "snd a = []") (simp_all add: jobs_ok_def job_entry_def Let_def case_prod_unfold clean job_ok_def wf_job_def)

lemma workflow_field_ok:
  assumes "jobs_ok (wf_Jobs (fst a), snd a)"
  shows "jobs_ok (wf_Jobs (fst (workflow_field file k v a)), snd (workflow_field file k v a))"
proof -
  let ?r = "fold (job_entry file) (pairs_of (yn_Content v)) (wf_Jobs (fst a), snd a)"
  have r: "jobs_ok ?r" by (rule fold_keeps [where P = jobs_ok, OF assms]) (rule job_entry_ok)
  have name: "jobs_ok (wf_Jobs (fst a), snd (scalarString file v ''.name'' (snd a)))"
    using assms by (simp add: jobs_ok_def clean)
  have on: "wf_Jobs (fst (parseOn file v a)) = wf_Jobs (fst a)"
    by (cases "yn_Kind v") (simp_all add: parseOn_def Let_def case_prod_unfold)
  have on': "jobs_ok (wf_Jobs (fst a), snd (parseOn file v a))" using assms by (simp add: jobs_ok_def clean)
  have jobs: "jobs_ok (wf_Jobs (fst (parseJobs file v a)), snd (parseJobs file v a))"
    using assms r by (simp add: parseJobs_def Let_def case_prod_unfold jobs_ok_def)
  show ?thesis using assms name on on' jobs by (simp add: workflow_field_def Let_def case_prod_unfold)
qed

lemma parseWorkflow_ok:
  assumes "snd (parseWorkflow file n) = []"
  shows "wf_workflow (fst (parseWorkflow file n))"
proof -
  let ?P = "\<lambda>a. jobs_ok (wf_Jobs (fst a), snd a)"
  have k: "yn_Kind n = MappingNode" using assms by (auto simp: parseWorkflow_clean ok_workflow_def ok_fields_def)
  have v: "?P (visit_pair file '''' [''name'', ''on'', ''jobs''] (workflow_field file) kv a)" if "?P a" for kv a
    using workflow_field_ok [OF that] that by (simp add: visit_pair_def jobs_ok_def)
  have "?P (fold (visit_pair file '''' [''name'', ''on'', ''jobs''] (workflow_field file)) (pairs_of (yn_Content n)) (zero_workflow file, []))"
    by (rule fold_keeps [where P = ?P]) (simp add: jobs_ok_def zero_workflow_def, rule v)
  then show ?thesis using assms k by (simp add: parseWorkflow_def mapping_def wf_workflow_def jobs_ok_def)
qed

lemma parse_well_formed: "Parse unmarshal filename data = Inr w \<Longrightarrow> wf_workflow w"
  using parseWorkflow_ok by (auto simp: Parse_def Let_def case_prod_unfold split: sum.splits if_splits)

section \<open>A printer into YAML trees\<close>

definition y_str :: "string \<Rightarrow> yamlNode" where
  "y_str s = YNode ScalarNode ''!!str'' s [] 0 0"

definition y_seq :: "yamlNode list \<Rightarrow> yamlNode" where
  "y_seq ns = YNode SequenceNode ''!!seq'' '''' ns 0 0"

definition y_map_at :: "Position \<Rightarrow> (yamlNode \<times> yamlNode) list \<Rightarrow> yamlNode" where
  "y_map_at p kvs = YNode MappingNode ''!!map'' '''' (concat (map (\<lambda>(k, v). [k, v]) kvs)) (pos_Line p) (pos_Column p)"

definition y_map :: "(string \<times> yamlNode) list \<Rightarrow> yamlNode" where
  "y_map kvs = y_map_at \<lparr>pos_Line = 0, pos_Column = 0\<rparr> (map (\<lambda>(k, v). (y_str k, v)) kvs)"

definition y_bool :: "bool \<Rightarrow> yamlNode" where
  "y_bool b = YNode ScalarNode ''!!bool'' (if b then ''true'' else ''false'') [] 0 0"

definition y_strs :: "string list \<Rightarrow> yamlNode" where
  "y_strs xs = y_seq (map y_str xs)"

definition y_env :: "(string, string) gomap \<Rightarrow> yamlNode" where
  "y_env m = y_map (map (\<lambda>(k, v). (k, y_str v)) m)"

definition y_step :: "SyntaxStep \<Rightarrow> yamlNode" where
  "y_step s = y_map_at (st_Pos s) (map (\<lambda>(k, v). (y_str k, v))
     ([(''name'', y_str (st_Name s)), (''if'', y_str (st_If s))]
      @ (if st_Uses s \<noteq> '''' then [(''uses'', y_str (st_Uses s))] else [(''run'', y_str (st_Run s))])
      @ [(''with'', y_env (st_With s)), (''continue-on-error'', y_bool (st_ContinueOnError s)), (''env'', y_env (st_Env s))]))"

definition y_job :: "Job \<Rightarrow> yamlNode" where
  "y_job j = y_map
     ([(''name'', y_str (job_Name j)), (''runs-on'', y_str (job_RunsOn j)), (''if'', y_str (job_If j)), (''needs'', y_strs (job_Needs j)),
       (''strategy'', y_map [(''matrix'', y_map (map (\<lambda>(k, vs). (k, y_strs vs)) (job_Matrix j)))])]
      @ (case job_Env j of None \<Rightarrow> [] | Some e \<Rightarrow> [(''env'', y_env e)])
      @ [(''steps'', y_seq (map y_step (job_Steps j)))])"

definition y_push :: "PushTrigger \<Rightarrow> yamlNode" where
  "y_push t = y_map [(''branches'', y_strs (pt_Branches t)), (''branches-ignore'', y_strs (pt_BranchesIgnore t))]"

definition y_on :: "Triggers \<Rightarrow> yamlNode" where
  "y_on t = y_map
     ((case on_Push t of None \<Rightarrow> [] | Some p \<Rightarrow> [(''push'', y_push p)])
      @ (case on_PullRequest t of None \<Rightarrow> [] | Some p \<Rightarrow> [(''pull_request'', y_push p)])
      @ [(''schedule'', y_seq (map (\<lambda>c. y_map [(''cron'', y_str c)]) (on_Schedule t)))])"

definition y_job_key :: "Job \<Rightarrow> yamlNode" where
  "y_job_key j = YNode ScalarNode ''!!str'' (job_ID j) [] (pos_Line (job_Pos j)) (pos_Column (job_Pos j))"

definition y_workflow :: "Workflow \<Rightarrow> yamlNode" where
  "y_workflow w = YNode DocumentNode '''' '''' [y_map
     [(''name'', y_str (wf_Name w)), (''on'', y_on (wf_On w)),
      (''jobs'', y_map_at \<lparr>pos_Line = 0, pos_Column = 0\<rparr> (map (\<lambda>j. (y_job_key j, y_job j)) (wf_Jobs w)))]] 0 0"

section \<open>The round trip\<close>

named_theorems printed

lemma pairs_of_concat [simp]: "pairs_of (concat (map (\<lambda>(k, v). [k, v]) kvs)) = kvs"
  by (induction kvs) auto

lemma y_map_at_sel [printed]: "yn_Kind (y_map_at p kvs) = MappingNode" "pairs_of (yn_Content (y_map_at p kvs)) = kvs"
  "yn_Line (y_map_at p kvs) = pos_Line p" "yn_Column (y_map_at p kvs) = pos_Column p"
  by (simp_all add: y_map_at_def)

lemma y_map_sel [printed]: "yn_Kind (y_map kvs) = MappingNode" "pairs_of (yn_Content (y_map kvs)) = map (\<lambda>(k, v). (y_str k, v)) kvs"
  by (simp_all add: y_map_def printed)

lemma y_str_sel [printed]: "yn_Kind (y_str s) = ScalarNode" "yn_Value (y_str s) = s" "yn_Tag (y_str s) = ''!!str''"
  by (simp_all add: y_str_def)

lemma y_seq_sel [printed]: "yn_Kind (y_seq ns) = SequenceNode" "yn_Content (y_seq ns) = ns"
  by (simp_all add: y_seq_def)

lemma scalarString_y_str [printed]: "scalarString file (y_str s) path ds = (s, ds)"
  by (simp add: scalarString_def printed)

lemma conditionString_y_str [printed]: "conditionString file (y_str s) path ds = (s, ds)"
  by (simp add: conditionString_def printed)

lemma stringSeq_y_strs [printed]: "stringSeq file (y_strs xs) path ds = (xs, ds)"
proof -
  have "string_items file path (map y_str xs) ds = (xs, ds)" by (induction xs) (simp_all add: printed)
  then show ?thesis by (simp add: stringSeq_def y_strs_def printed)
qed

lemma parseNeeds_y_strs [printed]: "parseNeeds file (y_strs xs) path ds = (xs, ds)"
  using stringSeq_y_strs by (simp add: parseNeeds_def y_strs_def printed)

text \<open>Putting the entries of a map back one by one rebuilds it.\<close>

lemma fold_mput: "distinct (map fst m @ map fst xs) \<Longrightarrow> fold (\<lambda>(k, v) m. mput m k v) xs m = m @ xs"
proof (induction xs arbitrary: m)
  case (Cons kv xs)
  obtain k v where kv: "kv = (k, v)" by fastforce
  have "mput m k v = m @ [(k, v)]" using Cons.prems by (induction m) (auto simp: mput_def kv)
  then show ?case using Cons by (simp add: kv)
qed simp

lemma fold_pair_state:
  "(\<And>x m. f x (m, ds) = (g x m, ds)) \<Longrightarrow> fold f xs (m, ds) = (fold g xs m, ds)"
  by (induction xs arbitrary: m) auto

lemma envMap_y_env [printed]:
  assumes "mwf m"
  shows "envMap file (y_env m) path ds = (Some m, ds)"
proof -
  have e: "env_entry file path (y_str k, y_str v) (a, ds) = (mput a k v, ds)" for k v a
    by (simp add: env_entry_def printed)
  have "fold (env_entry file path) (map (\<lambda>(k, v). (y_str k, y_str v)) xs) (a, ds) = (fold (\<lambda>(k, v) m. mput m k v) xs a, ds)" for xs a
    by (induction xs arbitrary: a) (auto simp: e)
  moreover have "fold (\<lambda>(k, v) m. mput m k v) m [] = m" using fold_mput [of "[]" m] assms by (simp add: mwf_def)
  ultimately show ?thesis by (simp add: envMap_def y_env_def printed comp_def case_prod_unfold)
qed

lemma parseStrategy_printed:
  assumes "wf_axes m"
  shows "parseStrategy file (y_map [(''matrix'', y_map (map (\<lambda>(k, vs). (k, y_strs vs)) m))]) path ds = (m, ds)"
proof -
  have e: "matrix_entry file path (y_str k, y_strs vs) (a, ds) = (mput a k vs, ds)" if "isIdentifier k" for k vs a
    using that by (simp add: matrix_entry_def printed)
  have "fold (matrix_entry file path) (map (\<lambda>(k, vs). (y_str k, y_strs vs)) xs) (a, ds) = (fold (\<lambda>(k, v) m. mput m k v) xs a, ds)"
    if "list_all isIdentifier (map fst xs)" for xs a
    using that by (induction xs arbitrary: a) (auto simp: e)
  moreover have "fold (\<lambda>(k, v) m. mput m k v) m [] = m" using fold_mput [of "[]" m] assms by (simp add: mwf_def wf_axes_def)
  ultimately show ?thesis using assms
    by (simp add: parseStrategy_def mapping_def visit_pair_def strategy_field_def printed wf_axes_def comp_def case_prod_unfold)
qed

lemma parse_step_printed:
  assumes "wf_step s"
  shows "parse_step file path (y_step s) ds = (s, ds)"
proof -
  have b: "yn_Tag (y_bool b) = ''!!bool''" "yn_Value (y_bool b) = ''true'' \<longleftrightarrow> b" for b by (simp_all add: y_bool_def)
  have z: "zero_step (y_step s) = \<lparr>st_Pos = st_Pos s, st_Name = '''', st_If = '''', st_Run = '''',
     st_Uses = '''', st_With = [], st_ContinueOnError = False, st_Env = []\<rparr>"
    by (simp add: zero_step_def y_step_def printed)
  show ?thesis
    using assms z
    by (cases s; cases "st_Uses s = ''''") (simp_all add: parse_step_def mapping_def y_step_def printed visit_pair_def step_keys_def step_field_def b wf_step_def nil_map_def)
qed

lemma parseSteps_printed:
  assumes "list_all wf_step ss"
  shows "parseSteps file (y_seq (map y_step ss)) jobID ds = (ss, ds)"
proof -
  have "step_items file jobID i (map y_step ss) ds = (ss, ds)" for i
    using assms by (induction ss arbitrary: i) (simp_all add: parse_step_printed)
  then show ?thesis by (simp add: parseSteps_def printed)
qed

lemma parseJob_printed:
  assumes "wf_job j"
  shows "parseJob file (y_job j) jobID ds
    = (j\<lparr>job_ID := '''', job_Pos := \<lparr>pos_Line = 0, pos_Column = 0\<rparr>\<rparr>, ds)"
  using assms
  by (cases "job_Env j")
     (simp_all add: parseJob_def mapping_def y_job_def printed visit_pair_def job_keys_def job_field_def zero_job_def
       parseStrategy_printed parseSteps_printed wf_job_def)

lemma job_entry_printed:
  "wf_job j \<Longrightarrow> job_entry file (y_job_key j, y_job j) (js, ds) = (js @ [j], ds)"
  by (simp add: job_entry_def parseJob_printed y_job_key_def pos_of_def wf_job_def)

lemma parseJobs_printed:
  assumes "list_all wf_job js"
  shows "parseJobs file (y_map_at p (map (\<lambda>j. (y_job_key j, y_job j)) js)) (w, ds) = (w\<lparr>wf_Jobs := wf_Jobs w @ js\<rparr>, ds)"
proof -
  have "fold (job_entry file) (map (\<lambda>j. (y_job_key j, y_job j)) js) (a, ds) = (a @ js, ds)" for a
    using assms by (induction js arbitrary: a) (simp_all add: job_entry_printed)
  then show ?thesis by (simp add: parseJobs_def printed)
qed

lemma parsePush_printed: "parsePush file (y_push t) ds = (Some t, ds)"
  by (simp add: parsePush_def y_push_def printed mapping_def visit_pair_def push_field_def)

lemma parseSchedule_printed:
  "parseSchedule file (y_seq (map (\<lambda>c. y_map [(''cron'', y_str c)]) cs)) path ds = (cs, ds)"
proof -
  have "schedule_items file path i (map (\<lambda>c. y_map [(''cron'', y_str c)]) cs) (a, ds) = (a @ cs, ds)" for i a
    by (induction cs arbitrary: i a) (simp_all add: printed mapping_def visit_pair_def cron_entry_def)
  then show ?thesis by (simp add: parseSchedule_def printed)
qed

lemma parseOn_printed:
  "wf_On w = \<lparr>on_Push = None, on_PullRequest = None, on_Schedule = []\<rparr> \<Longrightarrow> parseOn file (y_on t) (w, ds) = (w\<lparr>wf_On := t\<rparr>, ds)"
  by (cases "on_Push t"; cases "on_PullRequest t")
     (simp_all add: parseOn_def y_on_def printed mapping_def visit_pair_def on_entry_def parsePush_printed parseSchedule_printed)

lemma parse_printed:
  assumes "wf_workflow w"
  shows "parseWorkflow (wf_File w) (unwrapDoc (y_workflow w)) = (w, [])"
  using assms
  by (simp add: parseWorkflow_def unwrapDoc_def y_workflow_def mapping_def printed visit_pair_def workflow_field_def
      zero_workflow_def parseOn_printed parseJobs_printed wf_workflow_def)

text \<open>
  C12. A workflow is the result of parsing some tree exactly when it is well-formed (job and axis names are identifiers, no
  map repeats a key, no step both runs and uses), and then printing it as a tree and parsing that gives the workflow back,
  positions included: the parser loses and invents nothing.
\<close>

theorem parse_roundtrip:
  "((\<exists>doc. Parse (\<lambda>_. Inr doc) (wf_File w) data = Inr w) \<longleftrightarrow> wf_workflow w)
   \<and> (Parse (\<lambda>_. Inr (y_workflow w)) (wf_File w) data = Inr w \<longleftrightarrow> wf_workflow w)"
proof -
  have "Parse (\<lambda>_. Inr (y_workflow w)) (wf_File w) data = Inr w" if "wf_workflow w"
    using parse_printed [OF that] by (simp add: Parse_def)
  with parse_well_formed show ?thesis by blast
qed

end
