(* ===== verification/Matrix_Expansion.thy ===== *)
theory Matrix_Expansion
  imports Compiler Syntax_Roundtrip "HOL-Library.Multiset"
begin

text \<open>
  Matrix expansion yields the cartesian product of the axes: one instance per choice of a
  value on every axis, with keys that tell the instances apart as long as no value holds a
  comma.
\<close>

section \<open>The combinations\<close>

definition part :: "string \<Rightarrow> string \<Rightarrow> string" where
  "part axis value = axis @ ''='' @ value"

definition axis_values :: "(string, string list) gomap \<Rightarrow> string \<Rightarrow> string list" where
  "axis_values m axis = (case mget m axis of None \<Rightarrow> [] | Some vs \<Rightarrow> vs)"

text \<open>One value per axis, in the order of the axes.\<close>

definition choices :: "(string, string list) gomap \<Rightarrow> string list \<Rightarrow> string list list" where
  "choices m axes = product_lists (map (axis_values m) axes)"

lemma add_axis_alt: "add_axis m a cs = concat (map (\<lambda>c. map (\<lambda>v. c @ [part a v]) (axis_values m a)) cs)"
  by (simp add: add_axis_def part_def axis_values_def)

lemma fold_add_axis:
  "fold (add_axis m) axes cs = concat (map (\<lambda>c. map (\<lambda>vs. c @ map2 part axes vs) (choices m axes)) cs)"
proof (induction axes arbitrary: cs)
  case Nil
  then show ?case by (simp add: choices_def)
next
  case (Cons a axes)
  have "fold (add_axis m) (a # axes) cs
      = concat (map (\<lambda>c. map (\<lambda>vs. c @ map2 part axes vs) (choices m axes)) (add_axis m a cs))" using Cons by simp
  also have "\<dots> = concat (map (\<lambda>c. map (\<lambda>vs. c @ map2 part (a # axes) vs) (choices m (a # axes))) cs)"
    by (induction cs) (simp_all add: add_axis_alt choices_def map_concat comp_def)
  finally show ?case .
qed

lemma matrix_combos_choices:
  "matrix_combos m = map (map2 part (sort (map fst m))) (choices m (sort (map fst m)))"
  by (simp add: matrix_combos_def fold_add_axis)

lemma ident_no_sep: "isIdentifier a \<Longrightarrow> c \<in> set a \<Longrightarrow> is_ident_start c \<or> is_ident_rest c"
  by (cases a) (auto simp: list_all_iff)

lemma ident_chars: "isIdentifier a \<Longrightarrow> CHR ''='' \<notin> set a \<and> CHR ''['' \<notin> set a \<and> CHR '' '' \<notin> set a"
proof -
  assume a: "isIdentifier a"
  have "\<not> (is_ident_start c \<or> is_ident_rest c)" if "c \<in> {CHR ''='', CHR ''['', CHR '' ''}" for c
    using that by (auto simp: is_ident_start_def is_ident_rest_def is_letter_def is_digit_def char_within_def less_eq_char_def)
  with ident_no_sep [OF a] show ?thesis by blast
qed

lemma part_parts [simp]: "CHR ''='' \<notin> set a \<Longrightarrow> part_axis (part a v) = a" "CHR ''='' \<notin> set a \<Longrightarrow> part_value (part a v) = v"
proof -
  assume a: "CHR ''='' \<notin> set a"
  have "takeWhile (\<lambda>c. c \<noteq> CHR ''='') (part a v) = a" "dropWhile (\<lambda>c. c \<noteq> CHR ''='') (part a v) = ''='' @ v"
    using a by (induction a) (auto simp: part_def)
  then show "part_axis (part a v) = a" "part_value (part a v) = v" by (simp_all add: part_axis_def part_value_def)
qed

lemma part_values_map2:
  "length vs = length axes \<Longrightarrow> \<forall>a \<in> set axes. CHR ''='' \<notin> set a \<Longrightarrow> map part_value (map2 part axes vs) = vs"
  by (induction axes vs rule: list_induct2') auto

lemma fold_part_mput:
  "length vs = length axes \<Longrightarrow> \<forall>a \<in> set axes. CHR ''='' \<notin> set a \<Longrightarrow>
   fold (\<lambda>p m. mput m (part_axis p) (part_value p)) (map2 part axes vs) m = fold (\<lambda>(k, v) m. mput m k v) (zip axes vs) m"
  by (induction axes vs arbitrary: m rule: list_induct2') auto

section \<open>The instances\<close>

lemma choices_length: "vs \<in> set (choices m axes) \<Longrightarrow> length vs = length axes"
  by (simp add: choices_def in_set_product_lists_length)

lemma choices_set: "vs \<in> set (choices m axes) \<longleftrightarrow> list_all2 (\<lambda>a v. v \<in> set (axis_values m a)) axes vs"
proof -
  have "vs \<in> set (choices m axes) \<longleftrightarrow> list_all2 (\<lambda>x ys. x \<in> set ys) vs (map (axis_values m) axes)"
    by (simp add: choices_def product_lists_set)
  also have "\<dots> \<longleftrightarrow> list_all2 (\<lambda>a v. v \<in> set (axis_values m a)) axes vs"
    by (auto simp: list_all2_conv_all_nth)
  finally show ?thesis .
qed

lemma instance_matrix:
  assumes "wf_axes (job_Matrix job)" "vs \<in> set (choices (job_Matrix job) (sort (map fst (job_Matrix job))))"
  shows "in_Matrix (instance_of job inst (map2 part (sort (map fst (job_Matrix job))) vs))
      = Some (zip (sort (map fst (job_Matrix job))) vs)"
    and "in_Key (instance_of job inst (map2 part (sort (map fst (job_Matrix job))) vs)) = job_ID job @ ''['' @ Join vs '','' @ '']''"
proof -
  let ?axes = "sort (map fst (job_Matrix job))"
  have ids: "\<forall>a \<in> set ?axes. CHR ''='' \<notin> set a" using assms(1) ident_chars by (auto simp: wf_axes_def list_all_iff)
  have len: "length vs = length ?axes" using choices_length [OF assms(2)] .
  have d: "distinct ?axes" using assms(1) by (simp add: wf_axes_def mwf_def)
  show "in_Matrix (instance_of job inst (map2 part ?axes vs)) = Some (zip ?axes vs)"
    using fold_part_mput [OF len ids, of "[]"] fold_mput [of "[]" "zip ?axes vs"] d len
    by (simp add: instance_of_def Let_def)
  show "in_Key (instance_of job inst (map2 part ?axes vs)) = job_ID job @ ''['' @ Join vs '','' @ '']''"
    using part_values_map2 [OF len ids] by (simp add: instance_of_def Let_def)
qed

lemma empty_axis_None: "empty_axis m = None \<longleftrightarrow> (\<forall>vs \<in> snd ` set m. vs \<noteq> [])"
  by (induction m rule: empty_axis.induct) auto

lemma expandMatrix_instances:
  assumes "expandMatrix job inst = Inr insts" "job_Matrix job \<noteq> []"
  shows "insts = map (\<lambda>vs. instance_of job inst (map2 part (sort (map fst (job_Matrix job))) vs))
           (choices (job_Matrix job) (sort (map fst (job_Matrix job))))"
  using assms by (auto simp: expandMatrix_def matrix_combos_choices comp_def split: option.splits)

lemma length_choices: "length (choices m axes) = prod_list (map (\<lambda>a. length (axis_values m a)) axes)"
  unfolding choices_def length_product_lists by (induction axes) simp_all

lemma prod_list_sort: "prod_list (map f (sort xs)) = prod_list (map f xs)" for f :: "'a :: linorder \<Rightarrow> nat"
proof -
  have "mset (map f (sort xs)) = mset (map f xs)" by simp
  then show ?thesis by (metis prod_mset_prod_list)
qed

lemma axis_values_entry: "mwf m \<Longrightarrow> kv \<in> set m \<Longrightarrow> axis_values m (fst kv) = snd kv"
  using mget_set [of m "fst kv" "snd kv"] by (simp add: axis_values_def)

lemma Join_inj:
  assumes "Join vs [c] = Join ws [c]" "length vs = length ws" "\<forall>v \<in> set vs \<union> set ws. c \<notin> set v"
  shows "vs = ws"
proof (cases "vs = []")
  case False
  have "Split (Join vs [c]) c = vs" by (rule Split_Join) (use assms(3) False in auto)
  moreover have "Split (Join ws [c]) c = ws" by (rule Split_Join) (use assms(2,3) False in auto)
  ultimately show ?thesis using assms(1) by metis
qed (use assms(2) in simp)

text \<open>The choices of values are exactly the assignments of one listed value to every axis.\<close>

lemma choices_assignments:
  assumes "mwf m"
  shows "(\<lambda>vs. mget (zip (sort (map fst m)) vs)) ` set (choices m (sort (map fst m)))
     = {f. dom f = mkeys m \<and> (\<forall>a vs. mget m a = Some vs \<longrightarrow> f a \<in> Some ` set vs)}" (is "?L = ?R")
proof
  let ?axes = "sort (map fst m)"
  have d: "distinct ?axes" "set ?axes = mkeys m" using assms by (simp_all add: mwf_def mkeys_def)
  show "?L \<subseteq> ?R"
  proof clarify
    fix vs assume vs: "vs \<in> set (choices m ?axes)"
    note l = choices_length [OF vs]
    have "dom (mget (zip ?axes vs)) = mkeys m" using d(2) l by (simp add: mget_def [abs_def] dom_map_of_zip)
    moreover have "mget (zip ?axes vs) a \<in> Some ` set ws" if w: "mget m a = Some ws" for a ws
    proof -
      have "a \<in> set ?axes" using mget_in_keys [OF w] d(2) by simp
      then obtain i where i: "i < length ?axes" "?axes ! i = a" by (metis in_set_conv_nth)
      then have "vs ! i \<in> set (axis_values m a)" using vs unfolding choices_set list_all2_conv_all_nth by blast
      then have "vs ! i \<in> set ws" using w by (simp add: axis_values_def)
      moreover have "i < length vs" using i(1) l by simp
      then have "mget (zip ?axes vs) a = Some (vs ! i)"
        using map_of_zip_nth [OF l [symmetric] d(1), of i] i(2) by (simp only: mget_def)
      ultimately show ?thesis by (simp only: image_eqI)
    qed
    ultimately show "dom (mget (zip ?axes vs)) = mkeys m \<and> (\<forall>a ws. mget m a = Some ws \<longrightarrow> mget (zip ?axes vs) a \<in> Some ` set ws)"
      by (intro conjI allI impI)
  qed
  show "?R \<subseteq> ?L"
  proof clarify
    fix f assume f: "dom f = mkeys m" "\<forall>a vs. mget m a = Some vs \<longrightarrow> f a \<in> Some ` set vs"
    let ?vs = "map (the \<circ> f) ?axes"
    have "the (f a) \<in> set (axis_values m a)" if k: "a \<in> mkeys m" for a
    proof -
      obtain ws where w: "mget m a = Some ws" using k mget_None_iff [of m a] by blast
      then have "f a \<in> Some ` set ws" using f(2) by blast
      then obtain v where "f a = Some v" "v \<in> set ws" by (rule imageE)
      with w show ?thesis by (simp add: axis_values_def)
    qed
    then have "\<forall>a \<in> set ?axes. (the \<circ> f) a \<in> set (axis_values m a)" unfolding d(2) by simp
    then have c: "?vs \<in> set (choices m ?axes)" unfolding choices_set list.rel_map list_all2_same .
    have "f = mget (zip ?axes ?vs)"
    proof
      fix a
      have "a \<in> set ?axes \<longleftrightarrow> f a \<noteq> None" using f(1) d(2) by (metis domIff)
      then show "f a = mget (zip ?axes ?vs) a" unfolding mget_def map_of_zip_map by auto
    qed
    from this c show "f \<in> ?L" by (rule image_eqI)
  qed
qed

lemma keys_distinct:
  assumes wf: "wf_axes (job_Matrix job)" and v: "\<forall>vs \<in> snd ` set (job_Matrix job). distinct vs \<and> (\<forall>v \<in> set vs. CHR '','' \<notin> set v)"
    and e: "expandMatrix job inst = Inr insts" "job_Matrix job \<noteq> []"
  shows "distinct (map in_Key insts)"
proof -
  let ?m = "job_Matrix job" let ?axes = "sort (map fst (job_Matrix job))"
  have vals: "distinct (axis_values ?m a) \<and> (\<forall>v \<in> set (axis_values ?m a). CHR '','' \<notin> set v)" for a
    using v mget_in_set [of ?m a] by (force simp: axis_values_def split: option.splits)
  have "map in_Key insts = map (\<lambda>vs. job_ID job @ ''['' @ Join vs '','' @ '']'') (choices ?m ?axes)"
    unfolding expandMatrix_instances [OF e] using instance_matrix(2) [OF wf] by simp
  moreover have "distinct (choices ?m ?axes)" unfolding choices_def
    by (rule distinct_product_lists) (use vals in auto)
  moreover have "inj_on (\<lambda>vs. job_ID job @ ''['' @ Join vs '','' @ '']'') (set (choices ?m ?axes))"
  proof (rule inj_onI)
    fix vs ws assume c: "vs \<in> set (choices ?m ?axes)" "ws \<in> set (choices ?m ?axes)"
      and eq: "job_ID job @ ''['' @ Join vs '','' @ '']'' = job_ID job @ ''['' @ Join ws '','' @ '']''"
    have "\<forall>v \<in> set us. CHR '','' \<notin> set v" if "us \<in> set (choices ?m ?axes)" for us
      using that vals unfolding choices_set by (auto simp: list_all2_conv_all_nth in_set_conv_nth) (metis nth_mem)
    with c eq choices_length show "vs = ws" by (intro Join_inj [of vs "CHR '',''" ws]) auto
  qed
  ultimately show ?thesis by (simp add: distinct_map)
qed

text \<open>
  C34. Expanding the matrix of a parsed job yields the cartesian product of its axes: the number of instances is the
  product of the numbers of values, the matrix maps of the instances are exactly the assignments of one listed value to
  every axis, and the instances have different keys when no axis repeats a value and no value holds a comma.
\<close>

theorem matrix_expansion_product:
  assumes "expandMatrix job inst = Inr insts" "job_Matrix job \<noteq> []" "wf_axes (job_Matrix job)"
  shows "length insts = prod_list (map (length \<circ> snd) (job_Matrix job))
    \<and> (\<lambda>i. mget (the (in_Matrix i))) ` set insts
        = {f. dom f = mkeys (job_Matrix job) \<and> (\<forall>a vs. mget (job_Matrix job) a = Some vs \<longrightarrow> f a \<in> Some ` set vs)}
    \<and> ((\<forall>vs \<in> snd ` set (job_Matrix job). distinct vs \<and> (\<forall>v \<in> set vs. CHR '','' \<notin> set v)) \<longrightarrow> distinct (map in_Key insts))"
proof -
  let ?m = "job_Matrix job" let ?axes = "sort (map fst (job_Matrix job))"
  have m: "mwf ?m" using assms(3) by (simp add: wf_axes_def)
  note e = expandMatrix_instances [OF assms(1,2)]
  have "length insts = prod_list (map (\<lambda>a. length (axis_values ?m a)) (map fst ?m))"
    by (simp add: e length_choices prod_list_sort)
  also have "map (\<lambda>a. length (axis_values ?m a)) (map fst ?m) = map (length \<circ> snd) ?m"
    using axis_values_entry [OF m] by simp
  finally have "length insts = prod_list (map (length \<circ> snd) ?m)" .
  moreover have "(\<lambda>i. mget (the (in_Matrix i))) ` set insts = (\<lambda>vs. mget (zip ?axes vs)) ` set (choices ?m ?axes)"
    unfolding e set_map image_image by (rule image_cong) (simp_all add: instance_matrix(1) [OF assms(3)])
  ultimately show ?thesis unfolding choices_assignments [OF m]
    using keys_distinct [OF assms(3) _ assms(1,2)] by (intro conjI impI)
qed

definition demo_inst :: JobInstance where
  "demo_inst = \<lparr>in_Key = ''test'', in_DisplayName = ''test'', in_RunnerClass = ''linux'', in_If = '''', in_DependsOn = [],
     in_Matrix = None, in_Env = [], in_Steps = []\<rparr>"

definition demo_matrix_job :: Job where
  "demo_matrix_job = zero_job\<lparr>job_ID := ''test'', job_Matrix := [(''os'', [''linux'', ''mac'']), (''go'', [''1.26'', ''1.27''])]\<rparr>"

theorem matrix_expansion_product_witness:
  "\<exists>insts. expandMatrix demo_matrix_job demo_inst = Inr insts \<and> length insts = 4 \<and> distinct (map in_Key insts)
     \<and> in_Key (hd insts) = ''test[1.26,linux]''"
proof -
  have "map_sum (\<lambda>e. e) (\<lambda>xs. in_Key (hd xs)) (expandMatrix demo_matrix_job demo_inst) = Inr ''test[1.26,linux]''" by code_simp
  then obtain insts where i: "expandMatrix demo_matrix_job demo_inst = Inr insts" "in_Key (hd insts) = ''test[1.26,linux]''"
    by (cases "expandMatrix demo_matrix_job demo_inst") auto
  have w: "job_Matrix demo_matrix_job \<noteq> []" "wf_axes (job_Matrix demo_matrix_job)"
    "\<forall>vs \<in> snd ` set (job_Matrix demo_matrix_job). distinct vs \<and> (\<forall>v \<in> set vs. CHR '','' \<notin> set v)"
    by code_simp+
  have "length insts = 4 \<and> distinct (map in_Key insts)"
    using matrix_expansion_product [OF i(1) w(1,2)] w(3) by (simp add: demo_matrix_job_def)
  with i show ?thesis by blast
qed

end
