(* ===== verification/Compiled_Intents.thy ===== *)
theory Compiled_Intents
  imports Topo_Sort Matrix_Expansion Scheduler
begin

text \<open>
  What the compiler hands to the scheduler: the intents of an accepted workflow are valid, have
  distinct keys when its axes allow it, and list every job after the plain jobs it needs. A need
  on a job with a matrix is the key of no intent.
\<close>

section \<open>Instances of one job\<close>

lemma compile_job_instances:
  assumes "compile_job file job = Inr (xs, ws)"
  obtains steps where "compile_steps file (job_ID job) 0 (job_Steps job) = Inr (steps, ws)"
    "expandMatrix job (base_instance job steps) = Inr xs"
    "TrimSpace (job_RunsOn job) \<noteq> ''''" "job_Steps job \<noteq> []"
  using assms by (auto simp: compile_job_def split: if_splits sum.splits)

lemma expandMatrix_fields:
  assumes "expandMatrix job inst = Inr xs"
  shows "xs \<noteq> [] \<and> (\<forall>i \<in> set xs. in_RunnerClass i = in_RunnerClass inst \<and> in_DependsOn i = in_DependsOn inst
    \<and> in_Steps i = in_Steps inst \<and> in_If i = in_If inst)"
proof (cases "job_Matrix job = []")
  case True
  with assms show ?thesis by (auto simp: expandMatrix_def)
next
  case False
  with assms have e: "empty_axis (job_Matrix job) = None" "xs = map (instance_of job inst) (matrix_combos (job_Matrix job))"
    by (auto simp: expandMatrix_def split: option.splits)
  have "axis_values (job_Matrix job) a \<noteq> []" if "a \<in> fst ` set (job_Matrix job)" for a
  proof -
    from that have "a \<in> mkeys (job_Matrix job)" by (simp add: mkeys_def)
    then obtain vs where vs: "mget (job_Matrix job) a = Some vs" by (metis mget_None_iff not_None_eq)
    have "(a, vs) \<in> set (job_Matrix job)" using vs by (rule mget_in_set)
    then have "vs \<noteq> []" using e(1) unfolding empty_axis_None by force
    with vs show ?thesis by (simp add: axis_values_def)
  qed
  then have "\<forall>a \<in> set (sort (map fst (job_Matrix job))). length (axis_values (job_Matrix job) a) \<noteq> 0" by simp
  then have "length (choices (job_Matrix job) (sort (map fst (job_Matrix job)))) \<noteq> 0"
    unfolding length_choices prod_list_zero_iff by auto
  then have "xs \<noteq> []" unfolding e(2) matrix_combos_choices by simp
  moreover have "in_RunnerClass i = in_RunnerClass inst \<and> in_DependsOn i = in_DependsOn inst
    \<and> in_Steps i = in_Steps inst \<and> in_If i = in_If inst" if "i \<in> set xs" for i
    using that unfolding e(2) by (auto simp: instance_of_def Let_def)
  ultimately show ?thesis by blast
qed

definition plain :: "Job \<Rightarrow> bool" where
  "plain job \<longleftrightarrow> job_Matrix job = []"

lemma compile_job_keys:
  assumes "compile_job file job = Inr (xs, ws)" "wf_axes (job_Matrix job)"
  shows "if plain job then map in_Key xs = [job_ID job]
         else \<forall>k \<in> set (map in_Key xs). \<exists>x. k = job_ID job @ ''['' @ x"
proof -
  from compile_job_instances [OF assms(1)] obtain steps where e: "expandMatrix job (base_instance job steps) = Inr xs" by blast
  show ?thesis
  proof (cases "job_Matrix job = []")
    case True
    with e show ?thesis by (auto simp: plain_def expandMatrix_def base_instance_def)
  next
    case False
    have "in_Key i \<in> (\<lambda>vs. job_ID job @ ''['' @ Join vs '','' @ '']'') ` UNIV" if "i \<in> set xs" for i
      using that instance_matrix(2) [OF assms(2)] unfolding expandMatrix_instances [OF e False] by auto
    then have "\<forall>k \<in> set (map in_Key xs). \<exists>x. k = job_ID job @ ''['' @ x" by auto
    with False show ?thesis by (simp add: plain_def)
  qed
qed

lemma compile_jobs_Cons:
  assumes "compile_jobs file (j # js) = Inr (xs, ws)"
  obtains is1 ws1 is2 ws2 where "compile_job file j = Inr (is1, ws1)" "compile_jobs file js = Inr (is2, ws2)" "xs = is1 @ is2"
  using assms by (auto split: sum.splits)

section \<open>The whole workflow\<close>

lemma ident_trim: "isIdentifier a \<Longrightarrow> TrimSpace (a @ x) \<noteq> ''''"
proof -
  assume a: "isIdentifier a"
  then obtain c cs where c: "a = c # cs" "is_ident_start c" by (cases a) auto
  have "\<not> is_space c" using c(2) by (auto simp: is_ident_start_def is_letter_def char_within_def is_space_def less_eq_char_def)
  then show ?thesis by (simp add: c TrimSpace_def)
qed

definition instance_from :: "Job \<Rightarrow> JobInstance \<Rightarrow> bool" where
  "instance_from j i \<longleftrightarrow> in_RunnerClass i = job_RunsOn j \<and> in_DependsOn i = job_Needs j \<and> TrimSpace (job_RunsOn j) \<noteq> ''''
     \<and> (if plain j then in_Key i = job_ID j else (\<exists>x. in_Key i = job_ID j @ ''['' @ x))"

lemma compile_job_from:
  assumes "compile_job file j = Inr (xs, ws)" "wf_job j"
  shows "xs \<noteq> [] \<and> list_all (instance_from j) xs"
proof -
  from compile_job_instances [OF assms(1)] obtain steps where e: "expandMatrix j (base_instance j steps) = Inr xs"
    and r: "TrimSpace (job_RunsOn j) \<noteq> ''''" by blast
  have "wf_axes (job_Matrix j)" using assms(2) by (simp add: wf_job_def)
  note k = compile_job_keys [OF assms(1) this]
  note f = expandMatrix_fields [OF e]
  have "instance_from j i" if "i \<in> set xs" for i
  proof (cases "plain j")
    case True
    with k that have "in_Key i = job_ID j" by (metis (mono_tags) empty_iff empty_set image_eqI list.set_map set_ConsD list.simps(15))
    with f that r True show ?thesis by (simp add: instance_from_def base_instance_def)
  next
    case False
    with k that have "\<exists>x. in_Key i = job_ID j @ ''['' @ x" by simp
    with f that r False show ?thesis by (simp add: instance_from_def base_instance_def)
  qed
  with f show ?thesis by (simp add: list_all_iff)
qed

lemma compile_jobs_order:
  assumes "compile_jobs file js = Inr (xs, ws)" "list_all wf_job js" "xs = pre @ i # post"
  shows "\<exists>jpre j jpost. js = jpre @ j # jpost \<and> instance_from j i \<and> (\<forall>k \<in> set jpre. plain k \<longrightarrow> job_ID k \<in> in_Key ` set pre)"
  using assms
proof (induction js arbitrary: xs ws pre)
  case (Cons k js)
  from Cons.prems(1) obtain is1 ws1 is2 ws2 where
    c: "compile_job file k = Inr (is1, ws1)" "compile_jobs file js = Inr (is2, ws2)" "xs = is1 @ is2" by (rule compile_jobs_Cons)
  have k: "wf_job k" "list_all wf_job js" using Cons.prems(2) by simp_all
  note 1 = compile_job_from [OF c(1) k(1)]
  have "is1 @ is2 = pre @ i # post" using c(3) Cons.prems(3) by simp
  then consider us where "is1 = pre @ i # us" | us where "pre = is1 @ us" "is2 = us @ i # post"
    by (auto simp: append_eq_append_conv2 append_eq_Cons_conv Cons_eq_append_conv)
  then show ?case
  proof cases
    case 1
    then have "instance_from k i" using \<open>is1 \<noteq> [] \<and> list_all (instance_from k) is1\<close> by simp
    then show ?thesis by (intro exI [of _ "[]"]) auto
  next
    case 2
    from Cons.IH [OF c(2) k(2) 2(2)] obtain jpre j jpost where
      r: "js = jpre @ j # jpost" "instance_from j i" "\<forall>k \<in> set jpre. plain k \<longrightarrow> job_ID k \<in> in_Key ` set us" by blast
    have "job_ID k \<in> in_Key ` set pre" if "plain k"
      using 1 that 2(1) by (cases is1) (auto simp: instance_from_def)
    with r 2(1) show ?thesis by (intro exI [of _ "k # jpre"] exI [of _ j] exI [of _ jpost]) auto
  qed
qed simp

lemma compile_jobs_from:
  assumes "compile_jobs file js = Inr (xs, ws)" "list_all wf_job js" "i \<in> set xs"
  shows "\<exists>j \<in> set js. instance_from j i"
proof -
  from assms(3) obtain pre post where "xs = pre @ i # post" by (meson split_list)
  from compile_jobs_order [OF assms(1,2) this] show ?thesis by auto
qed

lemma key_owner:
  assumes "instance_from j i" "instance_from k i'" "in_Key i = in_Key i'" "isIdentifier (job_ID j)" "isIdentifier (job_ID k)"
  shows "job_ID j = job_ID k"
proof -
  have own: "takeWhile (\<lambda>c. c \<noteq> CHR ''['') (in_Key x) = job_ID l" if "instance_from l x" "isIdentifier (job_ID l)" for l x
  proof -
    have n: "\<forall>c \<in> set (job_ID l). c \<noteq> CHR ''[''" using ident_chars [OF that(2)] by auto
    have "in_Key x = job_ID l \<or> (\<exists>y. in_Key x = job_ID l @ ''['' @ y)" using that(1) by (auto simp: instance_from_def split: if_splits)
    then show ?thesis
    proof (elim disjE exE)
      assume "in_Key x = job_ID l"
      with n show ?thesis by (simp add: takeWhile_eq_all_conv)
    next
      fix y assume "in_Key x = job_ID l @ ''['' @ y"
      with n show ?thesis by (simp add: takeWhile_append2)
    qed
  qed
  show ?thesis using own [OF assms(1,4)] own [OF assms(2,5)] unfolding assms(3) by simp
qed

text \<open>Axes without repeated values and without commas, so that the keys of the instances differ.\<close>

definition clear_values :: "Job \<Rightarrow> bool" where
  "clear_values j \<longleftrightarrow> (\<forall>vs \<in> snd ` set (job_Matrix j). distinct vs \<and> (\<forall>v \<in> set vs. CHR '','' \<notin> set v))"

lemma compile_job_distinct:
  assumes "compile_job file j = Inr (xs, ws)" "wf_job j" "clear_values j"
  shows "distinct (map in_Key xs)"
proof -
  have ax: "wf_axes (job_Matrix j)" using assms(2) by (simp add: wf_job_def)
  from compile_job_instances [OF assms(1)] obtain steps where e: "expandMatrix j (base_instance j steps) = Inr xs" by blast
  show ?thesis
  proof (cases "job_Matrix j = []")
    case True
    then show ?thesis using compile_job_keys [OF assms(1) ax] by (simp add: plain_def)
  next
    case False
    show ?thesis by (rule keys_distinct [OF ax _ e False]) (use assms(3) in \<open>simp add: clear_values_def\<close>)
  qed
qed

lemma compile_jobs_distinct:
  assumes "compile_jobs file js = Inr (xs, ws)" "list_all wf_job js" "list_all clear_values js" "distinct (map job_ID js)"
  shows "distinct (map in_Key xs)"
  using assms
proof (induction js arbitrary: xs ws)
  case (Cons j js)
  from Cons.prems(1) obtain is1 ws1 is2 ws2 where
    c: "compile_job file j = Inr (is1, ws1)" "compile_jobs file js = Inr (is2, ws2)" "xs = is1 @ is2" by (rule compile_jobs_Cons)
  have wf: "wf_job j" "list_all wf_job js" using Cons.prems(2) by simp_all
  have "in_Key i \<noteq> in_Key i'" if "i \<in> set is1" "i' \<in> set is2" for i i'
  proof
    assume eq: "in_Key i = in_Key i'"
    have "instance_from j i" using compile_job_from [OF c(1) wf(1)] that(1) by (simp add: list_all_iff)
    moreover from compile_jobs_from [OF c(2) wf(2) that(2)] obtain k where "k \<in> set js" "instance_from k i'" by blast
    moreover have "isIdentifier (job_ID j)" "isIdentifier (job_ID k)" using wf \<open>k \<in> set js\<close> by (auto simp: wf_job_def list_all_iff)
    ultimately have "job_ID j = job_ID k" using key_owner eq by blast
    with Cons.prems(4) \<open>k \<in> set js\<close> show False by simp
  qed
  moreover have "distinct (map in_Key is1)" using compile_job_distinct [OF c(1) wf(1)] Cons.prems(3) by simp
  moreover have "distinct (map in_Key is2)" using Cons.IH [OF c(2) wf(2)] Cons.prems(3,4) by simp
  ultimately show ?case by (auto simp: c(3))
qed simp

lemma Compile_jobs:
  assumes "Compile (Some w) = Some (Inr c)"
  obtains ordered ws where "topoSort (wf_Jobs w) = Some (Inr ordered)" "compile_jobs (wf_File w) ordered = Inr (c_Jobs c, ws)"
    "wf_Jobs w \<noteq> []"
  using assms by (auto simp: Compile_def split: option.splits sum.splits if_splits prod.splits)

lemma topoSort_ordered:
  assumes "topoSort jobs = Some (Inr ordered)"
  shows "mset ordered = mset jobs" "needs_first ordered" "distinct (map job_ID jobs)"
  using topoSort_cases [of jobs] assms by auto

lemma validate_all_iff: "validate_all js = Inr () \<longleftrightarrow> (\<forall>j \<in> set js. JobIntent_Validate j = Inr ())"
  by (induction js) (auto split: sum.splits)

lemma instance_valid:
  assumes "instance_from j i" "wf_job j"
  shows "JobIntent_Validate (intent_of_instance i) = Inr ()"
proof -
  have "isIdentifier (job_ID j)" using assms(2) by (simp add: wf_job_def)
  then have "TrimSpace (in_Key i) \<noteq> ''''" using assms(1) ident_trim [of "job_ID j" "''''"] ident_trim [of "job_ID j"]
    by (auto simp: instance_from_def split: if_splits)
  then show ?thesis using assms(1) by (simp add: JobIntent_Validate_def intent_of_instance_def instance_from_def)
qed

lemma intents_split:
  assumes "JobIntents c = pre @ x # post"
  obtains ipre i ipost where "c_Jobs c = ipre @ i # ipost" "pre = map intent_of_instance ipre" "x = intent_of_instance i"
  using assms by (auto simp: JobIntents_def map_eq_append_conv)

lemma intent_needs:
  assumes c: "Compile (Some w) = Some (Inr c)" "wf_workflow w" and s: "JobIntents c = pre @ x # post" "d \<in> set (ji_DependsOn x)"
  shows "\<exists>j \<in> set (wf_Jobs w). job_ID j = d \<and> (if plain j then d \<in> ji_JobKey ` set pre else d \<notin> ji_JobKey ` set (JobIntents c))"
proof -
  from c(1) obtain ordered ws where o: "topoSort (wf_Jobs w) = Some (Inr ordered)" "compile_jobs (wf_File w) ordered = Inr (c_Jobs c, ws)"
    by (rule Compile_jobs)
  note t = topoSort_ordered [OF o(1)]
  have set: "set ordered = set (wf_Jobs w)" using t(1) by (rule mset_eq_setD)
  have wf: "list_all wf_job ordered" using c(2) by (simp add: wf_workflow_def list_all_iff set)
  from s(1) obtain ipre i ipost where i: "c_Jobs c = ipre @ i # ipost" "pre = map intent_of_instance ipre" "x = intent_of_instance i"
    by (rule intents_split)
  from compile_jobs_order [OF o(2) wf i(1)] obtain jpre j jpost where
    j: "ordered = jpre @ j # jpost" "instance_from j i" "\<forall>k \<in> set jpre. plain k \<longrightarrow> job_ID k \<in> in_Key ` set ipre" by blast
  have "d \<in> set (job_Needs j)" using s(2) j(2) i(3) by (simp add: instance_from_def intent_of_instance_def)
  moreover have "set (job_Needs j) \<subseteq> job_ID ` set jpre" using t(2) j(1) unfolding needs_first_def by blast
  ultimately obtain k where k: "k \<in> set jpre" "job_ID k = d" by blast
  have kw: "k \<in> set (wf_Jobs w)" "wf_job k" using k(1) j(1) set wf by (auto simp: list_all_iff)
  have "d \<notin> ji_JobKey ` set (JobIntents c)" if np: "\<not> plain k"
  proof
    assume "d \<in> ji_JobKey ` set (JobIntents c)"
    then obtain i' where i': "i' \<in> set (c_Jobs c)" "in_Key i' = d" by (auto simp: JobIntents_def intent_of_instance_def)
    from compile_jobs_from [OF o(2) wf i'(1)] obtain l where l: "l \<in> set ordered" "instance_from l i'" by blast
    have ids: "isIdentifier (job_ID l)" "isIdentifier d" using wf l(1) kw(2) k(2) by (auto simp: list_all_iff wf_job_def)
    have "plain l"
    proof (rule ccontr)
      assume "\<not> plain l"
      with l(2) i'(2) have "CHR ''['' \<in> set d" by (auto simp: instance_from_def)
      with ident_chars [OF ids(2)] show False by simp
    qed
    with l(2) i'(2) have "plain l" "job_ID l = d" by (simp_all add: instance_from_def)
    moreover have "distinct (map job_ID ordered)" using t(1,3) by (metis mset_map mset_eq_imp_distinct_iff)
    moreover have "k \<in> set ordered" using k(1) j(1) by simp
    ultimately have "l = k" using l(1) k(2) by (metis distinct_map inj_onD)
    with \<open>plain l\<close> np show False by simp
  qed
  moreover have "d \<in> ji_JobKey ` set pre" if "plain k" using j(3) [rule_format, OF k(1) that] k(2) by (simp add: i(2) image_image intent_of_instance_def)
  ultimately show ?thesis using kw(1) k(2) by (intro bexI [of _ k]) simp_all
qed

text \<open>
  C14. From a parsed workflow that compiles come intents of which there is at least one and of which each is
  valid; they have different keys when no matrix axis repeats a value or holds a value with a comma. Every job an intent needs is a
  job of the workflow. When that job has no matrix, an intent earlier in the list has its key; when it has one, no
  intent of the list has its key, as its instances have keys of their own, and the need names nothing the scheduler knows.
\<close>

theorem compiled_intents_accepted:
  assumes "Compile (Some w) = Some (Inr c)" "wf_workflow w"
  shows "JobIntents c \<noteq> [] \<and> validate_all (JobIntents c) = Inr ()
    \<and> (list_all clear_values (wf_Jobs w) \<longrightarrow> distinct (map ji_JobKey (JobIntents c)))
    \<and> (\<forall>pre x post d. JobIntents c = pre @ x # post \<longrightarrow> d \<in> set (ji_DependsOn x) \<longrightarrow>
         (\<exists>j \<in> set (wf_Jobs w). job_ID j = d \<and> (if plain j then d \<in> ji_JobKey ` set pre else d \<notin> ji_JobKey ` set (JobIntents c))))"
proof -
  from assms(1) obtain ordered ws where o: "topoSort (wf_Jobs w) = Some (Inr ordered)" "compile_jobs (wf_File w) ordered = Inr (c_Jobs c, ws)"
    "wf_Jobs w \<noteq> []" by (rule Compile_jobs)
  note t = topoSort_ordered [OF o(1)]
  have set: "set ordered = set (wf_Jobs w)" using t(1) by (rule mset_eq_setD)
  have wf: "list_all wf_job ordered" using assms(2) by (simp add: wf_workflow_def list_all_iff set)
  have "c_Jobs c \<noteq> []"
  proof (cases ordered)
    case (Cons j js)
    from o(2) [unfolded Cons] obtain is1 ws1 where "compile_job (wf_File w) j = Inr (is1, ws1)" "set is1 \<subseteq> set (c_Jobs c)"
      by (rule compile_jobs_Cons) auto
    with compile_job_from wf Cons show ?thesis by fastforce
  qed (use set o(3) in simp)
  moreover have "validate_all (JobIntents c) = Inr ()"
    using compile_jobs_from [OF o(2) wf] instance_valid wf by (force simp: validate_all_iff JobIntents_def list_all_iff)
  moreover have "distinct (map ji_JobKey (JobIntents c))" if "list_all clear_values (wf_Jobs w)"
  proof -
    have "list_all clear_values ordered" using that by (simp add: list_all_iff set)
    moreover have "distinct (map job_ID ordered)" using t(1,3) by (metis mset_map mset_eq_imp_distinct_iff)
    ultimately have "distinct (map in_Key (c_Jobs c))" by (rule compile_jobs_distinct [OF o(2) wf])
    then show ?thesis by (simp add: JobIntents_def comp_def intent_of_instance_def)
  qed
  ultimately show ?thesis using intent_needs [OF assms] by (simp add: JobIntents_def)
qed

definition demo_step :: SyntaxStep where
  "demo_step = \<lparr>st_Pos = \<lparr>pos_Line = 1, pos_Column = 1\<rparr>, st_Name = '''', st_If = '''', st_Run = ''make'', st_Uses = '''',
     st_With = [], st_ContinueOnError = False, st_Env = []\<rparr>"

definition demo_workflow :: Workflow where
  "demo_workflow = (zero_workflow ''ci.yml'')\<lparr>wf_Jobs :=
     [zero_job\<lparr>job_ID := ''release'', job_RunsOn := ''linux'', job_Needs := [''build'', ''test''], job_Steps := [demo_step]\<rparr>,
      zero_job\<lparr>job_ID := ''test'', job_RunsOn := ''linux'', job_Needs := [''build''], job_Matrix := [(''os'', [''a'', ''b''])], job_Steps := [demo_step]\<rparr>,
      zero_job\<lparr>job_ID := ''build'', job_RunsOn := ''linux'', job_Steps := [demo_step]\<rparr>]\<rparr>"

lemma demo_workflow_compiles:
  obtains c where "Compile (Some demo_workflow) = Some (Inr c)"
    "map (\<lambda>x. (ji_JobKey x, ji_DependsOn x)) (JobIntents c)
       = [(''build'', []), (''test[a]'', [''build'']), (''test[b]'', [''build'']), (''release'', [''build'', ''test''])]"
proof -
  have "map_option (map_sum (\<lambda>e. e) (\<lambda>c. map (\<lambda>x. (ji_JobKey x, ji_DependsOn x)) (JobIntents c))) (Compile (Some demo_workflow))
     = Some (Inr [(''build'', []), (''test[a]'', [''build'']), (''test[b]'', [''build'']), (''release'', [''build'', ''test''])])"
    by code_simp
  then obtain r where "Compile (Some demo_workflow) = Some r"
    "map_sum (\<lambda>e. e) (\<lambda>c. map (\<lambda>x. (ji_JobKey x, ji_DependsOn x)) (JobIntents c)) r
      = Inr [(''build'', []), (''test[a]'', [''build'']), (''test[b]'', [''build'']), (''release'', [''build'', ''test''])]" by auto
  with that show thesis by (cases r) auto
qed

theorem compiled_intents_accepted_witness:
  "\<exists>c. Compile (Some demo_workflow) = Some (Inr c) \<and> validate_all (JobIntents c) = Inr () \<and> distinct (map ji_JobKey (JobIntents c))
     \<and> (\<exists>pre x post. JobIntents c = pre @ x # post \<and> ji_JobKey x = ''release'' \<and> ''build'' \<in> ji_JobKey ` set pre)
     \<and> ''test'' \<notin> ji_JobKey ` set (JobIntents c)"
proof -
  obtain c where c: "Compile (Some demo_workflow) = Some (Inr c)"
    "map (\<lambda>x. (ji_JobKey x, ji_DependsOn x)) (JobIntents c)
       = [(''build'', []), (''test[a]'', [''build'']), (''test[b]'', [''build'']), (''release'', [''build'', ''test''])]"
    by (rule demo_workflow_compiles)
  have w: "wf_workflow demo_workflow" "list_all clear_values (wf_Jobs demo_workflow)" by code_simp+
  have p: "\<forall>j \<in> set (wf_Jobs demo_workflow). job_ID j = ''build'' \<longrightarrow> plain j"
    "\<forall>j \<in> set (wf_Jobs demo_workflow). job_ID j = ''test'' \<longrightarrow> \<not> plain j" by code_simp+
  note a = compiled_intents_accepted [OF c(1) w(1)]
  from c(2) obtain pre x where x: "JobIntents c = pre @ [x]" "ji_JobKey x = ''release''" "ji_DependsOn x = [''build'', ''test'']"
    by (auto simp: map_eq_Cons_conv)
  have n: "d \<in> set [''build'', ''test''] \<Longrightarrow> \<exists>j \<in> set (wf_Jobs demo_workflow). job_ID j = d
      \<and> (if plain j then d \<in> ji_JobKey ` set pre else d \<notin> ji_JobKey ` set (JobIntents c))" for d
    using a [THEN conjunct2, THEN conjunct2, THEN conjunct2, rule_format, of pre x "[]" d] x by simp
  have "''build'' \<in> ji_JobKey ` set pre" using n [of "''build''"] p(1) by auto
  moreover have "''test'' \<notin> ji_JobKey ` set (JobIntents c)" using n [of "''test''"] p(2) by auto
  moreover have "validate_all (JobIntents c) = Inr ()" "distinct (map ji_JobKey (JobIntents c))" using a w(2) by simp_all
  ultimately show ?thesis using c(1) x(1,2) by blast
qed

end
