(* ===== verification/Workflow_Source.thy ===== *)
theory Workflow_Source
  imports Compiled_Intents Github_Events Run_Plan
begin

text \<open>
  Where the control plane finds workflows and how a compiled job becomes a plan: the
  workflow source and plan builder of \<^verbatim>\<open>internal/server/server.go\<close>, the directory reader
  of \<^verbatim>\<open>support.go\<close> and the schedule listing of \<^verbatim>\<open>schedule.go\<close>. The repository
  fetcher, the file system and the decoders are parameters.
\<close>

section \<open>Reading workflow files\<close>

record WorkflowFile =
  wfl_Name :: string
  wfl_Data :: bytes

text \<open>A directory entry: its name, whether it resolves to a regular file, and what reading it yields.\<close>

record dir_entry =
  de_Name :: string
  de_Regular :: bool
  de_Data :: "bytes res"

record workflowSource =
  ws_dir :: string
  ws_fetcher :: "(RepositoryRef \<Rightarrow> string \<Rightarrow> WorkflowFile list res) option"
  ws_actionFetcher :: "(string \<Rightarrow> string \<Rightarrow> string \<Rightarrow> string \<Rightarrow> ActionMeta res) option"
  ws_DefaultBranch :: "(RepositoryRef \<Rightarrow> string res) option"
  ws_ReadDir :: "string \<Rightarrow> dir_entry list res"
  ws_yaml :: "bytes \<Rightarrow> string + yamlNode"
  ws_base_ref :: "bytes \<Rightarrow> string"

fun read_files :: "dir_entry list \<Rightarrow> WorkflowFile list res" where
  "read_files [] = Inr []"
| "read_files (e # es) =
     (case de_Data e of
        Inl err \<Rightarrow> Inl (Wrapf (''read '' @ de_Name e) err)
      | Inr data \<Rightarrow>
          (case read_files es of Inl err \<Rightarrow> Inl err | Inr fs \<Rightarrow> Inr (\<lparr>wfl_Name = de_Name e, wfl_Data = data\<rparr> # fs)))"

definition readDirSorted :: "workflowSource \<Rightarrow> string \<Rightarrow> WorkflowFile list res" where
  "readDirSorted S dir =
     (case ws_ReadDir S dir of
        Inl e \<Rightarrow> Inl (Wrapf (''read '' @ dir) e)
      | Inr entries \<Rightarrow> read_files (sort_key de_Name (filter de_Regular entries)))"

definition listYAML :: "workflowSource \<Rightarrow> string \<Rightarrow> WorkflowFile list res" where
  "listYAML S dir =
     (if dir = '''' then Inl (Errorf ''workflows dir not configured'')
      else case readDirSorted S dir of
             Inl e \<Rightarrow> Inl e
           | Inr es \<Rightarrow> Inr (filter (\<lambda>e. HasSuffix (wfl_Name e) ''.yml'' \<or> HasSuffix (wfl_Name e) ''.yaml'') es))"

definition source_load :: "workflowSource \<Rightarrow> RepositoryRef \<Rightarrow> string \<Rightarrow> WorkflowFile list res" where
  "source_load S repo ref = (case ws_fetcher S of Some fetch \<Rightarrow> fetch repo ref | None \<Rightarrow> listYAML S (ws_dir S))"

section \<open>The jobs of an event\<close>

text \<open>The compiler returns on every workflow, so the last branch is never taken.\<close>

definition compiled :: "Workflow \<Rightarrow> string + Compiled" where
  "compiled w = (case Compile (Some w) of Some r \<Rightarrow> r | None \<Rightarrow> Inl '''')"

definition matches :: "workflowSource \<Rightarrow> Event \<Rightarrow> bytes \<Rightarrow> Compiled \<Rightarrow> bool" where
  "matches S ev payload c =
     (if ev_Name ev = ''push'' then MatchesPush c (ev_Ref ev)
      else if ev_Name ev = ''pull_request'' then MatchesPullRequest c (ws_base_ref S payload)
      else ev_Name ev = ''schedule'' \<and> length (Schedules c) > 0)"

fun match_files :: "workflowSource \<Rightarrow> Event \<Rightarrow> bytes \<Rightarrow> WorkflowFile list \<Rightarrow> JobInstance list res" where
  "match_files S ev payload [] = Inr []"
| "match_files S ev payload (f # fs) =
     (case Parse (ws_yaml S) (wfl_Name f) (wfl_Data f) of
        Inl ds \<Rightarrow> Inl (Wrapf ''workflow source'' (Errorf (Error_Error ds)))
      | Inr w \<Rightarrow>
          (case compiled w of
             Inl e \<Rightarrow> Inl (Wrapf ''workflow source'' (Errorf e))
           | Inr c \<Rightarrow>
               (case match_files S ev payload fs of
                  Inl e \<Rightarrow> Inl e
                | Inr out \<Rightarrow> Inr ((if matches S ev payload c then c_Jobs c else []) @ out))))"

definition matchedJobs :: "workflowSource \<Rightarrow> Event \<Rightarrow> bytes \<Rightarrow> JobInstance list res" where
  "matchedJobs S ev payload =
     (if ev_Name ev \<notin> {''push'', ''pull_request'', ''schedule''} then Inr []
      else case source_load S (ev_Repository ev) (if ev_Name ev = ''schedule'' then ev_Ref ev else ev_SHA ev) of
             Inl e \<Rightarrow> Inl (Wrapf ''workflow source'' e)
           | Inr files \<Rightarrow> match_files S ev payload files)"

definition source_Compile :: "workflowSource \<Rightarrow> Event \<Rightarrow> bytes \<Rightarrow> JobIntent list res" where
  "source_Compile S ev payload =
     (case matchedJobs S ev payload of
        Inl e \<Rightarrow> Inl e
      | Inr jobs \<Rightarrow> Inr (map (\<lambda>j. (intent_of_instance j)\<lparr>ji_Condition := in_If j\<rparr>) jobs))"

section \<open>Scheduled workflows\<close>

record ScheduledWorkflow =
  sw_Repository :: RepositoryRef
  sw_FileName :: string
  sw_Ref :: string
  sw_Cron :: string

record ScheduledRepo =
  sr_Owner :: string
  sr_Name :: string

definition file_schedules :: "workflowSource \<Rightarrow> RepositoryRef \<Rightarrow> string \<Rightarrow> WorkflowFile \<Rightarrow> ScheduledWorkflow list" where
  "file_schedules S repo ref f =
     (case Parse (ws_yaml S) (wfl_Name f) (wfl_Data f) of
        Inl _ \<Rightarrow> []
      | Inr w \<Rightarrow> map (\<lambda>c. \<lparr>sw_Repository = repo, sw_FileName = wfl_Name f, sw_Ref = ref, sw_Cron = c\<rparr>) (on_Schedule (wf_On w)))"

definition default_ref :: "workflowSource \<Rightarrow> RepositoryRef \<Rightarrow> string res" where
  "default_ref S repo =
     (case ws_DefaultBranch S of
        None \<Rightarrow> Inr ''''
      | Some branch_of \<Rightarrow>
          (case branch_of repo of
             Inl e \<Rightarrow> Inl (Wrapf (''schedule: resolve '' @ repo_Owner repo @ ''/'' @ repo_Name repo @ '' default branch'') e)
           | Inr branch \<Rightarrow> Inr (''refs/heads/'' @ branch)))"

fun schedules_List :: "workflowSource \<Rightarrow> ScheduledRepo list \<Rightarrow> ScheduledWorkflow list res" where
  "schedules_List S [] = Inr []"
| "schedules_List S (r # rs) =
     (let repo = \<lparr>repo_Provider = ''github'', repo_Owner = sr_Owner r, repo_Name = sr_Name r\<rparr> in
      case default_ref S repo of
        Inl e \<Rightarrow> Inl e
      | Inr ref \<Rightarrow>
          (case source_load S repo ref of
             Inl e \<Rightarrow> Inl (Wrapf (''schedule: load '' @ sr_Owner r @ ''/'' @ sr_Name r @ '' workflows'') e)
           | Inr files \<Rightarrow>
               (case schedules_List S rs of
                  Inl e \<Rightarrow> Inl e
                | Inr out \<Rightarrow> Inr (concat (map (file_schedules S repo ref) files) @ out))))"

section \<open>Plans\<close>

text \<open>The first element of \<^verbatim>\<open>strings.Fields\<close>, which a blank string does not have.\<close>

definition first_field :: "string \<Rightarrow> string option" where
  "first_field s = (case takeWhile (\<lambda>c. \<not> is_space c) (dropWhile is_space s) of [] \<Rightarrow> None | f \<Rightarrow> Some f)"

definition truncate_str :: "string \<Rightarrow> nat \<Rightarrow> string" where
  "truncate_str s n = (if length s \<le> n then s else take n s)"

text \<open>The index into an empty list of fields is a run-time panic.\<close>

definition index_panic :: Err where
  "index_panic = Errorf ''runtime error: index out of range [0] with length 0''"

definition uses_base :: "string \<Rightarrow> string" where
  "uses_base uses =
     (case Cut uses (CHR ''/'') of
        (_, base, ok) \<Rightarrow>
          if \<not> ok then uses
          else (case LastIndex base (CHR ''@'') of Some i \<Rightarrow> take i base | None \<Rightarrow> base))"

definition stDisplayName :: "Step \<Rightarrow> string res" where
  "stDisplayName st =
     (if s_Name st \<noteq> '''' then Inr (s_Name st)
      else case s_Uses st of
        Some b \<Rightarrow> (case Cut (bc_Action b) (CHR ''/'') of (_, base, ok) \<Rightarrow> Inr (if ok then base else bc_Action b))
      | None \<Rightarrow>
          if s_RawUses st \<noteq> '''' then Inr (uses_base (s_RawUses st))
          else (case first_field (s_Run st) of Some f \<Rightarrow> Inr (truncate_str f 24) | None \<Rightarrow> Inl index_panic))"

definition secretRefName :: "string \<Rightarrow> string option" where
  "secretRefName v0 =
     (let v = TrimSpace v0 in
      if \<not> HasPrefix v ''${{ secrets.'' \<or> \<not> HasSuffix v ''}}'' then None
      else let name = TrimSpace (TrimSuffix (TrimPrefix v ''${{ secrets.'') ''}}'') in
           if name = '''' then None else Some name)"

text \<open>The values that are secret references, each with the place it goes to, and the others.\<close>

fun split_values :: "(string \<Rightarrow> string) \<Rightarrow> (string, string) gomap \<Rightarrow> SecretRef list \<times> (string, string) gomap" where
  "split_values place [] = ([], [])"
| "split_values place ((k, v) # m) =
     (let (refs, plain) = split_values place m in
      case secretRefName v of
        Some name \<Rightarrow> (\<lparr>sref_Scope = ''repository'', sref_Name = name, sref_Env = place k\<rparr> # refs, plain)
      | None \<Rightarrow> (refs, (k, v) # plain))"

definition with_place :: "string \<Rightarrow> string \<Rightarrow> string" where
  "with_place sid k = ''$with:'' @ sid @ '':'' @ k"

definition no_run :: RunStep where
  "no_run = \<lparr>rstep_Script = '''', rstep_Shell = '''', rstep_Env = []\<rparr>"

definition subst_run :: "(string, string) gomap \<Rightarrow> string \<Rightarrow> string" where
  "subst_run inputs script =
     fold (\<lambda>(k, v) s. ReplaceAll (ReplaceAll s (''${{ inputs.'' @ k @ '' }}'') v) (''${{inputs.'' @ k @ ''}}'') v) inputs script"

definition subst_with :: "(string, string) gomap \<Rightarrow> string \<Rightarrow> string" where
  "subst_with inputs value = fold (\<lambda>(k, v) s. ReplaceAll s (''${{ inputs.'' @ k @ '' }}'') v) inputs value"

definition composite_plan_step :: "(string, string) gomap \<Rightarrow> string \<Rightarrow> nat \<Rightarrow> CompositeActionStep \<Rightarrow> PlanStep" where
  "composite_plan_step outerInputs outerID i cs =
     PlanStep (outerID @ ''-'' @ itoa i) (ca_Name cs) ''''
       (if ca_Run cs \<noteq> '''' then no_run\<lparr>rstep_Script := subst_run outerInputs (ca_Run cs)\<rparr> else no_run) None
       (if ca_Run cs = '''' \<and> ca_Uses cs \<noteq> ''''
        then Some \<lparr>js_Repo = ca_Uses cs, js_Ref = '''', js_Path = '''', js_Main = '''', js_Script = '''',
               js_Inputs = map (\<lambda>(k, v). (k, subst_with outerInputs v)) (ca_With cs)\<rparr>
        else None)
       None False ''''"

definition expandComposite :: "CompositeActionStep list \<Rightarrow> (string, string) gomap \<Rightarrow> string \<Rightarrow> PlanStep list" where
  "expandComposite steps outerInputs outerID = map (\<lambda>(i, cs). composite_plan_step outerInputs outerID i cs) (enumerate 0 steps)"

definition js_call :: "string \<Rightarrow> string \<Rightarrow> string \<Rightarrow> string \<Rightarrow> (string, string) gomap \<Rightarrow> JSStep" where
  "js_call repo ref path main inputs =
     \<lparr>js_Repo = repo, js_Ref = ref, js_Path = path, js_Main = main,
      js_Script = (case mget inputs ''script'' of Some x \<Rightarrow> x | None \<Rightarrow> ''''), js_Inputs = inputs\<rparr>"

definition action_steps :: "workflowSource \<Rightarrow> Step \<Rightarrow> string \<Rightarrow> (string, string) gomap \<Rightarrow> PlanStep list" where
  "action_steps S st sid inputs =
     (let (owner, repo, subpath, ref) =
            (case ParseUses (s_RawUses st) of Inr r \<Rightarrow> r | Inl _ \<Rightarrow> ('''', s_RawUses st, '''', ''main''));
          js = (\<lambda>main. [PlanStep sid (s_Name st) (s_If st) no_run None (Some (js_call (owner @ ''/'' @ repo) ref subpath main inputs)) None
                  (s_ContinueOnError st) '''']) in
      case ws_actionFetcher S of
        None \<Rightarrow> js ''''
      | Some fetch \<Rightarrow>
          (case fetch owner repo ref subpath of
             Inl _ \<Rightarrow> js ''''
           | Inr meta \<Rightarrow>
               if HasPrefix (am_RunsUsing meta) ''composite'' then expandComposite (am_Steps meta) inputs sid
               else if HasPrefix (am_RunsUsing meta) ''node'' then js (am_Main meta)
               else js ''''))"

definition plan_steps :: "workflowSource \<Rightarrow> Step \<Rightarrow> string \<Rightarrow> PlanStep list \<times> SecretRef list" where
  "plan_steps S st sid =
     (case s_Uses st of
        Some b \<Rightarrow>
          (let (refs, inputs) = split_values (with_place sid) (bc_Inputs b) in
           ([PlanStep sid (s_Name st) (s_If st) no_run (Some \<lparr>bs_Action = bc_Action b, bs_Version = bc_Version b, bs_Inputs = inputs\<rparr>)
               None None (s_ContinueOnError st) ''''], refs))
      | None \<Rightarrow>
          if s_RawUses st \<noteq> '''' then
            (let (refs, inputs) = split_values (with_place sid) (s_RawWith st) in (action_steps S st sid inputs, refs))
          else ([PlanStep sid (s_Name st) (s_If st) (no_run\<lparr>rstep_Script := s_Run st, rstep_Env := s_Env st\<rparr>) None None None
                   (s_ContinueOnError st) ''''], []))"

fun plan_all :: "workflowSource \<Rightarrow> Step list \<Rightarrow> (PlanStep list \<times> SecretRef list) res" where
  "plan_all S [] = Inr ([], [])"
| "plan_all S (st # sts) =
     (case stDisplayName st of
        Inl e \<Rightarrow> Inl e
      | Inr sid \<Rightarrow>
          (case plan_all S sts of
             Inl e \<Rightarrow> Inl e
           | Inr (steps, refs) \<Rightarrow> Inr (fst (plan_steps S st sid) @ steps, snd (plan_steps S st sid) @ refs)))"

definition buildPlan :: "workflowSource \<Rightarrow> JobRunRecord \<Rightarrow> Event \<Rightarrow> JobInstance \<Rightarrow> Plan res" where
  "buildPlan S rec ev inst =
     (case plan_all S (in_Steps inst) of
        Inl e \<Rightarrow> Inl e
      | Inr (steps, refs) \<Rightarrow>
          (let (env_refs, env) = split_values (\<lambda>k. k) (in_Env inst) in
           Inr \<lparr>pl_JobRunID = jr_ID rec, pl_Repository = ev_Repository ev, pl_EventName = ev_Name ev, pl_Actor = ev_Actor ev,
             pl_SHA = ev_SHA ev, pl_Ref = ev_Ref ev, pl_RunnerClass = in_RunnerClass inst, pl_Env = env, pl_Steps = steps,
             pl_SecretRefs = env_refs @ refs, pl_TimeoutSecs = 0\<rparr>))"

end
