(* ===== verification/Check_Report.thy ===== *)
theory Check_Report
  imports Store_Port Expression_Value
begin

text \<open>
  Job state as a provider check (\<^verbatim>\<open>run/report\<close>) and the reporter that upserts it as a
  GitHub check run (\<^verbatim>\<open>provider/github/check.go\<close>). The GitHub API and the installation
  token are parameters.
\<close>

section \<open>The check of a job\<close>

datatype CheckStatus = StatusNone | StatusQueued | StatusProgress | StatusCompleted
datatype CheckConclusion = ConclusionNone | ConclusionSuccess | ConclusionFailure | ConclusionCancelled | ConclusionSkipped

fun CheckStatus_string :: "CheckStatus \<Rightarrow> string" where
  "CheckStatus_string StatusNone = ''''"
| "CheckStatus_string StatusQueued = ''queued''"
| "CheckStatus_string StatusProgress = ''in_progress''"
| "CheckStatus_string StatusCompleted = ''completed''"

fun CheckConclusion_string :: "CheckConclusion \<Rightarrow> string" where
  "CheckConclusion_string ConclusionNone = ''''"
| "CheckConclusion_string ConclusionSuccess = ''success''"
| "CheckConclusion_string ConclusionFailure = ''failure''"
| "CheckConclusion_string ConclusionCancelled = ''cancelled''"
| "CheckConclusion_string ConclusionSkipped = ''skipped''"

record Check =
  ck_RunID :: RunID
  ck_JobRunID :: JobRunID
  ck_Name :: string
  ck_ExternalID :: string
  ck_DetailsURL :: string
  ck_Status :: CheckStatus
  ck_Conclusion :: CheckConclusion
  ck_StartedAt :: "time option"
  ck_CompletedAt :: "time option"

definition base_check :: "JobRunRecord \<Rightarrow> string \<Rightarrow> Check" where
  "base_check job detailsBase =
     \<lparr>ck_RunID = jr_RunID job, ck_JobRunID = jr_ID job, ck_Name = jr_JobKey job, ck_ExternalID = jr_ID job,
      ck_DetailsURL = detailsBase @ ''/runs/'' @ jr_RunID job @ ''/jobs/'' @ jr_JobKey job,
      ck_Status = StatusNone, ck_Conclusion = ConclusionNone, ck_StartedAt = jr_StartedAt job, ck_CompletedAt = None\<rparr>"

definition concluded :: "CheckConclusion \<Rightarrow> time option \<Rightarrow> Check \<Rightarrow> Check" where
  "concluded con fin c = c\<lparr>ck_Status := StatusCompleted, ck_Conclusion := con, ck_CompletedAt := fin\<rparr>"

definition MapJobRun :: "JobRunRecord \<Rightarrow> string \<Rightarrow> Check res" where
  "MapJobRun job detailsBase =
     (if jr_JobKey job = '''' then Inl (Errorf (''report: job '' @ jr_ID job @ '' has empty job key''))
      else let c = base_check job detailsBase in
        case jr_Status job of
          JobQueued \<Rightarrow> Inr (c\<lparr>ck_Status := StatusQueued\<rparr>)
        | JobDispatched \<Rightarrow> Inr (c\<lparr>ck_Status := StatusProgress\<rparr>)
        | JobRunning \<Rightarrow> Inr (c\<lparr>ck_Status := StatusProgress\<rparr>)
        | JobSucceeded \<Rightarrow> Inr (concluded ConclusionSuccess (jr_FinishedAt job) c)
        | JobFailed \<Rightarrow> Inr (concluded ConclusionFailure (jr_FinishedAt job) c)
        | JobCancelled \<Rightarrow> Inr (concluded ConclusionCancelled (jr_FinishedAt job) c)
        | JobSkipped \<Rightarrow> Inr (concluded ConclusionSkipped None c)
        | JobOther s \<Rightarrow> Inl (Errorf (''report: unmapped job status '' @ Quote s)))"

section \<open>The GitHub reporter\<close>

record checkRun =
  cr_ID :: int
  cr_ExternalID :: string
  cr_Status :: string

text \<open>
  The API over the state of the provider: a list request answers a status code and the
  decoded body, a write answers its status code and status line.
\<close>

record 'g checks_api =
  gh_Token :: "string res"
  gh_list :: "string \<Rightarrow> string \<Rightarrow> ('g, nat \<times> checkRun list res) op"
  gh_write :: "string \<Rightarrow> string \<Rightarrow> string \<Rightarrow> (string \<times> string) list \<Rightarrow> ('g, nat \<times> string) op"
  gh_RFC3339 :: "time \<Rightarrow> string"

definition checkPayload :: "(time \<Rightarrow> string) \<Rightarrow> Check \<Rightarrow> string \<Rightarrow> (string \<times> string) list" where
  "checkPayload fmt c sha =
     [(''name'', ck_Name c), (''head_sha'', sha), (''external_id'', ck_ExternalID c), (''details_url'', ck_DetailsURL c),
      (''status'', CheckStatus_string (ck_Status c))]
     @ (if ck_Status c = StatusCompleted then [(''conclusion'', CheckConclusion_string (ck_Conclusion c))] else [])
     @ (case ck_StartedAt c of Some t \<Rightarrow> [(''started_at'', fmt t)] | None \<Rightarrow> [])
     @ (case ck_CompletedAt c of Some t \<Rightarrow> [(''completed_at'', fmt t)] | None \<Rightarrow> [])"

definition redactPath :: "string \<Rightarrow> string" where
  "redactPath url = takeWhile (\<lambda>c. c \<noteq> CHR ''?'') url"

definition repo_url :: "string \<Rightarrow> string \<Rightarrow> string \<Rightarrow> string" where
  "repo_url base owner name = base @ ''/repos/'' @ owner @ ''/'' @ name"

definition findByExternalID :: "'g checks_api \<Rightarrow> string \<Rightarrow> string \<Rightarrow> string \<Rightarrow> string \<Rightarrow> string \<Rightarrow> string \<Rightarrow> ('g, checkRun option) op" where
  "findByExternalID api base token owner name sha externalID g =
     (case gh_list api token (repo_url base owner name @ ''/commits/'' @ sha @ ''/check-runs?per_page=100'') g of
        (Inl e, g') \<Rightarrow> (Inl (Wrapf (''github check: list for '' @ externalID) e), g')
      | (Inr (status, out), g') \<Rightarrow>
          if status \<noteq> 200 then (Inl (Errorf (''github check: list status '' @ itoa status)), g')
          else case out of
                 Inl e \<Rightarrow> (Inl (Wrapf ''github check: decode list response'' e), g')
               | Inr runs \<Rightarrow> (Inr (find (\<lambda>r. cr_ExternalID r = externalID) runs), g'))"

definition gh_do :: "'g checks_api \<Rightarrow> string \<Rightarrow> string \<Rightarrow> string \<Rightarrow> (string \<times> string) list \<Rightarrow> ('g, unit) op" where
  "gh_do api token meth url payload g =
     (case gh_write api token meth url payload g of
        (Inl e, g') \<Rightarrow> (Inl e, g')
      | (Inr (status, line), g') \<Rightarrow>
          if status \<ge> 300 then (Inl (Errorf (''github check: '' @ meth @ '' '' @ redactPath url @ '' status '' @ line)), g')
          else (Inr (), g'))"

definition upsert_check :: "'g checks_api \<Rightarrow> string \<Rightarrow> string \<Rightarrow> RunRecord \<Rightarrow> Check \<Rightarrow> checkRun option \<Rightarrow> ('g, unit) op" where
  "upsert_check api base token run c existing g =
     (let url = repo_url base (repo_Owner (ev_Repository (run_Event run))) (repo_Name (ev_Repository (run_Event run))) @ ''/check-runs'';
          body = checkPayload (gh_RFC3339 api) c (ev_SHA (run_Event run)) in
      case existing of
        Some r \<Rightarrow>
          (case gh_do api token ''PATCH'' (url @ ''/'' @ FormatInt (cr_ID r)) body g of
             (Inl e, g') \<Rightarrow> (Inl (Wrapf (''github check: update '' @ ck_ExternalID c) e), g')
           | (Inr _, g') \<Rightarrow> (Inr (), g'))
      | None \<Rightarrow>
          (case gh_do api token ''POST'' url body g of
             (Inl e, g') \<Rightarrow> (Inl (Wrapf (''github check: create '' @ ck_ExternalID c) e), g')
           | (Inr _, g') \<Rightarrow> (Inr (), g')))"

definition check_Report :: "'g checks_api \<Rightarrow> string \<Rightarrow> RunRecord \<Rightarrow> Check \<Rightarrow> ('g, unit) op" where
  "check_Report api base run c g =
     (case gh_Token api of
        Inl e \<Rightarrow> (Inl (Wrapf ''github check: token'' e), g)
      | Inr token \<Rightarrow>
          (let repo = ev_Repository (run_Event run); sha = ev_SHA (run_Event run) in
           if repo_Owner repo = '''' \<or> repo_Name repo = '''' then (Inl (Errorf (''github check: run '' @ run_ID run @ '' has no repository'')), g)
           else if sha = '''' then (Inl (Errorf (''github check: run '' @ run_ID run @ '' has no head sha'')), g)
           else case findByExternalID api base token (repo_Owner repo) (repo_Name repo) sha (ck_ExternalID c) g of
                  (Inl e, g') \<Rightarrow> (Inl e, g')
                | (Inr existing, g') \<Rightarrow> upsert_check api base token run c existing g'))"

section \<open>What a check says\<close>

lemma MapJobRun_completed:
  "MapJobRun job u = Inr c \<Longrightarrow> (ck_Status c = StatusCompleted \<longleftrightarrow> job_IsTerminal (jr_Status job)) \<and> ck_ExternalID c = jr_ID job"
  by (cases "jr_Status job") (auto simp: MapJobRun_def base_check_def concluded_def Let_def split: if_splits)

lemma MapJobRun_defined: "jr_JobKey job \<noteq> '''' \<Longrightarrow> known_status (jr_Status job) \<Longrightarrow> \<exists>c. MapJobRun job u = Inr c"
  by (cases "jr_Status job") (auto simp: MapJobRun_def known_status_def Let_def)

end
