(* ===== verification/Server.thy ===== *)
theory Server
  imports Workflow_Source Scheduler Expression_Eval Security Check_Report
begin

text \<open>
  The control plane of \<^verbatim>\<open>internal/server/server.go\<close>: ingestion with plan building, job
  conditions, dispatch and re-requests, over any stores. Its state is the two stores, the
  plans, trust levels and compiled jobs held in memory, the reports handed to the provider
  and the number of clock readings. A map is iterated in the order of its list. Logging,
  tracing and metrics only read.
\<close>

section \<open>State\<close>

record ('s, 'a) Server =
  sv_durable :: 's
  sv_active :: 'a
  sv_plans :: "(JobRunID, Plan) gomap"
  sv_jobs :: "(RunID, JobInstance list) gomap"
  sv_trust :: "(JobRunID, TrustLevel) gomap"
  sv_reports :: "(RunRecord \<times> Check) list"
  sv_ticks :: nat

text \<open>
  The options a server is wired with: the ports, the clock, and the library functions. The
  fork flag of a pull request payload is \<open>None\<close> when the payload does not decode.
\<close>

record ('s, 'a) Options =
  op_Durable :: "'s DurableStore"
  op_Active :: "'a ActiveExecutionStore"
  op_Source :: workflowSource
  op_clock :: "nat \<Rightarrow> time"
  op_DetailsBaseURL :: string
  op_expr :: library
  op_sha :: "string \<Rightarrow> string"
  op_canonicalJSON :: "Plan \<Rightarrow> string res"
  op_fork :: "bytes \<Rightarrow> bool option"

definition now :: "('s, 'a) Options \<Rightarrow> ('s, 'a) Server \<Rightarrow> time \<times> ('s, 'a) Server" where
  "now opt s = (op_clock opt (sv_ticks s), s\<lparr>sv_ticks := Suc (sv_ticks s)\<rparr>)"

text \<open>A call of the durable store.\<close>

definition on_durable :: "('s, 'b) op \<Rightarrow> (('s, 'a) Server, 'b) op" where
  "on_durable f s = (case f (sv_durable s) of (r, d) \<Rightarrow> (r, s\<lparr>sv_durable := d\<rparr>))"

section \<open>Plans\<close>

definition plans_Put :: "('s, 'a) Options \<Rightarrow> Plan \<Rightarrow> (('s, 'a) Server, unit) op" where
  "plans_Put opt p s =
     (case plan_Digest (op_sha opt) (op_canonicalJSON opt) (Some p) of
        Inl e \<Rightarrow> (Inl e, s)
      | Inr _ \<Rightarrow> (Inr (), s\<lparr>sv_plans := mput (sv_plans s) (pl_JobRunID p) p\<rparr>))"

definition plans_Get :: "JobRunID \<Rightarrow> ('s, 'a) Server \<Rightarrow> Plan res" where
  "plans_Get i s = (case mget (sv_plans s) i of None \<Rightarrow> Inl (Errorf (''plan for '' @ i @ '' not found'')) | Some p \<Rightarrow> Inr p)"

section \<open>Reporting and projection\<close>

definition reportCheck :: "('s, 'a) Options \<Rightarrow> JobRunID \<Rightarrow> ('s, 'a) Server \<Rightarrow> ('s, 'a) Server" where
  "reportCheck opt i s =
     (case on_durable (GetJobRun (op_Durable opt) i) s of
        (Inl e, s1) \<Rightarrow> s1
      | (Inr job, s1) \<Rightarrow>
          (case on_durable (GetRun (op_Durable opt) (jr_RunID job)) s1 of
             (Inl e, s2) \<Rightarrow> s2
           | (Inr run, s2) \<Rightarrow>
               (case MapJobRun job (op_DetailsBaseURL opt) of
                  Inl e \<Rightarrow> s2
                | Inr check \<Rightarrow> s2\<lparr>sv_reports := sv_reports s2 @ [(run, check)]\<rparr>)))"

definition projectObserved :: "('s, 'a) Options \<Rightarrow> JobRunID \<Rightarrow> ObservedPhase \<Rightarrow> (('s, 'a) Server, unit) op" where
  "projectObserved opt i phase s =
     (let (t, s0) = now opt s in
      case on_durable (Project (op_Durable opt) t i phase) s0 of
        (Inl e, s1) \<Rightarrow> (Inl e, s1)
      | (Inr _, s1) \<Rightarrow> (Inr (), snd (on_durable (GetJobRun (op_Durable opt) i) s1)))"

section \<open>Trust and conditions\<close>

definition trustFor :: "('s, 'a) Options \<Rightarrow> Delivery \<Rightarrow> TrustLevel" where
  "trustFor opt d =
     (if ev_Name (d_Event d) \<noteq> ''pull_request'' then TrustTrusted
      else case op_fork opt (d_Payload d) of
             None \<Rightarrow> TrustSameRepo
           | Some fork \<Rightarrow> if fork then TrustFork else TrustSameRepo)"

definition isDeferredCondition :: "string \<Rightarrow> bool" where
  "isDeferredCondition cond =
     (let lower = ToLower cond in
      Contains lower ''needs.'' \<or> Contains lower ''success('' \<or> Contains lower ''failure(''
      \<or> Contains lower ''cancelled('' \<or> Contains lower ''always('')"

fun githubResultName :: "JobRunStatus \<Rightarrow> string" where
  "githubResultName JobSucceeded = ''success''"
| "githubResultName JobFailed = ''failure''"
| "githubResultName JobCancelled = ''cancelled''"
| "githubResultName JobSkipped = ''skipped''"
| "githubResultName _ = ''pending''"

definition githubContextValue :: "Event \<Rightarrow> Value" where
  "githubContextValue ev =
     VObj [(''event_name'', VStr (ev_Name ev)), (''ref'', VStr (ev_Ref ev)), (''sha'', VStr (ev_SHA ev)), (''actor'', VStr (ev_Actor ev)),
       (''repository'', VObj [(''owner'', VStr (repo_Owner (ev_Repository ev))), (''name'', VStr (repo_Name (ev_Repository ev))),
          (''full_name'', VStr (repo_Owner (ev_Repository ev) @ ''/'' @ repo_Name (ev_Repository ev)))])]"

definition needs_value :: "JobRunRecord list \<Rightarrow> Value" where
  "needs_value runs = VObj (fold (\<lambda>r m. mput m (jr_JobKey r) (VObj [(''result'', VStr (githubResultName (jr_Status r)))])) runs [])"

text \<open>Every dependency that failed or was cancelled overwrites what the ones before it said.\<close>

definition dep_status :: "JobRunRecord \<Rightarrow> JobRunRecord list \<Rightarrow> string" where
  "dep_status rec runs =
     fold (\<lambda>depKey st.
         case find (\<lambda>r. jr_JobKey r = depKey \<and> (jr_Status r = JobFailed \<or> jr_Status r = JobCancelled)) runs of
           None \<Rightarrow> st
         | Some r \<Rightarrow> if jr_Status r = JobCancelled then ''cancelled'' else ''failure'')
       (jr_DependsOn rec) ''success''"

definition jobConditionEnv :: "Event \<Rightarrow> JobRunRecord \<Rightarrow> JobRunRecord list \<Rightarrow> Env" where
  "jobConditionEnv ev rec runs =
     WithJobStatus
       (With (With (With NewEnv ''github'' (githubContextValue ev)) ''needs'' (needs_value runs))
          ''job'' (VObj [(''status'', VStr (dep_status rec runs))]))
       (dep_status rec runs)"

section \<open>Ingestion\<close>

definition skip_now :: "('s, 'a) Options \<Rightarrow> Event \<Rightarrow> JobRunRecord list \<Rightarrow> JobRunRecord \<Rightarrow> JobInstance \<Rightarrow> bool res" where
  "skip_now opt ev runs rec inst =
     (if in_If inst \<noteq> '''' \<and> \<not> isDeferredCondition (in_If inst) then
        (case EvaluateCondition (op_expr opt) (in_If inst) (Some (jobConditionEnv ev rec runs)) of
           Inl e \<Rightarrow> Inl (Wrapf (''server: job '' @ jr_JobKey rec @ '': invalid if '' @ Quote (in_If inst)) (Errorf (ExprErr_Error e)))
         | Inr run \<Rightarrow> Inr (\<not> run))
      else Inr False)"

definition plan_job :: "('s, 'a) Options \<Rightarrow> Event \<Rightarrow> TrustLevel \<Rightarrow> JobRunRecord \<Rightarrow> JobInstance \<Rightarrow> (('s, 'a) Server, unit) op" where
  "plan_job opt ev trust rec inst s =
     (case buildPlan (op_Source opt) rec ev inst of
        Inl e \<Rightarrow> (Inl (Wrapf (''server: build plan for '' @ jr_ID rec) e), s)
      | Inr p \<Rightarrow>
          (case plans_Put opt p s of
             (Inl e, s1) \<Rightarrow> (Inl (Wrapf (''server: store plan for '' @ jr_ID rec) e), s1)
           | (Inr _, s1) \<Rightarrow> (Inr (), reportCheck opt (jr_ID rec) (s1\<lparr>sv_trust := mput (sv_trust s1) (jr_ID rec) trust\<rparr>))))"

definition build_one :: "('s, 'a) Options \<Rightarrow> Event \<Rightarrow> TrustLevel \<Rightarrow> JobInstance list \<Rightarrow> JobRunRecord list \<Rightarrow> JobRunRecord \<Rightarrow> (('s, 'a) Server, unit) op" where
  "build_one opt ev trust jobs runs rec s =
     (case find (\<lambda>j. in_Key j = jr_JobKey rec) jobs of
        None \<Rightarrow> (Inl (Errorf (''server: job '' @ jr_JobKey rec @ '' missing from compiled set'')), s)
      | Some inst \<Rightarrow>
          (case skip_now opt ev runs rec inst of
             Inl e \<Rightarrow> (Inl e, s)
           | Inr True \<Rightarrow>
               (case projectObserved opt (jr_ID rec) PhaseSkipped s of
                  (Inl e, s1) \<Rightarrow> (Inl (Wrapf (''server: skip job '' @ jr_ID rec) e), s1)
                | (Inr _, s1) \<Rightarrow> (Inr (), reportCheck opt (jr_ID rec) s1))
           | Inr False \<Rightarrow> plan_job opt ev trust rec inst s))"

fun build_loop :: "('s, 'a) Options \<Rightarrow> Event \<Rightarrow> TrustLevel \<Rightarrow> JobInstance list \<Rightarrow> JobRunRecord list \<Rightarrow> JobRunRecord list \<Rightarrow> (('s, 'a) Server, unit) op" where
  "build_loop opt ev trust jobs runs [] s = (Inr (), s)"
| "build_loop opt ev trust jobs runs (rec # rest) s =
     (case build_one opt ev trust jobs runs rec s of
        (Inl e, s1) \<Rightarrow> (Inl e, s1)
      | (Inr _, s1) \<Rightarrow> build_loop opt ev trust jobs runs rest s1)"

definition buildPlans :: "('s, 'a) Options \<Rightarrow> Delivery \<Rightarrow> RunID \<Rightarrow> TrustLevel \<Rightarrow> (('s, 'a) Server, unit) op" where
  "buildPlans opt d runID trust s =
     (case matchedJobs (op_Source opt) (d_Event d) (d_Payload d) of
        Inl e \<Rightarrow> (Inl (Wrapf (''server: rebuild jobs for '' @ runID) e), s)
      | Inr jobs \<Rightarrow>
          (case on_durable (ListJobRuns (op_Durable opt) runID) (s\<lparr>sv_jobs := mput (sv_jobs s) runID jobs\<rparr>) of
             (Inl e, s1) \<Rightarrow> (Inl (Wrapf (''server: list jobs of '' @ runID) e), s1)
           | (Inr runs, s1) \<Rightarrow> build_loop opt (d_Event d) trust jobs runs runs s1))"

definition server_Ingest :: "('s, 'a) Options \<Rightarrow> Delivery \<Rightarrow> (('s, 'a) Server, RunID \<times> bool) op" where
  "server_Ingest opt d s =
     (let (t, s0) = now opt s in
      case on_durable (Ingest (op_Durable opt) (source_Compile (op_Source opt)) t d) s0 of
        (Inl e, s1) \<Rightarrow> (Inl e, s1)
      | (Inr (runID, created), s1) \<Rightarrow>
          if runID = '''' \<or> \<not> created then (Inr (runID, created), s1)
          else (case buildPlans opt d runID (trustFor opt d) s1 of
                  (Inl e, s2) \<Rightarrow> (Inl e, s2)
                | (Inr _, s2) \<Rightarrow> (Inr (runID, created), s2)))"

section \<open>Re-requests\<close>

definition copy_plan :: "('s, 'a) Options \<Rightarrow> JobRunID \<Rightarrow> JobRunID \<Rightarrow> ('s, 'a) Server \<Rightarrow> ('s, 'a) Server" where
  "copy_plan opt i newID s =
     (case plans_Get i s of Inl _ \<Rightarrow> s | Inr old \<Rightarrow> snd (plans_Put opt (old\<lparr>pl_JobRunID := newID\<rparr>) s))"

definition copy_trust :: "JobRunID \<Rightarrow> JobRunID \<Rightarrow> ('s, 'a) Server \<Rightarrow> ('s, 'a) Server" where
  "copy_trust i newID s =
     (case mget (sv_trust s) i of None \<Rightarrow> s | Some trust \<Rightarrow> s\<lparr>sv_trust := mput (sv_trust s) newID trust\<rparr>)"

definition Rerequest :: "('s, 'a) Options \<Rightarrow> JobRunID \<Rightarrow> (('s, 'a) Server, JobRunID) op" where
  "Rerequest opt i s =
     (let (t, s0) = now opt s in
      case on_durable (RerequestJob (op_Durable opt) i t) s0 of
        (Inl e, s1) \<Rightarrow> (Inl e, s1)
      | (Inr newID, s1) \<Rightarrow> (Inr newID, reportCheck opt newID (copy_trust i newID (copy_plan opt i newID s1))))"

section \<open>Deferred conditions\<close>

definition deps_settled :: "JobRunRecord \<Rightarrow> JobRunRecord list \<Rightarrow> bool" where
  "deps_settled rec runs \<longleftrightarrow>
     list_all (\<lambda>depKey. list_all (\<lambda>sib. jr_JobKey sib = depKey \<longrightarrow> job_IsTerminal (jr_Status sib)) runs) (jr_DependsOn rec)"

definition settle :: "('s, 'a) Options \<Rightarrow> JobRunID \<Rightarrow> ObservedPhase \<Rightarrow> ('s, 'a) Server \<Rightarrow> ('s, 'a) Server" where
  "settle opt i phase s = reportCheck opt i (snd (projectObserved opt i phase s))"

definition defer_job :: "('s, 'a) Options \<Rightarrow> Event \<Rightarrow> JobRunRecord list \<Rightarrow> JobRunRecord \<Rightarrow> bool \<times> ('s, 'a) Server \<Rightarrow> bool \<times> ('s, 'a) Server" where
  "defer_job opt ev runs rec = (\<lambda>(progress, s).
     if jr_Condition rec = '''' \<or> \<not> isDeferredCondition (jr_Condition rec) then (progress, s)
     else if \<not> deps_settled rec runs then (progress, s)
     else (case EvaluateCondition (op_expr opt) (jr_Condition rec) (Some (jobConditionEnv ev rec runs)) of
             Inl e \<Rightarrow> (True, settle opt (jr_ID rec) PhaseFailed s)
           | Inr False \<Rightarrow> (True, settle opt (jr_ID rec) PhaseSkipped s)
           | Inr True \<Rightarrow> (progress, s)))"

definition defer_run :: "('s, 'a) Options \<Rightarrow> RunID \<times> JobRunRecord list \<Rightarrow> bool \<times> ('s, 'a) Server \<Rightarrow> bool \<times> ('s, 'a) Server" where
  "defer_run opt = (\<lambda>(runID, qs) (progress, s).
     case on_durable (GetRun (op_Durable opt) runID) s of
       (Inl e, s1) \<Rightarrow> (progress, s1)
     | (Inr run, s1) \<Rightarrow>
         (case on_durable (ListJobRuns (op_Durable opt) runID) s1 of
            (Inl e, s2) \<Rightarrow> (progress, s2)
          | (Inr runs, s2) \<Rightarrow> fold (defer_job opt (run_Event run) runs) qs (progress, s2)))"

definition group_by_run :: "JobRunRecord list \<Rightarrow> (RunID, JobRunRecord list) gomap" where
  "group_by_run queued =
     fold (\<lambda>j m. mput m (jr_RunID j) ((case mget m (jr_RunID j) of Some js \<Rightarrow> js | None \<Rightarrow> []) @ [j])) queued []"

text \<open>The loop runs until a pass settles nothing; \<open>None\<close> is a loop that has not ended within the bound.\<close>

fun evaluateDeferredConditions :: "('s, 'a) Options \<Rightarrow> nat \<Rightarrow> ('s, 'a) Server \<Rightarrow> ('s, 'a) Server option" where
  "evaluateDeferredConditions opt 0 s = None"
| "evaluateDeferredConditions opt (Suc n) s =
     (case on_durable (ListQueuedJobs (op_Durable opt)) s of
        (Inl e, s1) \<Rightarrow> Some s1
      | (Inr queued, s1) \<Rightarrow>
          if length queued = 0 then Some s1
          else (case fold (defer_run opt) (group_by_run queued) (False, s1) of
                  (progress, s2) \<Rightarrow> if progress then evaluateDeferredConditions opt n s2 else Some s2))"

section \<open>Dispatch and collection\<close>

definition dispatch_one :: "('s, 'a) Options \<Rightarrow> (('s, 'a) Server, JobRunRecord) op" where
  "dispatch_one opt s =
     (let (t, s0) = now opt s in
      case DispatchNext (op_Durable opt) (op_Active opt) t (sv_durable s0, sv_active s0) of
        (r, (d, x)) \<Rightarrow> (r, s0\<lparr>sv_durable := d, sv_active := x\<rparr>))"

definition queue_depth :: "('s, 'a) Options \<Rightarrow> ('s, 'a) Server \<Rightarrow> ('s, 'a) Server" where
  "queue_depth opt s = snd (on_durable (CountQueuedJobs (op_Durable opt)) s)"

fun dispatch_loop :: "('s, 'a) Options \<Rightarrow> nat \<Rightarrow> nat \<Rightarrow> ('s, 'a) Server \<Rightarrow> ((nat \<times> Err option) \<times> ('s, 'a) Server) option" where
  "dispatch_loop opt 0 n s = None"
| "dispatch_loop opt (Suc k) n s =
     (case dispatch_one opt s of
        (Inl e, s1) \<Rightarrow>
          if e = ErrNoQueuedJob then Some ((n, None), queue_depth opt s1) else Some ((n, Some e), queue_depth opt s1)
      | (Inr job, s1) \<Rightarrow>
          dispatch_loop opt k (Suc n) (reportCheck opt (jr_ID job) (snd (on_durable (GetJobRun (op_Durable opt) (jr_ID job)) s1))))"

definition DispatchOnce :: "('s, 'a) Options \<Rightarrow> nat \<Rightarrow> ('s, 'a) Server \<Rightarrow> ((nat \<times> Err option) \<times> ('s, 'a) Server) option" where
  "DispatchOnce opt k s =
     (case evaluateDeferredConditions opt k s of None \<Rightarrow> None | Some s1 \<Rightarrow> dispatch_loop opt k 0 s1)"

text \<open>The collector reads the clock once per collected job.\<close>

definition CollectOnce :: "('s, 'a) Options \<Rightarrow> ('s, 'a) Server \<Rightarrow> (nat \<times> Err option) \<times> ('s, 'a) Server" where
  "CollectOnce opt s =
     (case Collect_jobs (op_Durable opt) (op_Active opt) (\<lambda>i. op_clock opt (sv_ticks s + i)) (sv_durable s, sv_active s) of
        ((n, e), (d, x)) \<Rightarrow> ((n, e), s\<lparr>sv_durable := d, sv_active := x, sv_ticks := sv_ticks s + n\<rparr>))"

end
