(* ===== verification/Cron_Schedule.thy ===== *)
theory Cron_Schedule
  imports Server
begin

text \<open>
  The cron scheduler (\<^verbatim>\<open>internal/run/schedule/schedule.go\<close>) and the round of the server that
  ticks it: scheduled workflows become deliveries without a webhook. The cron library is a
  parameter: parsing an expression gives the function from a time to the next fire time,
  if there is one. So is the RFC 3339 text of a time.
\<close>

section \<open>Ticks\<close>

record cron_lib =
  cron_Parse :: "string \<Rightarrow> (time \<Rightarrow> time option) res"
  RFC3339 :: "time \<Rightarrow> string"

text \<open>The last emitted fire time of each schedule.\<close>

type_synonym fired = "(string, time) gomap"

definition scheduleKey :: "ScheduledWorkflow \<Rightarrow> string" where
  "scheduleKey sw = repo_Owner (sw_Repository sw) @ ''/'' @ repo_Name (sw_Repository sw) @ '':'' @ sw_FileName sw @ '':'' @ sw_Cron sw"

text \<open>
  The walk from the cursor to the last fire that is not after the given time. It does not return when
  the fire times do not advance.
\<close>

partial_function (option) walk :: "(time \<Rightarrow> time option) \<Rightarrow> time \<Rightarrow> time \<Rightarrow> time option \<Rightarrow> time option option" where
  "walk Next t cursor latest =
     (case Next cursor of
        None \<Rightarrow> Some latest
      | Some n \<Rightarrow> if n > t then Some latest else walk Next t n (Some n))"

definition day :: time where
  "day = 24 * 3600 * 1000000000"

definition schedule_delivery :: "cron_lib \<Rightarrow> ScheduledWorkflow \<Rightarrow> time \<Rightarrow> Delivery" where
  "schedule_delivery C sw latest =
     \<lparr>d_Key = \<lparr>dk_Provider = ''forgelet'', dk_DeliveryID = ''schedule:'' @ scheduleKey sw @ '':'' @ RFC3339 C latest\<rparr>,
      d_Event = \<lparr>ev_Provider = ''forgelet'', ev_Name = ''schedule'',
        ev_DeliveryID = repo_Owner (sw_Repository sw) @ ''/'' @ repo_Name (sw_Repository sw) @ ''@'' @ sw_FileName sw,
        ev_Repository = sw_Repository sw, ev_Ref = sw_Ref sw, ev_SHA = '''', ev_Actor = ''forgelet-schedule''\<rparr>,
      d_Payload = ''{\"cron\":'' @ Quote (sw_Cron sw) @ '',\"fire_time\":'' @ Quote (RFC3339 C latest) @ '',\"workflow\":'' @ Quote (sw_FileName sw) @ ''}''\<rparr>"

text \<open>
  The fire a schedule owes at a time: the last one since the last emission or, without
  history, within a day. The outer option is whether the walk returns.
\<close>

definition due :: "(time \<Rightarrow> time option) \<Rightarrow> time \<Rightarrow> time option \<Rightarrow> time option option" where
  "due Next t lastEmitted =
     (case walk Next t (case lastEmitted of Some l \<Rightarrow> l | None \<Rightarrow> t - day) None of
        None \<Rightarrow> None
      | Some latest \<Rightarrow> Some (if latest = lastEmitted then None else latest))"

fun tick_loop :: "cron_lib \<Rightarrow> (Delivery \<Rightarrow> ('s, RunID \<times> bool) op) \<Rightarrow> time \<Rightarrow> ScheduledWorkflow list \<Rightarrow> nat \<Rightarrow> fired \<times> 's
    \<Rightarrow> ((nat \<times> Err option) \<times> (fired \<times> 's)) option" where
  "tick_loop C ingest t [] emitted st = Some ((emitted, None), st)"
| "tick_loop C ingest t (sw # sws) emitted (f, s) =
     (case cron_Parse C (sw_Cron sw) of
        Inl _ \<Rightarrow> tick_loop C ingest t sws emitted (f, s)
      | Inr Next \<Rightarrow>
          (case due Next t (mget f (scheduleKey sw)) of
             None \<Rightarrow> None
           | Some None \<Rightarrow> tick_loop C ingest t sws emitted (f, s)
           | Some (Some latest) \<Rightarrow>
               (case ingest (schedule_delivery C sw latest) s of
                  (Inl e, s1) \<Rightarrow> Some ((emitted, Some (Wrapf (''schedule: ingest '' @ DeliveryKey_String (d_Key (schedule_delivery C sw latest))) e)), (f, s1))
                | (Inr _, s1) \<Rightarrow> tick_loop C ingest t sws (emitted + 1) (mput f (scheduleKey sw) latest, s1))))"

definition Tick :: "cron_lib \<Rightarrow> ScheduledWorkflow list res \<Rightarrow> (Delivery \<Rightarrow> ('s, RunID \<times> bool) op) \<Rightarrow> time \<Rightarrow> fired \<times> 's
    \<Rightarrow> ((nat \<times> Err option) \<times> (fired \<times> 's)) option" where
  "Tick C listed ingest t st =
     (case listed of
        Inl e \<Rightarrow> Some ((0, Some (Wrapf ''schedule: list'' e)), st)
      | Inr workflows \<Rightarrow> tick_loop C ingest t workflows 0 st)"

text \<open>The server's round: its own workflow source lists, its own ingestion takes the deliveries.\<close>

definition ScheduleOnce :: "cron_lib \<Rightarrow> ScheduledRepo list \<Rightarrow> ('s, 'a) Options \<Rightarrow> fired \<times> ('s, 'a) Server
    \<Rightarrow> ((nat \<times> Err option) \<times> (fired \<times> ('s, 'a) Server)) option" where
  "ScheduleOnce C repos opt = (\<lambda>(f, s).
     if repos = [] then Some ((0, None), (f, s))
     else case schedules_List (op_Source opt) repos of
            Inl e \<Rightarrow> Some ((0, Some (Wrapf ''schedule: list'' e)), (f, s))
          | Inr ws \<Rightarrow> (case now opt s of (t, s1) \<Rightarrow> Tick C (Inr ws) (server_Ingest opt) t (f, s1)))"

section \<open>What a tick emits\<close>

text \<open>The cron library is relied on for one thing: the next fire is the first one of the expression after the cursor.\<close>

definition cron_ok :: "cron_lib \<Rightarrow> (string \<Rightarrow> time set) \<Rightarrow> bool" where
  "cron_ok C F \<longleftrightarrow> (\<forall>e Next c. cron_Parse C e = Inr Next \<longrightarrow>
     (case Next c of None \<Rightarrow> \<forall>g\<in>F e. g \<le> c | Some n \<Rightarrow> n \<in> F e \<and> c < n \<and> (\<forall>g\<in>F e. c < g \<longrightarrow> n \<le> g)))"

text \<open>The last of the fires after one time and not after another.\<close>

definition last_fire :: "time set \<Rightarrow> time \<Rightarrow> time \<Rightarrow> time option \<Rightarrow> bool" where
  "last_fire F c t r \<longleftrightarrow>
     (case r of None \<Rightarrow> \<forall>g\<in>F. c < g \<longrightarrow> t < g | Some f \<Rightarrow> f \<in> F \<and> c < f \<and> f \<le> t \<and> (\<forall>g\<in>F. f < g \<longrightarrow> t < g))"

lemma last_fire_unique: "last_fire F c t r \<Longrightarrow> last_fire F c t r' \<Longrightarrow> r = r'"
  unfolding last_fire_def by (cases r; cases r') (auto, meson less_le_not_le linorder_neqE)+

lemma cron_okD:
  assumes "cron_ok C F" "cron_Parse C e = Inr Next"
  shows "Next c = None \<Longrightarrow> \<forall>g\<in>F e. g \<le> c" "Next c = Some n \<Longrightarrow> n \<in> F e \<and> c < n \<and> (\<forall>g\<in>F e. c < g \<longrightarrow> n \<le> g)"
proof -
  have "case Next c of None \<Rightarrow> \<forall>g\<in>F e. g \<le> c | Some n \<Rightarrow> n \<in> F e \<and> c < n \<and> (\<forall>g\<in>F e. c < g \<longrightarrow> n \<le> g)"
    using assms unfolding cron_ok_def by blast
  then show "Next c = None \<Longrightarrow> \<forall>g\<in>F e. g \<le> c" "Next c = Some n \<Longrightarrow> n \<in> F e \<and> c < n \<and> (\<forall>g\<in>F e. c < g \<longrightarrow> n \<le> g)" by simp_all
qed

lemma walk_last:
  assumes "cron_ok C F" "cron_Parse C e = Inr Next"
  shows "\<exists>r. walk Next t c l = Some (case r of None \<Rightarrow> l | Some f \<Rightarrow> Some f) \<and> last_fire (F e) c t r"
proof (induction "nat (t - c)" arbitrary: c l rule: less_induct)
  case less
  show ?case
  proof (cases "Next c")
    case None
    with cron_okD(1) [OF assms None] show ?thesis
      by (intro exI [of _ None]) (auto simp: walk.simps last_fire_def)
  next
    case (Some n)
    note n = cron_okD(2) [OF assms Some]
    show ?thesis
    proof (cases "n > t")
      case True
      with Some n show ?thesis by (intro exI [of _ None]) (force simp: walk.simps last_fire_def)
    next
      case False
      then have "nat (t - n) < nat (t - c)" using n by auto
      from less [OF this, of "Some n"] obtain r where
        r: "walk Next t n (Some n) = Some (case r of None \<Rightarrow> Some n | Some f \<Rightarrow> Some f)" "last_fire (F e) n t r" by blast
      have "last_fire (F e) c t (Some (case r of None \<Rightarrow> n | Some f \<Rightarrow> f))"
        using r(2) n False by (auto simp: last_fire_def split: option.splits)
      with r(1) Some False show ?thesis by (intro exI [of _ "Some (case r of None \<Rightarrow> n | Some f \<Rightarrow> f)"]) (simp add: walk.simps split: option.splits)
    qed
  qed
qed

definition since :: "time \<Rightarrow> time option \<Rightarrow> time" where
  "since t l = (case l of Some u \<Rightarrow> u | None \<Rightarrow> t - day)"

lemma due_last:
  assumes "cron_ok C F" "cron_Parse C e = Inr Next"
  obtains r where "due Next t l = Some r" "last_fire (F e) (since t l) t r"
proof -
  from walk_last [OF assms, of t "since t l" None] obtain r where
    r: "walk Next t (since t l) None = Some (case r of None \<Rightarrow> None | Some f \<Rightarrow> Some f)" "last_fire (F e) (since t l) t r" by blast
  have "r \<noteq> None \<Longrightarrow> r \<noteq> l" using r(2) by (auto simp: last_fire_def since_def split: option.splits)
  with r that [of r] show ?thesis by (auto simp: due_def since_def split: option.splits)
qed

text \<open>A schedule of a valid expression owes a fire when that is the last one since its last emission.\<close>

definition owes :: "cron_lib \<Rightarrow> (string \<Rightarrow> time set) \<Rightarrow> time \<Rightarrow> fired \<Rightarrow> ScheduledWorkflow \<Rightarrow> time \<Rightarrow> bool" where
  "owes C F t f sw fire \<longleftrightarrow> (\<exists>Next. cron_Parse C (sw_Cron sw) = Inr Next)
     \<and> last_fire (F (sw_Cron sw)) (since t (mget f (scheduleKey sw))) t (Some fire)"

lemma owes_other: "scheduleKey sw' \<noteq> k \<Longrightarrow> owes C F t (mput f k v) sw' fire \<longleftrightarrow> owes C F t f sw' fire"
  by (simp add: owes_def mget_mput)

lemma owes_unique: "owes C F t f sw g \<Longrightarrow> owes C F t f sw h \<Longrightarrow> g = h"
  using last_fire_unique unfolding owes_def by blast

lemma owes_settled: "owes C F t f sw fire \<Longrightarrow> mget f' (scheduleKey sw) = Some fire \<Longrightarrow> \<not> owes C F t f' sw g"
  by (auto simp: owes_def last_fire_def since_def)

abbreviation delivery_of :: "cron_lib \<Rightarrow> ScheduledWorkflow \<times> time \<Rightarrow> Delivery" where
  "delivery_of C p \<equiv> schedule_delivery C (fst p) (snd p)"

abbreviation emits :: "cron_lib \<Rightarrow> (ScheduledWorkflow \<times> time) list \<Rightarrow> (Delivery \<Rightarrow> ('s, RunID \<times> bool) op) \<Rightarrow> 's \<Rightarrow> 's" where
  "emits C ps ingest s \<equiv> fold (\<lambda>p s. snd (ingest (delivery_of C p) s)) ps s"

text \<open>The ingestion takes all of these deliveries, one after the other.\<close>

primrec accepted :: "cron_lib \<Rightarrow> (Delivery \<Rightarrow> ('s, RunID \<times> bool) op) \<Rightarrow> (ScheduledWorkflow \<times> time) list \<Rightarrow> 's \<Rightarrow> bool" where
  "accepted C ingest [] s = True"
| "accepted C ingest (p # ps) s = (\<not> isl (fst (ingest (delivery_of C p) s)) \<and> accepted C ingest ps (snd (ingest (delivery_of C p) s)))"

text \<open>The schedules of a list that owe a fire, in its order, each with that fire.\<close>

definition owed :: "cron_lib \<Rightarrow> (string \<Rightarrow> time set) \<Rightarrow> time \<Rightarrow> fired \<Rightarrow> ScheduledWorkflow list \<Rightarrow> (ScheduledWorkflow \<times> time) list \<Rightarrow> bool" where
  "owed C F t f ws ps \<longleftrightarrow> map fst ps = filter (\<lambda>sw. \<exists>fire. owes C F t f sw fire) ws \<and> (\<forall>(sw, fire)\<in>set ps. owes C F t f sw fire)"

lemma owed_exists: "\<exists>ps. owed C F t f ws ps"
proof (induction ws)
  case (Cons sw ws)
  then obtain ps where ps: "owed C F t f ws ps" ..
  show ?case
  proof (cases "\<exists>fire. owes C F t f sw fire")
    case True
    then obtain fire where "owes C F t f sw fire" ..
    with ps show ?thesis by (intro exI [of _ "(sw, fire) # ps"]) (auto simp: owed_def)
  next
    case False
    with ps show ?thesis by (intro exI [of _ ps]) (auto simp: owed_def)
  qed
qed (auto simp: owed_def)

lemma owed_skip: "\<forall>fire. \<not> owes C F t f sw fire \<Longrightarrow> owed C F t f (sw # ws) ps = owed C F t f ws ps"
  by (auto simp: owed_def)

lemma owed_Cons: "owes C F t f sw fire \<Longrightarrow> owed C F t f ws ps \<Longrightarrow> owed C F t f (sw # ws) ((sw, fire) # ps)"
  by (auto simp: owed_def)

lemma owed_other:
  assumes "\<forall>sw\<in>set ws. scheduleKey sw \<noteq> k"
  shows "owed C F t (mput f k v) ws ps = owed C F t f ws ps"
proof -
  have o: "owes C F t (mput f k v) sw fire = owes C F t f sw fire" if "sw \<in> set ws" for sw fire
    using assms that by (auto intro!: owes_other)
  then have "filter (\<lambda>sw. \<exists>fire. owes C F t (mput f k v) sw fire) ws = filter (\<lambda>sw. \<exists>fire. owes C F t f sw fire) ws"
    by (intro filter_cong) auto
  moreover have "(\<forall>(sw, fire)\<in>set ps. owes C F t (mput f k v) sw fire) = (\<forall>(sw, fire)\<in>set ps. owes C F t f sw fire)"
    if "map fst ps = filter P ws" for P
  proof -
    have "set (map fst ps) \<subseteq> set ws" unfolding that by auto
    then have "fst p \<in> set ws" if "p \<in> set ps" for p using that by auto
    with o show ?thesis by (auto split: prod.splits)
  qed
  ultimately show ?thesis unfolding owed_def by metis
qed

lemma owed_set:
  assumes "owed C F t f ws ps"
  shows "set ps = {(sw, fire). sw \<in> set ws \<and> owes C F t f sw fire}"
proof -
  have p: "fst ` set ps = {sw \<in> set ws. \<exists>fire. owes C F t f sw fire}" using assms by (metis owed_def set_filter set_map)
  have o: "(sw, fire) \<in> set ps \<Longrightarrow> owes C F t f sw fire" for sw fire using assms by (auto simp: owed_def)
  show ?thesis
  proof (intro equalityI subrelI)
    fix sw fire assume "(sw, fire) \<in> set ps"
    with o [OF this] p show "(sw, fire) \<in> {(sw, fire). sw \<in> set ws \<and> owes C F t f sw fire}" by force
  next
    fix sw fire assume a: "(sw, fire) \<in> {(sw, fire). sw \<in> set ws \<and> owes C F t f sw fire}"
    then have "sw \<in> fst ` set ps" using p by auto
    then obtain g where "(sw, g) \<in> set ps" by auto
    moreover from o [OF this] a have "g = fire" by (auto dest: owes_unique)
    ultimately show "(sw, fire) \<in> set ps" by simp
  qed
qed

text \<open>One schedule is passed over, or its one owed fire is given to the ingestion, whose error ends the tick.\<close>

lemma tick_step:
  assumes "cron_ok C F"
  obtains (skip) "tick_loop C ingest t (sw # sws) n (f, s) = tick_loop C ingest t sws n (f, s)" "\<forall>fire. \<not> owes C F t f sw fire"
    | (emit) fire where "owes C F t f sw fire"
      "tick_loop C ingest t (sw # sws) n (f, s)
        = (case ingest (schedule_delivery C sw fire) s of
             (Inl e, s1) \<Rightarrow> Some ((n, Some (Wrapf (''schedule: ingest '' @ DeliveryKey_String (d_Key (schedule_delivery C sw fire))) e)), (f, s1))
           | (Inr _, s1) \<Rightarrow> tick_loop C ingest t sws (n + 1) (mput f (scheduleKey sw) fire, s1))"
proof (cases "cron_Parse C (sw_Cron sw)")
  case (Inr Next)
  from due_last [OF assms Inr, of t "mget f (scheduleKey sw)"] obtain r where
    r: "due Next t (mget f (scheduleKey sw)) = Some r" "last_fire (F (sw_Cron sw)) (since t (mget f (scheduleKey sw))) t r" .
  show ?thesis
  proof (cases r)
    case None
    have "\<not> owes C F t f sw fire" for fire using last_fire_unique [OF r(2)] None by (auto simp: owes_def)
    then show ?thesis by (intro skip) (simp_all add: Inr r(1) None)
  next
    case (Some fire)
    show ?thesis by (rule emit [of fire]) (use r Inr Some in \<open>simp_all add: owes_def\<close>)
  qed
next
  case (Inl e)
  show ?thesis by (rule skip) (simp_all add: Inl owes_def)
qed

text \<open>What the loop leaves: the deliveries of \<open>qs\<close> were taken, that of the first of \<open>rs\<close> was not.\<close>

definition outcome :: "cron_lib \<Rightarrow> (Delivery \<Rightarrow> ('s, RunID \<times> bool) op) \<Rightarrow> 's \<Rightarrow> (ScheduledWorkflow \<times> time) list \<Rightarrow> (ScheduledWorkflow \<times> time) list \<Rightarrow> Err option \<Rightarrow> bool" where
  "outcome C ingest s qs rs err \<longleftrightarrow> accepted C ingest qs s \<and>
     (case rs of [] \<Rightarrow> err = None
      | p # _ \<Rightarrow> \<exists>e e'. fst (ingest (delivery_of C p) (emits C qs ingest s)) = Inl e \<and> err = Some e' \<and> errors_Is e' e)"

text \<open>The memory of fires holds those of \<open>qs\<close> and is otherwise as it was.\<close>

definition recorded :: "fired \<Rightarrow> (ScheduledWorkflow \<times> time) list \<Rightarrow> fired \<Rightarrow> bool" where
  "recorded f qs f' \<longleftrightarrow> (\<forall>(sw, fire)\<in>set qs. mget f' (scheduleKey sw) = Some fire)
     \<and> (\<forall>k. k \<notin> (scheduleKey \<circ> fst) ` set qs \<longrightarrow> mget f' k = mget f k)"

lemma recorded_Cons:
  assumes "recorded (mput f (scheduleKey sw) fire) qs f'" "scheduleKey sw \<notin> (scheduleKey \<circ> fst) ` set qs"
  shows "recorded f ((sw, fire) # qs) f'"
  using assms by (auto simp: recorded_def mget_mput)

lemma tick_loop_outcome:
  assumes "cron_ok C F" "distinct (map scheduleKey ws)"
  shows "\<exists>qs rs f' err. owed C F t f ws (qs @ rs) \<and> outcome C ingest s qs rs err \<and> recorded f qs f'
    \<and> tick_loop C ingest t ws n (f, s) = Some ((n + length qs, err), (f', emits C (qs @ take 1 rs) ingest s))"
  using assms(2)
proof (induction ws arbitrary: n f s)
  case (Cons sw sws)
  have k: "\<forall>sw'\<in>set sws. scheduleKey sw' \<noteq> scheduleKey sw" using Cons.prems by (auto simp: image_iff)
  show ?case
  proof (cases rule: tick_step [where ingest = ingest and t = t and sw = sw and sws = sws and n = n and f = f and s = s, OF assms(1), case_names skip emit])
    case skip
    from Cons.IH [of f s n] Cons.prems show ?thesis unfolding skip(1) owed_skip [OF skip(2)] by simp
  next
    case (emit fire)
    obtain x s1 where i: "ingest (schedule_delivery C sw fire) s = (x, s1)" by fastforce
    show ?thesis
    proof (cases x)
      case (Inl e)
      obtain ps where "owed C F t f sws ps" using owed_exists by blast
      from owed_Cons [OF emit(1) this] have "owed C F t f (sw # sws) ([] @ (sw, fire) # ps)" by simp
      moreover have "recorded f [] f" by (simp add: recorded_def)
      moreover have "tick_loop C ingest t (sw # sws) n (f, s) = Some ((n + length [], Some (Wrapf (''schedule: ingest '' @ DeliveryKey_String (d_Key (schedule_delivery C sw fire))) e)),
          (f, emits C ([] @ take 1 ((sw, fire) # ps)) ingest s))" unfolding emit(2) i Inl by (simp add: i)
      moreover have "outcome C ingest s [] ((sw, fire) # ps) (Some (Wrapf (''schedule: ingest '' @ DeliveryKey_String (d_Key (schedule_delivery C sw fire))) e))"
        using i Inl by (simp add: outcome_def)
      ultimately show ?thesis by blast
    next
      case (Inr y)
      let ?f = "mput f (scheduleKey sw) fire"
      from Cons.IH [of ?f s1 "n + 1"] Cons.prems obtain qs rs f' err where
        1: "owed C F t ?f sws (qs @ rs)" "outcome C ingest s1 qs rs err" "recorded ?f qs f'"
          "tick_loop C ingest t sws (n + 1) (?f, s1) = Some ((n + 1 + length qs, err), (f', emits C (qs @ take 1 rs) ingest s1))" by auto
      have o: "owed C F t f sws (qs @ rs)" using 1(1) unfolding owed_other [OF k] .
      have "fst ` set qs \<subseteq> set sws" using owed_set [OF o] by auto
      then have "scheduleKey sw \<notin> scheduleKey ` fst ` set qs" using k by (metis image_iff subsetD)
      then have "scheduleKey sw \<notin> (scheduleKey \<circ> fst) ` set qs" by (simp add: image_comp)
      with recorded_Cons 1(3) have "recorded f ((sw, fire) # qs) f'" by blast
      moreover have "tick_loop C ingest t (sw # sws) n (f, s) = Some ((n + length ((sw, fire) # qs), err), (f', emits C (((sw, fire) # qs) @ take 1 rs) ingest s))"
        using 1(4) unfolding emit(2) i Inr by (simp add: i)
      moreover have "outcome C ingest s ((sw, fire) # qs) rs err" using 1(2) i Inr by (cases rs) (auto simp: outcome_def)
      moreover have "owed C F t f (sw # sws) (((sw, fire) # qs) @ rs)" using owed_Cons [OF emit(1) o] by simp
      ultimately show ?thesis by blast
    qed
  qed
qed (auto simp: owed_def outcome_def recorded_def intro!: exI [of _ "[]"])

lemma still_owed:
  assumes "owed C F t f ws (qs @ rs)" "recorded f qs f'" "distinct (map scheduleKey ws)"
  shows "{(sw, fire). sw \<in> set ws \<and> owes C F t f' sw fire} = set rs"
proof -
  have d: "distinct (map fst (qs @ rs))" using assms(1,3) by (metis distinct_filter distinct_map owed_def)
  have k: "scheduleKey sw \<in> (scheduleKey \<circ> fst) ` set qs \<longleftrightarrow> sw \<in> fst ` set qs" if "sw \<in> set ws" for sw
  proof -
    have "fst ` set qs \<subseteq> set ws" using owed_set [OF assms(1)] by auto
    with that assms(3) show ?thesis by (auto simp: distinct_map dest!: inj_onD)
  qed
  have "owes C F t f' sw fire \<longleftrightarrow> (sw, fire) \<in> set rs" if w: "sw \<in> set ws" for sw fire
  proof (cases "sw \<in> fst ` set qs")
    case True
    then obtain g where g: "(sw, g) \<in> set qs" by auto
    then have "owes C F t f sw g" "mget f' (scheduleKey sw) = Some g" using assms(1,2) by (auto simp: owed_def recorded_def)
    moreover have "(sw, fire) \<notin> set rs" using d g by force
    ultimately show ?thesis using owes_settled by blast
  next
    case False
    then have "mget f' (scheduleKey sw) = mget f (scheduleKey sw)" using k [OF w] assms(2) by (simp add: recorded_def)
    then have "owes C F t f' sw fire \<longleftrightarrow> (sw, fire) \<in> set (qs @ rs)" using owed_set [OF assms(1)] w by (simp add: owes_def)
    with False show ?thesis by force
  qed
  moreover have "fst ` set rs \<subseteq> set ws" using owed_set [OF assms(1)] by auto
  ultimately show ?thesis by force
qed

lemma tick_loop_quiet:
  assumes "cron_ok C F" "\<forall>sw\<in>set ws. \<forall>fire. \<not> owes C F t f sw fire"
  shows "tick_loop C ingest t ws n (f, s) = Some ((n, None), (f, s))"
  using assms(2)
proof (induction ws)
  case (Cons sw sws)
  show ?case
  proof (cases rule: tick_step [where ingest = ingest and t = t and sw = sw and sws = sws and n = n and f = f and s = s, OF assms(1), case_names skip emit])
    case skip
    with Cons show ?thesis by simp
  next
    case (emit fire)
    with Cons.prems show ?thesis by simp
  qed
qed simp

text \<open>
  C25. A tick of the cron scheduler over schedules with different keys always ends. Each schedule
  with a valid expression owes the last fire since its last emission, or within the past
  day when there was none, one fire however many were missed. The tick gives the owed
  fires to the ingestion in the order of the list, and nothing else, until the ingestion
  refuses one; it counts and remembers those before, and returns the error. What is
  then still owed is exactly the refused fire and those after it; when nothing was refused nothing is owed,
  and ticking again at the same time emits nothing.
\<close>

theorem tick_emits_last_fires:
  assumes "cron_ok C F" "distinct (map scheduleKey ws)"
  shows "\<exists>qs rs f' err. owed C F t f ws (qs @ rs) \<and> outcome C ingest s qs rs err \<and> recorded f qs f'
    \<and> Tick C (Inr ws) ingest t (f, s) = Some ((length qs, err), (f', emits C (qs @ take 1 rs) ingest s))
    \<and> {(sw, fire). sw \<in> set ws \<and> owes C F t f' sw fire} = set rs
    \<and> (rs = [] \<longrightarrow> (\<forall>s2. Tick C (Inr ws) ingest t (f', s2) = Some ((0, None), (f', s2))))"
proof -
  from tick_loop_outcome [where ingest = ingest and t = t and n = 0 and f = f and s = s, OF assms] obtain qs rs f' err where
    o: "owed C F t f ws (qs @ rs)" "outcome C ingest s qs rs err" "recorded f qs f'"
      "tick_loop C ingest t ws 0 (f, s) = Some ((0 + length qs, err), (f', emits C (qs @ take 1 rs) ingest s))" by blast
  have w: "{(sw, fire). sw \<in> set ws \<and> owes C F t f' sw fire} = set rs" by (rule still_owed [OF o(1,3) assms(2)])
  have "tick_loop C ingest t ws 0 (f', s2) = Some ((0, None), (f', s2))" if "rs = []" for s2
    using tick_loop_quiet [OF assms(1), where ws = ws and t = t and f = f'] w that by auto
  moreover have "Tick C (Inr ws) ingest t (f, s) = Some ((length qs, err), (f', emits C (qs @ take 1 rs) ingest s))"
    using o(4) by (simp add: Tick_def)
  ultimately show ?thesis using o(1-3) w by (force simp: Tick_def)
qed

definition demo_cron :: cron_lib where
  "demo_cron = \<lparr>cron_Parse = (\<lambda>e. if e = ''bad'' then Inl (Errorf ''bad'') else Inr (\<lambda>c. Some ((c div 10 + 1) * 10))), RFC3339 = (\<lambda>t. itoa (nat t))\<rparr>"

definition demo_schedule :: ScheduledWorkflow where
  "demo_schedule = \<lparr>sw_Repository = \<lparr>repo_Provider = ''github'', repo_Owner = ''o'', repo_Name = ''r''\<rparr>, sw_FileName = ''ci.yml'', sw_Ref = ''refs/heads/main'', sw_Cron = ''* * * * *''\<rparr>"

definition log_ingest :: "Delivery \<Rightarrow> (Delivery list, RunID \<times> bool) op" where
  "log_ingest d ds = (Inr (''R'', True), ds @ [d])"

lemma demo_cron_ok: "cron_ok demo_cron (\<lambda>e. {g. 10 dvd g})"
proof -
  have "(c div 10 + 1) * 10 \<le> g" if "10 dvd g" "c < g" for c g :: int using that by presburger
  then show ?thesis unfolding cron_ok_def demo_cron_def by (auto split: if_splits)
qed

definition down_ingest :: "Delivery \<Rightarrow> (nat, RunID \<times> bool) op" where
  "down_ingest d n = (Inl (Errorf ''down''), n)"

theorem tick_emits_last_fires_witness:
  "(\<exists>f'. Tick demo_cron (Inr [demo_schedule]) log_ingest 35 ([], []) = Some ((1, None), (f', [schedule_delivery demo_cron demo_schedule 30]))
      \<and> Tick demo_cron (Inr [demo_schedule]) log_ingest 35 (f', []) = Some ((0, None), (f', [])))
   \<and> (\<exists>f' err. Tick demo_cron (Inr [demo_schedule]) down_ingest 35 ([], 0) = Some ((0, Some err), (f', 0)) \<and> errors_Is err (Errorf ''down''))"
proof -
  let ?F = "\<lambda>e :: string. {g :: time. 10 dvd g}"
  have l: "last_fire {g. 10 dvd g} (since 35 None) 35 (Some 30)" by (auto simp: last_fire_def since_def day_def elim!: dvdE)
  have o: "owes demo_cron ?F 35 [] demo_schedule fire \<longleftrightarrow> fire = 30" for fire
    using l last_fire_unique [OF l] by (auto simp: owes_def demo_cron_def demo_schedule_def mget_def)
  have w: "ps = [(demo_schedule, 30)]" if ps: "owed demo_cron ?F 35 [] [demo_schedule] ps" for ps
  proof -
    have "\<exists>fire. owes demo_cron ?F 35 [] demo_schedule fire" using o by blast
    then have "map fst ps = [demo_schedule]" using ps unfolding owed_def by simp
    then obtain g where g: "ps = [(demo_schedule, g)]" by (auto simp: map_eq_Cons_conv)
    with ps have "owes demo_cron ?F 35 [] demo_schedule g" unfolding owed_def by simp
    with o g show ?thesis by blast
  qed
  have k: "distinct (map scheduleKey [demo_schedule])" by simp
  from tick_emits_last_fires [where ingest = log_ingest and t = 35 and f = "[]" and s = "[]", OF demo_cron_ok k] obtain qs rs f' err where
    p: "owed demo_cron ?F 35 [] [demo_schedule] (qs @ rs)" "outcome demo_cron log_ingest [] qs rs err"
      "Tick demo_cron (Inr [demo_schedule]) log_ingest 35 ([], []) = Some ((length qs, err), (f', emits demo_cron (qs @ take 1 rs) log_ingest []))"
      "rs = [] \<longrightarrow> (\<forall>s2. Tick demo_cron (Inr [demo_schedule]) log_ingest 35 (f', s2) = Some ((0, None), (f', s2)))" by blast
  have "rs = []" using p(2) by (cases rs) (simp_all add: outcome_def log_ingest_def)
  with p w [OF p(1)] have "\<exists>f'. Tick demo_cron (Inr [demo_schedule]) log_ingest 35 ([], []) = Some ((1, None), (f', [schedule_delivery demo_cron demo_schedule 30]))
      \<and> Tick demo_cron (Inr [demo_schedule]) log_ingest 35 (f', []) = Some ((0, None), (f', []))"
    by (auto simp: outcome_def log_ingest_def)
  moreover from tick_emits_last_fires [where ingest = down_ingest and t = 35 and f = "[]" and s = 0, OF demo_cron_ok k] obtain qs rs f' err where
    q: "owed demo_cron ?F 35 [] [demo_schedule] (qs @ rs)" "outcome demo_cron down_ingest 0 qs rs err"
      "Tick demo_cron (Inr [demo_schedule]) down_ingest 35 ([], 0) = Some ((length qs, err), (f', emits demo_cron (qs @ take 1 rs) down_ingest 0))" by blast
  have "qs = []" using q(2) by (cases qs) (simp_all add: outcome_def down_ingest_def)
  with q w [OF q(1)] have "\<exists>f' err. Tick demo_cron (Inr [demo_schedule]) down_ingest 35 ([], 0) = Some ((0, Some err), (f', 0)) \<and> errors_Is err (Errorf ''down'')"
    by (auto simp: outcome_def down_ingest_def)
  ultimately show ?thesis by blast
qed

end
