(* ===== verification/Builtin_Actions.thy ===== *)
theory Builtin_Actions
  imports Executor_Engine Base64
begin

text \<open>
  The builtin actions of the executor (\<^verbatim>\<open>internal/runtime/executor/builtin.go\<close>): checkout,
  cache, and the upload and download of artifacts. Git, the file system, HTTP and the
  control plane are parameters; an archive is the list of its entries, which
  \<^verbatim>\<open>archive/tar\<close> and \<^verbatim>\<open>compress/gzip\<close> write and read.
\<close>

section \<open>The world of an action\<close>

datatype tar_type = TypeReg | TypeDir | TypeOther

record tar_entry =
  te_Name :: string
  te_Type :: tar_type
  te_Mode :: int
  te_Data :: bytes

text \<open>
  One call of a walk: the path, the error it is called with or the kind of file, and what
  writing the header and reading the file give.
\<close>

record walked =
  wk_Path :: string
  wk_Info :: "tar_type res"
  wk_Mode :: int
  wk_Header :: "unit res"
  wk_Data :: "bytes res"

record 'w cp_port =
  cp_ResolveCache :: "string \<Rightarrow> string list \<Rightarrow> ('w, bool \<times> string \<times> string) op"
  cp_ArtifactUploadURL :: "string \<Rightarrow> ('w, string) op"
  cp_ArtifactDownloadURL :: "string \<Rightarrow> ('w, string) op"

text \<open>
  \<open>sys_Put\<close> and \<open>sys_Get\<close> give the status of the answer; the body of the latter is an error of
  the gzip reader, or the entries up to the end or to an error.
\<close>

record 'w builtin_sys =
  sys_Workspace :: string
  sys_CP :: "'w cp_port option"
  sys_Environ :: "string list"
  sys_git :: "string list \<Rightarrow> string list \<Rightarrow> 'w \<Rightarrow> (string \<times> Err option) \<times> 'w"
  sys_MkdirAll :: "string \<Rightarrow> int \<Rightarrow> ('w, unit) op"
  sys_Stat :: "string \<Rightarrow> 'w \<Rightarrow> bool"
  sys_Glob :: "string \<Rightarrow> string list res"
  sys_Walk :: "string \<Rightarrow> 'w \<Rightarrow> walked list"
  sys_CreateTemp :: "('w, unit) op"
  sys_OpenTemp :: "('w, unit) op"
  sys_Put :: "string \<Rightarrow> tar_entry list \<Rightarrow> ('w, int) op"
  sys_Get :: "string \<Rightarrow> ('w, int \<times> (tar_entry list \<times> Err option) res) op"
  sys_WriteFile :: "string \<Rightarrow> int \<Rightarrow> bytes \<Rightarrow> ('w, unit) op"

type_synonym 'w action = "'w builtin_sys \<Rightarrow> BuiltinContext \<Rightarrow> 'w \<Rightarrow> handler_run \<times> 'w"

definition fails :: "Err \<Rightarrow> handler_run" where
  "fails e = \<lparr>hr_outputs = [], hr_logs = [], hr_err = Some e\<rparr>"

definition done_run :: handler_run where
  "done_run = \<lparr>hr_outputs = [], hr_logs = [], hr_err = None\<rparr>"

definition of_res :: "unit res \<Rightarrow> handler_run" where
  "of_res x = (case x of Inl e \<Rightarrow> fails e | Inr _ \<Rightarrow> done_run)"

definition logs :: "string \<Rightarrow> (string \<times> string) list \<Rightarrow> handler_run \<Rightarrow> handler_run" where
  "logs msg attrs r = r\<lparr>hr_logs := \<lparr>lr_Message = msg, lr_Attrs = map (\<lambda>(k, v). (k, StrAttr v)) attrs\<rparr> # hr_logs r\<rparr>"

definition input :: "BuiltinContext \<Rightarrow> string \<Rightarrow> string" where
  "input bc k = (case mget (bc_Inputs bc) k of Some v \<Rightarrow> v | None \<Rightarrow> '''')"

section \<open>Checkout\<close>

definition repository_url :: "string \<Rightarrow> string" where
  "repository_url u =
     (if HasPrefix u ''/'' then ''file://'' @ u
      else if \<not> Contains u ''://'' \<and> length (filter (\<lambda>c. c = CHR ''/'') u) = 1
      then (if \<not> HasSuffix u ''.git'' then ''https://github.com/'' @ u @ ''.git'' else ''https://github.com/'' @ u)
      else u)"

definition fetch_depth :: "string \<Rightarrow> int res" where
  "fetch_depth s =
     (if s = '''' then Inr 1 else if s = ''0'' then Inr 0
      else case Atoi s of
             Some v \<Rightarrow> if v < 0 then Inl (Errorf (''actions/checkout: invalid fetch-depth '' @ Quote s)) else Inr v
           | None \<Rightarrow> Inl (Errorf (''actions/checkout: invalid fetch-depth '' @ Quote s)))"

definition run_git :: "'w builtin_sys \<Rightarrow> BuiltinContext \<Rightarrow> string list \<Rightarrow> ('w, unit) op" where
  "run_git S bc args w =
     (case sys_git S (sys_Environ S @ map (\<lambda>(k, v). k @ ''='' @ v) (bc_Env bc)) args w of
        ((out, None), w1) \<Rightarrow> (Inr (), w1)
      | ((out, Some e), w1) \<Rightarrow> (Inl (Wrapf (''git '' @ Join args '' '') (Detailf e out)), w1))"

text \<open>The standard alphabet with padding, where tokens use the URL alphabet without.\<close>

definition b64_std :: "string \<Rightarrow> string" where
  "b64_std s =
     map (\<lambda>c. if c = CHR ''-'' then CHR ''+'' else if c = CHR ''_'' then CHR ''/'' else c) (b64_encode s)
     @ replicate ((3 - length s mod 3) mod 3) (CHR ''='')"

definition auth_header :: "string \<Rightarrow> string \<Rightarrow> string" where
  "auth_header host token = ''http.https://'' @ host @ ''/.extraheader=AUTHORIZATION: basic '' @ b64_std (''x-access-token:'' @ token)"

definition with_token :: "string \<Rightarrow> string \<Rightarrow> string list \<Rightarrow> string list" where
  "with_token url token args =
     (if token = '''' \<or> \<not> HasPrefix url ''https://'' then args
      else let parts = Split url (CHR ''/'');
               host = (if Contains url ''://'' \<and> length parts \<ge> 3 then parts ! 2 else ''github.com'')
           in [''-c'', auth_header host token] @ args)"

definition depth_args :: "int \<Rightarrow> string list" where
  "depth_args depth = (if depth > 0 then [''--depth'', itoa (nat depth)] else [])"

definition git_init :: "'w builtin_sys \<Rightarrow> BuiltinContext \<Rightarrow> string \<Rightarrow> ('w, unit) op" where
  "git_init S bc url w =
     (case run_git S bc [''init''] w of
        (Inl e, w1) \<Rightarrow> (Inl e, w1)
      | (Inr _, w1) \<Rightarrow>
          (case run_git S bc [''remote'', ''add'', ''origin'', url] w1 of
             (Inr _, w2) \<Rightarrow> (Inr (), w2)
           | (Inl _, w2) \<Rightarrow> (Inr (), snd (run_git S bc [''remote'', ''set-url'', ''origin'', url] w2))))"

definition fetch_ref :: "'w builtin_sys \<Rightarrow> BuiltinContext \<Rightarrow> string \<Rightarrow> string \<Rightarrow> string \<Rightarrow> int \<Rightarrow> ('w, unit) op" where
  "fetch_ref S bc url token ref depth w =
     (case run_git S bc (with_token url token ([''fetch'', ''origin'', ref] @ depth_args depth)) w of
        (Inl e, w1) \<Rightarrow> (Inl e, w1)
      | (Inr _, w1) \<Rightarrow>
          (case run_git S bc [''checkout'', ''FETCH_HEAD''] w1 of
             (Inr _, w2) \<Rightarrow> (Inr (), w2)
           | (Inl e, w2) \<Rightarrow>
               (case run_git S bc [''checkout'', ref] w2 of
                  (Inr _, w3) \<Rightarrow> (Inr (), w3)
                | (Inl e2, w3) \<Rightarrow> (Inl (Wrapf (''checkout '' @ Quote ref) (Joined e e2)), w3))))"

definition fetch_default :: "'w builtin_sys \<Rightarrow> BuiltinContext \<Rightarrow> string \<Rightarrow> string \<Rightarrow> int \<Rightarrow> ('w, unit) op" where
  "fetch_default S bc url token depth w =
     (case run_git S bc (with_token url token ([''fetch'', ''origin''] @ depth_args depth)) w of
        (Inl e, w1) \<Rightarrow> (Inl e, w1)
      | (Inr _, w1) \<Rightarrow>
          (let w2 = (case run_git S bc [''checkout'', ''origin/HEAD''] w1 of
                       (Inr _, w2) \<Rightarrow> w2 | (Inl _, w2) \<Rightarrow> snd (run_git S bc [''checkout'', ''main''] w2))
           in (Inr (), snd (run_git S bc [''checkout'', ''-f''] w2))))"

definition clone :: "'w builtin_sys \<Rightarrow> BuiltinContext \<Rightarrow> string \<Rightarrow> string \<Rightarrow> string \<Rightarrow> int \<Rightarrow> ('w, unit) op" where
  "clone S bc url token ref depth w =
     (case sys_MkdirAll S (sys_Workspace S) 493 w of
        (Inl e, w1) \<Rightarrow> (Inl (Wrapf ''checkout: mkdir workspace'' e), w1)
      | (Inr _, w1) \<Rightarrow>
          (case (if sys_Stat S (path_Join [sys_Workspace S, ''.git'']) w1 then (Inr (), w1) else git_init S bc url w1) of
             (Inl e, w2) \<Rightarrow> (Inl e, w2)
           | (Inr _, w2) \<Rightarrow>
               if ref \<noteq> '''' then fetch_ref S bc url token ref depth w2 else fetch_default S bc url token depth w2))"

definition checkoutHandler :: "'w action" where
  "checkoutHandler S bc w =
     (let repo = TrimSpace (input bc ''repository''); ref = TrimSpace (input bc ''ref''); token = TrimSpace (input bc ''token'');
          persist = TrimSpace (input bc ''persist-credentials'') in
      if persist \<noteq> '''' \<and> persist \<noteq> ''true'' \<and> persist \<noteq> ''false''
      then (fails (Errorf (''actions/checkout: persist-credentials must be true or false, got '' @ Quote persist)), w)
      else if repo = '''' then (fails (Errorf ''actions/checkout: repository input is required when no default is available''), w)
      else case fetch_depth (TrimSpace (input bc ''fetch-depth'')) of
             Inl e \<Rightarrow> (fails e, w)
           | Inr depth \<Rightarrow> (case clone S bc (repository_url repo) token ref depth w of (x, w1) \<Rightarrow> (of_res x, w1)))"

section \<open>Archives\<close>

text \<open>
  \<^verbatim>\<open>filepath.Rel\<close> on clean paths, component by component; the callers ignore its error, which
  comes with the empty string.
\<close>

fun rel_components :: "string list \<Rightarrow> string list \<Rightarrow> string list option" where
  "rel_components [] ts = Some ts"
| "rel_components (b # bs) (t # ts) =
     (if b = t then rel_components bs ts else if b = ''..'' then None else Some (replicate (length (b # bs)) ''..'' @ t # ts))"
| "rel_components (b # bs) [] = (if b = ''..'' then None else Some (replicate (length (b # bs)) ''..''))"

definition Rel :: "string \<Rightarrow> string \<Rightarrow> string" where
  "Rel base targ =
     (if IsAbs base \<noteq> IsAbs targ then ''''
      else case rel_components (components base) (components targ) of
             None \<Rightarrow> '''' | Some [] \<Rightarrow> ''.'' | Some cs \<Rightarrow> Join cs ''/'')"

text \<open>The entries of a walk, named relative to a directory; \<open>skip\<close> leaves the directory itself out.\<close>

fun tar_walk :: "string \<Rightarrow> bool \<Rightarrow> walked list \<Rightarrow> tar_entry list res" where
  "tar_walk base skip [] = Inr []"
| "tar_walk base skip (v # vs) =
     (case wk_Info v of
        Inl e \<Rightarrow> Inl e
      | Inr ty \<Rightarrow>
          let rel = Rel base (wk_Path v) in
          if skip \<and> rel = ''.'' then tar_walk base skip vs
          else case wk_Header v of
            Inl e \<Rightarrow> Inl e
          | Inr _ \<Rightarrow>
              (case (if ty = TypeReg then wk_Data v else Inr []) of
                 Inl e \<Rightarrow> Inl e
               | Inr d \<Rightarrow>
                   (case tar_walk base skip vs of
                      Inl e \<Rightarrow> Inl e
                    | Inr es \<Rightarrow> Inr (\<lparr>te_Name = rel, te_Type = ty, te_Mode = wk_Mode v, te_Data = d\<rparr> # es))))"

definition put_archive :: "'w builtin_sys \<Rightarrow> string \<Rightarrow> tar_entry list \<Rightarrow> ('w, unit) op" where
  "put_archive S url es w =
     (case sys_OpenTemp S w of
        (Inl e, w1) \<Rightarrow> (Inl e, w1)
      | (Inr _, w1) \<Rightarrow>
          (case sys_Put S url es w1 of
             (Inl e, w2) \<Rightarrow> (Inl e, w2)
           | (Inr code, w2) \<Rightarrow> if code < 200 \<or> code \<ge> 300 then (Inl (Errorf (''upload status '' @ itoa (nat code))), w2) else (Inr (), w2)))"

definition tarAndUpload :: "'w builtin_sys \<Rightarrow> string \<Rightarrow> string \<Rightarrow> ('w, unit) op" where
  "tarAndUpload S srcPath putURL w =
     (case sys_CreateTemp S w of
        (Inl e, w1) \<Rightarrow> (Inl e, w1)
      | (Inr _, w1) \<Rightarrow>
          (case tar_walk (Dir srcPath) False (sys_Walk S srcPath w1) of
             Inl e \<Rightarrow> (Inl e, w1)
           | Inr es \<Rightarrow> put_archive S putURL es w1))"

fun tar_sources :: "'w builtin_sys \<Rightarrow> string list \<Rightarrow> 'w \<Rightarrow> tar_entry list res" where
  "tar_sources S [] w = Inr []"
| "tar_sources S (src # srcs) w =
     (case tar_walk (sys_Workspace S) True (sys_Walk S src w) of
        Inl e \<Rightarrow> Inl e
      | Inr es \<Rightarrow> (case tar_sources S srcs w of Inl e \<Rightarrow> Inl e | Inr es' \<Rightarrow> Inr (es @ es')))"

definition tarAndUploadMultiple :: "'w builtin_sys \<Rightarrow> string list \<Rightarrow> string \<Rightarrow> ('w, unit) op" where
  "tarAndUploadMultiple S srcs putURL w =
     (case sys_CreateTemp S w of
        (Inl e, w1) \<Rightarrow> (Inl e, w1)
      | (Inr _, w1) \<Rightarrow> (case tar_sources S srcs w1 of Inl e \<Rightarrow> (Inl e, w1) | Inr es \<Rightarrow> put_archive S putURL es w1))"

text \<open>What an entry makes the extraction do, if anything.\<close>

datatype file_action = MakeDir string int | PutFile string int bytes

definition extract_action :: "string \<Rightarrow> tar_entry \<Rightarrow> file_action option" where
  "extract_action dest h =
     (let target = path_Join [dest, te_Name h] in
      if \<not> HasPrefix (Clean target) (Clean dest) then None
      else case te_Type h of
             TypeDir \<Rightarrow> Some (MakeDir target (te_Mode h))
           | TypeReg \<Rightarrow> Some (PutFile target (te_Mode h) (te_Data h))
           | TypeOther \<Rightarrow> None)"

primrec do_action :: "'w builtin_sys \<Rightarrow> file_action \<Rightarrow> ('w, unit) op" where
  "do_action S (MakeDir p m) w = sys_MkdirAll S p m w"
| "do_action S (PutFile p m d) w =
     (case sys_MkdirAll S (Dir p) 493 w of (Inl e, w1) \<Rightarrow> (Inl e, w1) | (Inr _, w1) \<Rightarrow> sys_WriteFile S p m d w1)"

fun extract_loop :: "'w builtin_sys \<Rightarrow> string \<Rightarrow> tar_entry list \<Rightarrow> Err option \<Rightarrow> ('w, unit) op" where
  "extract_loop S dest [] over w = (case over of None \<Rightarrow> (Inr (), w) | Some e \<Rightarrow> (Inl e, w))"
| "extract_loop S dest (h # hs) over w =
     (case extract_action dest h of
        None \<Rightarrow> extract_loop S dest hs over w
      | Some a \<Rightarrow>
          (case do_action S a w of
             (Inl e, w1) \<Rightarrow> (Inl e, w1)
           | (Inr _, w1) \<Rightarrow> extract_loop S dest hs over w1))"

definition downloadAndExtract :: "'w builtin_sys \<Rightarrow> string \<Rightarrow> string \<Rightarrow> ('w, unit) op" where
  "downloadAndExtract S getURL dest w =
     (case sys_Get S getURL w of
        (Inl e, w1) \<Rightarrow> (Inl e, w1)
      | (Inr (code, body), w1) \<Rightarrow>
          if code < 200 \<or> code \<ge> 300 then (Inl (Errorf (''download status '' @ itoa (nat code))), w1)
          else case body of Inl e \<Rightarrow> (Inl e, w1) | Inr (es, over) \<Rightarrow> extract_loop S dest es over w1)"

section \<open>Cache and artifacts\<close>

definition restore_keys :: "string \<Rightarrow> string list" where
  "restore_keys raw = filter (\<lambda>p. p \<noteq> '''') (map TrimSpace (concat (map (\<lambda>line. Split line (CHR '','')) (Split raw (CHR 0x0A)))))"

definition in_workspace :: "'w builtin_sys \<Rightarrow> string \<Rightarrow> string" where
  "in_workspace S p = (if IsAbs p then p else path_Join [sys_Workspace S, p])"

definition cache_restore :: "'w builtin_sys \<Rightarrow> string \<Rightarrow> string \<Rightarrow> string \<Rightarrow> 'w \<Rightarrow> handler_run \<times> 'w" where
  "cache_restore S key path getURL w =
     (case downloadAndExtract S getURL (in_workspace S path) w of
        (x, w1) \<Rightarrow>
          (logs ''cache hit, restoring'' [(''key'', key), (''path'', path)]
             ((case x of Inl e \<Rightarrow> logs ''cache restore failed, continuing'' [(''err'', Err_Error e)] | Inr _ \<Rightarrow> logs ''cache restored'' [(''key'', key)])
               (done_run\<lparr>hr_outputs := [(''cache-hit'', ''true'')]\<rparr>)), w1))"

definition cache_save :: "'w builtin_sys \<Rightarrow> string \<Rightarrow> string \<Rightarrow> string \<Rightarrow> 'w \<Rightarrow> handler_run \<times> 'w" where
  "cache_save S key path putURL w =
     (let miss = (\<lambda>r. logs ''cache miss, will save'' [(''key'', key)] (r\<lparr>hr_outputs := [(''cache-hit'', ''false'')]\<rparr>)) in
      if \<not> sys_Stat S (in_workspace S path) w then (miss (logs ''cache path not found, skipping save'' [(''path'', path)] done_run), w)
      else case tarAndUpload S (in_workspace S path) putURL w of
             (Inl e, w1) \<Rightarrow> (miss (logs ''cache save failed'' [(''err'', Err_Error e)] done_run), w1)
           | (Inr _, w1) \<Rightarrow> (miss done_run, w1))"

definition cacheHandler :: "'w action" where
  "cacheHandler S bc w =
     (let key = TrimSpace (input bc ''key''); path = TrimSpace (input bc ''path'') in
      if key = '''' then (fails (Errorf ''actions/cache: key is required''), w)
      else if path = '''' then (fails (Errorf ''actions/cache: path is required''), w)
      else case sys_CP S of
        None \<Rightarrow> (fails (Errorf ''actions/cache: control plane not configured''), w)
      | Some cp \<Rightarrow>
          (case cp_ResolveCache cp key (restore_keys (input bc ''restore-keys'')) w of
             (Inl e, w1) \<Rightarrow> (fails (Wrapf ''cache resolve'' e), w1)
           | (Inr (hit, getURL, putURL), w1) \<Rightarrow>
               if hit \<and> getURL \<noteq> '''' then cache_restore S key path getURL w1 else cache_save S key path putURL w1))"

definition upload_sources :: "'w builtin_sys \<Rightarrow> string \<Rightarrow> string list res" where
  "upload_sources S path =
     (let p = in_workspace S path in
      if Contains p ''*'' \<or> Contains p ''?'' \<or> Contains p ''['' then
        (case sys_Glob S p of Inl e \<Rightarrow> Inl (Wrapf (''glob '' @ Quote path) e) | Inr ms \<Rightarrow> Inr ms)
      else Inr [p])"

definition uploadArtifactHandler :: "'w action" where
  "uploadArtifactHandler S bc w =
     (let name = TrimSpace (input bc ''name''); path = TrimSpace (input bc ''path'') in
      if name = '''' then (fails (Errorf ''actions/upload-artifact: name is required''), w)
      else if path = '''' then (fails (Errorf ''actions/upload-artifact: path is required''), w)
      else case sys_CP S of
        None \<Rightarrow> (fails (Errorf ''upload-artifact: control plane not configured''), w)
      | Some cp \<Rightarrow>
          (case cp_ArtifactUploadURL cp name w of
             (Inl e, w1) \<Rightarrow> (fails (Wrapf ''artifact upload URL'' e), w1)
           | (Inr url, w1) \<Rightarrow>
               (case upload_sources S path of
                  Inl e \<Rightarrow> (fails e, w1)
                | Inr [] \<Rightarrow> (logs ''upload-artifact: no files matched'' [(''path'', path)] done_run, w1)
                | Inr srcs \<Rightarrow>
                    (case tarAndUploadMultiple S srcs url w1 of
                       (Inl e, w2) \<Rightarrow> (fails (Wrapf ''upload artifact'' e), w2)
                     | (Inr _, w2) \<Rightarrow> (logs ''artifact uploaded'' [(''name'', name)] done_run, w2)))))"

definition downloadArtifactHandler :: "'w action" where
  "downloadArtifactHandler S bc w =
     (let name = TrimSpace (input bc ''name''); path = TrimSpace (input bc ''path'') in
      if name = '''' then (fails (Errorf ''actions/download-artifact: name is required''), w)
      else case sys_CP S of
        None \<Rightarrow> (fails (Errorf ''download-artifact: control plane not configured''), w)
      | Some cp \<Rightarrow>
          (case cp_ArtifactDownloadURL cp name w of
             (Inl e, w1) \<Rightarrow> (fails (Wrapf ''artifact download URL'' e), w1)
           | (Inr url, w1) \<Rightarrow>
               let dest = (if path = '''' then sys_Workspace S else in_workspace S path) in
               case sys_MkdirAll S dest 493 w1 of
                 (Inl e, w2) \<Rightarrow> (fails (Wrapf ''mkdir dest'' e), w2)
               | (Inr _, w2) \<Rightarrow>
                   (case downloadAndExtract S url dest w2 of
                      (Inl e, w3) \<Rightarrow> (fails (Wrapf ''download artifact'' e), w3)
                    | (Inr _, w3) \<Rightarrow> (logs ''artifact downloaded'' [(''name'', name), (''dest'', dest)] done_run, w3))))"

definition builtinRegistry :: "(string, 'w action) gomap" where
  "builtinRegistry = [(''actions/checkout'', checkoutHandler), (''actions/cache'', cacheHandler),
     (''actions/upload-artifact'', uploadArtifactHandler), (''actions/download-artifact'', downloadArtifactHandler)]"

end
