(* ===== verification/Builtin_Properties.thy ===== *)
theory Builtin_Properties
  imports Builtin_Actions Executor_Properties
begin

text \<open>
  Where the builtin actions put files back, what the checkout action's errors reveal, and that the
  actions log nothing but strings, which the engine masks.
\<close>

section \<open>Paths\<close>

abbreviation rooted :: "string list \<Rightarrow> string" where
  "rooted cs \<equiv> of_components True cs"

lemma IsAbs_rooted [simp]: "IsAbs (rooted cs)"
  by (simp add: IsAbs_def of_components_def)











section \<open>Archives\<close>












section \<open>Checkout\<close>

lemma sublist_Join: "x \<in> set xs \<Longrightarrow> sublist x (Join xs sep)"
proof (induction xs sep rule: Join.induct)
  case (3 a b ys sep)
  then show ?case by (auto simp: sublist_append)
qed auto

lemma header_in_args:
  assumes "token \<noteq> ''''" "HasPrefix url ''https://''"
  shows "\<exists>host. auth_header host token \<in> set (with_token url token args)"
  using assms by (auto simp: with_token_def Let_def)

lemma git_error_reveals:
  assumes "token \<noteq> ''''" "HasPrefix url ''https://''"
  shows "Contains (Err_Error (Wrapf (''git '' @ Join (with_token url token args) '' '') e)) (b64_std (''x-access-token:'' @ token))"
proof -
  from header_in_args [OF assms] obtain host where h: "auth_header host token \<in> set (with_token url token args)" by blast
  have "sublist (b64_std (''x-access-token:'' @ token)) (auth_header host token)"
    unfolding auth_header_def by (intro suffix_imp_sublist) (simp add: suffix_def)
  then have "sublist (b64_std (''x-access-token:'' @ token)) (Join (with_token url token args) '' '')"
    using sublist_Join [OF h] by (rule sublist_order.order.trans)
  then have "sublist (b64_std (''x-access-token:'' @ token)) (Err_Error (Wrapf (''git '' @ Join (with_token url token args) '' '') e))"
    unfolding Err_Error.simps append_assoc by (rule sublist_order.order.trans [OF _ sublist_appendI])
  then show ?thesis unfolding Contains_sublist .
qed

text \<open>
  C30. A checkout over https with a token reveals the token when its fetch fails, for a given ref
  or the default one, in a fresh workspace, once it is initialised, or in one that already
  is a repository. The error of the action carries the command line of git, with the base64
  text of the credentials: what the log keeps out is the token as it was given, not this
  encoding of it.
\<close>

theorem checkout_error_reveals_token:
  assumes "TrimSpace (input bc ''token'') = token" "token \<noteq> ''''" "TrimSpace (input bc ''persist-credentials'') \<in> {'''', ''true'', ''false''}"
    and "repository_url (TrimSpace (input bc ''repository'')) = url" "HasPrefix url ''https://''"
    and "TrimSpace (input bc ''ref'') = ref" "fetch_depth (TrimSpace (input bc ''fetch-depth'')) = Inr depth"
    and "sys_MkdirAll S (sys_Workspace S) 493 w = (Inr (), w1)"
    and "(if sys_Stat S (path_Join [sys_Workspace S, ''.git'']) w1 then (Inr (), w1) else git_init S bc url w1) = (Inr (), w2)"
    and "sys_git S (sys_Environ S @ map (\<lambda>(k, v). k @ ''='' @ v) (bc_Env bc))
        (with_token url token ([''fetch'', ''origin''] @ (if ref = '''' then [] else [ref]) @ depth_args depth)) w2 = ((out, Some e), w3)"
  shows "\<exists>err. checkoutHandler S bc w = (fails err, w3) \<and> Contains (Err_Error err) (b64_std (''x-access-token:'' @ token))"
proof -
  let ?args = "with_token url token ([''fetch'', ''origin''] @ (if ref = '''' then [] else [ref]) @ depth_args depth)"
  let ?err = "Wrapf (''git '' @ Join ?args '' '') (Detailf e out)"
  have r: "TrimSpace (input bc ''repository'') \<noteq> ''''"
  proof
    assume "TrimSpace (input bc ''repository'') = ''''"
    then have "url = repository_url ''''" using assms(4) by simp
    then have "url = ''''" by (simp add: repository_url_def HasPrefix_prefix)
    with assms(5) show False by (simp add: HasPrefix_prefix)
  qed
  have g: "run_git S bc ?args w2 = (Inl ?err, w3)" unfolding run_git_def assms(10) by simp
  have "(if ref \<noteq> '''' then fetch_ref S bc url token ref depth w2 else fetch_default S bc url token depth w2) = (Inl ?err, w3)"
  proof (cases "ref = ''''")
    case True
    with g show ?thesis by (simp add: fetch_default_def)
  next
    case False
    with g show ?thesis by (simp add: fetch_ref_def)
  qed
  with assms(8,9) have "clone S bc url token ref depth w = (Inl ?err, w3)" unfolding clone_def by (simp only: prod.case sum.case)
  with assms(1,3,4,6,7) r have "checkoutHandler S bc w = (fails ?err, w3)" by (auto simp: checkoutHandler_def Let_def of_res_def)
  with git_error_reveals [OF assms(2,5)] show ?thesis by blast
qed

section \<open>What the actions log\<close>

lemma logs_strings_simps [simp]:
  "logs_strings (fails e)" "logs_strings done_run" "logs_strings (of_res x)"
  "logs_strings (logs msg attrs r) = logs_strings r" "logs_strings (r\<lparr>hr_outputs := os\<rparr>) = logs_strings r"
  by (auto simp: logs_strings_def fails_def done_run_def of_res_def logs_def list_all_iff split: sum.splits)

text \<open>Every registered action meets what the masking of the log relies on.\<close>

lemma registry_logs_strings:
  assumes "(a, h) \<in> set builtinRegistry"
  shows "logs_strings (fst (h S bc w))"
proof -
  have "logs_strings (fst (checkoutHandler S bc w))"
    by (simp add: checkoutHandler_def Let_def split: sum.split prod.split)
  moreover have "logs_strings (fst (cacheHandler S bc w))"
    by (simp add: cacheHandler_def cache_restore_def cache_save_def Let_def split: sum.split prod.split option.split)
  moreover have "logs_strings (fst (uploadArtifactHandler S bc w))"
    by (simp add: uploadArtifactHandler_def Let_def split: sum.split prod.split option.split list.split)
  moreover have "logs_strings (fst (downloadArtifactHandler S bc w))"
    by (simp add: downloadArtifactHandler_def Let_def split: sum.split prod.split option.split)
  ultimately show ?thesis using assms by (auto simp: builtinRegistry_def)
qed

lemma registry_handlers_log_strings:
  assumes "\<And>i. w_builtin W i = map (\<lambda>(a, h). (a, \<lambda>bc. fst (h (S i) bc (world i)))) builtinRegistry"
  shows "handlers_log_strings W"
  unfolding handlers_log_strings_def assms by (auto dest!: mget_in_set simp: registry_logs_strings)

section \<open>Examples\<close>

definition demo_walked :: "string \<Rightarrow> tar_type \<Rightarrow> walked" where
  "demo_walked p ty = \<lparr>wk_Path = p, wk_Info = Inr ty, wk_Mode = 420, wk_Header = Inr (), wk_Data = Inr ''data''\<rparr>"

text \<open>A workspace \<^verbatim>\<open>/w\<close> with a directory \<^verbatim>\<open>d\<close> and a file \<^verbatim>\<open>f\<close> in it, where git can only fail; the state is the files written.\<close>

definition demo_sys :: "(string \<times> bytes) list builtin_sys" where
  "demo_sys = \<lparr>sys_Workspace = ''/w'', sys_CP = None, sys_Environ = [], sys_git = (\<lambda>env args w. ((''denied'', Some (Errorf ''exit status 128'')), w)),
     sys_MkdirAll = (\<lambda>p m w. (Inr (), w)), sys_Stat = (\<lambda>p w. True), sys_Glob = (\<lambda>p. Inr [p]),
     sys_Walk = (\<lambda>p w. [demo_walked ''/w/d'' TypeDir, demo_walked ''/w/d/f'' TypeReg]),
     sys_CreateTemp = (\<lambda>w. (Inr (), w)), sys_OpenTemp = (\<lambda>w. (Inr (), w)), sys_Put = (\<lambda>u es w. (Inr 200, w)), sys_Get = (\<lambda>u w. (Inr (404, Inr ([], None)), w)),
     sys_WriteFile = (\<lambda>p m d w. (Inr (), w @ [(p, d)]))\<rparr>"




text \<open>A workspace that is no repository yet, where git can do everything but fetch; no ref is given.\<close>

definition fresh_sys :: "(string \<times> bytes) list builtin_sys" where
  "fresh_sys = demo_sys\<lparr>sys_Stat := (\<lambda>p w. False),
     sys_git := (\<lambda>env args w. if ''fetch'' \<in> set args then ((''denied'', Some (Errorf ''exit status 128'')), w) else (('''', None), w))\<rparr>"

definition demo_checkout :: BuiltinContext where
  "demo_checkout = \<lparr>bc_Inputs = [(''repository'', ''o/r''), (''token'', ''t0k'')], bc_Env = []\<rparr>"

theorem checkout_error_reveals_token_witness:
  "\<exists>err. checkoutHandler fresh_sys demo_checkout [] = (fails err, []) \<and> Contains (mask_Apply [''t0k''] (Err_Error err)) (b64_std ''x-access-token:t0k'')"
proof -
  have m: "Contains (mask_Apply [''t0k''] (Err_Error (the (hr_err (fst (checkoutHandler fresh_sys demo_checkout [])))))) (b64_std ''x-access-token:t0k'')"
    by code_simp
  have i: "TrimSpace (input demo_checkout ''token'') = ''t0k''" "TrimSpace (input demo_checkout ''persist-credentials'') \<in> {'''', ''true'', ''false''}"
    "repository_url (TrimSpace (input demo_checkout ''repository'')) = ''https://github.com/o/r.git''" "HasPrefix ''https://github.com/o/r.git'' ''https://''"
    "TrimSpace (input demo_checkout ''ref'') = ''''" "fetch_depth (TrimSpace (input demo_checkout ''fetch-depth'')) = Inr 1" by code_simp+
  have g: "git_init fresh_sys demo_checkout ''https://github.com/o/r.git'' [] = (Inr (), [])" by (simp add: git_init_def run_git_def fresh_sys_def)
  have "\<exists>err. checkoutHandler fresh_sys demo_checkout [] = (fails err, []) \<and> Contains (Err_Error err) (b64_std (''x-access-token:'' @ ''t0k''))"
    by (rule checkout_error_reveals_token [OF i(1) _ i(2-6), where w = "[]" and e = "Errorf ''exit status 128''" and out = "''denied''"])
      (use g in \<open>simp_all add: fresh_sys_def demo_sys_def with_token_def Let_def\<close>)
  with m show ?thesis by (auto simp: fails_def)
qed

end
