(* ===== verification/Object_Store.thy ===== *)
theory Object_Store
  imports Run_Model Base64
begin

text \<open>
  Cache and artifact objects (\<^verbatim>\<open>internal/storage/s3/store.go\<close>): how their keys are made and
  how a cache entry is found. The MinIO client and SHA-256 are parameters.
\<close>

section \<open>Runes\<close>

text \<open>The width in bytes of the first rune of a string, as the UTF-8 decoder sees it; an invalid byte is one rune.\<close>

definition byte_at :: "string \<Rightarrow> nat \<Rightarrow> nat" where
  "byte_at s i = (if i < length s then of_char (s ! i) else 0)"

definition continuation :: "string \<Rightarrow> nat \<Rightarrow> bool" where
  "continuation s i \<longleftrightarrow> 0x80 \<le> byte_at s i \<and> byte_at s i \<le> 0xBF"

definition rune_width :: "string \<Rightarrow> nat" where
  "rune_width s =
     (let b = byte_at s 0; c = byte_at s 1 in
      if 0xC2 \<le> b \<and> b \<le> 0xDF \<and> continuation s 1 then 2
      else if 0xE0 \<le> b \<and> b \<le> 0xEF \<and> continuation s 1 \<and> (b = 0xE0 \<longrightarrow> 0xA0 \<le> c) \<and> (b = 0xED \<longrightarrow> c \<le> 0x9F) \<and> continuation s 2 then 3
      else if 0xF0 \<le> b \<and> b \<le> 0xF4 \<and> continuation s 1 \<and> (b = 0xF0 \<longrightarrow> 0x90 \<le> c) \<and> (b = 0xF4 \<longrightarrow> c \<le> 0x8F)
              \<and> continuation s 2 \<and> continuation s 3 then 4
      else 1)"

lemma rune_width_pos [simp]: "0 < rune_width s"
  by (simp add: rune_width_def Let_def)

section \<open>Keys\<close>

definition safe_char :: "char \<Rightarrow> bool" where
  "safe_char c \<longleftrightarrow> is_letter c \<or> is_digit c \<or> c = CHR ''-'' \<or> c = CHR ''_''"

function replace_unsafe :: "string \<Rightarrow> string" where
  "replace_unsafe s =
     (case s of
        [] \<Rightarrow> []
      | c # r \<Rightarrow> if safe_char c then c # replace_unsafe r else CHR ''-'' # replace_unsafe (drop (rune_width s - 1) r))"
  by pat_completeness auto
termination by (relation "measure length") auto

declare replace_unsafe.simps [simp del]

definition trim_dashes :: "string \<Rightarrow> string" where
  "trim_dashes s = rev (dropWhile (\<lambda>c. c = CHR ''-'') (rev (dropWhile (\<lambda>c. c = CHR ''-'') s)))"

definition sanitizePrefix :: "string \<Rightarrow> string" where
  "sanitizePrefix key =
     (let sanitized = replace_unsafe key;
          cut = (if length sanitized > 100 then take 100 sanitized else sanitized);
          trimmed = trim_dashes cut in
      if trimmed = '''' then ''key'' else trimmed)"

definition sanitizeKey :: "(bytes \<Rightarrow> bytes) \<Rightarrow> string \<Rightarrow> string" where
  "sanitizeKey sha256 key = sanitizePrefix key @ ''-'' @ take 8 (hex_encode (sha256 key))"

definition cache_dir :: "RepositoryRef \<Rightarrow> string" where
  "cache_dir repo = repo_Provider repo @ ''/'' @ repo_Owner repo @ ''/'' @ repo_Name repo @ ''/cache/''"

definition cacheKey :: "(bytes \<Rightarrow> bytes) \<Rightarrow> RepositoryRef \<Rightarrow> string \<Rightarrow> string" where
  "cacheKey sha256 repo key = cache_dir repo @ sanitizeKey sha256 key"

definition artifactKey :: "RepositoryRef \<Rightarrow> RunID \<Rightarrow> string \<Rightarrow> string" where
  "artifactKey repo runID name =
     repo_Provider repo @ ''/'' @ repo_Owner repo @ ''/'' @ repo_Name repo @ ''/artifacts/'' @ runID @ ''/'' @ name @ ''.tar.gz''"

section \<open>The store\<close>

text \<open>
  The client: a failing stat carries the code of its error response and its text; a listing
  yields keys and errors in order.
\<close>

record minio =
  mc_Stat :: "string \<Rightarrow> (string \<times> Err) option"
  mc_List :: "string \<Rightarrow> string res list"
  mc_PresignGet :: "string \<Rightarrow> time \<Rightarrow> string res"
  mc_PresignPut :: "string \<Rightarrow> time \<Rightarrow> string res"

definition PresignedGet :: "minio \<Rightarrow> string \<Rightarrow> time \<Rightarrow> string res" where
  "PresignedGet C k expiry =
     (case mc_PresignGet C k expiry of Inl e \<Rightarrow> Inl (Wrapf (''s3: presign get '' @ k) e) | Inr u \<Rightarrow> Inr u)"

definition PresignedPut :: "minio \<Rightarrow> string \<Rightarrow> time \<Rightarrow> string res" where
  "PresignedPut C k expiry =
     (case mc_PresignPut C k expiry of Inl e \<Rightarrow> Inl (Wrapf (''s3: presign put '' @ k) e) | Inr u \<Rightarrow> Inr u)"

definition Exists :: "minio \<Rightarrow> string \<Rightarrow> bool res" where
  "Exists C k =
     (case mc_Stat C k of
        None \<Rightarrow> Inr True
      | Some (code, err) \<Rightarrow>
          if code = ''NoSuchKey'' then Inr False
          else if Contains (Err_Error err) ''NoSuchKey'' \<or> Contains (Err_Error err) ''not found'' then Inr False
          else Inl (Wrapf (''s3: stat '' @ k) err))"

fun first_listed :: "string res list \<Rightarrow> string option" where
  "first_listed [] = None"
| "first_listed (Inl _ # rest) = first_listed rest"
| "first_listed (Inr k # rest) = Some k"

text \<open>A miss is \<open>None\<close>, a hit the key of the object.\<close>

fun try_restore :: "(bytes \<Rightarrow> bytes) \<Rightarrow> minio \<Rightarrow> RepositoryRef \<Rightarrow> string list \<Rightarrow> string option res" where
  "try_restore sha C repo [] = Inr None"
| "try_restore sha C repo (rk0 # rks) =
     (let rk = TrimSpace rk0 in
      if rk = '''' then try_restore sha C repo rks
      else case Exists C (cacheKey sha repo rk) of
             Inl e \<Rightarrow> Inl e
           | Inr True \<Rightarrow> Inr (Some (cacheKey sha repo rk))
           | Inr False \<Rightarrow>
               (case first_listed (mc_List C (cache_dir repo @ sanitizePrefix rk)) of
                  Some k \<Rightarrow> Inr (Some k)
                | None \<Rightarrow> try_restore sha C repo rks))"

definition CacheResolve :: "(bytes \<Rightarrow> bytes) \<Rightarrow> minio \<Rightarrow> RepositoryRef \<Rightarrow> string \<Rightarrow> string list \<Rightarrow> string option res" where
  "CacheResolve sha C repo key restoreKeys =
     (case Exists C (cacheKey sha repo key) of
        Inl e \<Rightarrow> Inl e
      | Inr True \<Rightarrow> Inr (Some (cacheKey sha repo key))
      | Inr False \<Rightarrow> try_restore sha C repo restoreKeys)"

definition url_ttl :: time where
  "url_ttl = 10 * 60 * 1000000000"

definition CachePutURL :: "(bytes \<Rightarrow> bytes) \<Rightarrow> minio \<Rightarrow> RepositoryRef \<Rightarrow> string \<Rightarrow> string res" where
  "CachePutURL sha C repo key = PresignedPut C (cacheKey sha repo key) url_ttl"

definition CacheGetURL :: "minio \<Rightarrow> string \<Rightarrow> string res" where
  "CacheGetURL C k = PresignedGet C k url_ttl"

definition ArtifactPutURL :: "minio \<Rightarrow> RepositoryRef \<Rightarrow> RunID \<Rightarrow> string \<Rightarrow> string res" where
  "ArtifactPutURL C repo runID name = PresignedPut C (artifactKey repo runID name) url_ttl"

definition ArtifactGetURL :: "minio \<Rightarrow> RepositoryRef \<Rightarrow> RunID \<Rightarrow> string \<Rightarrow> string res" where
  "ArtifactGetURL C repo runID name = PresignedGet C (artifactKey repo runID name) url_ttl"

section \<open>Bounds and separation\<close>

lemma replace_unsafe_safe: "list_all safe_char (replace_unsafe s)"
proof (induction s rule: replace_unsafe.induct)
  case (1 s)
  have dash: "safe_char (CHR ''-'')" by (simp add: safe_char_def)
  show ?case
  proof (cases s)
    case Nil
    then show ?thesis by (simp add: replace_unsafe.simps [of "[]"])
  next
    case (Cons c r)
    with 1 dash show ?thesis by (cases "safe_char c") (simp_all add: replace_unsafe.simps [of "c # r"])
  qed
qed

lemma set_trim_dashes: "set (trim_dashes s) \<subseteq> set s"
  by (auto simp: trim_dashes_def dest!: set_dropWhileD)

lemma length_trim_dashes: "length (trim_dashes s) \<le> length s"
  unfolding trim_dashes_def by (metis length_dropWhile_le length_rev order_trans)

lemma sanitizePrefix_bounds: "0 < length (sanitizePrefix key) \<and> length (sanitizePrefix key) \<le> 100 \<and> list_all safe_char (sanitizePrefix key)"
proof -
  let ?c = "if length (replace_unsafe key) > 100 then take 100 (replace_unsafe key) else replace_unsafe key"
  have "list_all safe_char ?c" using replace_unsafe_safe [of key] by (auto simp: list_all_iff dest: in_set_takeD)
  then have "list_all safe_char (trim_dashes ?c)" using set_trim_dashes [of ?c] by (auto simp: list_all_iff)
  moreover have "length (trim_dashes ?c) \<le> 100" using length_trim_dashes [of ?c] by (simp split: if_splits)
  moreover have "list_all safe_char ''key''" by (simp add: safe_char_def is_letter_def char_within_def)
  ultimately show ?thesis by (auto simp: sanitizePrefix_def Let_def)
qed

lemma hex_digit_safe: "n < 16 \<Longrightarrow> safe_char (hex_digit n)"
proof -
  assume "n < 16"
  moreover have "list_all (\<lambda>n. safe_char (hex_digit n)) [0..<16]" by code_simp
  ultimately show ?thesis by (simp add: list_all_iff)
qed

lemma hex_encode_safe: "list_all safe_char (hex_encode s)"
proof (induction s)
  case (Cons c s)
  have "(of_char c :: nat) div 16 < 16" using nat_of_char_less_256 [of c] by (simp add: less_mult_imp_div_less)
  with Cons show ?case by (simp add: hex_digit_safe)
qed simp

lemma sanitizeKey_bounds: "length (sanitizeKey sha key) \<le> 109 \<and> list_all safe_char (sanitizeKey sha key)"
proof -
  have "list_all safe_char (take 8 (hex_encode (sha key)))"
    using hex_encode_safe [of "sha key"] by (auto simp: list_all_iff dest: in_set_takeD)
  moreover have "safe_char (CHR ''-'')" by (simp add: safe_char_def)
  ultimately show ?thesis using sanitizePrefix_bounds [of key] by (auto simp: sanitizeKey_def)
qed

lemma slash_unsafe: "\<not> safe_char (CHR ''/'')"
  by code_simp

lemma try_restore_dir:
  assumes "try_restore sha C repo rks = Inr (Some k)" "\<forall>p k. Inr k \<in> set (mc_List C p) \<longrightarrow> prefix p k"
  shows "prefix (cache_dir repo) k"
  using assms(1)
proof (induction rks)
  case (Cons rk rks)
  have "Inr k \<in> set xs" if "first_listed xs = Some k" for k and xs :: "string res list"
    using that by (induction xs rule: first_listed.induct) auto
  with assms(2) have "prefix (cache_dir repo @ p) k" if "first_listed (mc_List C (cache_dir repo @ p)) = Some k" for p k
    using that by blast
  with Cons show ?case
    by (auto simp: Let_def cacheKey_def prefix_def split: if_splits sum.splits bool.splits option.splits)
qed simp

text \<open>
  C24. Whatever a workflow passes as a cache key, the object key made of it stays in the repository's
  own cache directory and adds to it at most 109 characters, letters, digits, dashes and
  underscores only, so a key can never name an object elsewhere. A cache hit, by exact key
  or by any restore key, lies in that directory too, given that a listing returns keys with
  the prefix asked for.
\<close>

theorem cache_keys_confined:
  assumes "\<forall>p k. Inr k \<in> set (mc_List C p) \<longrightarrow> prefix p k"
  shows "(\<exists>x. cacheKey sha repo key = cache_dir repo @ x \<and> 0 < length x \<and> length x \<le> 109 \<and> list_all safe_char x \<and> CHR ''/'' \<notin> set x)
    \<and> (\<forall>k. CacheResolve sha C repo key rks = Inr (Some k) \<longrightarrow> prefix (cache_dir repo) k)"
proof -
  have "CHR ''/'' \<notin> set (sanitizeKey sha key)" using sanitizeKey_bounds [of sha key] slash_unsafe by (auto simp: list_all_iff)
  moreover have "0 < length (sanitizeKey sha key)" by (simp add: sanitizeKey_def)
  ultimately show ?thesis
    using sanitizeKey_bounds [of sha key] try_restore_dir [OF _ assms, of sha repo rks]
    by (auto simp: cacheKey_def CacheResolve_def split: sum.splits bool.splits)
qed

definition demo_minio :: minio where
  "demo_minio = \<lparr>mc_Stat = (\<lambda>k. Some (''NoSuchKey'', Errorf ''missing'')), mc_List = (\<lambda>p. [Inl (Errorf ''listing''), Inr (p @ ''-1'')]),
     mc_PresignGet = (\<lambda>k t. Inr k), mc_PresignPut = (\<lambda>k t. Inr k)\<rparr>"

definition demo_repo :: RepositoryRef where
  "demo_repo = \<lparr>repo_Provider = ''github'', repo_Owner = ''o'', repo_Name = ''r''\<rparr>"

theorem cache_keys_confined_witness:
  "CacheResolve rev demo_minio demo_repo ''../../x'' [''go-''] = Inr (Some ''github/o/r/cache/go-1'') \<and> prefix (cache_dir demo_repo) ''github/o/r/cache/go-1''"
proof -
  have "\<forall>p k. Inr k \<in> set (mc_List demo_minio p) \<longrightarrow> prefix p k" by (simp add: demo_minio_def)
  moreover have "CacheResolve rev demo_minio demo_repo ''../../x'' [''go-''] = Inr (Some ''github/o/r/cache/go-1'')" by code_simp
  ultimately show ?thesis using cache_keys_confined [of demo_minio rev demo_repo "''../../x''" "[''go-'']"] by blast
qed

end
