(* ===== verification/Server_API.thy ===== *)
theory Server_API
  imports Server Object_Store
begin

text \<open>
  The HTTP side of the control plane (\<^verbatim>\<open>internal/server/server.go\<close>, from \<^verbatim>\<open>routes\<close> on):
  the authentication of executors and the controller, the internal API, the management of
  secrets, and the webhook endpoint wired to the server itself. Routing is the chi router's:
  a request names its route and its path parameters. The JSON decoders are parameters.
\<close>

section \<open>Requests\<close>

record Info =
  inf_Scope :: string
  inf_Name :: string

record 'k SecretStore =
  GetSecret :: "string \<Rightarrow> string \<Rightarrow> ('k, string) op"
  PutSecret :: "string \<Rightarrow> string \<Rightarrow> string \<Rightarrow> ('k, unit) op"
  DeleteSecret :: "string \<Rightarrow> string \<Rightarrow> ('k, unit) op"
  ListSecrets :: "('k, Info list) op"

record api_json =
  json_refs :: "bytes \<Rightarrow> Ref list res"
  json_success :: "bytes \<Rightarrow> bool res"
  json_phase :: "bytes \<Rightarrow> ObservedPhase res"
  json_cache :: "bytes \<Rightarrow> (string \<times> string list) res"
  json_secret :: "bytes \<Rightarrow> (string \<times> string \<times> string) res"

text \<open>\<open>api_Verify\<close> is the verifier, given the reading of its clock.\<close>

record ('s, 'a, 'k) Api =
  api_opt :: "('s, 'a) Options"
  api_Verify :: "time \<Rightarrow> string \<Rightarrow> Identity res"
  api_SecretStore :: "'k SecretStore option"
  api_SecretValues :: "(string, string) gomap"
  api_S3 :: "minio option"
  api_sha256 :: "bytes \<Rightarrow> bytes"
  api_json :: api_json
  api_WebhookSecret :: bytes
  api_payloads :: payload_json
  api_hmac :: "bytes \<Rightarrow> bytes \<Rightarrow> bytes"

record api_request =
  ar_Authorization :: string
  ar_id :: JobRunID
  ar_name :: string
  ar_scope :: string
  ar_Body :: bytes

datatype body =
    PlanBody Plan
  | SecretsBody "(string, string) gomap"
  | OkBody
  | CacheBody bool string "string option"
  | UploadBody string
  | DownloadBody string
  | SecretListBody "Info list"
  | WebhookBody "(string \<times> jval) list"

type_synonym ('s, 'a, 'k) api_state = "('s, 'a) Server \<times> 'k"
type_synonym ('s, 'a, 'k) handler = "api_request \<Rightarrow> Identity option \<Rightarrow> ('s, 'a, 'k) api_state \<Rightarrow> body response \<times> ('s, 'a, 'k) api_state"

section \<open>Authentication\<close>

definition auth :: "('s, 'a, 'k) Api \<Rightarrow> ('s, 'a, 'k) handler \<Rightarrow> api_request \<Rightarrow> ('s, 'a, 'k) api_state \<Rightarrow> body response \<times> ('s, 'a, 'k) api_state" where
  "auth api h r = (\<lambda>(s, k).
     if \<not> HasPrefix (ar_Authorization r) ''Bearer '' then (http_Error 401 ''missing bearer token'', (s, k))
     else let (t, s1) = now (api_opt api) s in
       case api_Verify api t (TrimPrefix (ar_Authorization r) ''Bearer '') of
         Inl e \<Rightarrow> (http_Error 401 ''invalid token'', (s1, k))
       | Inr ident \<Rightarrow> h r (Some ident) (s1, k))"

text \<open>The job of the path and the identity, or the error that was written.\<close>

definition jobFromPath :: "api_request \<Rightarrow> Identity option \<Rightarrow> body response + JobRunID \<times> Identity" where
  "jobFromPath r ident =
     (if ar_id r = '''' then Inl (http_Error 400 ''missing job run id'')
      else case ident of
             None \<Rightarrow> Inl (http_Error 401 ''missing identity'')
           | Some i \<Rightarrow>
               (case AuthorizeExecution i (ar_id r) of
                  Inl e \<Rightarrow> Inl (http_Error 403 ''identity not bound to this job run'')
                | Inr _ \<Rightarrow> Inr (ar_id r, i)))"

section \<open>The internal API\<close>

definition handlePlan :: "('s, 'a, 'k) handler" where
  "handlePlan r ident st =
     (case jobFromPath r ident of
        Inl resp \<Rightarrow> (resp, st)
      | Inr (i, who) \<Rightarrow>
          if \<not> HasScope who ScopePlanRead then (http_Error 403 ''missing scope plan:read'', st)
          else (case plans_Get i (fst st) of
                  Inl e \<Rightarrow> (http_Error 404 ''plan not found'', st)
                | Inr p \<Rightarrow> (writeJSON 200 (PlanBody p), st)))"

definition full_name :: "Ref \<Rightarrow> string" where
  "full_name r = ref_Scope r @ ''/'' @ ref_Name r"

definition static_secret :: "('s, 'a, 'k) Api \<Rightarrow> Ref \<Rightarrow> (string, string) gomap \<Rightarrow> (string, string) gomap" where
  "static_secret api r out = (case mget (api_SecretValues api) (full_name r) of Some v \<Rightarrow> mput out (full_name r) v | None \<Rightarrow> out)"

fun deliver :: "('s, 'a, 'k) Api \<Rightarrow> Ref list \<Rightarrow> (string, string) gomap \<Rightarrow> 'k \<Rightarrow> (string, string) gomap \<times> 'k" where
  "deliver api [] out k = (out, k)"
| "deliver api (r # rs) out k =
     (case api_SecretStore api of
        None \<Rightarrow> deliver api rs (static_secret api r out) k
      | Some store \<Rightarrow>
          (case GetSecret store (ref_Scope r) (ref_Name r) k of
             (Inr v, k') \<Rightarrow> deliver api rs (mput out (full_name r) v) k'
           | (Inl e, k') \<Rightarrow> deliver api rs (static_secret api r out) k'))"

text \<open>A job without an entry in the trust map has the empty trust level.\<close>

definition trust_of :: "('s, 'a) Server \<Rightarrow> JobRunID \<Rightarrow> TrustLevel" where
  "trust_of s i = (case mget (sv_trust s) i of Some t \<Rightarrow> t | None \<Rightarrow> NoTrust)"

definition plan_refs :: "Plan \<Rightarrow> Ref list" where
  "plan_refs p = map (\<lambda>sr. \<lparr>ref_Scope = sref_Scope sr, ref_Name = sref_Name sr\<rparr>) (pl_SecretRefs p)"

definition handleSecrets :: "('s, 'a, 'k) Api \<Rightarrow> ('s, 'a, 'k) handler" where
  "handleSecrets api r ident = (\<lambda>(s, k).
     case jobFromPath r ident of
       Inl resp \<Rightarrow> (resp, (s, k))
     | Inr (i, who) \<Rightarrow>
         if \<not> HasScope who ScopeSecretsRead then (http_Error 403 ''missing scope secrets:read'', (s, k))
         else case json_refs (api_json api) (ar_Body r) of
                Inl e \<Rightarrow> (http_Error 400 ''malformed request'', (s, k))
              | Inr requested \<Rightarrow>
                  (case plans_Get i s of
                     Inl e \<Rightarrow> (http_Error 404 ''plan not found'', (s, k))
                   | Inr p \<Rightarrow>
                       (case deliver api (dc_Allowed (DecideSecrets who requested (plan_refs p) (trust_of s i))) [] k of
                          (out, k') \<Rightarrow> (writeJSON 200 (SecretsBody out), (s, k')))))"

definition project_and_report :: "('s, 'a, 'k) Api \<Rightarrow> JobRunID \<Rightarrow> ObservedPhase \<Rightarrow> ('s, 'a, 'k) api_state \<Rightarrow> body response \<times> ('s, 'a, 'k) api_state" where
  "project_and_report api i phase = (\<lambda>(s, k).
     case projectObserved (api_opt api) i phase s of
       (Inl e, s1) \<Rightarrow> (http_Error 500 ''projection failed'', (s1, k))
     | (Inr _, s1) \<Rightarrow> (writeJSON 200 OkBody, (reportCheck (api_opt api) i s1, k)))"

definition handleStatus :: "('s, 'a, 'k) Api \<Rightarrow> ('s, 'a, 'k) handler" where
  "handleStatus api r ident st =
     (case jobFromPath r ident of
        Inl resp \<Rightarrow> (resp, st)
      | Inr (i, who) \<Rightarrow>
          if \<not> HasScope who ScopeStatusWrite then (http_Error 403 ''missing scope status:write'', st)
          else (case json_success (api_json api) (ar_Body r) of
                  Inl e \<Rightarrow> (http_Error 400 ''malformed result'', st)
                | Inr success \<Rightarrow> project_and_report api i (if success then PhaseSucceeded else PhaseFailed) st))"

definition handleObserved :: "('s, 'a, 'k) Api \<Rightarrow> ('s, 'a, 'k) handler" where
  "handleObserved api r ident st =
     (if ar_id r = '''' then (http_Error 400 ''missing job run id'', st)
      else case ident of
             None \<Rightarrow> (http_Error 401 ''missing identity'', st)
           | Some who \<Rightarrow>
               (case AuthorizeObservation who (ar_id r) of
                  Inl e \<Rightarrow> (http_Error 403 ''identity may not observe this job run'', st)
                | Inr _ \<Rightarrow>
                    (case json_phase (api_json api) (ar_Body r) of
                       Inl e \<Rightarrow> (http_Error 400 ''malformed body'', st)
                     | Inr phase \<Rightarrow> project_and_report api (ar_id r) phase st)))"

text \<open>The run of a job, or the error that was written.\<close>

definition run_of_job :: "('s, 'a, 'k) Api \<Rightarrow> JobRunID \<Rightarrow> ('s, 'a, 'k) api_state
    \<Rightarrow> (body response + JobRunRecord \<times> RunRecord) \<times> ('s, 'a, 'k) api_state" where
  "run_of_job api i = (\<lambda>(s, k).
     case on_durable (GetJobRun (op_Durable (api_opt api)) i) s of
       (Inl e, s1) \<Rightarrow> (Inl (http_Error 404 ''job not found''), (s1, k))
     | (Inr job, s1) \<Rightarrow>
         (case on_durable (GetRun (op_Durable (api_opt api)) (jr_RunID job)) s1 of
            (Inl e, s2) \<Rightarrow> (Inl (http_Error 404 ''run not found''), (s2, k))
          | (Inr run, s2) \<Rightarrow> (Inr (job, run), (s2, k))))"

definition cache_response :: "('s, 'a, 'k) Api \<Rightarrow> minio \<Rightarrow> RepositoryRef \<Rightarrow> string \<Rightarrow> string list \<Rightarrow> body response" where
  "cache_response api C repo key restoreKeys =
     (case CacheResolve (api_sha256 api) C repo key restoreKeys of
        Inl e \<Rightarrow> http_Error 500 ''cache resolve failed''
      | Inr hit \<Rightarrow>
          (case CachePutURL (api_sha256 api) C repo key of
             Inl e \<Rightarrow> http_Error 500 ''presign put failed''
           | Inr putURL \<Rightarrow>
               (case hit of
                  None \<Rightarrow> writeJSON 200 (CacheBody False putURL None)
                | Some hitKey \<Rightarrow>
                    (case CacheGetURL C hitKey of
                       Inl e \<Rightarrow> http_Error 500 ''presign get failed''
                     | Inr getURL \<Rightarrow> writeJSON 200 (CacheBody True putURL (Some getURL))))))"

definition handleCacheResolve :: "('s, 'a, 'k) Api \<Rightarrow> ('s, 'a, 'k) handler" where
  "handleCacheResolve api r ident st =
     (case jobFromPath r ident of
        Inl resp \<Rightarrow> (resp, st)
      | Inr (i, who) \<Rightarrow>
          if \<not> HasScope who ScopePlanRead \<and> \<not> HasScope who ScopeStatusWrite then (http_Error 403 ''missing scope'', st)
          else case api_S3 api of
            None \<Rightarrow> (http_Error 501 ''cache storage not configured'', st)
          | Some C \<Rightarrow>
              (case json_cache (api_json api) (ar_Body r) of
                 Inl e \<Rightarrow> (http_Error 400 ''malformed body'', st)
               | Inr (key, restoreKeys) \<Rightarrow>
                   if key = '''' then (http_Error 400 ''key is required'', st)
                   else (case run_of_job api i st of
                           (Inl resp, st1) \<Rightarrow> (resp, st1)
                         | (Inr (job, run), st1) \<Rightarrow> (cache_response api C (ev_Repository (run_Event run)) key restoreKeys, st1))))"

definition bad_artifact_name :: "string \<Rightarrow> bool" where
  "bad_artifact_name name \<longleftrightarrow> name = '''' \<or> Contains name ''/'' \<or> Contains name ''..''"

definition artifact_url :: "('s, 'a, 'k) Api \<Rightarrow> api_request \<Rightarrow> JobRunID \<Rightarrow> (minio \<Rightarrow> RepositoryRef \<Rightarrow> RunID \<Rightarrow> string \<Rightarrow> string res) \<Rightarrow> (string \<Rightarrow> body)
    \<Rightarrow> ('s, 'a, 'k) api_state \<Rightarrow> body response \<times> ('s, 'a, 'k) api_state" where
  "artifact_url api r i url mk st =
     (case api_S3 api of
        None \<Rightarrow> (http_Error 501 ''artifact storage not configured'', st)
      | Some C \<Rightarrow>
          if bad_artifact_name (ar_name r) then (http_Error 400 ''invalid artifact name'', st)
          else (case run_of_job api i st of
                  (Inl resp, st1) \<Rightarrow> (resp, st1)
                | (Inr (job, run), st1) \<Rightarrow>
                    (case url C (ev_Repository (run_Event run)) (jr_RunID job) (ar_name r) of
                       Inl e \<Rightarrow> (http_Error 500 ''presign failed'', st1)
                     | Inr u \<Rightarrow> (writeJSON 200 (mk u), st1))))"

definition handleArtifactUpload :: "('s, 'a, 'k) Api \<Rightarrow> ('s, 'a, 'k) handler" where
  "handleArtifactUpload api r ident st =
     (case jobFromPath r ident of
        Inl resp \<Rightarrow> (resp, st)
      | Inr (i, who) \<Rightarrow>
          if \<not> HasScope who ScopeStatusWrite then (http_Error 403 ''missing scope status:write'', st)
          else artifact_url api r i ArtifactPutURL UploadBody st)"

definition handleArtifactDownload :: "('s, 'a, 'k) Api \<Rightarrow> ('s, 'a, 'k) handler" where
  "handleArtifactDownload api r ident st =
     (case jobFromPath r ident of
        Inl resp \<Rightarrow> (resp, st)
      | Inr (i, who) \<Rightarrow>
          if \<not> HasScope who ScopePlanRead then (http_Error 403 ''missing scope plan:read'', st)
          else artifact_url api r i ArtifactGetURL DownloadBody st)"

section \<open>Managing secrets\<close>

definition handleSecretPut :: "('s, 'a, 'k) Api \<Rightarrow> api_request \<Rightarrow> ('s, 'a, 'k) api_state \<Rightarrow> body response \<times> ('s, 'a, 'k) api_state" where
  "handleSecretPut api r = (\<lambda>(s, k).
     case api_SecretStore api of
       None \<Rightarrow> (http_Error 501 ''secret storage not configured'', (s, k))
     | Some store \<Rightarrow>
         (case json_secret (api_json api) (ar_Body r) of
            Inl e \<Rightarrow> (http_Error 400 ''malformed body'', (s, k))
          | Inr (scope, name, value) \<Rightarrow>
              if scope = '''' \<or> name = '''' \<or> value = '''' then (http_Error 400 ''scope, name and value are required'', (s, k))
              else (case PutSecret store scope name value k of
                      (Inl e, k') \<Rightarrow> (http_Error 500 ''put secret failed'', (s, k'))
                    | (Inr _, k') \<Rightarrow> (writeJSON 200 OkBody, (s, k')))))"

definition handleSecretList :: "('s, 'a, 'k) Api \<Rightarrow> ('s, 'a, 'k) api_state \<Rightarrow> body response \<times> ('s, 'a, 'k) api_state" where
  "handleSecretList api = (\<lambda>(s, k).
     case api_SecretStore api of
       None \<Rightarrow> (http_Error 501 ''secret storage not configured'', (s, k))
     | Some store \<Rightarrow>
         (case ListSecrets store k of
            (Inl e, k') \<Rightarrow> (http_Error 500 ''list secrets failed'', (s, k'))
          | (Inr l, k') \<Rightarrow> (writeJSON 200 (SecretListBody l), (s, k'))))"

definition handleSecretDelete :: "('s, 'a, 'k) Api \<Rightarrow> api_request \<Rightarrow> ('s, 'a, 'k) api_state \<Rightarrow> body response \<times> ('s, 'a, 'k) api_state" where
  "handleSecretDelete api r = (\<lambda>(s, k).
     case api_SecretStore api of
       None \<Rightarrow> (http_Error 501 ''secret storage not configured'', (s, k))
     | Some store \<Rightarrow>
         if ar_scope r = '''' \<or> ar_name r = '''' then (http_Error 400 ''scope and name are required'', (s, k))
         else (case DeleteSecret store (ar_scope r) (ar_name r) k of
                 (Inl e, k') \<Rightarrow> (http_Error 500 ''delete secret failed'', (s, k'))
               | (Inr _, k') \<Rightarrow> (writeJSON 200 OkBody, (s, k'))))"

section \<open>Tokens and routes\<close>

definition MintJobToken :: "token_lib \<Rightarrow> bytes \<Rightarrow> string res \<Rightarrow> time \<Rightarrow> JobRunID \<Rightarrow> string res" where
  "MintJobToken T key rng t i =
     Issue T key t rng \<lparr>id_Audience = Audience, id_Namespace = ''forgelet-jobs'', id_PodUID = ''pod-'' @ i, id_JobRunID = i,
       id_Scopes = [ScopePlanRead, ScopeSecretsRead, ScopeStatusWrite], id_TokenID = '''', id_IssuedAt = t, id_ExpiresAt = t + MaxTTL\<rparr>"

definition webhook :: "('s, 'a, 'k) Api \<Rightarrow> ('s, 'a) Server WebhookHandler" where
  "webhook api =
     \<lparr>wh_secret = api_WebhookSecret api, wh_ingest = server_Ingest (api_opt api), wh_rerequest = Some (Rerequest (api_opt api)),
      wh_json = api_payloads api, wh_hmac = api_hmac api\<rparr>"

fun webhook_body :: "webhook_response \<Rightarrow> body response" where
  "webhook_body (http_Error n m) = http_Error n m"
| "webhook_body (writeJSON n b) = writeJSON n (WebhookBody b)"

datatype route =
    Healthz | Webhook request | GetPlan | PostSecrets | PostStatus | PostObserved | PostCacheResolve
  | PostArtifact | GetArtifact | ApiListSecrets | ApiPutSecret | ApiDeleteSecret

definition routes :: "('s, 'a, 'k) Api \<Rightarrow> route \<Rightarrow> api_request \<Rightarrow> ('s, 'a, 'k) api_state \<Rightarrow> body response \<times> ('s, 'a, 'k) api_state" where
  "routes api rt r st =
     (case rt of
        Healthz \<Rightarrow> (writeJSON 200 OkBody, st)
      | Webhook q \<Rightarrow> (case ServeHTTP (webhook api) q (fst st) of (resp, s') \<Rightarrow> (webhook_body resp, (s', snd st)))
      | GetPlan \<Rightarrow> auth api handlePlan r st
      | PostSecrets \<Rightarrow> auth api (handleSecrets api) r st
      | PostStatus \<Rightarrow> auth api (handleStatus api) r st
      | PostObserved \<Rightarrow> auth api (handleObserved api) r st
      | PostCacheResolve \<Rightarrow> auth api (handleCacheResolve api) r st
      | PostArtifact \<Rightarrow> auth api (handleArtifactUpload api) r st
      | GetArtifact \<Rightarrow> auth api (handleArtifactDownload api) r st
      | ApiListSecrets \<Rightarrow> handleSecretList api st
      | ApiPutSecret \<Rightarrow> handleSecretPut api r st
      | ApiDeleteSecret \<Rightarrow> handleSecretDelete api r st)"

end
