(* ===== verification/Controller.thy ===== *)
theory Controller
  imports Memory_Store "HOL-Library.Word"
begin

text \<open>
  The Kubernetes side of forgelet (\<^verbatim>\<open>internal/runtime/controller\<close>): the active store that
  keeps one JobRun object per dispatched job, and the reconciler that gives each object its
  pod and reports what the pod does. The API server behind the controller-runtime client,
  the helpers of apimachinery and the projection port are parameters.
\<close>

section \<open>Objects\<close>

record Condition =
  co_Type :: string
  co_Status :: string
  co_Reason :: string
  co_Message :: string
  co_ObservedGeneration :: int

record JobRunSpec =
  crs_RunID :: string
  crs_JobKey :: string
  crs_RunnerClass :: string
  crs_PlanID :: string
  crs_PlanDigest :: string
  crs_Attempt :: "32 word"

record JobRunState =
  crt_Phase :: string
  crt_PodName :: string
  crt_PodUID :: string
  crt_StartedAt :: "time option"
  crt_FinishedAt :: "time option"
  crt_Conditions :: "Condition list"

record JobRun =
  cr_Name :: string
  cr_Namespace :: string
  cr_UID :: string
  cr_Generation :: int
  cr_Spec :: JobRunSpec
  cr_Status :: JobRunState

definition JobRunPhasePending :: string where
  "JobRunPhasePending = ''pending''"

definition JobRunPhaseRunning :: string where
  "JobRunPhaseRunning = ''running''"

definition JobRunPhaseSucceeded :: string where
  "JobRunPhaseSucceeded = ''succeeded''"

definition JobRunPhaseFailed :: string where
  "JobRunPhaseFailed = ''failed''"

definition JobRunConditionReady :: string where
  "JobRunConditionReady = ''Ready''"

definition ReasonRunnerClassMissing :: string where
  "ReasonRunnerClassMissing = ''RunnerClassMissing''"

definition ReasonProgressing :: string where
  "ReasonProgressing = ''Progressing''"

definition Terminal :: "JobRun \<Rightarrow> bool" where
  "Terminal r \<longleftrightarrow> crt_Phase (cr_Status r) = JobRunPhaseSucceeded \<or> crt_Phase (cr_Status r) = JobRunPhaseFailed"

text \<open>The resource requirements of the core API are copied through; their type is left open.\<close>

record 'r RunnerClass =
  rc_Image :: string
  rc_Resources :: 'r
  rc_NodeSelector :: "(string, string) gomap"

record VolumeMount =
  vm_Name :: string
  vm_MountPath :: string
  vm_ReadOnly :: bool

record 'r Container =
  ct_Name :: string
  ct_Image :: string
  ct_Command :: "string list"
  ct_Args :: "string list"
  ct_Resources :: 'r
  ct_WorkingDir :: string
  ct_VolumeMounts :: "VolumeMount list"

datatype VolumeSource =
    EmptyDir
  | ServiceAccountToken (sat_Audience: string) (sat_ExpirationSeconds: int) (sat_Path: string) (sat_DefaultMode: "32 word")

text \<open>The controlling owner of a pod is known by its UID.\<close>

record 'r Pod =
  pod_Name :: string
  pod_Namespace :: string
  pod_UID :: string
  pod_Labels :: "(string, string) gomap"
  pod_Owner :: "string option"
  pod_Phase :: string
  pod_RestartPolicy :: string
  pod_AutomountServiceAccountToken :: bool
  pod_ServiceAccountName :: string
  pod_NodeSelector :: "(string, string) gomap"
  pod_Containers :: "'r Container list"
  pod_Volumes :: "(string \<times> VolumeSource) list"

section \<open>The API server\<close>

datatype api_error = NotFound (api_err: Err) | AlreadyExists (api_err: Err) | OtherError (api_err: Err)

type_synonym ('k, 'a) kop = "'k \<Rightarrow> (api_error + 'a) \<times> 'k"

text \<open>
  The calls of the client, each on a namespace and a name, and the helpers of the libraries:
  \<open>kc_SetOwner\<close> is \<^verbatim>\<open>SetControllerReference\<close>, the last two are \<^verbatim>\<open>SetStatusCondition\<close> and
  \<^verbatim>\<open>FindStatusCondition\<close>.
\<close>

record ('k, 'r) cluster =
  kc_GetJobRun :: "string \<Rightarrow> string \<Rightarrow> ('k, JobRun) kop"
  kc_CreateJobRun :: "JobRun \<Rightarrow> ('k, JobRun) kop"
  kc_DeleteJobRun :: "string \<Rightarrow> string \<Rightarrow> ('k, unit) kop"
  kc_UpdateStatus :: "JobRun \<Rightarrow> ('k, unit) kop"
  kc_GetClass :: "string \<Rightarrow> string \<Rightarrow> ('k, 'r RunnerClass) kop"
  kc_GetPod :: "string \<Rightarrow> string \<Rightarrow> ('k, 'r Pod) kop"
  kc_CreatePod :: "'r Pod \<Rightarrow> ('k, 'r Pod) kop"
  kc_SetOwner :: "JobRun \<Rightarrow> 'r Pod \<Rightarrow> 'r Pod res"
  kc_SetCondition :: "Condition \<Rightarrow> Condition list \<Rightarrow> Condition list"
  kc_FindCondition :: "Condition list \<Rightarrow> string \<Rightarrow> Condition option"

section \<open>The active store\<close>

definition zero_state :: JobRunState where
  "zero_state = \<lparr>crt_Phase = '''', crt_PodName = '''', crt_PodUID = '''', crt_StartedAt = None, crt_FinishedAt = None, crt_Conditions = []\<rparr>"

definition cr_of_record :: "string \<Rightarrow> string \<Rightarrow> JobRunRecord \<Rightarrow> JobRun" where
  "cr_of_record ns name rec =
     \<lparr>cr_Name = name, cr_Namespace = ns, cr_UID = '''', cr_Generation = 0,
      cr_Spec = \<lparr>crs_RunID = jr_RunID rec, crs_JobKey = jr_JobKey rec, crs_RunnerClass = jr_RunnerClass rec, crs_PlanID = jr_ID rec,
        crs_PlanDigest = jr_PlanDigest rec, crs_Attempt = word_of_int (jr_Attempt rec)\<rparr>,
      cr_Status = zero_state\<rparr>"

definition active_of :: "JobRun \<Rightarrow> ActiveObject" where
  "active_of cr = \<lparr>ao_Name = cr_Name cr, ao_UID = cr_UID cr\<rparr>"

text \<open>The source of job records is a port, whose state stands beside the cluster's.\<close>

definition kube_CreateOrGet :: "('k, 'r) cluster \<Rightarrow> (JobRunID \<Rightarrow> ('d, JobRunRecord) op) \<Rightarrow> string \<Rightarrow> JobRunID \<Rightarrow> ('k \<times> 'd, ActiveObject) op" where
  "kube_CreateOrGet K source ns i = (\<lambda>(k, d).
     let name = CRName i in
     case kc_GetJobRun K ns name k of
       (Inr existing, k1) \<Rightarrow> (Inr (active_of existing), (k1, d))
     | (Inl (NotFound e0), k1) \<Rightarrow>
         (case source i d of
            (Inl e, d1) \<Rightarrow> (Inl (Wrapf (''job run source '' @ i) e), (k1, d1))
          | (Inr rec, d1) \<Rightarrow>
              (case kc_CreateJobRun K (cr_of_record ns name rec) k1 of
                 (Inr cr, k2) \<Rightarrow> (Inr (active_of cr), (k2, d1))
               | (Inl (AlreadyExists e), k2) \<Rightarrow>
                   (case kc_GetJobRun K ns name k2 of
                      (Inr again, k3) \<Rightarrow> (Inr (active_of again), (k3, d1))
                    | (Inl _, k3) \<Rightarrow> (Inl (Wrapf (''create jobrun '' @ name) e), (k3, d1)))
               | (Inl e, k2) \<Rightarrow> (Inl (Wrapf (''create jobrun '' @ name) (api_err e)), (k2, d1))))
     | (Inl e, k1) \<Rightarrow> (Inl (Wrapf (''get jobrun '' @ name) (api_err e)), (k1, d)))"

definition kube_Delete :: "('k, 'r) cluster \<Rightarrow> string \<Rightarrow> JobRunID \<Rightarrow> ('k \<times> 'd, unit) op" where
  "kube_Delete K ns i = (\<lambda>(k, d).
     case kc_DeleteJobRun K ns (CRName i) k of
       (Inr _, k1) \<Rightarrow> (Inr (), (k1, d))
     | (Inl (NotFound e), k1) \<Rightarrow> (Inr (), (k1, d))
     | (Inl e, k1) \<Rightarrow> (Inl (Wrapf (''delete jobrun '' @ CRName i) (api_err e)), (k1, d)))"

definition kube_active :: "('k, 'r) cluster \<Rightarrow> (JobRunID \<Rightarrow> ('d, JobRunRecord) op) \<Rightarrow> string \<Rightarrow> ('k \<times> 'd) ActiveExecutionStore" where
  "kube_active K source ns = \<lparr>CreateOrGet = kube_CreateOrGet K source ns, Delete = kube_Delete K ns\<rparr>"

section \<open>Pods\<close>

definition ExecutorServiceAccount :: string where
  "ExecutorServiceAccount = ''forgelet-executor''"

definition ControlPlaneAudience :: string where
  "ControlPlaneAudience = ''forgelet-control-plane''"

definition PodSuffix :: string where
  "PodSuffix = ''-pod''"

definition workspaceDir :: string where
  "workspaceDir = ''/workspace''"

definition jobRunLabel :: string where
  "jobRunLabel = ''ci.forgelet.dev/jobrun-id''"

definition job_container :: "JobRun \<Rightarrow> 'r RunnerClass \<Rightarrow> 'r Container" where
  "job_container jr cls =
     \<lparr>ct_Name = ''job'', ct_Image = rc_Image cls, ct_Command = [''/ci/executor''], ct_Args = [''--jobrun='' @ crs_PlanID (cr_Spec jr)],
      ct_Resources = rc_Resources cls, ct_WorkingDir = workspaceDir,
      ct_VolumeMounts = [\<lparr>vm_Name = ''workspace'', vm_MountPath = workspaceDir, vm_ReadOnly = False\<rparr>,
        \<lparr>vm_Name = ''control-plane-token'', vm_MountPath = ''/var/run/forgelet'', vm_ReadOnly = True\<rparr>]\<rparr>"

definition buildPod :: "JobRun \<Rightarrow> 'r RunnerClass \<Rightarrow> 'r Pod" where
  "buildPod jr cls =
     \<lparr>pod_Name = cr_Name jr @ PodSuffix, pod_Namespace = cr_Namespace jr, pod_UID = '''',
      pod_Labels = [(''ci.forgelet.dev/app'', ''executor''), (jobRunLabel, crs_PlanID (cr_Spec jr))],
      pod_Owner = None,
      pod_Phase = '''', pod_RestartPolicy = ''Never'', pod_AutomountServiceAccountToken = False,
      pod_ServiceAccountName = ExecutorServiceAccount, pod_NodeSelector = rc_NodeSelector cls,
      pod_Containers = [job_container jr cls],
      pod_Volumes = [(''workspace'', EmptyDir), (''control-plane-token'', ServiceAccountToken ControlPlaneAudience 3600 ''token'' 420)]\<rparr>"

section \<open>The reconciler\<close>

definition phaseRank :: "string \<Rightarrow> nat" where
  "phaseRank phase =
     (if phase = JobRunPhaseSucceeded \<or> phase = JobRunPhaseFailed then 2 else if phase = JobRunPhaseRunning then 1 else 0)"

definition mapPodPhase :: "string \<Rightarrow> string" where
  "mapPodPhase p =
     (if p = ''Running'' then JobRunPhaseRunning
      else if p = ''Succeeded'' then JobRunPhaseSucceeded
      else if p = ''Failed'' then JobRunPhaseFailed
      else JobRunPhasePending)"

definition toModelPhase :: "string \<Rightarrow> ObservedPhase" where
  "toModelPhase phase =
     (if phase = JobRunPhaseRunning then PhaseRunning
      else if phase = JobRunPhaseSucceeded then PhaseSucceeded
      else if phase = JobRunPhaseFailed then PhaseFailed
      else PhasePending)"

definition IDFromCRName :: "string \<Rightarrow> JobRunID res" where
  "IDFromCRName name =
     (if length name \<le> length ''jobrun-'' \<or> take (length ''jobrun-'') name \<noteq> ''jobrun-''
      then Inl (Errorf (''controller: CR name '' @ Quote name @ '' lacks '' @ Quote ''jobrun-'' @ '' prefix''))
      else Inr (drop (length ''jobrun-'') name))"

definition ready_condition :: "string \<Rightarrow> string \<Rightarrow> string \<Rightarrow> JobRun \<Rightarrow> Condition" where
  "ready_condition status reason message jr =
     \<lparr>co_Type = JobRunConditionReady, co_Status = status, co_Reason = reason, co_Message = message, co_ObservedGeneration = cr_Generation jr\<rparr>"

definition set_ready :: "('k, 'r) cluster \<Rightarrow> string \<Rightarrow> string \<Rightarrow> string \<Rightarrow> JobRun \<Rightarrow> JobRun" where
  "set_ready K status reason message jr =
     jr\<lparr>cr_Status := (cr_Status jr)\<lparr>crt_Conditions :=
       kc_SetCondition K (ready_condition status reason message jr) (crt_Conditions (cr_Status jr))\<rparr>\<rparr>"

definition has_ready :: "('k, 'r) cluster \<Rightarrow> string \<Rightarrow> string \<Rightarrow> string \<Rightarrow> JobRun \<Rightarrow> bool" where
  "has_ready K status reason message jr =
     (case kc_FindCondition K (crt_Conditions (cr_Status jr)) JobRunConditionReady of
        None \<Rightarrow> False
      | Some c \<Rightarrow> co_Status c = status \<and> co_Reason c = reason \<and> co_Message c = message)"

text \<open>The object is updated in memory too, so the caller goes on with what this returns.\<close>

definition updateConditions :: "('k, 'r) cluster \<Rightarrow> string \<Rightarrow> string \<Rightarrow> string \<Rightarrow> JobRun \<Rightarrow> ('k, JobRun) op" where
  "updateConditions K status reason message jr k =
     (if has_ready K status reason message jr then (Inr jr, k)
      else let jr1 = set_ready K status reason message jr in
           case kc_UpdateStatus K jr1 k of
             (Inl e, k1) \<Rightarrow> (Inl (Wrapf (''update jobrun '' @ cr_Name jr @ '' conditions'') (api_err e)), k1)
           | (Inr _, k1) \<Rightarrow> (Inr jr1, k1))"

text \<open>The status after an observation at the given time.\<close>

definition observed_status :: "string \<Rightarrow> 'r Pod \<Rightarrow> time \<Rightarrow> JobRunState \<Rightarrow> JobRunState" where
  "observed_status phase pod now st =
     (let st1 = st\<lparr>crt_Phase := phase, crt_PodName := pod_Name pod, crt_PodUID := pod_UID pod\<rparr>;
          started = (case crt_StartedAt st of None \<Rightarrow> Some now | t \<Rightarrow> t);
          finished = (case crt_FinishedAt st of None \<Rightarrow> Some now | t \<Rightarrow> t) in
      if phase = JobRunPhaseRunning then st1\<lparr>crt_StartedAt := started\<rparr>
      else if phase = JobRunPhaseSucceeded \<or> phase = JobRunPhaseFailed then st1\<lparr>crt_StartedAt := started, crt_FinishedAt := finished\<rparr>
      else st1)"

definition status_changed :: "string \<Rightarrow> 'r Pod \<Rightarrow> JobRunState \<Rightarrow> bool" where
  "status_changed phase pod st \<longleftrightarrow> crt_Phase st \<noteq> phase \<or> crt_PodName st \<noteq> pod_Name pod \<or> crt_PodUID st \<noteq> pod_UID pod"

definition observed_run :: "('k, 'r) cluster \<Rightarrow> time \<Rightarrow> JobRun \<Rightarrow> 'r Pod \<Rightarrow> JobRun" where
  "observed_run K now jr pod =
     (let phase = mapPodPhase (pod_Phase pod) in
      set_ready K ''False'' ReasonProgressing (''observed phase '' @ phase) (jr\<lparr>cr_Status := observed_status phase pod now (cr_Status jr)\<rparr>))"

text \<open>
  A reconciliation returns the delay after which it asks to run again, 0 for none. The
  projection port and its state stand beside the cluster and its state.
\<close>

type_synonym 'p projection = "JobRunID \<Rightarrow> ObservedPhase \<Rightarrow> time \<Rightarrow> ('p, unit) op"

definition observePod :: "('k, 'r) cluster \<Rightarrow> 'p projection \<Rightarrow> time \<Rightarrow> JobRun \<Rightarrow> 'r Pod \<Rightarrow> ('k \<times> 'p, time) op" where
  "observePod K projection now jr pod = (\<lambda>(k, p).
     let phase = mapPodPhase (pod_Phase pod) in
     if phaseRank phase < phaseRank (crt_Phase (cr_Status jr)) then (Inr 0, (k, p))
     else if \<not> status_changed phase pod (cr_Status jr) then (Inr 0, (k, p))
     else case kc_UpdateStatus K (observed_run K now jr pod) k of
            (Inl e, k1) \<Rightarrow> (Inl (Wrapf (''update jobrun '' @ cr_Name jr @ '' status'') (api_err e)), (k1, p))
          | (Inr _, k1) \<Rightarrow>
              if crs_PlanID (cr_Spec jr) = '''' then (Inl (Errorf (''jobrun '' @ cr_Name jr @ '' has no plan id'')), (k1, p))
              else (case projection (crs_PlanID (cr_Spec jr)) (toModelPhase phase) now p of
                      (Inl e, p1) \<Rightarrow> (Inl (Wrapf (''project observed '' @ phase @ '' for '' @ cr_Name jr) e), (k1, p1))
                    | (Inr _, p1) \<Rightarrow> (Inr 0, (k1, p1))))"

text \<open>One second and half a minute, in nanoseconds.\<close>

definition second :: time where
  "second = 1000000000"

definition create_pod :: "('k, 'r) cluster \<Rightarrow> JobRun \<Rightarrow> 'r RunnerClass \<Rightarrow> ('k, time) op" where
  "create_pod K jr cls k =
     (case updateConditions K ''True'' ReasonProgressing ''creating primary pod'' jr k of
        (Inl e, k1) \<Rightarrow> (Inl e, k1)
      | (Inr jr1, k1) \<Rightarrow>
          let podName = cr_Name jr @ PodSuffix in
          case kc_SetOwner K jr1 (buildPod jr1 cls) of
            Inl e \<Rightarrow> (Inl (Wrapf (''set owner ref for pod '' @ podName) e), k1)
          | Inr pod \<Rightarrow>
              (case kc_CreatePod K pod k1 of
                 (Inr _, k2) \<Rightarrow> (Inr 0, k2)
               | (Inl (AlreadyExists e), k2) \<Rightarrow> (Inr second, k2)
               | (Inl e, k2) \<Rightarrow> (Inl (Wrapf (''create pod '' @ podName) (api_err e)), k2)))"

definition missing_class :: "('k, 'r) cluster \<Rightarrow> JobRun \<Rightarrow> ('k, time) op" where
  "missing_class K jr k =
     (case updateConditions K ''False'' ReasonRunnerClassMissing (''RunnerClass '' @ Quote (crs_RunnerClass (cr_Spec jr)) @ '' not found'') jr k of
        (Inl e, k1) \<Rightarrow> (Inl e, k1)
      | (Inr _, k1) \<Rightarrow> (Inr (30 * second), k1))"

text \<open>The second half, once the runner class is there.\<close>

definition reconcile_pod :: "('k, 'r) cluster \<Rightarrow> 'p projection \<Rightarrow> time \<Rightarrow> JobRun \<Rightarrow> 'r RunnerClass \<Rightarrow> ('k \<times> 'p, time) op" where
  "reconcile_pod K projection now jr cls = (\<lambda>(k, p).
     let podName = cr_Name jr @ PodSuffix in
     case kc_GetPod K (cr_Namespace jr) podName k of
       (Inl (NotFound e), k1) \<Rightarrow>
         if Terminal jr then (Inr 0, (k1, p))
         else (case create_pod K jr cls k1 of (x, k2) \<Rightarrow> (x, (k2, p)))
     | (Inl e, k1) \<Rightarrow> (Inl (Wrapf (''get pod '' @ podName) (api_err e)), (k1, p))
     | (Inr pod, k1) \<Rightarrow> observePod K projection now jr pod (k1, p))"

definition Reconcile :: "('k, 'r) cluster \<Rightarrow> 'p projection \<Rightarrow> time \<Rightarrow> string \<Rightarrow> string \<Rightarrow> ('k \<times> 'p, time) op" where
  "Reconcile K projection now ns name = (\<lambda>(k, p).
     case kc_GetJobRun K ns name k of
       (Inl (NotFound e), k1) \<Rightarrow> (Inr 0, (k1, p))
     | (Inl e, k1) \<Rightarrow> (Inl (Wrapf (''get jobrun '' @ name) (api_err e)), (k1, p))
     | (Inr jr, k1) \<Rightarrow>
         (case IDFromCRName (cr_Name jr) of
            Inl e \<Rightarrow> (Inl e, (k1, p))
          | Inr _ \<Rightarrow>
              (case kc_GetClass K (cr_Namespace jr) (crs_RunnerClass (cr_Spec jr)) k1 of
                 (Inl (NotFound e), k2) \<Rightarrow> (case missing_class K jr k2 of (x, k3) \<Rightarrow> (x, (k3, p)))
               | (Inl e, k2) \<Rightarrow> (Inl (Wrapf (''get runnerclass '' @ crs_RunnerClass (cr_Spec jr)) (api_err e)), (k2, p))
               | (Inr cls, k2) \<Rightarrow> reconcile_pod K projection now jr cls (k2, p))))"

end
