(* ===== verification/Http_Clients.thy ===== *)
theory Http_Clients
  imports Server_API Controller Base64
begin

text \<open>
  The HTTP clients: the executor's client of the control plane
  (\<^verbatim>\<open>internal/runtime/executor/httpclient\<close>), the controller's projection
  (\<^verbatim>\<open>internal/runtime/controller/httpprojection.go\<close>), and the GitHub clients for contents and for
  installation tokens (\<^verbatim>\<open>internal/provider/github/content.go\<close> and \<^verbatim>\<open>auth.go\<close>). The transport is a
  parameter, from a request to the status and body of the answer or an error; so are the
  JSON codecs and the RSA signature.
\<close>

section \<open>Requests\<close>

record http_request =
  hq_Method :: string
  hq_URL :: string
  hq_Header :: "(string, string) gomap"
  hq_Body :: bytes

text \<open>A request may be refused when it is built, for its method or URL, or when it is sent.\<close>

record 'w transport =
  tr_New :: "string \<Rightarrow> string \<Rightarrow> unit res"
  tr_Do :: "http_request \<Rightarrow> ('w, int \<times> bytes) op"

definition send :: "'w transport \<Rightarrow> string \<Rightarrow> http_request \<Rightarrow> ('w, int \<times> bytes) op" where
  "send T who q w =
     (case tr_New T (hq_Method q) (hq_URL q) of
        Inl e \<Rightarrow> (Inl (Wrapf (who @ ''build request'') e), w)
      | Inr _ \<Rightarrow>
          (case tr_Do T q w of
             (Inl e, w1) \<Rightarrow> (Inl (Wrapf (who @ ''request'') e), w1)
           | (Inr x, w1) \<Rightarrow> (Inr x, w1)))"

definition decoded :: "string \<Rightarrow> (bytes \<Rightarrow> 'a res) \<Rightarrow> bytes \<Rightarrow> 'a res" where
  "decoded m dec body = (case dec body of Inl e \<Rightarrow> Inl (Wrapf m e) | Inr x \<Rightarrow> Inr x)"

section \<open>The executor's client\<close>

record ClientError =
  ce_Op :: string
  ce_Status :: int
  ce_Path :: string

definition ClientError_Error :: "ClientError \<Rightarrow> string" where
  "ClientError_Error e = ''control-plane '' @ ce_Op e @ '' '' @ ce_Path e @ '': status '' @ itoa (nat (ce_Status e))"

definition Retryable :: "ClientError \<Rightarrow> bool" where
  "Retryable e \<longleftrightarrow> ce_Status e \<ge> 500 \<or> ce_Status e = 429"

record Client =
  cl_BaseURL :: string
  cl_Token :: string

text \<open>A request has an encoded body or none. The first of the two returns the body of the answer.\<close>

definition client_send :: "'w transport \<Rightarrow> Client \<Rightarrow> string \<Rightarrow> string \<Rightarrow> bytes res option \<Rightarrow> ('w, bytes) op" where
  "client_send T c meth path inp w =
     (case inp of
        Some (Inl e) \<Rightarrow> (Inl (Wrapf ''control-plane: encode request'' e), w)
      | _ \<Rightarrow>
          (let auth_h = (''Authorization'', ''Bearer '' @ cl_Token c);
               (hs, body) = (case inp of Some (Inr b) \<Rightarrow> ([auth_h, (''Content-Type'', ''application/json'')], b) | _ \<Rightarrow> ([auth_h], [])) in
           case send T ''control-plane: '' \<lparr>hq_Method = meth, hq_URL = cl_BaseURL c @ path, hq_Header = hs, hq_Body = body\<rparr> w of
             (Inl e, w1) \<Rightarrow> (Inl e, w1)
           | (Inr (status, answer), w1) \<Rightarrow>
               if status < 200 \<or> status \<ge> 300
               then (Inl (Errorf (ClientError_Error \<lparr>ce_Op = meth, ce_Status = status, ce_Path = path\<rparr>)), w1)
               else (Inr answer, w1)))"

definition client_do :: "'w transport \<Rightarrow> Client \<Rightarrow> string \<Rightarrow> string \<Rightarrow> bytes res option \<Rightarrow> (bytes \<Rightarrow> 'a res) \<Rightarrow> ('w, 'a) op" where
  "client_do T c meth path inp dec w =
     (case client_send T c meth path inp w of
        (Inl e, w1) \<Rightarrow> (Inl e, w1)
      | (Inr answer, w1) \<Rightarrow> (decoded ''control-plane: decode response'' dec answer, w1))"

record 'j codecs =
  enc_refs :: "Ref list \<Rightarrow> bytes res"
  enc_result :: "'j \<Rightarrow> bytes res"
  enc_cache :: "string \<Rightarrow> string list \<Rightarrow> bytes res"
  enc_empty :: "bytes res"
  enc_phase :: "ObservedPhase \<Rightarrow> bytes res"
  dec_plan :: "bytes \<Rightarrow> Plan res"
  dec_secrets :: "bytes \<Rightarrow> (string, string) gomap res"
  dec_cache :: "bytes \<Rightarrow> (bool \<times> string \<times> string) res"
  dec_upload :: "bytes \<Rightarrow> string res"
  dec_download :: "bytes \<Rightarrow> string res"

definition job_path :: "JobRunID \<Rightarrow> string \<Rightarrow> string" where
  "job_path i rest = ''/internal/jobruns/'' @ i @ ''/'' @ rest"

definition FetchPlan :: "'j codecs \<Rightarrow> 'w transport \<Rightarrow> Client \<Rightarrow> JobRunID \<Rightarrow> ('w, Plan) op" where
  "FetchPlan J T c i = client_do T c ''GET'' (job_path i ''plan'') None (dec_plan J)"

definition FetchSecrets :: "'j codecs \<Rightarrow> 'w transport \<Rightarrow> Client \<Rightarrow> JobRunID \<Rightarrow> SecretRef list \<Rightarrow> ('w, (string, string) gomap) op" where
  "FetchSecrets J T c i refs =
     client_do T c ''POST'' (job_path i ''secrets'') (Some (enc_refs J (map (\<lambda>r. \<lparr>ref_Scope = sref_Scope r, ref_Name = sref_Name r\<rparr>) refs))) (dec_secrets J)"

definition ReportJob :: "'j codecs \<Rightarrow> 'w transport \<Rightarrow> Client \<Rightarrow> JobRunID \<Rightarrow> 'j \<Rightarrow> ('w, unit) op" where
  "ReportJob J T c i result = client_do T c ''POST'' (job_path i ''status'') (Some (enc_result J result)) (\<lambda>_. Inr ())"

definition ResolveCache :: "'j codecs \<Rightarrow> 'w transport \<Rightarrow> Client \<Rightarrow> JobRunID \<Rightarrow> string \<Rightarrow> string list \<Rightarrow> ('w, bool \<times> string \<times> string) op" where
  "ResolveCache J T c i key restoreKeys =
     client_do T c ''POST'' (job_path i ''cache/resolve'') (Some (enc_cache J key restoreKeys)) (dec_cache J)"

definition ArtifactUploadURL :: "'j codecs \<Rightarrow> 'w transport \<Rightarrow> Client \<Rightarrow> JobRunID \<Rightarrow> string \<Rightarrow> ('w, string) op" where
  "ArtifactUploadURL J T c i name = client_do T c ''POST'' (job_path i (''artifacts/'' @ name)) (Some (enc_empty J)) (dec_upload J)"

definition ArtifactDownloadURL :: "'j codecs \<Rightarrow> 'w transport \<Rightarrow> Client \<Rightarrow> JobRunID \<Rightarrow> string \<Rightarrow> ('w, string) op" where
  "ArtifactDownloadURL J T c i name = client_do T c ''GET'' (job_path i (''artifacts/'' @ name)) None (dec_download J)"

section \<open>The controller's projection\<close>

definition http_ApplyObserved :: "'j codecs \<Rightarrow> 'w transport \<Rightarrow> Client \<Rightarrow> 'w projection" where
  "http_ApplyObserved J T c i phase t w =
     (case enc_phase J phase of
        Inl e \<Rightarrow> (Inl (Wrapf ''projection: encode'' e), w)
      | Inr b \<Rightarrow>
          (case send T ''projection: '' \<lparr>hq_Method = ''POST'', hq_URL = cl_BaseURL c @ job_path i ''observed'',
              hq_Header = [(''Authorization'', ''Bearer '' @ cl_Token c), (''Content-Type'', ''application/json'')], hq_Body = b\<rparr> w of
             (Inl e, w1) \<Rightarrow> (Inl e, w1)
           | (Inr (status, _), w1) \<Rightarrow>
               if status < 200 \<or> status \<ge> 300 then (Inl (Errorf (''projection: status '' @ itoa (nat status))), w1) else (Inr (), w1)))"

section \<open>GitHub\<close>

text \<open>One call of the contents API: the request, then the token, then the answer, which must have status 200.\<close>

definition getJSON :: "'w transport \<Rightarrow> ('w, string) op \<Rightarrow> string \<Rightarrow> (bytes \<Rightarrow> 'a res) \<Rightarrow> ('w, 'a) op" where
  "getJSON T Tokens url dec w =
     (case tr_New T ''GET'' url of
        Inl e \<Rightarrow> (Inl (Wrapf ''build request'' e), w)
      | Inr _ \<Rightarrow>
          (case Tokens w of
             (Inl e, w1) \<Rightarrow> (Inl (Wrapf ''token'' e), w1)
           | (Inr token, w1) \<Rightarrow>
               (case tr_Do T \<lparr>hq_Method = ''GET'', hq_URL = url,
                   hq_Header = [(''Authorization'', ''Bearer '' @ token), (''Accept'', ''application/vnd.github+json'')], hq_Body = []\<rparr> w1 of
                  (Inl e, w2) \<Rightarrow> (Inl (Wrapf ''request'' e), w2)
                | (Inr (status, answer), w2) \<Rightarrow>
                    if status \<noteq> 200 then (Inl (Errorf (''status '' @ itoa (nat status))), w2)
                    else (decoded ''decode'' dec answer, w2))))"

record ContentFile =
  cf_Name :: string
  cf_Path :: string
  cf_Data :: bytes

record content_entry =
  cn_Name :: string
  cn_Path :: string
  cn_Type :: string

record content_json =
  json_branch :: "bytes \<Rightarrow> string res"
  json_entries :: "bytes \<Rightarrow> content_entry list res"
  json_content :: "bytes \<Rightarrow> (string \<times> string) res"
  json_token :: "bytes \<Rightarrow> (string \<times> time) res"

definition DefaultBranch :: "content_json \<Rightarrow> 'w transport \<Rightarrow> ('w, string) op \<Rightarrow> string \<Rightarrow> string \<Rightarrow> string \<Rightarrow> ('w, string) op" where
  "DefaultBranch J T Tokens base owner name w =
     (case getJSON T Tokens (base @ ''/repos/'' @ owner @ ''/'' @ name) (json_branch J) w of
        (Inl e, w1) \<Rightarrow> (Inl (Wrapf ''github content: repo info'' e), w1)
      | (Inr b, w1) \<Rightarrow>
          if b = [] then (Inl (Errorf (''github content: '' @ owner @ ''/'' @ name @ '' has no default branch'')), w1) else (Inr b, w1))"

text \<open>
  The standard base64 alphabet with its padding, which makes the length a multiple of four;
  white space is taken out before.
\<close>

definition std_char :: "char \<Rightarrow> char" where
  "std_char c = (if c = CHR ''+'' then CHR ''-'' else if c = CHR ''/'' then CHR ''_'' else c)"

definition DecodeString :: "string \<Rightarrow> bytes res" where
  "DecodeString s =
     (let body = (if HasSuffix s ''=='' then take (length s - 2) s else if HasSuffix s ''='' then take (length s - 1) s else s) in
      if length s mod 4 \<noteq> 0 \<or> CHR ''-'' \<in> set s \<or> CHR ''_'' \<in> set s then Inl (Errorf ''illegal base64 data'')
      else case b64_decode (map std_char body) of None \<Rightarrow> Inl (Errorf ''illegal base64 data'') | Some d \<Rightarrow> Inr d)"

definition decodeContent :: "string \<Rightarrow> string \<Rightarrow> bytes res" where
  "decodeContent encoding content =
     (if encoding \<noteq> ''base64'' then Inl (Errorf (''unsupported encoding '' @ Quote encoding)) else DecodeString (filter (\<lambda>c. \<not> is_space c) content))"

definition fetch_content :: "content_json \<Rightarrow> 'w transport \<Rightarrow> ('w, string) op \<Rightarrow> string \<Rightarrow> string \<Rightarrow> content_entry \<Rightarrow> ('w, ContentFile) op" where
  "fetch_content J T Tokens repo_base ref e w =
     (case getJSON T Tokens (repo_base @ ''/contents/'' @ cn_Path e @ ''?ref='' @ ref) (json_content J) w of
        (Inl err, w1) \<Rightarrow> (Inl (Wrapf (''github content: fetch '' @ cn_Path e) err), w1)
      | (Inr (content, encoding), w1) \<Rightarrow>
          (case decodeContent encoding content of
             Inl err \<Rightarrow> (Inl (Wrapf (''github content: decode '' @ cn_Path e) err), w1)
           | Inr d \<Rightarrow> (Inr \<lparr>cf_Name = cn_Name e, cf_Path = cn_Path e, cf_Data = d\<rparr>, w1)))"

definition is_workflow_file :: "content_entry \<Rightarrow> bool" where
  "is_workflow_file e \<longleftrightarrow> cn_Type e = ''file'' \<and> (HasSuffix (cn_Name e) ''.yml'' \<or> HasSuffix (cn_Name e) ''.yaml'')"

fun fetch_contents :: "content_json \<Rightarrow> 'w transport \<Rightarrow> ('w, string) op \<Rightarrow> string \<Rightarrow> string \<Rightarrow> content_entry list \<Rightarrow> ('w, ContentFile list) op" where
  "fetch_contents J T Tokens repo_base ref [] w = (Inr [], w)"
| "fetch_contents J T Tokens repo_base ref (e # es) w =
     (if \<not> is_workflow_file e then fetch_contents J T Tokens repo_base ref es w
      else case fetch_content J T Tokens repo_base ref e w of
             (Inl err, w1) \<Rightarrow> (Inl err, w1)
           | (Inr f, w1) \<Rightarrow>
               (case fetch_contents J T Tokens repo_base ref es w1 of
                  (Inl err, w2) \<Rightarrow> (Inl err, w2)
                | (Inr fs, w2) \<Rightarrow> (Inr (f # fs), w2)))"

definition WorkflowsDir :: "content_json \<Rightarrow> 'w transport \<Rightarrow> ('w, string) op \<Rightarrow> string \<Rightarrow> string \<Rightarrow> string \<Rightarrow> string \<Rightarrow> ('w, ContentFile list) op" where
  "WorkflowsDir J T Tokens base owner name ref w =
     (let repo_base = base @ ''/repos/'' @ owner @ ''/'' @ name in
      case getJSON T Tokens (repo_base @ ''/contents/.github/workflows?ref='' @ ref) (json_entries J) w of
        (Inl e, w1) \<Rightarrow> (Inl (Wrapf ''github content: list workflows'' e), w1)
      | (Inr es, w1) \<Rightarrow> fetch_contents J T Tokens repo_base ref es w1)"

text \<open>The claims of the app's JWT are its id and two times in seconds; the signature is over the digest.\<close>

record app_lib =
  jwt_header :: "bytes res"
  jwt_claims :: "int \<Rightarrow> int \<Rightarrow> int \<Rightarrow> bytes res"
  jwt_sha256 :: "bytes \<Rightarrow> bytes"
  jwt_sign :: "bytes \<Rightarrow> bytes res"

record AppAuth =
  aa_AppID :: int
  aa_InstallationID :: int
  aa_BaseURL :: string
  aa_token :: string
  aa_expiresAt :: time

definition format_int :: "int \<Rightarrow> string" where
  "format_int n = (if n < 0 then ''-'' @ itoa (nat (- n)) else itoa (nat n))"

definition minute :: time where
  "minute = 60 * second"

definition Unix :: "time \<Rightarrow> int" where
  "Unix t = t div second"

definition base64URL :: "bytes res \<Rightarrow> string res" where
  "base64URL b = (case b of Inl e \<Rightarrow> Inl (Wrapf ''github: encode jwt segment'' e) | Inr x \<Rightarrow> Inr (b64_encode x))"

definition appJWT :: "app_lib \<Rightarrow> AppAuth \<Rightarrow> time \<Rightarrow> string res" where
  "appJWT L a t =
     (case base64URL (jwt_header L) of
        Inl e \<Rightarrow> Inl (Wrapf ''github: jwt header'' e)
      | Inr h \<Rightarrow>
          (case base64URL (jwt_claims L (aa_AppID a) (Unix (t - minute)) (Unix (t + 5 * minute))) of
             Inl e \<Rightarrow> Inl (Wrapf ''github: jwt claims'' e)
           | Inr c \<Rightarrow>
               (case jwt_sign L (jwt_sha256 L (h @ ''.'' @ c)) of
                  Inl e \<Rightarrow> Inl (Wrapf ''github: sign jwt'' e)
                | Inr sig \<Rightarrow> Inr (h @ ''.'' @ c @ ''.'' @ b64_encode sig))))"

definition token_answer :: "content_json \<Rightarrow> int \<Rightarrow> bytes \<Rightarrow> (string \<times> time) res" where
  "token_answer J status answer =
     (if status \<noteq> 201 then Inl (Errorf (''github: token endpoint status '' @ itoa (nat status)))
      else case json_token J answer of
             Inl e \<Rightarrow> Inl (Wrapf ''github: decode token response'' e)
           | Inr (token, expires) \<Rightarrow> if token = [] then Inl (Errorf ''github: empty installation token'') else Inr (token, expires))"

definition installationToken :: "app_lib \<Rightarrow> content_json \<Rightarrow> 'w transport \<Rightarrow> AppAuth \<Rightarrow> time \<Rightarrow> ('w, string \<times> time) op" where
  "installationToken L J T a t w =
     (case appJWT L a t of
        Inl e \<Rightarrow> (Inl e, w)
      | Inr jwt \<Rightarrow>
          (let url = aa_BaseURL a @ ''/app/installations/'' @ format_int (aa_InstallationID a) @ ''/access_tokens'' in
           case tr_New T ''POST'' url of
             Inl e \<Rightarrow> (Inl (Wrapf ''github: build token request'' e), w)
           | Inr _ \<Rightarrow>
               (case tr_Do T \<lparr>hq_Method = ''POST'', hq_URL = url,
                   hq_Header = [(''Authorization'', ''Bearer '' @ jwt), (''Accept'', ''application/vnd.github+json'')], hq_Body = []\<rparr> w of
                  (Inl e, w1) \<Rightarrow> (Inl (Wrapf ''github: token request'' e), w1)
                | (Inr (status, answer), w1) \<Rightarrow> (token_answer J status answer, w1))))"

text \<open>The clock is read once for the cache and, when it misses, again for the JWT.\<close>

definition app_Token :: "app_lib \<Rightarrow> content_json \<Rightarrow> 'w transport \<Rightarrow> time \<Rightarrow> time \<Rightarrow> (AppAuth \<times> 'w, string) op" where
  "app_Token L J T t1 t2 = (\<lambda>(a, w).
     if aa_token a \<noteq> '''' \<and> t1 < aa_expiresAt a - minute then (Inr (aa_token a), (a, w))
     else case installationToken L J T a t2 w of
            (Inl e, w1) \<Rightarrow> (Inl (Wrapf ''github: installation token'' e), (a, w1))
          | (Inr (token, expires), w1) \<Rightarrow> (Inr token, (a\<lparr>aa_token := token, aa_expiresAt := expires\<rparr>, w1)))"

end
