(* ===== verification/Server_Dispatch.thy ===== *)
theory Server_Dispatch
  imports Server Memory_Contract
begin

text \<open>
  The dispatch round of the control plane over the memory stores: it ends, it hands out
  each waiting job at most once, and it keeps the stores well formed. The set of queued
  jobs is what shrinks.
\<close>

section \<open>Queued jobs\<close>

definition queued :: "DurableMem \<Rightarrow> JobRunID set" where
  "queued d = {i. \<exists>j. mget (jobs d) i = Some j \<and> jr_Status j = JobQueued}"

lemma finite_queued [simp]: "finite (queued d)"
proof -
  have "queued d \<subseteq> fst ` set (jobs d)" by (force simp: queued_def dest: mget_in_set)
  then show ?thesis by (rule finite_subset) simp
qed


lemma queued_put [simp]: "queued (put_job i j d) = (if jr_Status j = JobQueued then insert i (queued d) else queued d - {i})"
  by (auto simp: queued_def)

lemma queued_refresh [simp]: "queued (refreshRunLocked r t d) = queued d"
  by (simp add: queued_def)

lemma queued_claim_loop:
  assumes "distinct cs" "\<forall>i\<in>set cs. \<exists>j. mget (jobs s) i = Some j \<and> jr_Status j = JobQueued" "claim_loop w cs s = (r, s')"
  shows "queued s' \<subseteq> queued s"
  using assms
proof (induction cs arbitrary: s)
  case (Cons i cs)
  from Cons.prems(2) obtain j where j: "mget (jobs s) i = Some j" "jr_Status j = JobQueued" by auto
  show ?case
  proof (cases "dependencyStateLocked s i = depsFailed \<and> jr_Condition (job_at s i) = ''''")
    case True
    have m: "\<forall>k\<in>set cs. \<exists>j. mget (jobs (skip_job w i s)) k = Some j \<and> jr_Status j = JobQueued"
      using Cons.prems(1,2) by (auto simp: mget_skip_job [OF j])
    have c: "claim_loop w cs (skip_job w i s) = (r, s')" "distinct cs" using Cons.prems(1,3) True by simp_all
    have "queued s' \<subseteq> queued (skip_job w i s)" by (rule Cons.IH [OF c(2) m c(1)])
    also have "\<dots> \<subseteq> queued s" by (auto simp: queued_def mget_skip_job [OF j] split: if_splits)
    finally show ?thesis .
  next
    case False
    then have "jobs s' = jobs s \<or> claim_loop w cs s = (r, s')"
      using Cons.prems(3) by (cases "dependencyStateLocked s i") (auto split: if_splits)
    then show ?thesis
    proof
      assume c: "claim_loop w cs s = (r, s')"
      have m: "distinct cs" "\<forall>i\<in>set cs. \<exists>j. mget (jobs s) i = Some j \<and> jr_Status j = JobQueued"
        using Cons.prems(1,2) by simp_all
      show ?thesis by (rule Cons.IH [OF m c])
    qed (simp add: queued_def)
  qed
qed simp

lemma queued_claim:
  assumes "wf_store w s" "mem_ClaimNextQueuedJob w s = (r, s')"
  shows "queued s' \<subseteq> queued s"
proof (cases "candidates s = []")
  case False
  have m: "mwf (jobs s)" using assms(1) by (rule wf_storeD)
  from False have "claim_loop w (candidates s) s = (r, s')" using assms(2) by (simp add: mem_ClaimNextQueuedJob_def)
  then show ?thesis
    by (rule queued_claim_loop [OF distinct_candidates [OF m], rotated]) (auto simp: set_candidates [OF m])
qed (use assms in \<open>simp add: mem_ClaimNextQueuedJob_def\<close>)

text \<open>A terminal observation takes its job, and no other, out of the queue.\<close>

lemma queued_observed:
  assumes "p = PhaseFailed \<or> p = PhaseSkipped"
  shows "queued (snd (mem_ApplyObserved i p t d)) = queued d - {i}"
proof (cases "mget (jobs d) i")
  case (Some j)
  obtain target where t: "JobStatusFromPhase p = Some target" "target \<noteq> JobQueued" "CanAdvanceJob JobQueued target"
    using assms by (auto simp: CanAdvanceJob_def)
  show ?thesis
  proof (cases "jr_Status j = JobQueued")
    case True
    with t Some show ?thesis by (simp add: mem_ApplyObserved_cases [OF Some])
  next
    case False
    then have "queued d - {i} = queued d" using Some by (auto simp: queued_def)
    with t show ?thesis by (simp add: mem_ApplyObserved_cases [OF Some] split: if_splits)
  qed
qed (auto simp: mem_ApplyObserved_def queued_def)

section \<open>Servers over the memory stores\<close>

type_synonym mem_server = "(DurableMem, ActiveMem) Server"

definition mem_options :: "world \<Rightarrow> (DurableMem, ActiveMem) Options \<Rightarrow> bool" where
  "mem_options w opt \<longleftrightarrow> op_Durable opt = mem_store w \<and> op_Active opt = mem_active"

definition wf_server :: "world \<Rightarrow> mem_server \<Rightarrow> bool" where
  "wf_server w s \<longleftrightarrow> wf_store w (sv_durable s) \<and> wf_active (sv_active s)"

lemma mem_reads:
  "snd (mem_GetJobRun i d) = d" "snd (mem_GetRun r d) = d" "snd (mem_ListJobRuns r d) = d" "snd (mem_ListQueuedJobs d) = d"
  "snd (mem_CountQueuedJobs d) = d"
  by (simp_all add: mem_GetJobRun_def mem_GetRun_def mem_ListJobRuns_def mem_ListQueuedJobs_def mem_CountQueuedJobs_def split: option.splits)

lemma durable_read: "snd (f (sv_durable s)) = sv_durable s \<Longrightarrow> on_durable f s = (fst (f (sv_durable s)), s)"
  by (simp add: on_durable_def prod.case_eq_if)

lemma mem_store_sel [simp]:
  "GetJobRun (mem_store w) = mem_GetJobRun" "GetRun (mem_store w) = mem_GetRun" "ListJobRuns (mem_store w) = mem_ListJobRuns"
  "ListQueuedJobs (mem_store w) = mem_ListQueuedJobs" "CountQueuedJobs (mem_store w) = mem_CountQueuedJobs"
  "ApplyObserved (mem_store w) = mem_ApplyObserved" "ClaimNextQueuedJob (mem_store w) = mem_ClaimNextQueuedJob w"
  by (simp_all add: mem_store_def)

lemmas mem_durable_reads =
  durable_read [of "mem_GetJobRun i" for i, OF mem_reads(1)] durable_read [of "mem_GetRun i" for i, OF mem_reads(2)]
  durable_read [of "mem_ListJobRuns i" for i, OF mem_reads(3)] durable_read [of "mem_ListQueuedJobs", OF mem_reads(4)]
  durable_read [of "mem_CountQueuedJobs", OF mem_reads(5)]

lemma reportCheck_stores:
  "mem_options w opt \<Longrightarrow> sv_durable (reportCheck opt i s) = sv_durable s \<and> sv_active (reportCheck opt i s) = sv_active s"
  by (auto simp: reportCheck_def mem_options_def mem_durable_reads split: sum.splits)

lemma projectObserved_stores:
  assumes "mem_options w opt"
  shows "sv_durable (snd (projectObserved opt i p s)) = snd (mem_ApplyObserved i p (op_clock opt (sv_ticks s)) (sv_durable s))
    \<and> sv_active (snd (projectObserved opt i p s)) = sv_active s"
  using assms
  by (auto simp: projectObserved_def mem_options_def now_def on_durable_def Project_def mem_reads split: prod.splits sum.splits)
    (metis snd_conv mem_reads(1))+

lemma settle_stores:
  assumes "mem_options w opt"
  shows "sv_durable (settle opt i p s) = snd (mem_ApplyObserved i p (op_clock opt (sv_ticks s)) (sv_durable s))
    \<and> sv_active (settle opt i p s) = sv_active s"
  using reportCheck_stores [OF assms] projectObserved_stores [OF assms] by (simp add: settle_def)

section \<open>Deferred conditions\<close>

text \<open>What one pass maintains: well-formed stores, fewer queued jobs, and progress only when one left the queue.\<close>

definition pass_inv :: "world \<Rightarrow> JobRunID set \<Rightarrow> bool \<times> mem_server \<Rightarrow> bool" where
  "pass_inv w q = (\<lambda>(progress, s). wf_server w s \<and> queued (sv_durable s) \<subseteq> q \<and> (progress \<longrightarrow> queued (sv_durable s) \<noteq> q))"

lemma pass_inv_settle:
  assumes "mem_options w opt" "pass_inv w q (b, s)" "i \<in> q" "p = PhaseFailed \<or> p = PhaseSkipped"
  shows "pass_inv w q (True, settle opt i p s)"
proof -
  let ?r = "mem_ApplyObserved i p (op_clock opt (sv_ticks s)) (sv_durable s)"
  have "wf_store w (snd ?r)" using wf_ApplyObserved [of w "sv_durable s" i p _ "fst ?r" "snd ?r"] assms(2)
    by (auto simp: pass_inv_def wf_server_def)
  with assms queued_observed [OF assms(4)] settle_stores [OF assms(1), of i p s] show ?thesis
    by (auto simp: pass_inv_def wf_server_def)
qed

lemma pass_inv_job:
  assumes "mem_options w opt" "pass_inv w q ps" "jr_ID rec \<in> q"
  shows "pass_inv w q (defer_job opt ev rs rec ps)"
  using assms pass_inv_settle [OF assms(1) _ assms(3)]
  by (cases ps) (auto simp: defer_job_def split: sum.splits bool.splits)

lemma pass_inv_jobs:
  assumes "mem_options w opt" "pass_inv w q ps" "\<forall>rec\<in>set qs. jr_ID rec \<in> q"
  shows "pass_inv w q (fold (defer_job opt ev rs) qs ps)"
  using assms(2,3) by (induction qs arbitrary: ps) (simp_all add: pass_inv_job [OF assms(1)])

lemma pass_inv_run:
  assumes "mem_options w opt" "pass_inv w q ps" "\<forall>rec\<in>set (snd g). jr_ID rec \<in> q"
  shows "pass_inv w q (defer_run opt g ps)"
proof -
  obtain b s r qs where g: "g = (r, qs)" "ps = (b, s)" by fastforce
  have "pass_inv w q (fold (defer_job opt ev rs) qs (b, s))" for ev rs
    using assms g by (intro pass_inv_jobs) auto
  with assms g show ?thesis
    by (auto simp: defer_run_def mem_options_def mem_durable_reads split: sum.splits)
qed

lemma pass_inv_runs:
  assumes "mem_options w opt" "pass_inv w q ps" "\<forall>g\<in>set gs. \<forall>rec\<in>set (snd g). jr_ID rec \<in> q"
  shows "pass_inv w q (fold (defer_run opt) gs ps)"
  using assms(2,3) by (induction gs arbitrary: ps) (simp_all add: pass_inv_run [OF assms(1)])

lemma mput_set: "x \<in> set (mput m k v) \<Longrightarrow> x = (k, v) \<or> x \<in> set m"
  by (induction m) (auto simp: mput_def split: if_splits)

lemma group_by_run_members: "g \<in> set (group_by_run js) \<Longrightarrow> set (snd g) \<subseteq> set js"
proof -
  let ?f = "\<lambda>j m. mput m (jr_RunID j) ((case mget m (jr_RunID j) of Some xs \<Rightarrow> xs | None \<Rightarrow> []) @ [j])"
  have "\<forall>g\<in>set (fold ?f xs m). set (snd g) \<subseteq> S" if "\<forall>g\<in>set m. set (snd g) \<subseteq> S" "set xs \<subseteq> S" for xs m S
    using that
  proof (induction xs arbitrary: m)
    case (Cons x xs)
    have "\<forall>g\<in>set (?f x m). set (snd g) \<subseteq> S"
      using Cons.prems mget_in_set [of m "jr_RunID x"] by (fastforce dest: mput_set split: option.splits)
    with Cons show ?case by simp
  qed simp
  from this [of "[]" "set js" js] show "g \<in> set (group_by_run js) \<Longrightarrow> ?thesis" by (auto simp: group_by_run_def)
qed

lemma listed_queued:
  assumes "wf_store w d" "rec \<in> set (sort_key age_key (filter (\<lambda>j. jr_Status j = JobQueued) (map snd (jobs d))))"
  shows "jr_ID rec \<in> queued d"
proof -
  from assms(2) obtain i where "(i, rec) \<in> set (jobs d)" "jr_Status rec = JobQueued" by auto
  moreover from this have "mget (jobs d) i = Some rec" using wf_storeD(8) [OF assms(1)] by (simp add: mget_set)
  ultimately show ?thesis using wf_jobsD [OF wf_storeD(4) [OF assms(1)]] by (auto simp: queued_def)
qed

lemma deferred_returns:
  assumes "mem_options w opt" "wf_server w s" "card (queued (sv_durable s)) < k"
  shows "\<exists>s'. evaluateDeferredConditions opt k s = Some s' \<and> wf_server w s' \<and> queued (sv_durable s') \<subseteq> queued (sv_durable s)"
  using assms(2,3)
proof (induction k arbitrary: s)
  case (Suc k)
  let ?q = "queued (sv_durable s)"
  define js where "js = sort_key age_key (filter (\<lambda>j. jr_Status j = JobQueued) (map snd (jobs (sv_durable s))))"
  have l: "on_durable (ListQueuedJobs (op_Durable opt)) s = (Inr js, s)"
    using assms(1) by (simp add: mem_options_def mem_durable_reads) (simp add: mem_ListQueuedJobs_def js_def)
  obtain b s2 where f: "fold (defer_run opt) (group_by_run js) (False, s) = (b, s2)" by fastforce
  have "pass_inv w ?q (fold (defer_run opt) (group_by_run js) (False, s))"
  proof (rule pass_inv_runs [OF assms(1)])
    show "pass_inv w ?q (False, s)" using Suc.prems by (simp add: pass_inv_def)
    show "\<forall>g\<in>set (group_by_run js). \<forall>rec\<in>set (snd g). jr_ID rec \<in> ?q"
      using group_by_run_members listed_queued Suc.prems(1) unfolding wf_server_def js_def by blast
  qed
  then have p: "wf_server w s2" "queued (sv_durable s2) \<subseteq> ?q" "b \<longrightarrow> queued (sv_durable s2) \<noteq> ?q"
    by (simp_all add: f pass_inv_def)
  show ?case
  proof (cases "js = []")
    case True
    with l have "evaluateDeferredConditions opt (Suc k) s = Some s" by simp
    with Suc.prems show ?thesis by blast
  next
    case ne: False
    with l f have e: "evaluateDeferredConditions opt (Suc k) s = (if b then evaluateDeferredConditions opt k s2 else Some s2)"
      by simp
    show ?thesis
    proof (cases b)
      case True
      with p have "card (queued (sv_durable s2)) < card ?q" by (intro psubset_card_mono) auto
      with Suc.prems have "card (queued (sv_durable s2)) < k" by simp
      from Suc.IH [OF p(1) this] True e p(2) show ?thesis by (metis subset_trans)
    next
      case False
      with e p show ?thesis by simp
    qed
  qed
qed simp

section \<open>The dispatch loop\<close>

lemma claim_loop_error: "claim_loop w cs s = (Inl e, s') \<Longrightarrow> e = ErrNoQueuedJob"
  by (induction cs arbitrary: s) (auto split: depState.splits if_splits)

lemma mem_claim_error: "mem_ClaimNextQueuedJob w s = (Inl e, s') \<Longrightarrow> e = ErrNoQueuedJob"
  by (auto simp: mem_ClaimNextQueuedJob_def dest: claim_loop_error split: if_splits)

lemma dispatch_one_error:
  assumes "mem_options w opt" "wf_server w s" "mem_ClaimNextQueuedJob w (sv_durable s) = (Inl e, d)"
  shows "\<exists>s'. dispatch_one opt s = (Inl ErrNoQueuedJob, s') \<and> wf_server w s' \<and> queued (sv_durable s') \<subseteq> queued (sv_durable s)"
  using assms wf_ClaimNextQueuedJob [of w "sv_durable s" "Inl e" d] queued_claim [of w "sv_durable s" "Inl e" d] mem_claim_error [OF assms(3)]
  by (simp add: dispatch_one_def now_def DispatchNext_def mem_options_def wf_server_def)

lemma dispatch_one_job:
  assumes "mem_options w opt" "wf_server w s" "mem_ClaimNextQueuedJob w (sv_durable s) = (Inr j, d)"
  shows "\<exists>s'. dispatch_one opt s = (Inr j, s') \<and> wf_server w s' \<and> queued (sv_durable s') \<subset> queued (sv_durable s)
    \<and> jr_ID j \<in> queued (sv_durable s) - queued (sv_durable s')
    \<and> (\<exists>j'. mget (jobs (sv_durable s')) (jr_ID j) = Some j' \<and> jr_Status j' = JobDispatched)
    \<and> objects (sv_active s') (jr_ID j) \<noteq> None"
proof -
  let ?t = "op_clock opt (sv_ticks s)"
  have wf: "wf_store w (sv_durable s)" "wf_active (sv_active s)" using assms(2) by (simp_all add: wf_server_def)
  have "ClaimNextQueuedJob (mem_store w) (sv_durable s) = (Inr j, d)" using assms(3) by simp
  from mem_ports.dispatch_next_ok [OF wf this, of ?t] obtain ob d' x' where
    n: "DispatchNext (mem_store w) mem_active ?t (sv_durable s, sv_active s) = (Inr j, (d', x'))" "wf_store w d'" "wf_active x'"
       "objects x' = (objects (sv_active s))(jr_ID j \<mapsto> ob)"
       "(\<lambda>i. mget (jobs d') i) = (\<lambda>i. mget (jobs d) i)(jr_ID j \<mapsto> ack_job (jr_ID j) (ao_UID ob) ?t j)"
    by blast
  have g: "mget (jobs d') i = (if i = jr_ID j then Some (ack_job (jr_ID j) (ao_UID ob) ?t j) else mget (jobs d) i)" for i
    using fun_cong [OF n(5), of i] by simp
  have "queued d' = queued d - {jr_ID j}" by (auto simp: queued_def g ack_job_def split: if_splits)
  moreover have "jr_ID j \<in> queued (sv_durable s)"
    using mem_claim_result [OF wf(1) assms(3)] by (auto simp: queued_def)
  moreover have "queued d \<subseteq> queued (sv_durable s)" using wf(1) assms(3) by (rule queued_claim)
  moreover have "mget (jobs d') (jr_ID j) = Some (ack_job (jr_ID j) (ao_UID ob) ?t j)" by (simp add: g)
  ultimately show ?thesis
    using assms(1) n(1-4) by (auto simp: dispatch_one_def now_def mem_options_def wf_server_def ack_job_def)
qed

lemma dispatch_loop_returns:
  assumes "mem_options w opt" "wf_server w s" "card (queued (sv_durable s)) < k"
  shows "\<exists>m s'. dispatch_loop opt k n s = Some ((n + m, None), s') \<and> wf_server w s' \<and> queued (sv_durable s') \<subseteq> queued (sv_durable s)
    \<and> m + card (queued (sv_durable s')) \<le> card (queued (sv_durable s))"
  using assms(2,3)
proof (induction k arbitrary: s n)
  case (Suc k)
  obtain r d where c: "mem_ClaimNextQueuedJob w (sv_durable s) = (r, d)" by fastforce
  show ?case
  proof (cases r)
    case (Inl e)
    from dispatch_one_error [OF assms(1) Suc.prems(1) c [unfolded Inl]] obtain s1 where
      s1: "dispatch_one opt s = (Inl ErrNoQueuedJob, s1)" "wf_server w s1" "queued (sv_durable s1) \<subseteq> queued (sv_durable s)" by blast
    have "queue_depth opt s1 = s1" using assms(1) by (simp add: queue_depth_def mem_options_def mem_durable_reads)
    with s1 card_mono [OF finite_queued s1(3)] show ?thesis by (intro exI [of _ 0]) auto
  next
    case (Inr j)
    from dispatch_one_job [OF assms(1) Suc.prems(1) c [unfolded Inr]] obtain s1 where
      s1: "dispatch_one opt s = (Inr j, s1)" "wf_server w s1" "queued (sv_durable s1) \<subset> queued (sv_durable s)" by blast
    define s2 where "s2 = reportCheck opt (jr_ID j) (snd (on_durable (GetJobRun (op_Durable opt) (jr_ID j)) s1))"
    have s2: "sv_durable s2 = sv_durable s1" "sv_active s2 = sv_active s1"
      using assms(1) reportCheck_stores [OF assms(1)] by (simp_all add: s2_def mem_options_def mem_durable_reads)
    have lt: "card (queued (sv_durable s1)) < card (queued (sv_durable s))" by (rule psubset_card_mono [OF finite_queued s1(3)])
    with Suc.prems s1 s2 have "wf_server w s2" "card (queued (sv_durable s2)) < k" by (simp_all add: wf_server_def)
    from Suc.IH [OF this, of "Suc n"] obtain m s' where "dispatch_loop opt k (Suc n) s2 = Some ((Suc n + m, None), s')"
        "wf_server w s'" "queued (sv_durable s') \<subseteq> queued (sv_durable s2)" "m + card (queued (sv_durable s')) \<le> card (queued (sv_durable s2))" by blast
    with s1 s2 lt show ?thesis by (intro exI [of _ "Suc m"] exI [of _ s']) (auto simp: s2_def)
  qed
qed simp

end
