(* ===== verification/Server_Properties.thy ===== *)
theory Server_Properties
  imports Server_Dispatch Server_API Scheduler_Properties
begin

text \<open>
  Dispatch rounds of the control plane end, and what its authentication and its secrets
  endpoint let through.
\<close>

section \<open>A server over the memory stores\<close>

definition demo_sources :: workflowSource where
  "demo_sources = \<lparr>ws_dir = '''', ws_fetcher = None, ws_actionFetcher = None, ws_DefaultBranch = None,
     ws_ReadDir = (\<lambda>d. Inr []), ws_yaml = (\<lambda>b. Inl ''unsupported''), ws_base_ref = (\<lambda>b. '''')\<rparr>"

definition demo_expr :: library where
  "demo_expr = \<lparr>ParseFloat = (\<lambda>s. None), FormatFloat = (\<lambda>r. ''''), Marshal = (\<lambda>a. Inl ''unsupported''), Decode = (\<lambda>s. Inl ''unsupported'')\<rparr>"

definition demo_options :: "(DurableMem, ActiveMem) Options" where
  "demo_options = \<lparr>op_Durable = mem_store W, op_Active = mem_active, op_Source = demo_sources, op_clock = (\<lambda>n. 100 + int n),
     op_DetailsBaseURL = ''https://ci'', op_expr = demo_expr, op_sha = rev, op_canonicalJSON = (\<lambda>p. Inr (pl_JobRunID p)), op_fork = (\<lambda>b. Some True)\<rparr>"

definition demo_server :: mem_server where
  "demo_server = \<lparr>sv_durable = demo2, sv_active = NewActiveStore, sv_plans = [], sv_jobs = [], sv_trust = [], sv_reports = [], sv_ticks = 0\<rparr>"

lemma demo_server_ok: "mem_options W demo_options" "wf_server W demo_server"
  using demo2_wf by (simp_all add: mem_options_def demo_options_def wf_server_def demo_server_def wf_active_def NewActiveStore_def)

section \<open>Dispatch\<close>

text \<open>
  C18. Over the memory stores a dispatch round always ends, within one more turn of each of its loops
  than there are queued jobs, and without an error: conditions cannot keep it busy forever.
  It dispatches at most the jobs that were queued, each job it dispatches leaves the queue,
  nothing enters the queue, and the stores stay well formed.
\<close>

theorem dispatch_round_ends:
  assumes "mem_options w opt" "wf_server w s" "card (queued (sv_durable s)) < k"
  shows "\<exists>n s'. DispatchOnce opt k s = Some ((n, None), s') \<and> wf_server w s' \<and> queued (sv_durable s') \<subseteq> queued (sv_durable s)
    \<and> n + card (queued (sv_durable s')) \<le> card (queued (sv_durable s))"
proof -
  from deferred_returns [OF assms] obtain s1 where s1: "evaluateDeferredConditions opt k s = Some s1" "wf_server w s1"
    "queued (sv_durable s1) \<subseteq> queued (sv_durable s)" by blast
  note le = card_mono [OF finite_queued s1(3)]
  with assms(3) have "card (queued (sv_durable s1)) < k" by simp
  from dispatch_loop_returns [OF assms(1) s1(2) this, of 0] s1 le show ?thesis
    by (fastforce simp: DispatchOnce_def)
qed

lemma card_queued_le: "card (queued d) \<le> length (jobs d)"
proof -
  have "queued d \<subseteq> set (map fst (jobs d))" by (force simp: queued_def dest: mget_in_set)
  then have "card (queued d) \<le> card (set (map fst (jobs d)))" by (rule card_mono [rotated]) simp
  also have "\<dots> \<le> length (jobs d)" using card_length [of "map fst (jobs d)"] by simp
  finally show ?thesis .
qed

lemma demo_queued: "card (queued (sv_durable demo_server)) < 3"
proof -
  have "length (jobs demo2) = 2" by code_simp
  with card_queued_le [of demo2] show ?thesis by (simp add: demo_server_def)
qed

theorem dispatch_round_ends_witness:
  "\<exists>n s'. DispatchOnce demo_options 3 demo_server = Some ((n, None), s') \<and> wf_server W s' \<and> n \<le> 2"
proof -
  from dispatch_round_ends [OF demo_server_ok demo_queued] demo_queued show ?thesis by fastforce
qed

section \<open>Authorization\<close>

lemma auth_cases:
  assumes "auth api h r (s, k) = (resp, st')"
  shows "(\<exists>n m t. resp = http_Error n m \<and> (st' = (s, k) \<or> st' = (snd (now (api_opt api) s), k)))
    \<or> (\<exists>who t. api_Verify api t (TrimPrefix (ar_Authorization r) ''Bearer '') = Inr who \<and> h r (Some who) (snd (now (api_opt api) s), k) = (resp, st'))"
  using assms by (auto simp: auth_def now_def split: if_splits sum.splits)

lemma now_fields [simp]: "sv_durable (snd (now opt s)) = sv_durable s" "sv_plans (snd (now opt s)) = sv_plans s" "sv_trust (snd (now opt s)) = sv_trust s"
  by (simp_all add: now_def)

lemma jobFromPath_bound: "jobFromPath r (Some who) = Inr (i, who') \<Longrightarrow> i = ar_id r \<and> who' = who \<and> id_JobRunID who = ar_id r"
  by (auto simp: jobFromPath_def AuthorizeExecution_def split: if_splits sum.splits)

lemma jobFromPath_error: "jobFromPath r (Some who) = Inl resp \<Longrightarrow> \<exists>n m. resp = http_Error n m"
  by (auto simp: jobFromPath_def split: if_splits sum.splits)

lemma deliver_names:
  assumes "deliver api rs out k = (out', k')"
  shows "mkeys out' \<subseteq> mkeys out \<union> full_name ` set rs"
  using assms
proof (induction api rs out k rule: deliver.induct)
  case (2 api r rs out k)
  have "mkeys (static_secret api r out) \<subseteq> insert (full_name r) (mkeys out)"
    by (auto simp: static_secret_def mkeys_mput split: option.splits)
  with 2 show ?case by (fastforce simp: mkeys_mput split: option.splits prod.splits sum.splits)
qed simp

lemma handleSecrets_job:
  assumes "jobFromPath r (Some who) = Inr (i, who)" "HasScope who ScopeSecretsRead" "json_refs (api_json api) (ar_Body r) = Inr requested"
    "plans_Get i s = Inr p"
  shows "handleSecrets api r (Some who) (s, k) =
    (case deliver api (dc_Allowed (DecideSecrets who requested (plan_refs p) (trust_of s i))) [] k of
       (out, k') \<Rightarrow> (writeJSON 200 (SecretsBody out), (s, k')))"
  using assms by (simp add: handleSecrets_def)

lemma handleSecrets_refused:
  assumes "\<nexists>requested p. jobFromPath r (Some who) = Inr (ar_id r, who) \<and> HasScope who ScopeSecretsRead
    \<and> json_refs (api_json api) (ar_Body r) = Inr requested \<and> plans_Get (ar_id r) s = Inr p"
  shows "\<exists>n m. handleSecrets api r (Some who) (s, k) = (http_Error n m, (s, k))"
proof (cases "jobFromPath r (Some who)")
  case (Inl resp)
  with jobFromPath_error [OF this] show ?thesis by (auto simp: handleSecrets_def)
next
  case (Inr x)
  then have "x = (ar_id r, who)" using jobFromPath_bound [of r who "fst x" "snd x"] by (cases x) simp
  with Inr assms show ?thesis by (auto simp: handleSecrets_def split: sum.splits)
qed

lemma handleSecrets_sound:
  assumes "handleSecrets api r (Some who) (s, k) = (writeJSON n (SecretsBody out), st')"
  shows "id_JobRunID who = ar_id r \<and> HasScope who ScopeSecretsRead
    \<and> (\<exists>p. mget (sv_plans s) (ar_id r) = Some p
         \<and> mkeys out \<subseteq> (if trust_of s (ar_id r) = TrustFork then {} else full_name ` set (plan_refs p)))"
proof -
  obtain requested p where h: "jobFromPath r (Some who) = Inr (ar_id r, who)" "HasScope who ScopeSecretsRead"
    "json_refs (api_json api) (ar_Body r) = Inr requested" "plans_Get (ar_id r) s = Inr p"
    using handleSecrets_refused [of r who api s k] assms by fastforce
  let ?allowed = "dc_Allowed (DecideSecrets who requested (plan_refs p) (trust_of s (ar_id r)))"
  obtain o' k' where d: "deliver api ?allowed [] k = (o', k')" by fastforce
  have "out = o'" using assms d by (simp add: handleSecrets_job [OF h])
  with deliver_names [OF d] have m: "mkeys out \<subseteq> full_name ` set ?allowed" by (simp add: mkeys_def)
  have "mget (sv_plans s) (ar_id r) = Some p" using h(4) by (simp add: plans_Get_def split: option.splits)
  with m h(2) jobFromPath_bound [OF h(1)] show ?thesis by (auto simp: allowed_secrets split: if_splits)
qed

end
