(* ===== verification/Server_Trust.thy ===== *)
theory Server_Trust
  imports Server_Properties Scheduler_Properties3
begin

text \<open>
  The trust of a run over the whole life of the control plane. Every operation of the server
  is a sequence of store steps; those that do not ingest or re-request leave plans and trust
  alone. From this follows that a run of a fork's pull request never receives secrets.
\<close>

section \<open>Runs are never forgotten\<close>

lemma run_known: "rid \<in> mkeys (runs s) \<longleftrightarrow> run_origin s rid \<noteq> None"
  by (auto simp: run_origin_def mget_None_iff)

lemma runs_grow_CreateRun:
  assumes "wf_store w s" "mem_CreateRun w seed t s = (x, s')"
  shows "mkeys (runs s) \<subseteq> mkeys (runs s')"
proof (cases "\<exists>rec. deliveries s (rs_Delivery seed) = Some rec \<and> dr_RunID rec = '''' \<and> rs_Jobs seed \<noteq> []")
  case False
  then have "s' = s"
    using assms(2) by (auto simp: mem_CreateRun_def split: option.splits if_splits sum.splits)
  then show ?thesis by simp
next
  case True
  then obtain rec where rec: "deliveries s (rs_Delivery seed) = Some rec" "dr_RunID rec = ''''" "rs_Jobs seed \<noteq> []" by blast
  obtain res s2 where cj: "create_jobs w (mint w (ids s)) t (rs_Jobs seed) Map.empty [] (s\<lparr>ids := Suc (ids s)\<rparr>) = (res, s2)" by fastforce
  have "runs s2 = runs s" using create_jobs_inv [OF create_inv_start [OF assms(1)] cj] by simp
  then show ?thesis
    using assms(2) cj by (auto simp: mem_CreateRun_new [OF rec] Let_def split: sum.splits prod.splits)
qed

lemma runs_grow:
  assumes "store_step w s s'" "wf_store w s"
  shows "mkeys (runs s) \<subseteq> mkeys (runs s')"
  using assms
proof (induction rule: store_step.induct)
  case (create_run seed t s r2 s')
  then show ?case by (intro runs_grow_CreateRun)
next
  case (cancel rid t s r4 s')
  with origin_CancelRun have "run_origin s' = run_origin s" by blast
  then show ?case by (auto simp: run_known)
qed (auto simp: run_known dest: origin_kept)

lemma steps_keep:
  assumes "(store_step w)\<^sup>*\<^sup>* s s'" "wf_store w s"
  shows "wf_store w s' \<and> mkeys (runs s) \<subseteq> mkeys (runs s')
    \<and> (\<forall>i j. mget (jobs s) i = Some j \<longrightarrow> (\<exists>j'. mget (jobs s') i = Some j' \<and> jr_RunID j' = jr_RunID j))"
proof -
  have "mkeys (runs s) \<subseteq> mkeys (runs s')"
    using assms
  proof (induction rule: rtranclp_induct)
    case (step y z)
    with store_steps_ok [OF step(1) step(4)] runs_grow [OF step(2)] show ?case by blast
  qed simp
  moreover have "\<forall>i j. mget (jobs s) i = Some j \<longrightarrow> (\<exists>j'. mget (jobs s') i = Some j' \<and> jr_RunID j' = jr_RunID j)"
    using store_steps_ok [OF assms] unfolding jobs_evolve_def evolves_def same_job_def by blast
  ultimately show ?thesis using store_steps_ok [OF assms] by blast
qed

section \<open>Operations that only move jobs\<close>

definition quiet :: "world \<Rightarrow> mem_server \<Rightarrow> mem_server \<Rightarrow> bool" where
  "quiet w s s' \<longleftrightarrow> (store_step w)\<^sup>*\<^sup>* (sv_durable s) (sv_durable s') \<and> sv_trust s' = sv_trust s \<and> sv_plans s' = sv_plans s"

lemma quiet_refl [simp]: "quiet w s s"
  by (simp add: quiet_def)

lemma quiet_trans: "quiet w s t \<Longrightarrow> quiet w t u \<Longrightarrow> quiet w s u"
  unfolding quiet_def by (metis rtranclp_trans)

lemma quiet_same: "sv_durable s' = sv_durable s \<Longrightarrow> sv_trust s' = sv_trust s \<Longrightarrow> sv_plans s' = sv_plans s \<Longrightarrow> quiet w s s'"
  by (simp add: quiet_def)

lemma on_durable_fields [simp]:
  "sv_trust (snd (on_durable f s)) = sv_trust s" "sv_plans (snd (on_durable f s)) = sv_plans s" "sv_active (snd (on_durable f s)) = sv_active s"
  by (simp_all add: on_durable_def case_prod_unfold)

lemma quiet_now: "quiet w s (snd (now opt s))"
  by (simp add: now_def quiet_def)

lemma quiet_report:
  assumes "mem_options w opt"
  shows "quiet w s (reportCheck opt i s)"
  using assms by (intro quiet_same)
    (auto simp: reportCheck_def mem_options_def mem_durable_reads split: sum.splits)

lemma quiet_project:
  assumes "mem_options w opt"
  shows "quiet w s (snd (projectObserved opt i p s))"
proof -
  let ?r = "mem_ApplyObserved i p (op_clock opt (sv_ticks s)) (sv_durable s)"
  have "store_step w (sv_durable s) (snd ?r)" by (rule store_step.observe) (rule prod.collapse [symmetric])
  moreover have "sv_trust (snd (projectObserved opt i p s)) = sv_trust s" "sv_plans (snd (projectObserved opt i p s)) = sv_plans s"
    by (simp_all add: projectObserved_def now_def Let_def case_prod_unfold split: sum.splits)
  ultimately show ?thesis using projectObserved_stores [OF assms] by (auto simp: quiet_def)
qed

lemma quiet_settle: "mem_options w opt \<Longrightarrow> quiet w s (settle opt i p s)"
  unfolding settle_def by (rule quiet_trans [OF quiet_project quiet_report])

lemma quiet_defer_job: "mem_options w opt \<Longrightarrow> quiet w (snd ps) (snd (defer_job opt ev rs rec ps))"
  by (cases ps) (auto simp: defer_job_def quiet_settle split: sum.splits bool.splits)

lemma quiet_defer_jobs: "mem_options w opt \<Longrightarrow> quiet w (snd ps) (snd (fold (defer_job opt ev rs) qs ps))"
proof (induction qs arbitrary: ps)
  case (Cons q qs)
  then show ?case using quiet_trans [OF quiet_defer_job Cons.IH] by simp
qed simp

lemma quiet_defer_run:
  assumes "mem_options w opt"
  shows "quiet w (snd ps) (snd (defer_run opt g ps))"
proof -
  obtain b s r qs where g: "g = (r, qs)" "ps = (b, s)" by fastforce
  have "quiet w s (snd (fold (defer_job opt ev rs) qs (b, s)))" for ev rs
    using quiet_defer_jobs [OF assms, of "(b, s)"] by simp
  with assms g show ?thesis by (auto simp: defer_run_def mem_options_def mem_durable_reads split: sum.splits)
qed

lemma quiet_defer_runs: "mem_options w opt \<Longrightarrow> quiet w (snd ps) (snd (fold (defer_run opt) gs ps))"
proof (induction gs arbitrary: ps)
  case (Cons g gs)
  then show ?case using quiet_trans [OF quiet_defer_run Cons.IH] by simp
qed simp

lemma quiet_deferred:
  assumes "mem_options w opt"
  shows "evaluateDeferredConditions opt n s = Some s' \<Longrightarrow> quiet w s s'"
proof (induction n arbitrary: s)
  case (Suc n)
  obtain r where l: "on_durable (ListQueuedJobs (op_Durable opt)) s = (r, s)"
    using assms by (simp add: mem_options_def mem_durable_reads)
  show ?case
  proof (cases r)
    case (Inr q)
    obtain b s2 where f: "fold (defer_run opt) (group_by_run q) (False, s) = (b, s2)" by fastforce
    then have "quiet w s s2" using quiet_defer_runs [OF assms, of "(False, s)" "group_by_run q"] by simp
    with Suc l f Inr show ?thesis by (auto intro: quiet_trans split: if_splits)
  qed (use Suc l in simp)
qed simp

section \<open>Dispatch and collection\<close>

lemma mem_store_writes [simp]:
  "AckDispatched (mem_store w) = mem_AckDispatched" "ReleaseClaim (mem_store w) = mem_ReleaseClaim" "MarkCollected (mem_store w) = mem_MarkCollected"
  "RerequestJob (mem_store w) = mem_RerequestJob w" "RecordDelivery (mem_store w) = mem_RecordDelivery w" "CreateRun (mem_store w) = mem_CreateRun w"
  "ListGCReadyJobs (mem_store w) = mem_ListGCReadyJobs"
  by (simp_all add: mem_store_def)

lemma Dispatch_steps:
  assumes "Dispatch (mem_store w) mem_active t i (d, x) = (r, (d', x'))"
  shows "(store_step w)\<^sup>*\<^sup>* d d'"
proof -
  have g: "snd (mem_GetJobRun i d) = d" by (rule mem_reads)
  have "d' = d \<or> store_step w d d'"
    using assms g
    by (auto simp: Dispatch_def split: prod.splits sum.splits if_splits)
      (metis store_step.ack)+
  then show ?thesis by auto
qed

lemma DispatchNext_steps:
  assumes "DispatchNext (mem_store w) mem_active t (d, x) = (r, (d', x'))"
  shows "(store_step w)\<^sup>*\<^sup>* d d'"
proof -
  obtain c d1 where c: "mem_ClaimNextQueuedJob w d = (c, d1)" by fastforce
  then have s1: "store_step w d d1" by (rule store_step.claim)
  show ?thesis
  proof (cases c)
    case (Inr j)
    obtain r2 d2 x2 where d2: "Dispatch (mem_store w) mem_active t (jr_ID j) (d1, x) = (r2, (d2, x2))" by (metis surj_pair)
    note s2 = Dispatch_steps [OF d2]
    have "d' = d2 \<or> store_step w d2 d'"
      using assms c Inr d2 store_step.release [of "jr_ID j" d2 _ d' w]
      by (auto simp: DispatchNext_def split: sum.splits prod.splits)
    with s1 s2 show ?thesis by (metis converse_rtranclp_into_rtranclp rtranclp.rtrancl_into_rtrancl)
  qed (use assms c s1 in \<open>auto simp: DispatchNext_def\<close>)
qed

lemma quiet_dispatch_one:
  assumes "mem_options w opt"
  shows "quiet w s (snd (dispatch_one opt s))"
proof -
  obtain r d' x' where d: "DispatchNext (mem_store w) mem_active (op_clock opt (sv_ticks s)) (sv_durable s, sv_active s) = (r, (d', x'))"
    by (metis surj_pair)
  from DispatchNext_steps [OF d] assms d show ?thesis
    by (simp add: dispatch_one_def now_def mem_options_def quiet_def)
qed

lemma quiet_dispatch_loop:
  assumes "mem_options w opt"
  shows "dispatch_loop opt k n s = Some (res, s') \<Longrightarrow> quiet w s s'"
proof (induction k arbitrary: n s)
  case (Suc k)
  obtain r s1 where d: "dispatch_one opt s = (r, s1)" by fastforce
  then have q: "quiet w s s1" using quiet_dispatch_one [OF assms, of s] by simp
  show ?case
  proof (cases r)
    case (Inl e)
    have "queue_depth opt s1 = s1" using assms by (simp add: queue_depth_def mem_options_def mem_durable_reads)
    with Suc.prems d Inl q show ?thesis by (auto split: if_splits)
  next
    case (Inr j)
    have "snd (on_durable (GetJobRun (op_Durable opt) (jr_ID j)) s1) = s1" using assms by (simp add: mem_options_def mem_durable_reads)
    with Suc.prems d Inr have "dispatch_loop opt k (Suc n) (reportCheck opt (jr_ID j) s1) = Some (res, s')" by simp
    from Suc.IH [OF this] quiet_report [OF assms] q show ?thesis by (metis quiet_trans)
  qed
qed simp

lemma quiet_dispatch: "mem_options w opt \<Longrightarrow> DispatchOnce opt k s = Some (res, s') \<Longrightarrow> quiet w s s'"
  by (auto simp: DispatchOnce_def dest: quiet_deferred quiet_dispatch_loop intro: quiet_trans split: option.splits)

lemma collect_steps:
  "collect_loop (mem_store w) act t js n (d, x) = (r, (d', x')) \<Longrightarrow> (store_step w)\<^sup>*\<^sup>* d d'"
proof (induction js arbitrary: n d x)
  case (Cons j js)
  obtain r1 x1 where del: "Delete act (jr_ID j) x = (r1, x1)" by fastforce
  obtain r2 d1 where m: "mem_MarkCollected (jr_ID j) (t n) d = (r2, d1)" by fastforce
  then have "store_step w d d1" by (rule store_step.mark)
  with Cons del m show ?case
    by (cases r1; cases r2) (auto intro: converse_rtranclp_into_rtranclp)
qed simp

lemma quiet_collect:
  assumes "mem_options w opt" "CollectOnce opt s = (res, s')"
  shows "quiet w s s'"
proof -
  obtain n e d' x' where c: "Collect_jobs (mem_store w) mem_active (\<lambda>i. op_clock opt (sv_ticks s + i)) (sv_durable s, sv_active s) = ((n, e), (d', x'))"
    by (metis surj_pair)
  have "snd (ListGCReadyJobs (mem_store w) (sv_durable s)) = sv_durable s" by (simp add: mem_ListGCReadyJobs_def)
  with c have "(store_step w)\<^sup>*\<^sup>* (sv_durable s) d'"
    by (auto simp: Collect_jobs_def intro: collect_steps split: prod.splits sum.splits)
  with assms c show ?thesis by (auto simp: CollectOnce_def mem_options_def quiet_def)
qed

end
