(* ===== verification/Server_Fork.thy ===== *)
theory Server_Fork
  imports Server_Trust Github_Properties
begin

text \<open>
  Ingestion and re-requests as steps of the whole control plane, the invariant that ties
  plans, trust and the durable jobs together, and what it gives the runs of a fork.
\<close>

section \<open>The invariant\<close>

text \<open>A job has a trust level whenever it has a plan, and belongs to a stored run whenever it has a trust level.\<close>

definition trust_inv :: "world \<Rightarrow> mem_server \<Rightarrow> bool" where
  "trust_inv w s \<longleftrightarrow> wf_store w (sv_durable s) \<and> mkeys (sv_plans s) \<subseteq> mkeys (sv_trust s)
     \<and> (\<forall>i\<in>mkeys (sv_trust s). \<exists>j. mget (jobs (sv_durable s)) i = Some j \<and> jr_RunID j \<in> mkeys (runs (sv_durable s)))"

text \<open>Every trusted job of the run has fork trust.\<close>

definition fork_run :: "RunID \<Rightarrow> mem_server \<Rightarrow> bool" where
  "fork_run R s \<longleftrightarrow>
     (\<forall>i j t. mget (jobs (sv_durable s)) i = Some j \<longrightarrow> jr_RunID j = R \<longrightarrow> mget (sv_trust s) i = Some t \<longrightarrow> t = TrustFork)"

lemma trust_invD:
  assumes "trust_inv w s" "i \<in> mkeys (sv_trust s)"
  shows "\<exists>j. mget (jobs (sv_durable s)) i = Some j \<and> jr_RunID j \<in> mkeys (runs (sv_durable s))"
  using conjunct2 [OF conjunct2 [OF assms(1) [unfolded trust_inv_def]]] assms(2) by (rule bspec)

lemma trust_inv_job:
  assumes "trust_inv w s" "mget (sv_trust s) i = Some t"
  obtains j where "mget (jobs (sv_durable s)) i = Some j" "jr_RunID j \<in> mkeys (runs (sv_durable s))"
  using trust_invD [OF assms(1) mget_in_keys [OF assms(2)]] by blast

lemma quiet_keep:
  assumes "quiet w s s'" "trust_inv w s"
  shows "wf_store w (sv_durable s')" "mkeys (runs (sv_durable s)) \<subseteq> mkeys (runs (sv_durable s'))"
    "\<forall>i j. mget (jobs (sv_durable s)) i = Some j \<longrightarrow> (\<exists>j'. mget (jobs (sv_durable s')) i = Some j' \<and> jr_RunID j' = jr_RunID j)"
    "sv_trust s' = sv_trust s" "sv_plans s' = sv_plans s" "mkeys (sv_plans s) \<subseteq> mkeys (sv_trust s)"
proof -
  have q: "(store_step w)\<^sup>*\<^sup>* (sv_durable s) (sv_durable s')" "wf_store w (sv_durable s)"
    using assms by (simp_all add: quiet_def trust_inv_def)
  show "wf_store w (sv_durable s')" "mkeys (runs (sv_durable s)) \<subseteq> mkeys (runs (sv_durable s'))"
    "\<forall>i j. mget (jobs (sv_durable s)) i = Some j \<longrightarrow> (\<exists>j'. mget (jobs (sv_durable s')) i = Some j' \<and> jr_RunID j' = jr_RunID j)"
    using steps_keep [OF q] by blast+
  show "sv_trust s' = sv_trust s" "sv_plans s' = sv_plans s" "mkeys (sv_plans s) \<subseteq> mkeys (sv_trust s)"
    using assms by (simp_all add: quiet_def trust_inv_def)
qed

lemma trust_inv_quiet:
  assumes "trust_inv w s" "quiet w s s'"
  shows "trust_inv w s'"
proof -
  note k = quiet_keep [OF assms(2,1)]
  have "\<exists>j. mget (jobs (sv_durable s')) i = Some j \<and> jr_RunID j \<in> mkeys (runs (sv_durable s'))" if "i \<in> mkeys (sv_trust s)" for i
  proof -
    from trust_invD [OF assms(1) that] obtain j where
      j: "mget (jobs (sv_durable s)) i = Some j" "jr_RunID j \<in> mkeys (runs (sv_durable s))" by blast
    from k(3) j(1) obtain j' where "mget (jobs (sv_durable s')) i = Some j'" "jr_RunID j' = jr_RunID j" by blast
    with j(2) k(2) show ?thesis by auto
  qed
  then show ?thesis unfolding trust_inv_def k(4) k(5) using k(1) k(6) by blast
qed

lemma fork_run_quiet:
  assumes "trust_inv w s" "fork_run R s" "quiet w s s'"
  shows "fork_run R s'"
proof -
  note k = quiet_keep [OF assms(3,1)]
  have "tr = TrustFork" if j: "mget (jobs (sv_durable s')) i = Some j" "jr_RunID j = R" "mget (sv_trust s') i = Some tr" for i j tr
  proof -
    from that(3) k(4) have "mget (sv_trust s) i = Some tr" by simp
    moreover from assms(1) this obtain j0 where "mget (jobs (sv_durable s)) i = Some j0" by (rule trust_inv_job)
    moreover from this k(3) j(1,2) have "jr_RunID j0 = R" by (metis option.inject)
    ultimately show ?thesis using assms(2) unfolding fork_run_def by blast
  qed
  then show ?thesis unfolding fork_run_def by blast
qed

text \<open>Giving a job of a stored run a trust level, and perhaps a plan.\<close>

lemma set_trust:
  assumes "trust_inv w s" "mget (jobs (sv_durable s)) i = Some j" "jr_RunID j \<in> mkeys (runs (sv_durable s))"
    and "sv_durable s' = sv_durable s" "sv_trust s' = mput (sv_trust s) i t" "mkeys (sv_plans s') \<subseteq> insert i (mkeys (sv_plans s))"
  shows "trust_inv w s'" "fork_run R s \<Longrightarrow> (jr_RunID j = R \<longrightarrow> t = TrustFork) \<Longrightarrow> fork_run R s'"
  using assms by (auto simp: trust_inv_def fork_run_def split: if_splits)

section \<open>Ingestion\<close>

lemma buildPlan_id: "buildPlan S rec ev inst = Inr p \<Longrightarrow> pl_JobRunID p = jr_ID rec"
  by (auto simp: buildPlan_def split: sum.splits prod.splits)

lemma plans_Put_cases:
  "plans_Put opt p s = (r, s') \<Longrightarrow> s' = (case r of Inl _ \<Rightarrow> s | Inr _ \<Rightarrow> s\<lparr>sv_plans := mput (sv_plans s) (pl_JobRunID p) p\<rparr>)"
  by (auto simp: plans_Put_def split: sum.splits)

lemma plan_job_inv:
  assumes "mem_options w opt" "trust_inv w s" "mget (jobs (sv_durable s)) (jr_ID rec) = Some j" "jr_RunID j \<in> mkeys (runs (sv_durable s))"
    "plan_job opt ev t rec inst s = (r, s')"
  shows "trust_inv w s' \<and> (fork_run R s \<and> (jr_RunID j = R \<longrightarrow> t = TrustFork) \<longrightarrow> fork_run R s')
    \<and> (store_step w)\<^sup>*\<^sup>* (sv_durable s) (sv_durable s')"
proof (cases "s' = s")
  case False
  then obtain p where p1: "buildPlan (op_Source opt) rec ev inst = Inr p" using assms(5) by (auto simp: plan_job_def split: sum.splits)
  obtain x s1 where pp: "plans_Put opt p s = (x, s1)" by fastforce
  have "\<exists>u. x = Inr u" using False assms(5) p1 pp plans_Put_cases [OF pp] by (cases x) (auto simp: plan_job_def)
  with assms(5) p1 pp have p: "plans_Put opt p s = (Inr (), s1)" "s' = reportCheck opt (jr_ID rec) (s1\<lparr>sv_trust := mput (sv_trust s1) (jr_ID rec) t\<rparr>)"
    by (auto simp: plan_job_def)
  have s1: "s1 = s\<lparr>sv_plans := mput (sv_plans s) (jr_ID rec) p\<rparr>" using plans_Put_cases [OF p(1)] buildPlan_id [OF p1] by simp
  let ?s2 = "s1\<lparr>sv_trust := mput (sv_trust s1) (jr_ID rec) t\<rparr>"
  have i: "trust_inv w ?s2" "fork_run R s \<Longrightarrow> (jr_RunID j = R \<longrightarrow> t = TrustFork) \<Longrightarrow> fork_run R ?s2"
    by (rule set_trust [OF assms(2-4)]; simp add: s1)+
  have q: "quiet w ?s2 s'" unfolding p(2) by (rule quiet_report [OF assms(1)])
  have "sv_durable ?s2 = sv_durable s" using s1 by simp
  with q have "(store_step w)\<^sup>*\<^sup>* (sv_durable s) (sv_durable s')" unfolding quiet_def by metis
  with i trust_inv_quiet [OF i(1) q] fork_run_quiet [OF i(1) _ q] show ?thesis by blast
qed (use assms in simp)

lemma build_one_inv:
  assumes "mem_options w opt" "trust_inv w s" "mget (jobs (sv_durable s)) (jr_ID rec) = Some j" "jr_RunID j \<in> mkeys (runs (sv_durable s))"
    "build_one opt ev t js rs rec s = (r, s')"
  shows "trust_inv w s' \<and> (fork_run R s \<and> (jr_RunID j = R \<longrightarrow> t = TrustFork) \<longrightarrow> fork_run R s')
    \<and> (store_step w)\<^sup>*\<^sup>* (sv_durable s) (sv_durable s')"
proof -
  have "quiet w s s' \<or> (\<exists>inst. plan_job opt ev t rec inst s = (r, s'))"
    using assms(5) quiet_project [OF assms(1), of s "jr_ID rec" PhaseSkipped]
    by (auto simp: build_one_def split: option.splits sum.splits bool.splits prod.splits intro: quiet_trans quiet_report [OF assms(1)])
  with trust_inv_quiet [OF assms(2)] fork_run_quiet [OF assms(2)] plan_job_inv [OF assms(1-4)] show ?thesis
    unfolding quiet_def by metis
qed

lemma build_loop_inv:
  assumes "mem_options w opt" "trust_inv w s" "rid \<in> mkeys (runs (sv_durable s))"
    "\<forall>rec\<in>set recs. \<exists>j. mget (jobs (sv_durable s)) (jr_ID rec) = Some j \<and> jr_RunID j = rid"
    "build_loop opt ev t js rs recs s = (r, s')" "R = rid \<longrightarrow> t = TrustFork"
  shows "trust_inv w s' \<and> (fork_run R s \<longrightarrow> fork_run R s') \<and> (store_step w)\<^sup>*\<^sup>* (sv_durable s) (sv_durable s')"
  using assms(2-5)
proof (induction recs arbitrary: s)
  case (Cons rec recs)
  from Cons.prems(3) obtain j where j: "mget (jobs (sv_durable s)) (jr_ID rec) = Some j" "jr_RunID j = rid" by auto
  obtain r1 s1 where b: "build_one opt ev t js rs rec s = (r1, s1)" by fastforce
  have rid: "jr_RunID j \<in> mkeys (runs (sv_durable s))" "jr_RunID j = R \<longrightarrow> t = TrustFork" using j(2) Cons.prems(2) assms(6) by simp_all
  note one = build_one_inv [OF assms(1) Cons.prems(1) j(1) rid(1) b, of R]
  show ?case
  proof (cases r1)
    case (Inl e)
    with Cons.prems(4) b one rid(2) show ?thesis by auto
  next
    case (Inr u)
    have wf: "wf_store w (sv_durable s)" using Cons.prems(1) by (simp add: trust_inv_def)
    have st: "(store_step w)\<^sup>*\<^sup>* (sv_durable s) (sv_durable s1)" using one by blast
    note k = steps_keep [OF st wf]
    have "\<forall>rec\<in>set recs. \<exists>j. mget (jobs (sv_durable s1)) (jr_ID rec) = Some j \<and> jr_RunID j = rid"
      using Cons.prems(3) k by (metis list.set_intros(2))
    moreover have "build_loop opt ev t js rs recs s1 = (r, s')" using Cons.prems(4) b Inr by simp
    ultimately have "trust_inv w s' \<and> (fork_run R s1 \<longrightarrow> fork_run R s') \<and> (store_step w)\<^sup>*\<^sup>* (sv_durable s1) (sv_durable s')"
      using Cons.IH [of s1] one k Cons.prems(2) by blast
    with one rid(2) rtranclp_trans [OF st] show ?thesis by blast
  qed
qed simp

lemma ListJobRuns_members:
  assumes "wf_store w d" "mem_ListJobRuns rid d = (Inr rs, d')"
  shows "rid \<in> mkeys (runs d) \<and> (\<forall>rec\<in>set rs. \<exists>j. mget (jobs d) (jr_ID rec) = Some j \<and> jr_RunID j = rid)"
proof -
  obtain r where r: "mget (runs d) rid = Some r" "rs = map (job_at d) (runJobs_at d rid)"
    using assms(2) by (auto simp: mem_ListJobRuns_def split: option.splits)
  have js: "\<And>i. i \<in> set (runJobs_at d rid) \<longleftrightarrow> in_run d rid i"
    using wf_index_runJobs [OF wf_storeD(6) [OF assms(1)] r(1)] by metis
  have "\<exists>j. mget (jobs d) (jr_ID rec) = Some j \<and> jr_RunID j = rid" if "rec \<in> set rs" for rec
  proof -
    from that r(2) js obtain i j where "rec = job_at d i" "mget (jobs d) i = Some j" "jr_RunID j = rid" by (auto simp: in_run_def)
    with wf_jobsD [OF wf_storeD(4) [OF assms(1)]] show ?thesis by (auto simp: job_at_mget)
  qed
  with r(1) show ?thesis by (auto intro: mget_in_keys)
qed

lemma buildPlans_inv:
  assumes "mem_options w opt" "trust_inv w s" "buildPlans opt d rid t s = (r, s')" "R = rid \<longrightarrow> t = TrustFork"
  shows "trust_inv w s' \<and> (fork_run R s \<longrightarrow> fork_run R s') \<and> (store_step w)\<^sup>*\<^sup>* (sv_durable s) (sv_durable s')"
proof (cases "matchedJobs (op_Source opt) (d_Event d) (d_Payload d)")
  case (Inr js)
  let ?s1 = "s\<lparr>sv_jobs := mput (sv_jobs s) rid js\<rparr>"
  have q: "quiet w s ?s1" by (rule quiet_same) simp_all
  note s1 = trust_inv_quiet [OF assms(2) q] fork_run_quiet [OF assms(2) _ q]
  obtain x where l: "mem_ListJobRuns rid (sv_durable ?s1) = (x, sv_durable ?s1)" by (metis mem_reads(3) prod.collapse)
  then have d: "on_durable (ListJobRuns (op_Durable opt) rid) ?s1 = (x, ?s1)"
    using assms(1) by (simp add: mem_options_def on_durable_def)
  show ?thesis
  proof (cases x)
    case (Inl e)
    with assms(3) Inr d have "s' = ?s1" by (simp add: buildPlans_def)
    with s1 show ?thesis by simp
  next
    case (Inr rs)
    have wf: "wf_store w (sv_durable ?s1)" using s1(1) by (simp add: trust_inv_def)
    from assms(3) \<open>matchedJobs _ _ _ = _\<close> d Inr have "build_loop opt (d_Event d) t js rs rs ?s1 = (r, s')" by (simp add: buildPlans_def)
    from build_loop_inv [OF assms(1) s1(1) _ _ this assms(4)] ListJobRuns_members [OF wf l [unfolded Inr]] s1(2) show ?thesis by simp
  qed
qed (use assms in \<open>simp add: buildPlans_def\<close>)

text \<open>What the scheduler's ingestion does to the store, and that the run it reports as created is new.\<close>

lemma CreateRun_created:
  assumes "wf_store w s" "mem_CreateRun w seed t s = (Inr (r, True), s')"
  shows "run_ID r = mint w (ids s) \<and> run_ID r \<in> mkeys (runs s')"
proof -
  obtain rec where rec: "deliveries s (rs_Delivery seed) = Some rec" "dr_RunID rec = ''''" "rs_Jobs seed \<noteq> []"
    using assms(2) by (auto simp: mem_CreateRun_def split: option.splits if_splits sum.splits)
  show ?thesis
    using assms(2) by (auto simp: mem_CreateRun_new [OF rec] Let_def split: sum.splits prod.splits)
qed

lemma Ingest_steps:
  assumes "Ingest (mem_store w) comp1 t d s = (x, s')"
  shows "(store_step w)\<^sup>*\<^sup>* s s'"
proof -
  obtain y s1 where y: "mem_RecordDelivery w d s = (y, s1)" by fastforce
  then have s1: "store_step w s s1" by (rule store_step.record_delivery)
  have "s' = s1 \<or> (\<exists>seed z. mem_CreateRun w seed t s1 = (z, s'))"
    using assms y by (auto simp: Ingest_def split: sum.splits prod.splits if_splits)
  with s1 store_step.create_run show ?thesis by (metis converse_rtranclp_into_rtranclp rtranclp.rtrancl_refl)
qed

lemma Ingest_created:
  assumes "wf_store w s" "Ingest (mem_store w) comp1 t d s = (Inr (rid, True), s')"
  shows "rid \<in> mkeys (runs s')" "\<And>i j. mget (jobs s) i = Some j \<Longrightarrow> jr_RunID j \<noteq> rid" "rid \<notin> mkeys (runs s)"
proof -
  obtain y s1 where y: "mem_RecordDelivery w d s = (y, s1)" by fastforce
  have i: "ids s1 = ids s" using y by (auto simp: mem_RecordDelivery_def Let_def read_clock_def split: option.splits)
  have wf: "wf_store w s1" using store_step_ok [OF store_step.record_delivery [OF y] assms(1)] by blast
  obtain seed r where c: "mem_CreateRun w seed t s1 = (Inr (r, True), s')" "rid = run_ID r"
    using assms(2) y by (auto simp: Ingest_def split: sum.splits prod.splits if_splits)
  from CreateRun_created [OF wf c(1)] c(2) i have rid: "rid = mint w (ids s)" "rid \<in> mkeys (runs s')" by metis+
  have fresh: "\<not> minted w s rid" using minted_fresh [OF wf_storeD(3) [OF assms(1)]] rid(1) by simp
  show "rid \<in> mkeys (runs s')" by (rule rid)
  show "jr_RunID j \<noteq> rid" if "mget (jobs s) i = Some j" for i j
    using wf_jobsD [OF wf_storeD(4) [OF assms(1)] that] fresh by auto
  show "rid \<notin> mkeys (runs s)"
  proof
    assume "rid \<in> mkeys (runs s)"
    then obtain r where "mget (runs s) rid = Some r" by (metis mget_None_iff not_None_eq)
    with wf_storeD(5) [OF assms(1)] fresh show False by (auto simp: wf_runs_def)
  qed
qed

lemma server_Ingest_inv:
  assumes "mem_options w opt" "trust_inv w s" "server_Ingest opt d s = (x, s')"
  shows "trust_inv w s' \<and> (store_step w)\<^sup>*\<^sup>* (sv_durable s) (sv_durable s')"
    and "R \<in> mkeys (runs (sv_durable s)) \<or> trustFor opt d = TrustFork \<Longrightarrow> fork_run R s \<Longrightarrow> fork_run R s'"
proof -
  let ?s0 = "snd (now opt s)" and ?I = "Ingest (mem_store w) (source_Compile (op_Source opt)) (op_clock opt (sv_ticks s)) d (sv_durable s)"
  obtain y d1 where y: "?I = (y, d1)" by fastforce
  define s1 where "s1 = ?s0\<lparr>sv_durable := d1\<rparr>"
  have on: "on_durable (Ingest (op_Durable opt) (source_Compile (op_Source opt)) (op_clock opt (sv_ticks s)) d) ?s0 = (y, s1)"
    using assms(1) y by (simp add: on_durable_def mem_options_def s1_def)
  have q: "quiet w s s1" using Ingest_steps [OF y] by (simp add: quiet_def s1_def)
  note i1 = trust_inv_quiet [OF assms(2) q] and f1 = fork_run_quiet [OF assms(2) _ q, of R]
  have st: "(store_step w)\<^sup>*\<^sup>* (sv_durable s) (sv_durable s1)" using q by (simp add: quiet_def)
  have wf: "wf_store w (sv_durable s)" using assms(2) by (simp add: trust_inv_def)
  consider "s' = s1" | rid z where "y = Inr (rid, True)" "buildPlans opt d rid (trustFor opt d) s1 = (z, s')"
    using assms(3) on by (auto simp: server_Ingest_def now_def split: sum.splits if_splits prod.splits)
  then have "trust_inv w s' \<and> (store_step w)\<^sup>*\<^sup>* (sv_durable s) (sv_durable s')
    \<and> (R \<in> mkeys (runs (sv_durable s)) \<or> trustFor opt d = TrustFork \<longrightarrow> fork_run R s \<longrightarrow> fork_run R s')"
  proof cases
    case 1
    with i1 f1 st show ?thesis by blast
  next
    case 2
    have "CHR ''x'' # rid = rid \<longrightarrow> trustFor opt d = TrustFork" by simp
    note b = buildPlans_inv [OF assms(1) i1 2(2) this]
    have "fork_run R s'" if "R \<in> mkeys (runs (sv_durable s)) \<or> trustFor opt d = TrustFork" "fork_run R s"
    proof -
      have "R = rid \<longrightarrow> trustFor opt d = TrustFork" using that(1) Ingest_created(3) [OF wf y [unfolded 2(1)]] by blast
      from buildPlans_inv [OF assms(1) i1 2(2) this] f1 that(2) show ?thesis by blast
    qed
    with b rtranclp_trans [OF st] show ?thesis by blast
  qed
  then show "trust_inv w s' \<and> (store_step w)\<^sup>*\<^sup>* (sv_durable s) (sv_durable s')"
    "R \<in> mkeys (runs (sv_durable s)) \<or> trustFor opt d = TrustFork \<Longrightarrow> fork_run R s \<Longrightarrow> fork_run R s'" by blast+
qed

lemma fork_run_unknown:
  assumes "trust_inv w s" "R \<notin> mkeys (runs (sv_durable s))"
  shows "fork_run R s"
  unfolding fork_run_def
proof (intro allI impI)
  fix i j t assume j: "mget (jobs (sv_durable s)) i = Some j" "jr_RunID j = R" "mget (sv_trust s) i = Some t"
  from trust_inv_job [OF assms(1) j(3)] j assms(2) show "t = TrustFork" by (metis option.inject)
qed

section \<open>Re-requests\<close>

lemma rerequest_run:
  assumes "wf_store w s" "mget (jobs s) i = Some orig" "jr_RunID orig \<in> mkeys (runs s)" "mem_RerequestJob w i t s = (Inr n, s')"
  shows "\<exists>j. mget (jobs s') n = Some j \<and> jr_RunID j = jr_RunID orig"
proof (cases "find_attempt s orig (runJobs_at s (jr_RunID orig))")
  case None
  with assms(2,4) have "n = mint w (ids s)" "jobs s' = mput (jobs s) n (next_attempt n t orig)"
    by (auto simp: mem_RerequestJob_def NewID_def Let_def split: option.splits if_splits)
  then show ?thesis by (simp add: next_attempt_def)
next
  case (Some m)
  with assms(2,4) have m: "n = m" "s' = s" by (simp_all add: mem_RerequestJob_def)
  obtain r where r: "mget (runs s) (jr_RunID orig) = Some r" using assms(3) by (metis mget_None_iff not_None_eq)
  have "\<And>k. k \<in> set (runJobs_at s (jr_RunID orig)) \<longleftrightarrow> in_run s (jr_RunID orig) k"
    using wf_index_runJobs [OF wf_storeD(6) [OF assms(1)] r] by metis
  with find_attempt_Some [OF Some] obtain k j where "m = jr_ID (job_at s k)" "mget (jobs s) k = Some j" "jr_RunID j = jr_RunID orig"
    by (auto simp: in_run_def)
  with m wf_jobsD [OF wf_storeD(4) [OF assms(1)]] show ?thesis by (auto simp: job_at_mget)
qed

text \<open>The copies of a plan and a trust level, when there is a trust level, are one write of both.\<close>

lemma copy_fields:
  assumes "s' = copy_trust i n (copy_plan opt i n s)"
  shows "sv_durable s' = sv_durable s" "mkeys (sv_plans s') \<subseteq> insert n (mkeys (sv_plans s))"
    "mget (sv_trust s) i = Some t \<Longrightarrow> sv_trust s' = mput (sv_trust s) n t"
    "mget (sv_trust s) i = None \<Longrightarrow> mget (sv_plans s) i = None \<Longrightarrow> s' = s"
  using assms by (auto simp: copy_trust_def copy_plan_def plans_Get_def plans_Put_def split: option.splits sum.splits)

lemma Rerequest_inv:
  assumes "mem_options w opt" "trust_inv w s" "Rerequest opt i s = (x, s')"
  shows "trust_inv w s' \<and> (fork_run R s \<longrightarrow> fork_run R s') \<and> (store_step w)\<^sup>*\<^sup>* (sv_durable s) (sv_durable s')"
proof -
  let ?t = "op_clock opt (sv_ticks s)"
  obtain y d1 where y: "mem_RerequestJob w i ?t (sv_durable s) = (y, d1)" by fastforce
  define s1 where "s1 = (snd (now opt s))\<lparr>sv_durable := d1\<rparr>"
  have on: "on_durable (RerequestJob (op_Durable opt) i ?t) (snd (now opt s)) = (y, s1)"
    using assms(1) y by (simp add: on_durable_def mem_options_def s1_def)
  have q: "quiet w s s1" using store_step.rerequest [OF y] by (auto simp: quiet_def s1_def)
  note i1 = trust_inv_quiet [OF assms(2) q] and f1 = fork_run_quiet [OF assms(2) _ q, of R]
  have t1: "sv_trust s1 = sv_trust s" "sv_plans s1 = sv_plans s" by (simp_all add: s1_def)
  have st: "(store_step w)\<^sup>*\<^sup>* (sv_durable s) (sv_durable s1)" using q by (simp add: quiet_def)
  show ?thesis
  proof (cases y)
    case (Inl e)
    then have "s' = s1" using assms(3) on by (simp add: Rerequest_def now_def)
    with i1 f1 st show ?thesis by blast
  next
    case (Inr n)
    define s2 where "s2 = copy_trust i n (copy_plan opt i n s1)"
    have s': "s' = reportCheck opt n s2" using assms(3) on Inr by (simp add: Rerequest_def now_def s2_def)
    note c = copy_fields [OF s2_def]
    have "trust_inv w s2 \<and> (fork_run R s1 \<longrightarrow> fork_run R s2)"
    proof (cases "mget (sv_trust s1) i")
      case None
      then have "mget (sv_plans s1) i = None" using i1 by (auto simp: trust_inv_def mget_None_iff)
      with c(4) [OF None] i1 show ?thesis by simp
    next
      case (Some tr)
      from trust_inv_job [OF assms(2), of i tr] Some t1 obtain orig where
        o: "mget (jobs (sv_durable s)) i = Some orig" "jr_RunID orig \<in> mkeys (runs (sv_durable s))" by auto
      have wf: "wf_store w (sv_durable s)" using assms(2) by (simp add: trust_inv_def)
      from rerequest_run [OF wf o y [unfolded Inr]] obtain j where
        j: "mget (jobs (sv_durable s1)) n = Some j" "jr_RunID j = jr_RunID orig" by (auto simp: s1_def)
      from trust_inv_job [OF i1 Some] obtain o1 where o1: "mget (jobs (sv_durable s1)) i = Some o1" "jr_RunID o1 \<in> mkeys (runs (sv_durable s1))" .
      from quiet_keep(3) [OF q assms(2)] o(1) o1(1) have "jr_RunID o1 = jr_RunID orig" by fastforce
      with j(2) o1 have jr: "jr_RunID j \<in> mkeys (runs (sv_durable s1))" "fork_run R s1 \<Longrightarrow> jr_RunID j = R \<longrightarrow> tr = TrustFork"
        using Some unfolding fork_run_def by auto
      from set_trust(1) [OF i1 j(1) jr(1) c(1) c(3) [OF Some] c(2)] set_trust(2) [OF i1 j(1) jr(1) c(1) c(3) [OF Some] c(2), of R] jr(2)
      show ?thesis by blast
    qed
    moreover have "sv_durable s2 = sv_durable s1" by (rule c(1))
    moreover have q2: "quiet w s2 s'" unfolding s' by (rule quiet_report [OF assms(1)])
    ultimately show ?thesis using trust_inv_quiet [OF _ q2] fork_run_quiet [OF _ _ q2] f1 st rtranclp_trans [OF st] unfolding quiet_def by metis
  qed
qed

section \<open>Requests\<close>

text \<open>What a request can do to the server: move jobs, ingest one delivery, or re-request one job.\<close>

definition request_effect :: "world \<Rightarrow> (DurableMem, ActiveMem) Options \<Rightarrow> mem_server \<Rightarrow> mem_server \<Rightarrow> bool" where
  "request_effect w opt s s' \<longleftrightarrow> quiet w s s' \<or> (\<exists>d. s' = snd (server_Ingest opt d s)) \<or> (\<exists>i. s' = snd (Rerequest opt i s))"

lemma ServeHTTP_state:
  "snd (ServeHTTP h r s) = s \<or> (\<exists>d. snd (ServeHTTP h r s) = snd (wh_ingest h d s))
   \<or> (\<exists>f j. wh_rerequest h = Some f \<and> snd (ServeHTTP h r s) = snd (f j s))"
proof (cases "snd (ServeHTTP h r s) = s")
  case False
  then obtain full where "rq_Body r = Inr full" by (rule ServeHTTP_accepted)
  from ServeHTTP_dispatch [OF False this] show ?thesis
    using on_push_state [of h] on_pull_request_state [of h] on_check_run_state [of h] by auto metis+
qed simp

lemma project_and_report_quiet:
  assumes "mem_options w (api_opt api)" "project_and_report api i p (s, k) = (resp, st')"
  shows "quiet w s (fst st')"
  using assms quiet_project [OF assms(1), of s i p]
  by (auto simp: project_and_report_def split: prod.splits sum.splits intro: quiet_trans [OF _ quiet_report [OF assms(1)]])

lemma run_of_job_state: "mem_options w (api_opt api) \<Longrightarrow> run_of_job api i st = (x, st') \<Longrightarrow> st' = st"
  by (cases st) (auto simp: run_of_job_def mem_options_def mem_durable_reads split: sum.splits)

lemma artifact_url_state: "mem_options w (api_opt api) \<Longrightarrow> artifact_url api r i url mk st = (x, st') \<Longrightarrow> st' = st"
  by (auto simp: artifact_url_def dest: run_of_job_state split: option.splits sum.splits if_splits prod.splits)

lemma handlers_quiet:
  assumes "mem_options w (api_opt api)"
  shows "handlePlan r ident (s, k) = (resp, st') \<Longrightarrow> quiet w s (fst st')"
    "handleSecrets api r ident (s, k) = (resp, st') \<Longrightarrow> quiet w s (fst st')"
    "handleStatus api r ident (s, k) = (resp, st') \<Longrightarrow> quiet w s (fst st')"
    "handleObserved api r ident (s, k) = (resp, st') \<Longrightarrow> quiet w s (fst st')"
    "handleCacheResolve api r ident (s, k) = (resp, st') \<Longrightarrow> quiet w s (fst st')"
    "handleArtifactUpload api r ident (s, k) = (resp, st') \<Longrightarrow> quiet w s (fst st')"
    "handleArtifactDownload api r ident (s, k) = (resp, st') \<Longrightarrow> quiet w s (fst st')"
  subgoal by (auto simp: handlePlan_def split: sum.splits if_splits)
  subgoal by (auto simp: handleSecrets_def split: sum.splits if_splits prod.splits)
  subgoal by (auto simp: handleStatus_def dest: project_and_report_quiet [OF assms] split: sum.splits if_splits)
  subgoal by (auto simp: handleObserved_def dest: project_and_report_quiet [OF assms] split: sum.splits if_splits option.splits)
  subgoal by (auto simp: handleCacheResolve_def dest!: run_of_job_state [OF assms] split: sum.splits if_splits option.splits prod.splits)
  subgoal by (auto simp: handleArtifactUpload_def dest!: artifact_url_state [OF assms] split: sum.splits if_splits)
  subgoal by (auto simp: handleArtifactDownload_def dest!: artifact_url_state [OF assms] split: sum.splits if_splits)
  done

lemma auth_quiet:
  assumes "\<And>ident s k resp st'. h r ident (s, k) = (resp, st') \<Longrightarrow> quiet w s (fst st')" "auth api h r (s, k) = (resp, st')"
  shows "quiet w s (fst st')"
  using auth_cases [OF assms(2)] assms(1) quiet_trans [OF quiet_now [of w s "api_opt api"]] quiet_now [of w s "api_opt api"]
  by (metis fst_conv quiet_refl)

lemma secret_handlers_state:
  "handleSecretPut api r (s, k) = (resp, st') \<Longrightarrow> fst st' = s"
  "handleSecretList api (s, k) = (resp, st') \<Longrightarrow> fst st' = s"
  "handleSecretDelete api r (s, k) = (resp, st') \<Longrightarrow> fst st' = s"
  by (auto simp: handleSecretPut_def handleSecretList_def handleSecretDelete_def split: option.splits sum.splits prod.splits if_splits)

lemma auth_handlers_quiet:
  assumes "mem_options w (api_opt api)"
  shows "auth api handlePlan r (s, k) = (resp, st') \<Longrightarrow> quiet w s (fst st')"
    "auth api (handleSecrets api) r (s, k) = (resp, st') \<Longrightarrow> quiet w s (fst st')"
    "auth api (handleStatus api) r (s, k) = (resp, st') \<Longrightarrow> quiet w s (fst st')"
    "auth api (handleObserved api) r (s, k) = (resp, st') \<Longrightarrow> quiet w s (fst st')"
    "auth api (handleCacheResolve api) r (s, k) = (resp, st') \<Longrightarrow> quiet w s (fst st')"
    "auth api (handleArtifactUpload api) r (s, k) = (resp, st') \<Longrightarrow> quiet w s (fst st')"
    "auth api (handleArtifactDownload api) r (s, k) = (resp, st') \<Longrightarrow> quiet w s (fst st')"
  by (erule auth_quiet [rotated], erule handlers_quiet [OF assms])+

lemma routes_effect:
  assumes "mem_options w (api_opt api)" "routes api rt r (s, k) = (resp, st')"
  shows "request_effect w (api_opt api) s (fst st')"
proof (cases rt)
  case (Webhook q)
  then have "fst st' = snd (ServeHTTP (webhook api) q s)" using assms(2) by (auto simp: routes_def split: prod.splits)
  with ServeHTTP_state [of "webhook api" q s] show ?thesis by (auto simp: request_effect_def webhook_def)
qed (use assms(2) in \<open>auto simp: routes_def request_effect_def dest: auth_handlers_quiet [OF assms(1)] secret_handlers_state\<close>)

text \<open>The life of the control plane: requests, ingested deliveries, dispatch rounds and collections, in any order.\<close>

inductive server_step :: "('a, 'b, 'k) Api \<Rightarrow> ('a, 'b, 'k) api_state \<Rightarrow> ('a, 'b, 'k) api_state \<Rightarrow> bool" for api where
  request: "routes api rt r st = (resp, st') \<Longrightarrow> server_step api st st'"
| ingest: "server_Ingest (api_opt api) d s = (x, s') \<Longrightarrow> server_step api (s, k) (s', k)"
| dispatch: "DispatchOnce (api_opt api) n s = Some (y, s') \<Longrightarrow> server_step api (s, k) (s', k)"
| collect: "CollectOnce (api_opt api) s = (z, s') \<Longrightarrow> server_step api (s, k) (s', k)"

lemma server_step_effect:
  assumes "server_step api st st'" "mem_options w (api_opt api)"
  shows "request_effect w (api_opt api) (fst st) (fst st')"
  using assms(1)
proof cases
  case (request rt r resp)
  with routes_effect [OF assms(2), of rt r "fst st" "snd st" resp st'] show ?thesis by simp
next
  case (ingest d s x s' k)
  then show ?thesis by (auto simp: request_effect_def intro!: exI [of _ d])
qed (auto simp: request_effect_def intro: quiet_dispatch [OF assms(2)] quiet_collect [OF assms(2)])

lemma request_effect_inv:
  assumes "request_effect w opt s s'" "mem_options w opt" "trust_inv w s"
  shows "trust_inv w s' \<and> (store_step w)\<^sup>*\<^sup>* (sv_durable s) (sv_durable s')"
    and "R \<in> mkeys (runs (sv_durable s)) \<Longrightarrow> fork_run R s \<Longrightarrow> fork_run R s'"
proof -
  have "trust_inv w s' \<and> (store_step w)\<^sup>*\<^sup>* (sv_durable s) (sv_durable s') \<and> (R \<in> mkeys (runs (sv_durable s)) \<longrightarrow> fork_run R s \<longrightarrow> fork_run R s')"
    using assms(1) unfolding request_effect_def
  proof (elim disjE exE)
    assume q: "quiet w s s'"
    with trust_inv_quiet [OF assms(3) q] fork_run_quiet [OF assms(3) _ q] show ?thesis by (simp add: quiet_def)
  next
    fix d assume "s' = snd (server_Ingest opt d s)"
    with server_Ingest_inv(1) [OF assms(2,3) surjective_pairing, of d] server_Ingest_inv(2) [OF assms(2,3) surjective_pairing, of R d]
    show ?thesis by simp
  next
    fix i assume "s' = snd (Rerequest opt i s)"
    with Rerequest_inv [OF assms(2,3) surjective_pairing, of i R] show ?thesis by simp
  qed
  then show "trust_inv w s' \<and> (store_step w)\<^sup>*\<^sup>* (sv_durable s) (sv_durable s')"
    "R \<in> mkeys (runs (sv_durable s)) \<Longrightarrow> fork_run R s \<Longrightarrow> fork_run R s'" by blast+
qed

lemma server_steps_inv:
  assumes "(server_step api)\<^sup>*\<^sup>* st st'" "mem_options w (api_opt api)" "trust_inv w (fst st)"
  shows "trust_inv w (fst st')"
  using assms
  by (induction rule: rtranclp_induct) (blast dest: server_step_effect request_effect_inv(1))+

lemma server_steps_fork:
  assumes "(server_step api)\<^sup>*\<^sup>* st st'" "mem_options w (api_opt api)" "trust_inv w (fst st)"
    and "R \<in> mkeys (runs (sv_durable (fst st)))" "fork_run R (fst st)"
  shows "R \<in> mkeys (runs (sv_durable (fst st'))) \<and> fork_run R (fst st')"
  using assms
proof (induction rule: rtranclp_induct)
  case (step y z)
  have i: "trust_inv w (fst y)" using server_steps_inv [OF step.hyps(1) step.prems(1,2)] .
  note e = request_effect_inv [OF server_step_effect [OF step.hyps(2) step.prems(1)] step.prems(1) i]
  have "wf_store w (sv_durable (fst y))" using i by (simp add: trust_inv_def)
  with steps_keep [OF conjunct2 [OF e(1)]] e(2) step show ?case by blast
qed simp

end
