(* ===== verification/Server_Safety.thy ===== *)
theory Server_Safety
  imports Server_Fork Syntax_Roundtrip
begin

text \<open>
  The promises of the whole control plane, over every sequence of requests, deliveries,
  dispatch rounds and collections: a run that a fork's pull request started never gets a
  secret, and a job changes only through a token bound to it.
\<close>

section \<open>A workflow that asks for a secret\<close>

definition secret_workflow :: yamlNode where
  "secret_workflow = YNode DocumentNode '''' '''' [y_map
     [(''on'', y_map [(''pull_request'', y_map [])]),
      (''jobs'', y_map [(''t'', y_map [(''runs-on'', y_str ''linux-small''), (''env'', y_map [(''K'', y_str ''${{ secrets.S }}'')]),
         (''steps'', y_seq [y_map [(''run'', y_str ''ls'')]])])])]] 0 0"

definition fork_options :: "(DurableMem, ActiveMem) Options" where
  "fork_options = demo_options\<lparr>op_Source := demo_sources
     \<lparr>ws_fetcher := Some (\<lambda>repo ref. Inr [\<lparr>wfl_Name = ''ci.yml'', wfl_Data = ''''\<rparr>]), ws_yaml := (\<lambda>b. Inr secret_workflow)\<rparr>,
     op_fork := (\<lambda>b. Some (b = ''fork''))\<rparr>"

definition pull_delivery :: "bytes \<Rightarrow> Delivery" where
  "pull_delivery b = \<lparr>d_Key = demo_key, d_Event = demo_event\<lparr>ev_Name := ''pull_request''\<rparr>, d_Payload = b\<rparr>"

definition new_server :: mem_server where
  "new_server = \<lparr>sv_durable = NewDurableStore, sv_active = NewActiveStore, sv_plans = [], sv_jobs = [], sv_trust = [], sv_reports = [], sv_ticks = 0\<rparr>"

definition demo_api :: "(DurableMem, ActiveMem, unit) Api" where
  "demo_api = \<lparr>api_opt = fork_options,
     api_Verify = (\<lambda>t raw. if raw = ''tok'' then Inr \<lparr>id_Audience = Audience, id_Namespace = ''n'', id_PodUID = ''u'', id_JobRunID = ''JJ'',
        id_Scopes = [ScopeSecretsRead], id_TokenID = ''1'', id_IssuedAt = 0, id_ExpiresAt = 9\<rparr> else Inl (Errorf ''bad'')),
     api_SecretStore = None, api_SecretValues = [(''repository/S'', ''v'')], api_S3 = None, api_sha256 = rev,
     api_json = \<lparr>json_refs = (\<lambda>b. Inr [\<lparr>ref_Scope = ''repository'', ref_Name = ''S''\<rparr>]), json_success = (\<lambda>b. Inr True),
       json_phase = (\<lambda>b. Inr PhaseSucceeded), json_cache = (\<lambda>b. Inr (b, [])), json_secret = (\<lambda>b. Inr (b, b, b))\<rparr>,
     api_WebhookSecret = ''h'', api_payloads = \<lparr>json_push = (\<lambda>b. Inl (Errorf b)), json_pull = (\<lambda>b. Inl (Errorf b)), json_check_run = (\<lambda>b. Inl (Errorf b))\<rparr>, api_hmac = (\<lambda>k b. k @ b)\<rparr>"

definition secrets_request :: api_request where
  "secrets_request = \<lparr>ar_Authorization = ''Bearer tok'', ar_id = ''JJ'', ar_name = '''', ar_scope = '''', ar_Body = ''''\<rparr>"

definition served :: "bytes \<Rightarrow> mem_server" where
  "served b = snd (server_Ingest fork_options (pull_delivery b) new_server)"

lemma served_answer:
  "fst (routes demo_api PostSecrets secrets_request (served ''fork'', ())) = writeJSON 200 (SecretsBody [])"
  "fst (routes demo_api PostSecrets secrets_request (served ''own'', ())) = writeJSON 200 (SecretsBody [(''repository/S'', ''v'')])"
  by code_simp+

lemma demo_api_ok: "mem_options W (api_opt demo_api)"
  using demo_server_ok(1) by (simp add: mem_options_def demo_api_def fork_options_def)

lemma served_run:
  "''J'' \<in> mkeys (runs (sv_durable (served ''fork'')))" "mkeys (runs (sv_durable new_server)) = {}"
  "map_option jr_RunID (mget (jobs (sv_durable (served ''fork''))) ''JJ'') = Some ''J''"
  by code_simp+

section \<open>Secrets\<close>

text \<open>
  C6. The secrets endpoint answers with secrets only to a token that verifies, is bound to the job of
  the path and may read secrets, and only once that job has a plan. Every secret in the
  answer is one the plan refers to, and the answer is empty when the job's run has fork
  trust, whatever the request asks for and wherever the values come from.
\<close>

theorem secrets_only_for_the_plan:
  assumes "routes api PostSecrets r (s, k) = (writeJSON n (SecretsBody out), st')"
  shows "\<exists>t who p. api_Verify api t (TrimPrefix (ar_Authorization r) ''Bearer '') = Inr who
    \<and> id_JobRunID who = ar_id r \<and> HasScope who ScopeSecretsRead \<and> mget (sv_plans s) (ar_id r) = Some p
    \<and> mkeys out \<subseteq> (if trust_of s (ar_id r) = TrustFork then {} else full_name ` set (plan_refs p))"
proof -
  have "auth api (handleSecrets api) r (s, k) = (writeJSON n (SecretsBody out), st')" using assms by (simp add: routes_def)
  from auth_cases [OF this] obtain who t where w: "api_Verify api t (TrimPrefix (ar_Authorization r) ''Bearer '') = Inr who"
    "handleSecrets api r (Some who) (snd (now (api_opt api) s), k) = (writeJSON n (SecretsBody out), st')" by auto
  have "trust_of (snd (now (api_opt api) s)) = trust_of s" by (simp add: trust_of_def fun_eq_iff)
  with w handleSecrets_sound [OF w(2)] show ?thesis by auto
qed

theorem secrets_only_for_the_plan_witness:
  "\<exists>p. mget (sv_plans (served ''own'')) ''JJ'' = Some p \<and> ''repository/S'' \<in> full_name ` set (plan_refs p)"
proof -
  have r: "routes demo_api PostSecrets secrets_request (served ''own'', ())
    = (writeJSON 200 (SecretsBody [(''repository/S'', ''v'')]), snd (routes demo_api PostSecrets secrets_request (served ''own'', ())))"
    using served_answer(2) by (metis prod.collapse)
  from secrets_only_for_the_plan [OF r] show ?thesis by (auto simp: secrets_request_def mkeys_def split: if_splits)
qed

text \<open>
  C1. A run that a fork's pull request created never gets a secret. From a freshly started
  server, whatever requests, deliveries, re-requests, dispatch rounds and collections happen
  before and after the delivery, in any order, and whatever the caller's token and request
  are: an answer of the secrets endpoint for a job of that run holds no secret.
\<close>

theorem fork_runs_get_no_secrets:
  assumes "mem_options w (api_opt api)"
    and "wf_store w (sv_durable s0)" "sv_plans s0 = []" "sv_trust s0 = []" "(server_step api)\<^sup>*\<^sup>* (s0, k0) (s, k)"
    and "server_Ingest (api_opt api) d s = (x, s1)" "trustFor (api_opt api) d = TrustFork"
    and "R \<in> mkeys (runs (sv_durable s1)) - mkeys (runs (sv_durable s))" "(server_step api)\<^sup>*\<^sup>* (s1, k) (s2, k2)"
    and "mget (jobs (sv_durable s2)) (ar_id r) = Some j" "jr_RunID j = R"
    and "routes api PostSecrets r (s2, k2) = (writeJSON n (SecretsBody out), st')"
  shows "out = []"
proof -
  have "trust_inv w (fst (s0, k0))" using assms(2-4) by (simp add: trust_inv_def mkeys_def)
  from server_steps_inv [OF assms(5,1) this] have i: "trust_inv w s" by simp
  have i1: "trust_inv w s1" using server_Ingest_inv(1) [OF assms(1) i assms(6)] by simp
  have "fork_run R s1" using server_Ingest_inv(2) [OF assms(1) i assms(6)] assms(7,8) fork_run_unknown [OF i] by simp
  with server_steps_fork [OF assms(9,1)] server_steps_inv [OF assms(9,1)] i1 assms(8)
  have s2: "fork_run R s2" "trust_inv w s2" by simp_all
  have "auth api (handleSecrets api) r (s2, k2) = (writeJSON n (SecretsBody out), st')" using assms(12) by (simp add: routes_def)
  from auth_cases [OF this] obtain who where
    "handleSecrets api r (Some who) (snd (now (api_opt api) s2), k2) = (writeJSON n (SecretsBody out), st')" by auto
  from handleSecrets_sound [OF this] obtain p where p: "mget (sv_plans s2) (ar_id r) = Some p"
    "mkeys out \<subseteq> (if trust_of s2 (ar_id r) = TrustFork then {} else full_name ` set (plan_refs p))" by (auto simp: trust_of_def)
  from mget_in_keys [OF p(1)] s2(2) obtain t where t: "mget (sv_trust s2) (ar_id r) = Some t"
    unfolding trust_inv_def by (metis mget_None_iff not_None_eq subsetD)
  with s2(1) assms(10,11) have "t = TrustFork" unfolding fork_run_def by blast
  with t p(2) have "mkeys out = {}" by (simp add: trust_of_def)
  then show ?thesis by (simp add: mkeys_def)
qed

theorem fork_runs_get_no_secrets_witness:
  "trustFor fork_options (pull_delivery ''fork'') = TrustFork
   \<and> (\<exists>st'. routes demo_api PostSecrets secrets_request (served ''fork'', ()) = (writeJSON 200 (SecretsBody []), st'))"
proof -
  have t: "trustFor (api_opt demo_api) (pull_delivery ''fork'') = TrustFork" by code_simp
  have w: "wf_store W (sv_durable new_server)" by (simp add: new_server_def wf_NewDurableStore unique_ids_unary)
  have i: "server_Ingest (api_opt demo_api) (pull_delivery ''fork'') new_server
      = (fst (server_Ingest fork_options (pull_delivery ''fork'') new_server), served ''fork'')" by (simp add: served_def demo_api_def)
  obtain out st' where r: "routes demo_api PostSecrets secrets_request (served ''fork'', ()) = (writeJSON 200 (SecretsBody out), st')"
    using served_answer(1) by (metis prod.collapse)
  obtain j where j: "mget (jobs (sv_durable (served ''fork''))) (ar_id secrets_request) = Some j" "jr_RunID j = ''J''"
    using served_run(3) by (auto simp: secrets_request_def)
  have "out = []"
    by (rule fork_runs_get_no_secrets [OF demo_api_ok w _ _ rtranclp.rtrancl_refl i t _ rtranclp.rtrancl_refl j r])
      (use served_run in \<open>simp_all add: new_server_def\<close>)
  moreover have "api_opt demo_api = fork_options" by (simp add: demo_api_def)
  ultimately show ?thesis using t r by metis
qed

section \<open>Who may move a job\<close>

lemma project_and_report_durable:
  assumes "mem_options w (api_opt api)" "project_and_report api i p (s, k) = (resp, st')"
  shows "\<exists>t. sv_durable (fst st') = snd (mem_ApplyObserved i p t (sv_durable s))"
  using assms(2) projectObserved_stores [OF assms(1), of i p s] reportCheck_stores [OF assms(1)]
  by (auto simp: project_and_report_def split: prod.splits sum.splits)

text \<open>Only the two reporting endpoints of the internal API write to the durable store.\<close>

lemma handlers_durable:
  assumes "mem_options w (api_opt api)"
  shows "handlePlan r ident (s, k) = (resp, st') \<Longrightarrow> fst st' = s"
    "handleSecrets api r ident (s, k) = (resp, st') \<Longrightarrow> fst st' = s"
    "handleCacheResolve api r ident (s, k) = (resp, st') \<Longrightarrow> fst st' = s"
    "handleArtifactUpload api r ident (s, k) = (resp, st') \<Longrightarrow> fst st' = s"
    "handleArtifactDownload api r ident (s, k) = (resp, st') \<Longrightarrow> fst st' = s"
  subgoal by (auto simp: handlePlan_def split: sum.splits if_splits)
  subgoal by (auto simp: handleSecrets_def split: sum.splits if_splits prod.splits)
  subgoal by (auto simp: handleCacheResolve_def dest!: run_of_job_state [OF assms] split: sum.splits if_splits option.splits prod.splits)
  subgoal by (auto simp: handleArtifactUpload_def dest!: artifact_url_state [OF assms] split: sum.splits if_splits)
  subgoal by (auto simp: handleArtifactDownload_def dest!: artifact_url_state [OF assms] split: sum.splits if_splits)
  done

lemma handleStatus_writes:
  assumes "mem_options w (api_opt api)" "handleStatus api r (Some who) (s, k) = (resp, st')" "sv_durable (fst st') \<noteq> sv_durable s"
  shows "id_JobRunID who = ar_id r \<and> HasScope who ScopeStatusWrite
    \<and> (\<exists>t p. p \<in> {PhaseSucceeded, PhaseFailed} \<and> sv_durable (fst st') = snd (mem_ApplyObserved (ar_id r) p t (sv_durable s)))"
  using assms(2,3) jobFromPath_bound [of r who]
  by (fastforce simp: handleStatus_def dest: project_and_report_durable [OF assms(1)] split: sum.splits if_splits)

lemma handleObserved_writes:
  assumes "mem_options w (api_opt api)" "handleObserved api r (Some who) (s, k) = (resp, st')" "sv_durable (fst st') \<noteq> sv_durable s"
  shows "(id_JobRunID who = ar_id r \<or> HasScope who ScopeObservedWrite)
    \<and> (\<exists>t p. sv_durable (fst st') = snd (mem_ApplyObserved (ar_id r) p t (sv_durable s)))"
  using assms(2,3)
  by (fastforce simp: handleObserved_def AuthorizeObservation_def dest: project_and_report_durable [OF assms(1)] split: sum.splits if_splits)

lemma auth_writes:
  assumes "auth api h r (s, k) = (resp, st')" "sv_durable (fst st') \<noteq> sv_durable s"
  obtains who t s1 where "api_Verify api t (TrimPrefix (ar_Authorization r) ''Bearer '') = Inr who" "h r (Some who) (s1, k) = (resp, st')"
    "sv_durable s1 = sv_durable s"
  using auth_cases [OF assms(1)] assms(2) now_fields(1) [of "api_opt api" s] by auto

text \<open>
  C10. Outside the webhook, a request changes the durable store only as the observation of one
  job, the one its path names, and only with a token that verifies. On the status
  endpoint that token is bound to the job and may write statuses, and the phase is success
  or failure; on the observed endpoint it is bound to the job or may write observations.
  No other endpoint changes it.
\<close>

theorem job_changes_need_a_token:
  assumes "mem_options w (api_opt api)" "routes api rt r (s, k) = (resp, (s', k'))" "\<nexists>q. rt = Webhook q" "sv_durable s' \<noteq> sv_durable s"
  shows "\<exists>t0 who t p. api_Verify api t0 (TrimPrefix (ar_Authorization r) ''Bearer '') = Inr who
    \<and> sv_durable s' = snd (mem_ApplyObserved (ar_id r) p t (sv_durable s))
    \<and> (rt = PostStatus \<and> id_JobRunID who = ar_id r \<and> HasScope who ScopeStatusWrite \<and> p \<in> {PhaseSucceeded, PhaseFailed}
       \<or> rt = PostObserved \<and> (id_JobRunID who = ar_id r \<or> HasScope who ScopeObservedWrite))"
proof (cases rt)
  case PostStatus
  then have "auth api (handleStatus api) r (s, k) = (resp, (s', k'))" using assms(2) by (simp add: routes_def)
  then obtain who t s1 where h: "api_Verify api t (TrimPrefix (ar_Authorization r) ''Bearer '') = Inr who"
    "handleStatus api r (Some who) (s1, k) = (resp, (s', k'))" "sv_durable s1 = sv_durable s" using auth_writes assms(4) by (metis fst_conv)
  with handleStatus_writes [OF assms(1) h(2)] assms(4) PostStatus show ?thesis by auto
next
  case PostObserved
  then have "auth api (handleObserved api) r (s, k) = (resp, (s', k'))" using assms(2) by (simp add: routes_def)
  then obtain who t s1 where h: "api_Verify api t (TrimPrefix (ar_Authorization r) ''Bearer '') = Inr who"
    "handleObserved api r (Some who) (s1, k) = (resp, (s', k'))" "sv_durable s1 = sv_durable s" using auth_writes assms(4) by (metis fst_conv)
  with handleObserved_writes [OF assms(1) h(2)] assms(4) PostObserved show ?thesis by auto
qed (use assms in \<open>auto simp: routes_def elim!: auth_writes dest: handlers_durable [OF assms(1)] secret_handlers_state\<close>)

definition observed_state :: mem_server where
  "observed_state = fst (snd (routes demo_api PostObserved secrets_request (served ''own'', ())))"

theorem job_changes_need_a_token_witness:
  "\<exists>p t. sv_durable observed_state = snd (mem_ApplyObserved ''JJ'' p t (sv_durable (served ''own'')))
    \<and> map_option jr_Status (mget (jobs (sv_durable observed_state)) ''JJ'') = Some JobSucceeded"
proof -
  have j: "map_option jr_Status (mget (jobs (sv_durable observed_state)) ''JJ'') = Some JobSucceeded"
    "map_option jr_Status (mget (jobs (sv_durable (served ''own''))) ''JJ'') = Some JobQueued" by code_simp+
  obtain resp k' where r: "routes demo_api PostObserved secrets_request (served ''own'', ()) = (resp, (observed_state, k'))"
    unfolding observed_state_def by (metis prod.collapse)
  from j have "sv_durable observed_state \<noteq> sv_durable (served ''own'')" by auto
  from job_changes_need_a_token [OF demo_api_ok r _ this] j(1) show ?thesis by (auto simp: secrets_request_def)
qed

end
