(* ===== verification/Controller_Properties.thy ===== *)
theory Controller_Properties
  imports Controller Memory_Contract
begin

text \<open>
  The Kubernetes active store behaves as the in-memory one over an API server that keeps its
  documented contract, and what the reconciler does with a job's pod.
\<close>

section \<open>What is relied on of the API server\<close>

text \<open>
  Reads return what is stored, objects are created under a free name with the specification
  they were given, and deleted when they exist. Every object gets a UID of its own, which no
  other object of the cluster has or ever had. \<open>jv\<close> is the stored object of a namespace and a
  name, \<open>used\<close> the UIDs given so far.
\<close>

definition job_server :: "('k, 'r) cluster \<Rightarrow> ('k \<Rightarrow> bool) \<Rightarrow> ('k \<Rightarrow> string \<times> string \<Rightarrow> JobRun option) \<Rightarrow> ('k \<Rightarrow> string set) \<Rightarrow> bool" where
  "job_server K ok jv used \<longleftrightarrow> (\<forall>k. ok k \<longrightarrow>
     (\<forall>ns n r. jv k (ns, n) = Some r \<longrightarrow> kc_GetJobRun K ns n k = (Inr r, k) \<and> cr_Name r = n \<and> cr_UID r \<noteq> '''' \<and> cr_UID r \<in> used k) \<and>
     (\<forall>ns n. jv k (ns, n) = None \<longrightarrow> (\<exists>e. kc_GetJobRun K ns n k = (Inl (NotFound e), k))) \<and>
     (\<forall>r. jv k (cr_Namespace r, cr_Name r) = None \<longrightarrow>
        (\<exists>r' k'. kc_CreateJobRun K r k = (Inr r', k') \<and> cr_Name r' = cr_Name r \<and> cr_Spec r' = cr_Spec r
           \<and> cr_UID r' \<noteq> '''' \<and> cr_UID r' \<notin> used k \<and> used k' = insert (cr_UID r') (used k)
           \<and> ok k' \<and> jv k' = (jv k)((cr_Namespace r, cr_Name r) \<mapsto> r'))) \<and>
     (\<forall>ns n. jv k (ns, n) = None \<longrightarrow> (\<exists>e. kc_DeleteJobRun K ns n k = (Inl (NotFound e), k))) \<and>
     (\<forall>ns n r. jv k (ns, n) = Some r \<longrightarrow>
        (\<exists>k'. kc_DeleteJobRun K ns n k = (Inr (), k') \<and> ok k' \<and> used k' = used k \<and> jv k' = (jv k)((ns, n) := None))))"

lemma job_serverD:
  assumes "job_server K ok jv used" "ok k"
  shows "jv k (ns, n) = Some r \<Longrightarrow> kc_GetJobRun K ns n k = (Inr r, k) \<and> cr_Name r = n \<and> cr_UID r \<noteq> '''' \<and> cr_UID r \<in> used k"
    "jv k (ns, n) = None \<Longrightarrow> \<exists>e. kc_GetJobRun K ns n k = (Inl (NotFound e), k)"
    "jv k (cr_Namespace r, cr_Name r) = None \<Longrightarrow>
        \<exists>r' k'. kc_CreateJobRun K r k = (Inr r', k') \<and> cr_Name r' = cr_Name r \<and> cr_Spec r' = cr_Spec r
           \<and> cr_UID r' \<noteq> '''' \<and> cr_UID r' \<notin> used k \<and> used k' = insert (cr_UID r') (used k)
           \<and> ok k' \<and> jv k' = (jv k)((cr_Namespace r, cr_Name r) \<mapsto> r')"
    "jv k (ns, n) = None \<Longrightarrow> \<exists>e. kc_DeleteJobRun K ns n k = (Inl (NotFound e), k)"
    "jv k (ns, n) = Some r \<Longrightarrow> \<exists>k'. kc_DeleteJobRun K ns n k = (Inr (), k') \<and> ok k' \<and> used k' = used k \<and> jv k' = (jv k)((ns, n) := None)"
  using assms unfolding job_server_def by blast+

section \<open>The active store\<close>

datatype active_call = Create JobRunID | Remove JobRunID

primrec call_id :: "active_call \<Rightarrow> JobRunID" where
  "call_id (Create i) = i"
| "call_id (Remove i) = i"

text \<open>What a caller sees of a call: the object, or success without one, or the error.\<close>

primrec answer :: "'a ActiveExecutionStore \<Rightarrow> active_call \<Rightarrow> 'a \<Rightarrow> ActiveObject option res \<times> 'a" where
  "answer A (Create i) x = (case CreateOrGet A i x of (Inl e, x') \<Rightarrow> (Inl e, x') | (Inr ob, x') \<Rightarrow> (Inr (Some ob), x'))"
| "answer A (Remove i) x = (case Delete A i x of (Inl e, x') \<Rightarrow> (Inl e, x') | (Inr _, x') \<Rightarrow> (Inr None, x'))"

primrec answers :: "'a ActiveExecutionStore \<Rightarrow> active_call list \<Rightarrow> 'a \<Rightarrow> ActiveObject option res list \<times> 'a" where
  "answers A [] x = ([], x)"
| "answers A (c # cs) x = (case answer A c x of (r, x') \<Rightarrow> (case answers A cs x' of (rs, x'') \<Rightarrow> (r # rs, x'')))"

text \<open>
  The stores choose their UIDs differently, so objects are compared up to a renaming of the
  UIDs of the cluster. The two stores hold the same objects for the jobs of a set.
\<close>

definition renamed :: "(string \<Rightarrow> string) \<Rightarrow> ActiveObject \<Rightarrow> ActiveObject" where
  "renamed \<beta> ob = ob\<lparr>ao_UID := \<beta> (ao_UID ob)\<rparr>"

definition same_objects :: "(string \<Rightarrow> string) \<Rightarrow> JobRunID set \<Rightarrow> string \<Rightarrow> (string \<times> string \<Rightarrow> JobRun option) \<Rightarrow> ActiveMem \<Rightarrow> bool" where
  "same_objects \<beta> U ns v x \<longleftrightarrow> (\<forall>i\<in>U. map_option (renamed \<beta> \<circ> active_of) (v (ns, CRName i)) = objects x i)"

lemma renamed_cong: "\<beta> (ao_UID ob) = \<beta>' (ao_UID ob) \<Longrightarrow> renamed \<beta> ob = renamed \<beta>' ob"
  by (simp add: renamed_def)

lemma same_objects_update:
  assumes "same_objects \<beta> U ns v x" "inj_on CRName U" "i \<in> U" "map_option (renamed \<beta>' \<circ> active_of) o1 = o2" "objects x' = (objects x)(i := o2)"
    and "\<And>n r. v (ns, n) = Some r \<Longrightarrow> \<beta>' (cr_UID r) = \<beta> (cr_UID r)"
  shows "same_objects \<beta>' U ns (v((ns, CRName i) := o1)) x'"
  unfolding same_objects_def
proof
  fix j assume j: "j \<in> U"
  show "map_option (renamed \<beta>' \<circ> active_of) ((v((ns, CRName i) := o1)) (ns, CRName j)) = objects x' j"
  proof (cases "j = i")
    case False
    then have "CRName j \<noteq> CRName i" using inj_onD [OF assms(2) _ j assms(3)] by blast
    moreover have "map_option (renamed \<beta>' \<circ> active_of) (v (ns, CRName j)) = map_option (renamed \<beta> \<circ> active_of) (v (ns, CRName j))"
      using assms(6) [of "CRName j"] by (cases "v (ns, CRName j)") (auto simp: active_of_def intro!: renamed_cong)
    ultimately show ?thesis using False assms(1,5) j by (simp add: same_objects_def)
  qed (use assms(4,5) in simp)
qed

text \<open>One call: its answer, the renaming it needs, and what stays.\<close>

definition matched :: "('k \<Rightarrow> bool) \<Rightarrow> ('k \<Rightarrow> string \<times> string \<Rightarrow> JobRun option) \<Rightarrow> ('k \<Rightarrow> string set) \<Rightarrow> JobRunID set \<Rightarrow> string
    \<Rightarrow> (string \<Rightarrow> string) \<Rightarrow> 'k \<Rightarrow> (string \<Rightarrow> string) \<Rightarrow> 'k \<Rightarrow> ActiveMem \<Rightarrow> bool" where
  "matched ok jv used U ns \<beta> k \<beta>' k' x' \<longleftrightarrow> ok k' \<and> wf_active x' \<and> same_objects \<beta>' U ns (jv k') x'
     \<and> used k \<subseteq> used k' \<and> (\<forall>u\<in>used k. \<beta>' u = \<beta> u)"

lemma create_refines:
  assumes K: "job_server K ok jv used" "ok k" and src: "source i d = (Inr rec, d)"
    and U: "inj_on CRName U" "i \<in> U" and x: "wf_active x" "same_objects \<beta> U ns (jv k) x"
  shows "\<exists>r k' x' \<beta>'. CreateOrGet (kube_active K source ns) i (k, d) = (Inr (active_of r), (k', d)) \<and> jv k' (ns, CRName i) = Some r
    \<and> CreateOrGet mem_active i x = (Inr (renamed \<beta>' (active_of r)), x') \<and> matched ok jv used U ns \<beta> k \<beta>' k' x'"
proof (cases "jv k (ns, CRName i)")
  case None
  then have n: "objects x i = None" using x(2) U(2) by (auto simp: same_objects_def)
  obtain e where g: "kc_GetJobRun K ns (CRName i) k = (Inl (NotFound e), k)" using job_serverD(2) [OF K None] by blast
  obtain r k' where c: "kc_CreateJobRun K (cr_of_record ns (CRName i) rec) k = (Inr r, k')" "cr_Name r = CRName i" "ok k'"
    "jv k' = (jv k)((ns, CRName i) \<mapsto> r)" "cr_UID r \<notin> used k" "used k' = insert (cr_UID r) (used k)"
    using job_serverD(3) [OF K, of "cr_of_record ns (CRName i) rec"] None by (auto simp: cr_of_record_def)
  from mem_act.create_missing [OF x(1) n] obtain ob x' where m: "CreateOrGet mem_active i x = (Inr ob, x')" "wf_active x'"
    "objects x' = (objects x)(i \<mapsto> ob)" by blast
  define \<beta>' where "\<beta>' = \<beta>(cr_UID r := ao_UID ob)"
  have "ao_Name ob = CRName i" using m(2,3) by (simp add: wf_active_def)
  then have r: "renamed \<beta>' (active_of r) = ob" using c(2) by (simp add: renamed_def active_of_def \<beta>'_def)
  have old: "\<beta>' (cr_UID q) = \<beta> (cr_UID q)" if "jv k (ns, n) = Some q" for n q using job_serverD(1) [OF K that] c(5) by (auto simp: \<beta>'_def)
  have "same_objects \<beta>' U ns (jv k') x'"
    unfolding c(4) by (rule same_objects_update [OF x(2) U _ m(3) old]) (simp_all add: r)
  moreover have "CreateOrGet (kube_active K source ns) i (k, d) = (Inr (active_of r), (k', d))"
    using g src c(1) by (simp add: kube_active_def kube_CreateOrGet_def)
  moreover have "jv k' (ns, CRName i) = Some r" "\<forall>u\<in>used k. \<beta>' u = \<beta> u" "used k \<subseteq> used k'" using c(4,5,6) by (auto simp: \<beta>'_def)
  ultimately show ?thesis using m(1,2) c(3) r unfolding matched_def by blast
next
  case (Some r)
  note g = job_serverD(1) [OF K Some]
  have n: "objects x i = Some (renamed \<beta> (active_of r))" using x(2) U(2) Some by (force simp: same_objects_def)
  from mem_act.create_existing [OF x(1) n] obtain x' where m: "CreateOrGet mem_active i x = (Inr (renamed \<beta> (active_of r)), x')" "wf_active x'" "objects x' = objects x" by blast
  have "same_objects \<beta> U ns (jv k) x'" using x(2) m(3) by (simp add: same_objects_def)
  moreover have "CreateOrGet (kube_active K source ns) i (k, d) = (Inr (active_of r), (k, d))" using g by (simp add: kube_active_def kube_CreateOrGet_def)
  ultimately show ?thesis using Some m K(2) unfolding matched_def by blast
qed

lemma delete_refines:
  assumes K: "job_server K ok jv used" "ok k" and U: "inj_on CRName U" "i \<in> U" and x: "wf_active x" "same_objects \<beta> U ns (jv k) x"
  shows "\<exists>k' x'. Delete (kube_active K source ns) i (k, d) = (Inr (), (k', d)) \<and> Delete mem_active i x = (Inr (), x') \<and> matched ok jv used U ns \<beta> k \<beta> k' x'"
proof -
  from mem_act.delete_ok [OF x(1), of i] obtain x' where m: "Delete mem_active i x = (Inr (), x')" "wf_active x'" "objects x' = (objects x)(i := None)" by blast
  have s: "same_objects \<beta> U ns ((jv k)((ns, CRName i) := None)) x'" by (rule same_objects_update [OF x(2) U _ m(3)]) simp_all
  show ?thesis
  proof (cases "jv k (ns, CRName i)")
    case None
    then have "(jv k)((ns, CRName i) := None) = jv k" by (simp add: fun_eq_iff)
    with job_serverD(4) [OF K None] m K(2) s show ?thesis by (auto simp: kube_active_def kube_Delete_def matched_def)
  next
    case (Some r)
    with job_serverD(5) [OF K Some] m s show ?thesis by (auto simp: kube_active_def kube_Delete_def matched_def)
  qed
qed

lemma answer_refines:
  assumes K: "job_server K ok jv used" "ok k" and src: "\<exists>rec. source (call_id c) d = (Inr rec, d)"
    and U: "inj_on CRName U" "call_id c \<in> U" and x: "wf_active x" "same_objects \<beta> U ns (jv k) x"
  obtains ob k' x' \<beta>' where "answer (kube_active K source ns) c (k, d) = (Inr ob, (k', d))" "answer mem_active c x = (Inr (map_option (renamed \<beta>') ob), x')"
    "matched ok jv used U ns \<beta> k \<beta>' k' x'" "ob = (case c of Create i \<Rightarrow> map_option active_of (jv k' (ns, CRName i)) | Remove i \<Rightarrow> None)"
    "\<forall>a. ob = Some a \<longrightarrow> ao_UID a \<in> used k' \<and> ao_UID a \<noteq> ''''" "\<forall>i. c = Create i \<longrightarrow> ob \<noteq> None"
proof (cases c)
  case (Create i)
  from src Create obtain rec where s: "source i d = (Inr rec, d)" by auto
  have "i \<in> U" using U(2) Create by simp
  from create_refines [where source = source, OF K s U(1) this x] obtain r k' x' \<beta>' where
    c: "CreateOrGet (kube_active K source ns) i (k, d) = (Inr (active_of r), (k', d))" "jv k' (ns, CRName i) = Some r"
      "CreateOrGet mem_active i x = (Inr (renamed \<beta>' (active_of r)), x')" "matched ok jv used U ns \<beta> k \<beta>' k' x'" by blast
  have "ok k'" using c(4) by (simp add: matched_def)
  from job_serverD(1) [OF K(1) this c(2)] have "ao_UID (active_of r) \<in> used k' \<and> ao_UID (active_of r) \<noteq> ''''" by (simp add: active_of_def)
  then show ?thesis by (intro that [of "Some (active_of r)" k' \<beta>' x']) (use c Create in simp_all)
next
  case (Remove i)
  have "i \<in> U" using U(2) Remove by simp
  from delete_refines [where source = source and d = d, OF K U(1) this x] obtain k' x' where
    "Delete (kube_active K source ns) i (k, d) = (Inr (), (k', d))" "Delete mem_active i x = (Inr (), x')" "matched ok jv used U ns \<beta> k \<beta> k' x'" by blast
  then show ?thesis by (intro that [of None k' \<beta> x']) (use Remove in simp_all)
qed

text \<open>
  C9. The Kubernetes active store refines the in-memory one. Over an API server that keeps its
  contract, and for jobs the source knows whose names stay apart, every sequence of calls
  succeeds on both and gets the same objects from both, call by call, names as they are
  and UIDs up to one renaming of the UIDs of the cluster; in the end both hold the same objects for
  these jobs. No UID answered is empty, and the object a creation answers is the one that is stored. The renaming may map several UIDs to one:
  an object made again after a deletion has a new UID in Kubernetes and its old one in memory.
\<close>

theorem kube_store_refines_memory:
  assumes "job_server K ok jv used" "ok k" "inj_on CRName U" "\<forall>c\<in>set cs. call_id c \<in> U \<and> (\<exists>rec. source (call_id c) d = (Inr rec, d))"
    and "wf_active x" "same_objects \<beta> U ns (jv k) x"
  shows "\<exists>obs k' x' \<beta>'. answers (kube_active K source ns) cs (k, d) = (map Inr obs, (k', d))
    \<and> answers mem_active cs x = (map (\<lambda>ob. Inr (map_option (renamed \<beta>') ob)) obs, x')
    \<and> (\<forall>a. Some a \<in> set obs \<longrightarrow> ao_UID a \<noteq> '''')
    \<and> (\<forall>i. cs \<noteq> [] \<longrightarrow> last cs = Create i \<longrightarrow> last obs = map_option active_of (jv k' (ns, CRName i)) \<and> last obs \<noteq> None)
    \<and> ok k' \<and> wf_active x' \<and> same_objects \<beta>' U ns (jv k') x' \<and> (\<forall>u\<in>used k. \<beta>' u = \<beta> u)"
  using assms(2,4-)
proof (induction cs arbitrary: k x \<beta>)
  case (Cons c cs)
  have src: "\<exists>rec. source (call_id c) d = (Inr rec, d)" "call_id c \<in> U" using Cons.prems(2) by simp_all
  obtain ob k1 x1 \<beta>1 where 1: "answer (kube_active K source ns) c (k, d) = (Inr ob, (k1, d))" "answer mem_active c x = (Inr (map_option (renamed \<beta>1) ob), x1)"
    "matched ok jv used U ns \<beta> k \<beta>1 k1 x1" "ob = (case c of Create i \<Rightarrow> map_option active_of (jv k1 (ns, CRName i)) | Remove i \<Rightarrow> None)"
    "\<forall>a. ob = Some a \<longrightarrow> ao_UID a \<in> used k1 \<and> ao_UID a \<noteq> ''''" "\<forall>i. c = Create i \<longrightarrow> ob \<noteq> None"
    using answer_refines [where source = source and d = d, OF assms(1) Cons.prems(1) src(1) assms(3) src(2) Cons.prems(3,4)] .
  note m = 1(3) [unfolded matched_def]
  from Cons.IH [of k1 x1 \<beta>1] m Cons.prems(2) obtain obs k' x' \<beta>' where
    2: "answers (kube_active K source ns) cs (k1, d) = (map Inr obs, (k', d))" "answers mem_active cs x1 = (map (\<lambda>ob. Inr (map_option (renamed \<beta>') ob)) obs, x')"
      "\<forall>a. Some a \<in> set obs \<longrightarrow> ao_UID a \<noteq> ''''"
      "\<forall>i. cs \<noteq> [] \<longrightarrow> last cs = Create i \<longrightarrow> last obs = map_option active_of (jv k' (ns, CRName i)) \<and> last obs \<noteq> None"
      "ok k'" "wf_active x'" "same_objects \<beta>' U ns (jv k') x'" "\<forall>u\<in>used k1. \<beta>' u = \<beta>1 u" by auto
  have b: "map_option (renamed \<beta>1) ob = map_option (renamed \<beta>') ob" using 1(5) 2(8) by (cases ob) (auto intro!: renamed_cong)
  have u: "\<forall>u\<in>used k. \<beta>' u = \<beta> u" using m 2(8) by auto
  have l: "last (ob # obs) = map_option active_of (jv k' (ns, CRName i)) \<and> last (ob # obs) \<noteq> None" if "last (c # cs) = Create i" for i
  proof (cases "cs = []")
    case True
    with that 1(4,6) 2(1) show ?thesis by auto
  next
    case False
    then have "obs \<noteq> []" using 2(1) by (cases cs) (auto split: prod.splits)
    with False that 2(4) show ?thesis by (metis last_ConsR)
  qed
  have "answers (kube_active K source ns) (c # cs) (k, d) = (map Inr (ob # obs), (k', d))" using 1(1) 2(1) by simp
  moreover have "answers mem_active (c # cs) x = (map (\<lambda>ob. Inr (map_option (renamed \<beta>') ob)) (ob # obs), x')" using 1(2) 2(2) b by simp
  moreover have "\<forall>a. Some a \<in> set (ob # obs) \<longrightarrow> ao_UID a \<noteq> ''''" using 1(5) 2(3) by auto
  ultimately show ?case using 2(5-7) u l by blast
qed (auto intro!: exI [of _ "[]"])

text \<open>Job ids are ULIDs, without lower-case letters, so their names stay apart.\<close>

definition no_lower :: "string \<Rightarrow> bool" where
  "no_lower s \<longleftrightarrow> list_all (\<lambda>c. \<not> char_within (CHR ''a'') (CHR ''z'') c) s"

lemma of_lower_char:
  "of_char (lower_char c) = (if 65 \<le> (of_char c :: nat) \<and> (of_char c :: nat) \<le> 90 then of_char c + 32 else (of_char c :: nat))"
  by (simp add: lower_char_def)

lemma lower_char_inj:
  assumes "\<not> char_within (CHR ''a'') (CHR ''z'') c" "\<not> char_within (CHR ''a'') (CHR ''z'') d" "lower_char c = lower_char d"
  shows "c = d"
proof -
  have "(of_char (lower_char c) :: nat) = of_char (lower_char d)" using assms(3) by simp
  moreover have "\<not> (97 \<le> (of_char c :: nat) \<and> (of_char c :: nat) \<le> 122)" "\<not> (97 \<le> (of_char d :: nat) \<and> (of_char d :: nat) \<le> 122)"
    using assms(1,2) by (simp_all add: char_within_def less_eq_char_def)
  ultimately have "(of_char c :: nat) = of_char d" unfolding of_lower_char by (auto split: if_splits)
  then show ?thesis by simp
qed

lemma CRName_inj: "inj_on CRName {i. no_lower i}"
proof (rule inj_onI)
  fix i j assume a: "i \<in> {i. no_lower i}" "j \<in> {i. no_lower i}" "CRName i = CRName j"
  then have "map lower_char i = map lower_char j" by (simp add: CRName_def ToLower_def)
  moreover have "inj_on lower_char (set i \<union> set j)"
    using a(1,2) by (auto simp: no_lower_def list_all_iff intro!: inj_onI intro: lower_char_inj)
  ultimately show "i = j" by (rule map_inj_on)
qed

section \<open>A cluster\<close>

text \<open>The UIDs of this cluster are numbered in unary.\<close>

record kstate =
  ks_jobs :: "string \<times> string \<Rightarrow> JobRun option"
  ks_pods :: "string \<times> string \<Rightarrow> unit Pod option"
  ks_classes :: "string \<times> string \<Rightarrow> unit RunnerClass option"
  ks_uids :: nat

definition missing :: "string \<Rightarrow> api_error" where
  "missing n = NotFound (Errorf (n @ '' not found''))"

definition lookup :: "(string \<times> string \<Rightarrow> 'a option) \<Rightarrow> string \<Rightarrow> string \<Rightarrow> api_error + 'a" where
  "lookup m ns n = (case m (ns, n) of Some x \<Rightarrow> Inr x | None \<Rightarrow> Inl (missing n))"

definition demo_uid :: "nat \<Rightarrow> string" where
  "demo_uid n = replicate (Suc n) (CHR ''u'')"

definition demo_create :: "JobRun \<Rightarrow> (kstate, JobRun) kop" where
  "demo_create r k =
     (if ks_jobs k (cr_Namespace r, cr_Name r) \<noteq> None then (Inl (AlreadyExists (Errorf (cr_Name r @ '' already exists''))), k)
      else let r' = r\<lparr>cr_UID := demo_uid (ks_uids k), cr_Generation := 1\<rparr> in
           (Inr r', k\<lparr>ks_jobs := (ks_jobs k)((cr_Namespace r, cr_Name r) \<mapsto> r'), ks_uids := Suc (ks_uids k)\<rparr>))"

definition demo_delete :: "string \<Rightarrow> string \<Rightarrow> (kstate, unit) kop" where
  "demo_delete ns n k = (if ks_jobs k (ns, n) = None then (Inl (missing n), k) else (Inr (), k\<lparr>ks_jobs := (ks_jobs k)((ns, n) := None)\<rparr>))"

definition demo_update :: "JobRun \<Rightarrow> (kstate, unit) kop" where
  "demo_update r k =
     (case ks_jobs k (cr_Namespace r, cr_Name r) of
        None \<Rightarrow> (Inl (missing (cr_Name r)), k)
      | Some r0 \<Rightarrow> (Inr (), k\<lparr>ks_jobs := (ks_jobs k)((cr_Namespace r, cr_Name r) \<mapsto> r0\<lparr>cr_Status := cr_Status r\<rparr>)\<rparr>))"

definition demo_create_pod :: "unit Pod \<Rightarrow> (kstate, unit Pod) kop" where
  "demo_create_pod p k =
     (if ks_pods k (pod_Namespace p, pod_Name p) \<noteq> None then (Inl (AlreadyExists (Errorf (pod_Name p @ '' already exists''))), k)
      else let p' = p\<lparr>pod_UID := ''pod-uid'', pod_Phase := ''Pending''\<rparr> in
           (Inr p', k\<lparr>ks_pods := (ks_pods k)((pod_Namespace p, pod_Name p) \<mapsto> p')\<rparr>))"

definition demo_cluster :: "(kstate, unit) cluster" where
  "demo_cluster = \<lparr>kc_GetJobRun = (\<lambda>ns n k. (lookup (ks_jobs k) ns n, k)), kc_CreateJobRun = demo_create, kc_DeleteJobRun = demo_delete,
     kc_UpdateStatus = demo_update, kc_GetClass = (\<lambda>ns n k. (lookup (ks_classes k) ns n, k)), kc_GetPod = (\<lambda>ns n k. (lookup (ks_pods k) ns n, k)),
     kc_CreatePod = demo_create_pod, kc_SetOwner = (\<lambda>jr p. Inr (p\<lparr>pod_Owner := Some (cr_UID jr)\<rparr>)),
     kc_SetCondition = (\<lambda>c cs. c # filter (\<lambda>x. co_Type x \<noteq> co_Type c) cs), kc_FindCondition = (\<lambda>cs t. find (\<lambda>c. co_Type c = t) cs)\<rparr>"

definition named :: "kstate \<Rightarrow> bool" where
  "named k \<longleftrightarrow> (\<forall>ns n r. ks_jobs k (ns, n) = Some r \<longrightarrow> cr_Name r = n \<and> cr_Namespace r = ns)"

definition given :: "kstate \<Rightarrow> string set" where
  "given k = demo_uid ` {..<ks_uids k}"

definition stamped :: "kstate \<Rightarrow> bool" where
  "stamped k \<longleftrightarrow> named k \<and> (\<forall>p r. ks_jobs k p = Some r \<longrightarrow> cr_UID r \<in> given k \<and> cr_UID r \<noteq> '''')"

lemma demo_uid_inj: "demo_uid m = demo_uid n \<longleftrightarrow> m = n"
  by (auto simp: demo_uid_def dest: arg_cong [where f = length])

lemma given_fresh: "demo_uid (ks_uids k) \<notin> given k"
  by (auto simp: given_def demo_uid_inj)

lemma given_Suc: "given (k\<lparr>ks_jobs := m, ks_uids := Suc (ks_uids k)\<rparr>) = insert (demo_uid (ks_uids k)) (given k)"
  by (auto simp: given_def lessThan_Suc)

lemma given_jobs [simp]: "given (k\<lparr>ks_jobs := m\<rparr>) = given k"
  by (simp add: given_def)

lemma demo_job_server: "job_server demo_cluster stamped ks_jobs given"
  unfolding job_server_def
proof (intro allI impI conjI)
  fix k and r :: JobRun assume k: "stamped k" and n: "ks_jobs k (cr_Namespace r, cr_Name r) = None"
  show "\<exists>r' k'. kc_CreateJobRun demo_cluster r k = (Inr r', k') \<and> cr_Name r' = cr_Name r \<and> cr_Spec r' = cr_Spec r
      \<and> cr_UID r' \<noteq> '''' \<and> cr_UID r' \<notin> given k \<and> given k' = insert (cr_UID r') (given k)
      \<and> stamped k' \<and> ks_jobs k' = (ks_jobs k)((cr_Namespace r, cr_Name r) \<mapsto> r')"
    using k n given_fresh [of k] by (auto simp: demo_cluster_def demo_create_def Let_def stamped_def named_def given_Suc) (simp_all add: demo_uid_def)
qed (auto simp: demo_cluster_def lookup_def missing_def demo_delete_def named_def stamped_def)

definition empty_cluster :: kstate where
  "empty_cluster = \<lparr>ks_jobs = Map.empty, ks_pods = Map.empty, ks_classes = [(''jobs'', ''small'') \<mapsto> \<lparr>rc_Image = ''img'', rc_Resources = (), rc_NodeSelector = []\<rparr>], ks_uids = 0\<rparr>"

definition demo_record :: JobRunRecord where
  "demo_record = zero_JobRunRecord\<lparr>jr_ID := ''J1'', jr_RunID := ''R1'', jr_JobKey := ''build'', jr_RunnerClass := ''small'', jr_Attempt := 1\<rparr>"

definition demo_source :: "JobRunID \<Rightarrow> (unit, JobRunRecord) op" where
  "demo_source i d = (Inr demo_record, d)"

theorem kube_store_refines_memory_witness:
  "\<exists>obs k' x' \<beta>. answers (kube_active demo_cluster demo_source ''jobs'') [Create ''J1'', Remove ''J1'', Create ''J1'', Create ''J2''] (empty_cluster, ()) = (map Inr obs, (k', ()))
     \<and> answers mem_active [Create ''J1'', Remove ''J1'', Create ''J1'', Create ''J2''] NewActiveStore = (map (\<lambda>ob. Inr (map_option (renamed \<beta>) ob)) obs, x')
     \<and> map (map_option ao_UID) obs = [Some ''u'', None, Some ''uu'', Some ''uuu'']
     \<and> \<beta> ''u'' = ''uid-jobrun-j1'' \<and> \<beta> ''uu'' = ''uid-jobrun-j1'' \<and> \<beta> ''uuu'' = ''uid-jobrun-j2''"
proof -
  let ?cs = "[Create ''J1'', Remove ''J1'', Create ''J1'', Create ''J2'']"
  have n: "stamped empty_cluster" "wf_active NewActiveStore" "same_objects id {i. no_lower i} ''jobs'' (ks_jobs empty_cluster) NewActiveStore"
    by (simp_all add: stamped_def named_def empty_cluster_def wf_active_def NewActiveStore_def same_objects_def)
  have c: "\<forall>c\<in>set ?cs. call_id c \<in> {i. no_lower i} \<and> (\<exists>rec. demo_source (call_id c) () = (Inr rec, ()))"
    by (simp add: no_lower_def char_within_def less_eq_char_def demo_source_def)
  from kube_store_refines_memory [where k = empty_cluster and jv = ks_jobs and source = demo_source and d = "()", OF demo_job_server n(1) CRName_inj c n(2,3)] obtain obs k' x' \<beta> where
    r: "answers (kube_active demo_cluster demo_source ''jobs'') ?cs (empty_cluster, ()) = (map Inr obs, (k', ()))"
      "answers mem_active ?cs NewActiveStore = (map (\<lambda>ob. Inr (map_option (renamed \<beta>) ob)) obs, x')" by auto
  have "map (map_sum Err_Error (map_option ao_UID)) (fst (answers (kube_active demo_cluster demo_source ''jobs'') ?cs (empty_cluster, ())))
      = [Inr (Some ''u''), Inr None, Inr (Some ''uu''), Inr (Some ''uuu'')]" by code_simp
  with r(1) have o: "map (map_option ao_UID) obs = [Some ''u'', None, Some ''uu'', Some ''uuu'']" by (auto simp: map_eq_Cons_conv)
  have "map (map_sum Err_Error (map_option ao_UID)) (fst (answers mem_active ?cs NewActiveStore))
      = [Inr (Some ''uid-jobrun-j1''), Inr None, Inr (Some ''uid-jobrun-j1''), Inr (Some ''uid-jobrun-j2'')]" by code_simp
  with r(2) o have "\<beta> ''u'' = ''uid-jobrun-j1''" "\<beta> ''uu'' = ''uid-jobrun-j1''" "\<beta> ''uuu'' = ''uid-jobrun-j2''"
    by (auto simp: map_eq_Cons_conv renamed_def)
  with r o show ?thesis by (intro exI conjI) (assumption | rule refl)+
qed

section \<open>The reconciler\<close>

text \<open>
  The calls of the reconciler on a cluster without another writer: reads return what is
  stored, a status update writes the status alone, and a pod is created under a free name
  with what it was given, all but its UID and phase.
\<close>

definition pod_server :: "('k, 'r) cluster \<Rightarrow> ('k \<Rightarrow> bool) \<Rightarrow> ('k \<Rightarrow> string \<times> string \<Rightarrow> JobRun option)
    \<Rightarrow> ('k \<Rightarrow> string \<times> string \<Rightarrow> 'r Pod option) \<Rightarrow> ('k \<Rightarrow> string \<times> string \<Rightarrow> 'r RunnerClass option) \<Rightarrow> bool" where
  "pod_server K ok jv pv cv \<longleftrightarrow> (\<forall>k. ok k \<longrightarrow>
     (\<forall>ns n r. jv k (ns, n) = Some r \<longrightarrow> kc_GetJobRun K ns n k = (Inr r, k) \<and> cr_Name r = n \<and> cr_Namespace r = ns) \<and>
     (\<forall>ns n c. cv k (ns, n) = Some c \<longrightarrow> kc_GetClass K ns n k = (Inr c, k)) \<and>
     (\<forall>ns n p. pv k (ns, n) = Some p \<longrightarrow> kc_GetPod K ns n k = (Inr p, k)) \<and>
     (\<forall>ns n. pv k (ns, n) = None \<longrightarrow> (\<exists>e. kc_GetPod K ns n k = (Inl (NotFound e), k))) \<and>
     (\<forall>r r0. jv k (cr_Namespace r, cr_Name r) = Some r0 \<longrightarrow>
        (\<exists>k'. kc_UpdateStatus K r k = (Inr (), k') \<and> ok k' \<and> pv k' = pv k \<and> cv k' = cv k
           \<and> jv k' = (jv k)((cr_Namespace r, cr_Name r) \<mapsto> r0\<lparr>cr_Status := cr_Status r\<rparr>))) \<and>
     (\<forall>p. pv k (pod_Namespace p, pod_Name p) = None \<longrightarrow>
        (\<exists>u ph k'. kc_CreatePod K p k = (Inr (p\<lparr>pod_UID := u, pod_Phase := ph\<rparr>), k') \<and> ok k' \<and> jv k' = jv k \<and> cv k' = cv k
           \<and> pv k' = (pv k)((pod_Namespace p, pod_Name p) \<mapsto> p\<lparr>pod_UID := u, pod_Phase := ph\<rparr>)))) \<and>
     (\<forall>jr p. kc_SetOwner K jr p = Inr (p\<lparr>pod_Owner := Some (cr_UID jr)\<rparr>))"

lemma pod_serverD:
  assumes "pod_server K ok jv pv cv" "ok k"
  shows "jv k (ns, n) = Some r \<Longrightarrow> kc_GetJobRun K ns n k = (Inr r, k) \<and> cr_Name r = n \<and> cr_Namespace r = ns"
    "cv k (ns, n) = Some c \<Longrightarrow> kc_GetClass K ns n k = (Inr c, k)"
    "pv k (ns, n) = Some p \<Longrightarrow> kc_GetPod K ns n k = (Inr p, k)"
    "pv k (ns, n) = None \<Longrightarrow> \<exists>e. kc_GetPod K ns n k = (Inl (NotFound e), k)"
    "jv k (cr_Namespace r, cr_Name r) = Some r0 \<Longrightarrow>
        \<exists>k'. kc_UpdateStatus K r k = (Inr (), k') \<and> ok k' \<and> pv k' = pv k \<and> cv k' = cv k
           \<and> jv k' = (jv k)((cr_Namespace r, cr_Name r) \<mapsto> r0\<lparr>cr_Status := cr_Status r\<rparr>)"
    "pv k (pod_Namespace p, pod_Name p) = None \<Longrightarrow>
        \<exists>u ph k'. kc_CreatePod K p k = (Inr (p\<lparr>pod_UID := u, pod_Phase := ph\<rparr>), k') \<and> ok k' \<and> jv k' = jv k \<and> cv k' = cv k
           \<and> pv k' = (pv k)((pod_Namespace p, pod_Name p) \<mapsto> p\<lparr>pod_UID := u, pod_Phase := ph\<rparr>)"
    "kc_SetOwner K jr p = Inr (p\<lparr>pod_Owner := Some (cr_UID jr)\<rparr>)"
  using assms unfolding pod_server_def by blast+

text \<open>A job the reconciler goes on with: it is stored under its own name and its class exists.\<close>

definition runnable :: "('k \<Rightarrow> string \<times> string \<Rightarrow> JobRun option) \<Rightarrow> ('k \<Rightarrow> string \<times> string \<Rightarrow> 'r RunnerClass option)
    \<Rightarrow> string \<Rightarrow> string \<Rightarrow> 'k \<Rightarrow> JobRun \<Rightarrow> bool" where
  "runnable jv cv ns name k jr \<longleftrightarrow> jv k (ns, name) = Some jr \<and> (\<exists>i. IDFromCRName name = Inr i) \<and> cv k (ns, crs_RunnerClass (cr_Spec jr)) \<noteq> None"

lemma Reconcile_runnable:
  assumes "pod_server K ok jv pv cv" "ok k" "runnable jv cv ns name k jr"
  obtains cls where "cr_Name jr = name" "cr_Namespace jr = ns" "Reconcile K projection now ns name (k, p) = reconcile_pod K projection now jr cls (k, p)"
    "cv k (ns, crs_RunnerClass (cr_Spec jr)) = Some cls"
proof -
  from assms(3) obtain i cls where r: "jv k (ns, name) = Some jr" "IDFromCRName name = Inr i" "cv k (ns, crs_RunnerClass (cr_Spec jr)) = Some cls"
    by (auto simp: runnable_def)
  from pod_serverD(1) [OF assms(1,2) r(1)] pod_serverD(2) [OF assms(1,2) r(3)] r that show ?thesis by (simp add: Reconcile_def)
qed

lemma updateConditions_ok:
  assumes "pod_server K ok jv pv cv" "ok k" "jv k (cr_Namespace jr, cr_Name jr) = Some jr"
  obtains jr1 k1 where "updateConditions K st rs msg jr k = (Inr jr1, k1)" "ok k1" "pv k1 = pv k" "cv k1 = cv k"
    "jv k1 (cr_Namespace jr, cr_Name jr) = Some jr1" "cr_Name jr1 = cr_Name jr" "cr_Namespace jr1 = cr_Namespace jr" "cr_Spec jr1 = cr_Spec jr" "cr_UID jr1 = cr_UID jr"
proof (cases "has_ready K st rs msg jr")
  case True
  then show ?thesis by (intro that [of jr k]) (simp_all add: updateConditions_def assms(2,3))
next
  case False
  let ?jr1 = "set_ready K st rs msg jr"
  have "jr\<lparr>cr_Status := cr_Status ?jr1\<rparr> = ?jr1" by (simp add: set_ready_def)
  with pod_serverD(5) [OF assms(1,2), of ?jr1 jr] assms(3) obtain k1 where
    k1: "kc_UpdateStatus K ?jr1 k = (Inr (), k1)" "ok k1" "pv k1 = pv k" "cv k1 = cv k" "jv k1 (cr_Namespace jr, cr_Name jr) = Some ?jr1"
    by (auto simp: set_ready_def)
  show ?thesis by (rule that [of ?jr1 k1]) (use k1 False in \<open>simp_all add: updateConditions_def Let_def\<close>, simp_all add: set_ready_def)
qed

text \<open>The pod the reconciler asks for, up to what the API server fills in.\<close>

definition executor_pod :: "JobRun \<Rightarrow> 'r Pod \<Rightarrow> bool" where
  "executor_pod jr pod \<longleftrightarrow> mget (pod_Labels pod) jobRunLabel = Some (crs_PlanID (cr_Spec jr)) \<and> pod_Owner pod = Some (cr_UID jr)
     \<and> map ct_Args (pod_Containers pod) = [[''--jobrun='' @ crs_PlanID (cr_Spec jr)]]
     \<and> pod_ServiceAccountName pod = ExecutorServiceAccount \<and> \<not> pod_AutomountServiceAccountToken pod \<and> pod_RestartPolicy pod = ''Never''
     \<and> (\<forall>v\<in>snd ` set (pod_Volumes pod). v \<noteq> EmptyDir \<longrightarrow> sat_Audience v = ControlPlaneAudience \<and> sat_ExpirationSeconds v \<le> 3600)"

lemma create_pod_ok:
  assumes "pod_server K ok jv pv cv" "ok k" "jv k (ns, name) = Some jr" "cr_Name jr = name" "cr_Namespace jr = ns" "pv k (ns, name @ PodSuffix) = None"
  obtains k2 jr2 pod where "create_pod K jr cls k = (Inr 0, k2)" "ok k2" "cv k2 = cv k" "jv k2 (ns, name) = Some jr2" "cr_Spec jr2 = cr_Spec jr"
    "pv k2 = (pv k)((ns, name @ PodSuffix) \<mapsto> pod)" "executor_pod jr pod"
proof -
  from updateConditions_ok [OF assms(1,2), of jr] assms(3-5) obtain jr1 k1 where
    u: "updateConditions K ''True'' ReasonProgressing ''creating primary pod'' jr k = (Inr jr1, k1)" "ok k1" "pv k1 = pv k" "cv k1 = cv k"
      "jv k1 (ns, name) = Some jr1" "cr_Name jr1 = name" "cr_Namespace jr1 = ns" "cr_Spec jr1 = cr_Spec jr" "cr_UID jr1 = cr_UID jr" by metis
  let ?p = "(buildPod jr1 cls)\<lparr>pod_Owner := Some (cr_UID jr1)\<rparr>"
  from pod_serverD(6) [OF assms(1) u(2), of ?p] u assms(6) obtain uid ph k2 where
    c: "kc_CreatePod K ?p k1 = (Inr (?p\<lparr>pod_UID := uid, pod_Phase := ph\<rparr>), k2)" "ok k2" "jv k2 = jv k1" "cv k2 = cv k1"
      "pv k2 = (pv k1)((ns, name @ PodSuffix) \<mapsto> ?p\<lparr>pod_UID := uid, pod_Phase := ph\<rparr>)" by (auto simp: buildPod_def)
  have "executor_pod jr (?p\<lparr>pod_UID := uid, pod_Phase := ph\<rparr>)"
    using u(8,9) by (simp add: executor_pod_def buildPod_def job_container_def jobRunLabel_def mget_def)
  moreover have "create_pod K jr cls k = (Inr 0, k2)"
    using u(1) c(1) pod_serverD(7) [OF assms(1) u(2)] by (simp add: create_pod_def Let_def)
  ultimately show ?thesis using that [of k2 jr1] c u by simp
qed

lemma observed_run_sel:
  "cr_Name (observed_run K now jr pod) = cr_Name jr" "cr_Namespace (observed_run K now jr pod) = cr_Namespace jr"
  "crt_Phase (cr_Status (observed_run K now jr pod)) = mapPodPhase (pod_Phase pod)"
  "crt_PodName (cr_Status (observed_run K now jr pod)) = pod_Name pod" "crt_PodUID (cr_Status (observed_run K now jr pod)) = pod_UID pod"
  by (simp_all add: observed_run_def set_ready_def observed_status_def Let_def)

lemma observed_update:
  assumes "pod_server K ok jv pv cv" "ok k" "jv k (cr_Namespace jr, cr_Name jr) = Some jr"
  obtains k1 where "kc_UpdateStatus K (observed_run K now jr pod) k = (Inr (), k1)" "ok k1" "pv k1 = pv k" "cv k1 = cv k"
    "jv k1 = (jv k)((cr_Namespace jr, cr_Name jr) \<mapsto> jr\<lparr>cr_Status := cr_Status (observed_run K now jr pod)\<rparr>)"
  using pod_serverD(5) [OF assms(1,2), of "observed_run K now jr pod" jr] assms(3) unfolding observed_run_sel by blast

lemma observePod_pods:
  assumes "pod_server K ok jv pv cv" "ok k" "jv k (cr_Namespace jr, cr_Name jr) = Some jr" "observePod K projection now jr pod (k, p) = (x, (k', p'))"
  shows "ok k' \<and> pv k' = pv k"
proof -
  from observed_update [OF assms(1-3)] obtain k1 where "kc_UpdateStatus K (observed_run K now jr pod) k = (Inr (), k1)" "ok k1" "pv k1 = pv k" .
  then have "ok (fst (snd (observePod K projection now jr pod (k, p)))) \<and> pv (fst (snd (observePod K projection now jr pod (k, p)))) = pv k"
    using assms(2) by (simp add: observePod_def Let_def split: prod.splits sum.splits)
  with assms(4) show ?thesis by simp
qed

text \<open>An object or a class that is not stored is not found.\<close>

definition absent_reads :: "('k, 'r) cluster \<Rightarrow> ('k \<Rightarrow> bool) \<Rightarrow> ('k \<Rightarrow> string \<times> string \<Rightarrow> JobRun option)
    \<Rightarrow> ('k \<Rightarrow> string \<times> string \<Rightarrow> 'r RunnerClass option) \<Rightarrow> bool" where
  "absent_reads K ok jv cv \<longleftrightarrow> (\<forall>k ns n. ok k \<longrightarrow>
     (jv k (ns, n) = None \<longrightarrow> (\<exists>e. kc_GetJobRun K ns n k = (Inl (NotFound e), k))) \<and>
     (cv k (ns, n) = None \<longrightarrow> (\<exists>e. kc_GetClass K ns n k = (Inl (NotFound e), k))))"

text \<open>The jobs for which a pod is made: runnable, not finished, and without one.\<close>

definition wants_pod :: "('k \<Rightarrow> string \<times> string \<Rightarrow> JobRun option) \<Rightarrow> ('k \<Rightarrow> string \<times> string \<Rightarrow> 'r Pod option)
    \<Rightarrow> ('k \<Rightarrow> string \<times> string \<Rightarrow> 'r RunnerClass option) \<Rightarrow> string \<Rightarrow> string \<Rightarrow> 'k \<Rightarrow> JobRun \<Rightarrow> bool" where
  "wants_pod jv pv cv ns name k jr \<longleftrightarrow> runnable jv cv ns name k jr \<and> \<not> Terminal jr \<and> pv k (ns, name @ PodSuffix) = None"

lemma Reconcile_creates:
  assumes "pod_server K ok jv pv cv" "ok k" "wants_pod jv pv cv ns name k jr"
  obtains k' pod where "Reconcile K projection now ns name (k, p) = (Inr 0, (k', p))" "ok k'" "pv k' = (pv k)((ns, name @ PodSuffix) \<mapsto> pod)" "executor_pod jr pod"
proof -
  have w: "runnable jv cv ns name k jr" "\<not> Terminal jr" "pv k (ns, name @ PodSuffix) = None" using assms(3) by (simp_all add: wants_pod_def)
  from Reconcile_runnable [OF assms(1,2) w(1), of projection now p] obtain cls where c: "cr_Name jr = name" "cr_Namespace jr = ns"
    "Reconcile K projection now ns name (k, p) = reconcile_pod K projection now jr cls (k, p)" .
  have "jv k (ns, name) = Some jr" using w(1) by (simp add: runnable_def)
  from create_pod_ok [OF assms(1,2) this c(1,2) w(3)] obtain k1 pod where
    n: "create_pod K jr cls k = (Inr 0, k1)" "ok k1" "pv k1 = (pv k)((ns, name @ PodSuffix) \<mapsto> pod)" "executor_pod jr pod" .
  have "Reconcile K projection now ns name (k, p) = (Inr 0, (k1, p))"
    using c pod_serverD(4) [OF assms(1,2) w(3)] w(2) n(1) by (auto simp: reconcile_pod_def)
  with n that show ?thesis by blast
qed

lemma Reconcile_runnable_keeps:
  assumes "pod_server K ok jv pv cv" "ok k" "runnable jv cv ns name k jr" "\<not> wants_pod jv pv cv ns name k jr"
    and "Reconcile K projection now ns name (k, p) = (x, (k', p'))"
  shows "ok k' \<and> pv k' = pv k"
proof -
  from Reconcile_runnable [OF assms(1-3), of projection now p] obtain cls where c: "cr_Name jr = name" "cr_Namespace jr = ns"
    "Reconcile K projection now ns name (k, p) = reconcile_pod K projection now jr cls (k, p)" .
  have j: "jv k (ns, name) = Some jr" using assms(3) by (simp add: runnable_def)
  show ?thesis
  proof (cases "pv k (ns, name @ PodSuffix)")
    case None
    then have "Terminal jr" using assms(3,4) by (simp add: wants_pod_def)
    with c pod_serverD(4) [OF assms(1,2) None] assms(2,5) show ?thesis by (auto simp: reconcile_pod_def)
  next
    case (Some pod)
    have "observePod K projection now jr pod (k, p) = (x, (k', p'))"
      using c pod_serverD(3) [OF assms(1,2) Some] assms(5) by (simp add: reconcile_pod_def)
    with observePod_pods [OF assms(1,2), of jr projection now pod p x k' p'] j c(1,2) show ?thesis by simp
  qed
qed

lemma Reconcile_keeps:
  assumes "pod_server K ok jv pv cv" "absent_reads K ok jv cv" "ok k" "\<forall>jr. \<not> wants_pod jv pv cv ns name k jr"
    and "Reconcile K projection now ns name (k, p) = (x, (k', p'))"
  shows "ok k' \<and> pv k' = pv k"
proof (cases "jv k (ns, name)")
  case None
  then obtain e where "kc_GetJobRun K ns name k = (Inl (NotFound e), k)" using assms(2,3) unfolding absent_reads_def by blast
  with assms(3,5) show ?thesis by (simp add: Reconcile_def)
next
  case (Some jr)
  note g = pod_serverD(1) [OF assms(1,3) Some]
  consider e where "IDFromCRName name = Inl e" | i where "IDFromCRName name = Inr i" "cv k (ns, crs_RunnerClass (cr_Spec jr)) = None"
    | "runnable jv cv ns name k jr" using Some by (cases "IDFromCRName name") (auto simp: runnable_def)
  then show ?thesis
  proof cases
    case 1
    with g assms(3,5) show ?thesis by (simp add: Reconcile_def)
  next
    case 2
    obtain e where c: "kc_GetClass K ns (crs_RunnerClass (cr_Spec jr)) k = (Inl (NotFound e), k)" using assms(2,3) 2(2) unfolding absent_reads_def by blast
    have "Reconcile K projection now ns name (k, p) = (case missing_class K jr k of (x, k3) \<Rightarrow> (x, (k3, p)))" using g 2(1) c by (simp add: Reconcile_def)
    moreover obtain jr1 k1 where "updateConditions K ''False'' ReasonRunnerClassMissing (''RunnerClass '' @ Quote (crs_RunnerClass (cr_Spec jr)) @ '' not found'') jr k = (Inr jr1, k1)"
      "ok k1" "pv k1 = pv k"
    proof -
      have "jv k (cr_Namespace jr, cr_Name jr) = Some jr" using Some g by simp
      from updateConditions_ok [OF assms(1,3) this] that show thesis by blast
    qed
    ultimately show ?thesis using assms(5) by (simp add: missing_class_def)
  next
    case 3
    with Reconcile_runnable_keeps [OF assms(1,3) _ _ assms(5)] assms(4) show ?thesis by blast
  qed
qed

text \<open>Any number of reconciliations of any jobs, each with its own clock and projection.\<close>

definition reconciles :: "('k, 'r) cluster \<Rightarrow> ('p projection \<times> time \<times> string \<times> string) list \<Rightarrow> 'k \<times> 'p \<Rightarrow> 'k \<times> 'p" where
  "reconciles K hs st = fold (\<lambda>(projection, now, ns, name) st. snd (Reconcile K projection now ns name st)) hs st"

lemma reconciles_keep:
  assumes "pod_server K ok jv pv cv" "absent_reads K ok jv cv"
  shows "ok k \<Longrightarrow> pv k n = Some pod \<Longrightarrow> pv (fst (reconciles K hs (k, p))) n = Some pod"
proof (induction hs arbitrary: k p)
  case (Cons h hs)
  obtain projection now ns name where h: "h = (projection, now, ns, name)" by (cases h)
  obtain x k1 p1 where r: "Reconcile K projection now ns name (k, p) = (x, (k1, p1))" by (metis surj_pair)
  have "ok k1 \<and> pv k1 n = Some pod"
  proof (cases "\<exists>jr. wants_pod jv pv cv ns name k jr")
    case True
    then obtain jr where w: "wants_pod jv pv cv ns name k jr" ..
    from Reconcile_creates [OF assms(1) Cons.prems(1) w, of projection now p] obtain k' pod' where
      "Reconcile K projection now ns name (k, p) = (Inr 0, (k', p))" "ok k'" "pv k' = (pv k)((ns, name @ PodSuffix) \<mapsto> pod')" .
    moreover have "n \<noteq> (ns, name @ PodSuffix)" using w Cons.prems(2) by (auto simp: wants_pod_def)
    ultimately show ?thesis using r Cons.prems(2) by simp
  next
    case False
    with Reconcile_keeps [OF assms Cons.prems(1) _ r] Cons.prems(2) show ?thesis by simp
  qed
  with Cons.IH [of k1 p1] r h show ?case by (simp add: reconciles_def)
qed (simp add: reconciles_def)

text \<open>
  C26. A reconciliation makes a pod exactly when the job's object is stored under a name of the
  naming protocol, its runner class exists, it is not finished and it has no pod. The pod
  is the executor's, owned by the object, labelled with the job's id and started for it,
  without a service account token but the one for the control plane, never restarted; a
  job with a missing class gets none. Every other reconciliation leaves all pods as they are, and
  no sequence of later reconciliations of this or other jobs changes or replaces a pod that is
  there. A pod that someone else has deleted is made again as long as the job is not finished.
\<close>

theorem reconcile_creates_one_pod:
  assumes "pod_server K ok jv pv cv" "absent_reads K ok jv cv" "ok k"
    and "Reconcile K projection now ns name (k, p) = (x, (k', p'))"
  shows "ok k' \<and> (if \<exists>jr. wants_pod jv pv cv ns name k jr
      then x = Inr 0 \<and> p' = p \<and> (\<exists>jr pod. wants_pod jv pv cv ns name k jr \<and> executor_pod jr pod \<and> pv k' = (pv k)((ns, name @ PodSuffix) \<mapsto> pod))
      else pv k' = pv k)
    \<and> (\<forall>hs n pod. pv k' n = Some pod \<longrightarrow> pv (fst (reconciles K hs (k', p'))) n = Some pod)"
proof (cases "\<exists>jr. wants_pod jv pv cv ns name k jr")
  case True
  then obtain jr where w: "wants_pod jv pv cv ns name k jr" ..
  from Reconcile_creates [OF assms(1,3) w, of projection now p] obtain k1 pod where
    "Reconcile K projection now ns name (k, p) = (Inr 0, (k1, p))" "ok k1" "pv k1 = (pv k)((ns, name @ PodSuffix) \<mapsto> pod)" "executor_pod jr pod" .
  then have c: "x = Inr 0" "p' = p" "ok k'" "pv k' = (pv k)((ns, name @ PodSuffix) \<mapsto> pod)" "executor_pod jr pod" using assms(4) by simp_all
  have "\<forall>hs n pod. pv k' n = Some pod \<longrightarrow> pv (fst (reconciles K hs (k', p'))) n = Some pod"
    by (intro allI impI) (rule reconciles_keep [OF assms(1,2) c(3)])
  with True c w show ?thesis by (simp only: if_True) blast
next
  case False
  with Reconcile_keeps [OF assms(1-3) _ assms(4)] have c: "ok k'" "pv k' = pv k" by blast+
  have "\<forall>hs n pod. pv k' n = Some pod \<longrightarrow> pv (fst (reconciles K hs (k', p'))) n = Some pod"
    by (intro allI impI) (rule reconciles_keep [OF assms(1,2) c(1)])
  with False c show ?thesis by simp
qed

lemma demo_pod_server: "pod_server demo_cluster named ks_jobs ks_pods ks_classes"
  unfolding pod_server_def
  by (auto simp: demo_cluster_def lookup_def missing_def demo_update_def demo_create_pod_def Let_def named_def)

lemma demo_absent_reads: "absent_reads demo_cluster named ks_jobs ks_classes"
  by (auto simp: absent_reads_def demo_cluster_def lookup_def missing_def)

definition one_job :: kstate where
  "one_job = empty_cluster\<lparr>ks_jobs := [(''jobs'', ''jobrun-j1'') \<mapsto> cr_of_record ''jobs'' ''jobrun-j1'' demo_record]\<rparr>"

lemma one_job_ok: "named one_job" "runnable ks_jobs ks_classes ''jobs'' ''jobrun-j1'' one_job (cr_of_record ''jobs'' ''jobrun-j1'' demo_record)"
  by (simp_all add: named_def runnable_def one_job_def empty_cluster_def cr_of_record_def IDFromCRName_def demo_record_def)

theorem reconcile_creates_one_pod_witness:
  "\<exists>k1 pod. Reconcile demo_cluster (\<lambda>i ph t (p :: unit). (Inr (), p)) 7 ''jobs'' ''jobrun-j1'' (one_job, ()) = (Inr 0, (k1, ()))
     \<and> ks_pods k1 (''jobs'', ''jobrun-j1-pod'') = Some pod \<and> mget (pod_Labels pod) jobRunLabel = Some ''J1''
     \<and> (\<forall>hs. ks_pods (fst (reconciles demo_cluster hs (k1, ()))) (''jobs'', ''jobrun-j1-pod'') = Some pod)"
proof -
  let ?jr = "cr_of_record ''jobs'' ''jobrun-j1'' demo_record" and ?p = "\<lambda>i ph t (p :: unit). (Inr (), p)"
  let ?W = "wants_pod ks_jobs ks_pods ks_classes ''jobs'' ''jobrun-j1'' one_job"
  have "ks_pods one_job (''jobs'', ''jobrun-j1'' @ PodSuffix) = None" "\<not> Terminal ?jr"
    by (simp_all add: one_job_def empty_cluster_def Terminal_def cr_of_record_def zero_state_def JobRunPhaseSucceeded_def JobRunPhaseFailed_def)
  with one_job_ok(2) have w: "?W ?jr" by (simp add: wants_pod_def)
  have u: "jr = ?jr" if "?W jr" for jr using that one_job_ok(2) by (simp add: wants_pod_def runnable_def)
  obtain x k1 p1 where r: "Reconcile demo_cluster ?p 7 ''jobs'' ''jobrun-j1'' (one_job, ()) = (x, (k1, p1))" by (rule prod_cases3)
  note t = reconcile_creates_one_pod [OF demo_pod_server demo_absent_reads one_job_ok(1) r]
  have "\<exists>jr. ?W jr" using w by blast
  with t have "x = Inr 0" "\<exists>jr pod. ?W jr \<and> executor_pod jr pod \<and> ks_pods k1 = (ks_pods one_job)((''jobs'', ''jobrun-j1'' @ PodSuffix) \<mapsto> pod)"
    by (simp_all only: if_True)
  then obtain pod where c: "x = Inr 0" "executor_pod ?jr pod" "ks_pods k1 = (ks_pods one_job)((''jobs'', ''jobrun-j1'' @ PodSuffix) \<mapsto> pod)"
    using u by blast
  from t have k: "\<forall>hs n pod. ks_pods k1 n = Some pod \<longrightarrow> ks_pods (fst (reconciles demo_cluster hs (k1, p1))) n = Some pod" by (elim conjE)
  have "ks_pods k1 (''jobs'', ''jobrun-j1-pod'') = Some pod" using c(3) by (simp add: PodSuffix_def)
  moreover have "mget (pod_Labels pod) jobRunLabel = Some ''J1''" using c(2) by (simp add: executor_pod_def cr_of_record_def demo_record_def)
  ultimately show ?thesis using r c(1) k by (intro exI conjI allI) (assumption | simp)+
qed

text \<open>
  C27. An observation whose projection fails is lost. The status of the object is written before the
  phase is projected, and the next reconciliation compares the pod with that status alone: as
  long as the pod stays as it is, every later reconciliation succeeds without projecting
  anything, however well the projection works by then, so a finished pod leaves its job
  running in the durable store.
\<close>

theorem failed_projection_is_lost:
  assumes "pod_server K ok jv pv cv" "ok k" "runnable jv cv ns name k jr" "pv k (ns, name @ PodSuffix) = Some pod"
    and "\<not> phaseRank (mapPodPhase (pod_Phase pod)) < phaseRank (crt_Phase (cr_Status jr))"
    and "status_changed (mapPodPhase (pod_Phase pod)) pod (cr_Status jr)" "crs_PlanID (cr_Spec jr) \<noteq> ''''"
    and "projection (crs_PlanID (cr_Spec jr)) (toModelPhase (mapPodPhase (pod_Phase pod))) now p = (Inl e, p1)"
  shows "\<exists>k1 err. Reconcile K projection now ns name (k, p) = (Inl err, (k1, p1)) \<and> errors_Is err e
    \<and> (\<forall>projection' now' p'. Reconcile K projection' now' ns name (k1, p') = (Inr 0, (k1, p')))"
proof -
  from Reconcile_runnable [OF assms(1-3), of projection now p] obtain cls where c: "cr_Name jr = name" "cr_Namespace jr = ns"
    "Reconcile K projection now ns name (k, p) = reconcile_pod K projection now jr cls (k, p)" "cv k (ns, crs_RunnerClass (cr_Spec jr)) = Some cls" .
  have j: "jv k (ns, name) = Some jr" "\<exists>i. IDFromCRName name = Inr i" using assms(3) by (simp_all add: runnable_def)
  let ?o = "observed_run K now jr pod"
  have "jv k (cr_Namespace jr, cr_Name jr) = Some jr" using j(1) c(1,2) by simp
  from observed_update [OF assms(1,2) this, of now pod] obtain k1 where
    u: "kc_UpdateStatus K ?o k = (Inr (), k1)" "ok k1" "pv k1 = pv k" "cv k1 = cv k"
      "jv k1 = (jv k)((cr_Namespace jr, cr_Name jr) \<mapsto> jr\<lparr>cr_Status := cr_Status ?o\<rparr>)" .
  have r: "Reconcile K projection now ns name (k, p) = (Inl (Wrapf (''project observed '' @ mapPodPhase (pod_Phase pod) @ '' for '' @ name) e), (k1, p1))"
    using c pod_serverD(3) [OF assms(1,2,4)] assms(5-8) u(1) by (simp add: reconcile_pod_def observePod_def Let_def)
  have "Reconcile K projection' now' ns name (k1, p') = (Inr 0, (k1, p'))" for projection' :: "'d projection" and now' p'
  proof -
    let ?jr = "jr\<lparr>cr_Status := cr_Status ?o\<rparr>"
    have "runnable jv cv ns name k1 ?jr" using u j c(1,2,4) by (simp add: runnable_def)
    from Reconcile_runnable [OF assms(1) u(2) this, of projection' now' p'] obtain cls' where c':
      "Reconcile K projection' now' ns name (k1, p') = reconcile_pod K projection' now' ?jr cls' (k1, p')" .
    have "pv k1 (ns, name @ PodSuffix) = Some pod" using u(3) assms(4) by simp
    from pod_serverD(3) [OF assms(1) u(2) this] c' c(1,2) show ?thesis
      by (simp add: reconcile_pod_def observePod_def Let_def status_changed_def observed_run_sel)
  qed
  with r show ?thesis by (intro exI conjI allI) (assumption | simp)+
qed

definition finished_pod :: kstate where
  "finished_pod = one_job\<lparr>ks_pods := [(''jobs'', ''jobrun-j1-pod'') \<mapsto>
     (buildPod (cr_of_record ''jobs'' ''jobrun-j1'' demo_record) \<lparr>rc_Image = ''img'', rc_Resources = (), rc_NodeSelector = []\<rparr>)
       \<lparr>pod_UID := ''u'', pod_Phase := ''Succeeded''\<rparr>]\<rparr>"

theorem failed_projection_is_lost_witness:
  "\<exists>k1 err. Reconcile demo_cluster (\<lambda>i ph t (p :: ObservedPhase list). (Inl (Errorf ''down''), p)) 7 ''jobs'' ''jobrun-j1'' (finished_pod, []) = (Inl err, (k1, []))
     \<and> Reconcile demo_cluster (\<lambda>i ph t p. (Inr (), p @ [ph])) 8 ''jobs'' ''jobrun-j1'' (k1, []) = (Inr 0, (k1, []))"
proof -
  let ?jr = "cr_of_record ''jobs'' ''jobrun-j1'' demo_record" and ?down = "\<lambda>(i :: JobRunID) (ph :: ObservedPhase) (t :: time) (p :: ObservedPhase list). (Inl (Errorf ''down'') :: unit res, p)"
  obtain pod where pod: "ks_pods finished_pod (''jobs'', ''jobrun-j1'' @ PodSuffix) = Some pod" "pod_Phase pod = ''Succeeded''" "pod_UID pod = ''u''"
    by (simp add: finished_pod_def PodSuffix_def)
  have n: "named finished_pod" "runnable ks_jobs ks_classes ''jobs'' ''jobrun-j1'' finished_pod ?jr"
    using one_job_ok by (simp_all add: named_def runnable_def finished_pod_def)
  have "\<not> phaseRank (mapPodPhase (pod_Phase pod)) < phaseRank (crt_Phase (cr_Status ?jr))"
    "status_changed (mapPodPhase (pod_Phase pod)) pod (cr_Status ?jr)" "crs_PlanID (cr_Spec ?jr) \<noteq> ''''"
    using pod by (simp_all add: cr_of_record_def zero_state_def status_changed_def phaseRank_def mapPodPhase_def demo_record_def
        JobRunPhaseSucceeded_def JobRunPhaseFailed_def JobRunPhaseRunning_def)
  from failed_projection_is_lost [where 'd = "ObservedPhase list" and k = finished_pod and pv = ks_pods and jv = ks_jobs and cv = ks_classes and jr = ?jr and projection = ?down
      and now = 7 and p = "[]" and e = "Errorf ''down''", OF demo_pod_server n pod(1) this refl] show ?thesis by blast
qed

end
