(* ===== verification/Http_Properties.thy ===== *)
theory Http_Properties
  imports Http_Clients Server_Safety Controller_Properties
begin

text \<open>
  The controller's projection over HTTP, put together with the control plane's own routes:
  what it does to the durable store.
\<close>

section \<open>The server as a transport\<close>

text \<open>The router finds the route and its parameters; any other request is not found.\<close>

definition serve :: "('s, 'a, 'k) Api \<Rightarrow> (http_request \<Rightarrow> (route \<times> api_request) option) \<Rightarrow> (body response \<Rightarrow> bytes) \<Rightarrow> ('s, 'a, 'k) api_state transport" where
  "serve api router enc = \<lparr>tr_New = (\<lambda>m u. Inr ()),
     tr_Do = (\<lambda>q st. case router q of
        None \<Rightarrow> (Inr (404, ''404 page not found''), st)
      | Some (rt, r) \<Rightarrow> (case routes api rt r st of (resp, st') \<Rightarrow> (Inr (int (status_code resp), enc resp), st')))\<rparr>"

text \<open>
  What is relied on of the router: it matches the path of an observation of a job whose id is
  made of letters and digits, as the ids of the generator are, with the id as its parameter.
\<close>

definition plain_id :: "JobRunID \<Rightarrow> bool" where
  "plain_id i \<longleftrightarrow> i \<noteq> '''' \<and> list_all (\<lambda>c. is_letter c \<or> char_within (CHR ''0'') (CHR ''9'') c) i"

definition routes_observed :: "(http_request \<Rightarrow> (route \<times> api_request) option) \<Rightarrow> string \<Rightarrow> bool" where
  "routes_observed router base \<longleftrightarrow> (\<forall>i hs b tok. plain_id i \<and> mget hs ''Authorization'' = Some tok \<longrightarrow>
     router \<lparr>hq_Method = ''POST'', hq_URL = base @ job_path i ''observed'', hq_Header = hs, hq_Body = b\<rparr>
     = Some (PostObserved, \<lparr>ar_Authorization = tok, ar_id = i, ar_name = '''', ar_scope = '''', ar_Body = b\<rparr>))"

lemma project_result:
  assumes "mem_options w opt"
  shows "isl (fst (projectObserved opt i p s)) = isl (fst (mem_ApplyObserved i p (op_clock opt (sv_ticks s)) (sv_durable s)))"
  using assms
  by (auto simp: projectObserved_def mem_options_def now_def on_durable_def Project_def mem_store_def split: prod.splits sum.splits)

lemma project_and_report_result:
  assumes "mem_options w (api_opt api)" "project_and_report api i p (s, k) = (resp, st')"
  shows "sv_durable (fst st') = snd (mem_ApplyObserved i p (op_clock (api_opt api) (sv_ticks s)) (sv_durable s)) \<and> sv_active (fst st') = sv_active s \<and> snd st' = k
    \<and> status_code resp = (if isl (fst (mem_ApplyObserved i p (op_clock (api_opt api) (sv_ticks s)) (sv_durable s))) then 500 else 200)"
proof -
  let ?t = "op_clock (api_opt api) (sv_ticks s)"
  obtain x s1 where x: "projectObserved (api_opt api) i p s = (x, s1)" by fastforce
  from projectObserved_stores [OF assms(1), of i p s] project_result [OF assms(1), of i p s] x
  have "sv_durable s1 = snd (mem_ApplyObserved i p ?t (sv_durable s))" "sv_active s1 = sv_active s" "isl x = isl (fst (mem_ApplyObserved i p ?t (sv_durable s)))" by simp_all
  with assms(2) x reportCheck_stores [OF assms(1), of i s1] show ?thesis
    by (auto simp: project_and_report_def split: sum.splits)
qed

text \<open>
  The server accepts a token for the observation of a job when it verifies at the time of the
  request, which is the next the clock shows, to an identity that may make the observation.
\<close>

definition may_observe :: "('s, 'a, 'k) Api \<Rightarrow> string \<Rightarrow> JobRunID \<Rightarrow> ('s, 'a) Server \<Rightarrow> bool" where
  "may_observe api tok i s \<longleftrightarrow> (\<exists>who. api_Verify api (op_clock (api_opt api) (sv_ticks s)) tok = Inr who
     \<and> (ScopeObservedWrite \<in> set (id_Scopes who) \<or> id_JobRunID who = i))"

lemma observed_request:
  assumes "mem_options w (api_opt api)" "i \<noteq> ''''" "json_phase (api_json api) b = Inr phase"
    and "routes api PostObserved \<lparr>ar_Authorization = ''Bearer '' @ tok, ar_id = i, ar_name = '''', ar_scope = '''', ar_Body = b\<rparr> (s, k) = (resp, st')"
  shows "sv_active (fst st') = sv_active s \<and> snd st' = k \<and>
    (if may_observe api tok i s
     then sv_durable (fst st') = snd (mem_ApplyObserved i phase (op_clock (api_opt api) (Suc (sv_ticks s))) (sv_durable s))
       \<and> status_code resp = (if isl (fst (mem_ApplyObserved i phase (op_clock (api_opt api) (Suc (sv_ticks s))) (sv_durable s))) then 500 else 200)
     else sv_durable (fst st') = sv_durable s \<and> status_code resp \<ge> 400)"
proof -
  let ?s1 = "snd (now (api_opt api) s)" and ?v = "api_Verify api (op_clock (api_opt api) (sv_ticks s)) tok"
  have a: "routes api PostObserved \<lparr>ar_Authorization = ''Bearer '' @ tok, ar_id = i, ar_name = '''', ar_scope = '''', ar_Body = b\<rparr> (s, k)
    = (case ?v of Inl e \<Rightarrow> (http_Error 401 ''invalid token'', (?s1, k))
       | Inr who \<Rightarrow> if ScopeObservedWrite \<in> set (id_Scopes who) \<or> id_JobRunID who = i then project_and_report api i phase (?s1, k)
                    else (http_Error 403 ''identity may not observe this job run'', (?s1, k)))"
    using assms(2,3) TrimPrefix_append [of "''Bearer ''" tok] HasPrefix_append [of "''Bearer ''" tok]
    by (auto simp: routes_def auth_def handleObserved_def AuthorizeObservation_def HasScope_def now_def Let_def split: sum.splits)
  have n: "sv_durable ?s1 = sv_durable s" "sv_active ?s1 = sv_active s" "sv_ticks ?s1 = Suc (sv_ticks s)" by (simp_all add: now_def)
  show ?thesis
  proof (cases "may_observe api tok i s")
    case True
    then have "project_and_report api i phase (?s1, k) = (resp, st')" using assms(4) unfolding a by (auto simp: may_observe_def)
    from project_and_report_result [OF assms(1) this] True show ?thesis by (simp add: n)
  next
    case False
    then have "st' = (?s1, k)" "status_code resp \<ge> 400"
      using assms(4) unfolding a by (auto simp: may_observe_def split: sum.splits if_splits)
    with False show ?thesis by (simp add: n)
  qed
qed

text \<open>
  C8. The controller's projection over HTTP implements the projection of the durable store. With
  codecs that agree on the phase, and a router that finds the route, one call does the
  following. When the server accepts the controller's token at the time of the request for an observation of that job, the call
  applies exactly one observation of the job, at the server's next reading of the clock, to
  the durable store, and reports success exactly when the store did. When it does not accept
  the token, because it has expired or for any other reason, the stores are unchanged and the call fails.
\<close>

theorem http_projection_refines_store:
  assumes "mem_options w (api_opt api)" "routes_observed router (cl_BaseURL c)" "plain_id i"
    and "enc_phase J phase = Inr b" "json_phase (api_json api) b = Inr phase"
  shows "\<exists>x s'. http_ApplyObserved J (serve api router enc) c i phase t0 (s, k) = (x, (s', k)) \<and> sv_active s' = sv_active s \<and>
    (if may_observe api (cl_Token c) i s
     then sv_durable s' = snd (mem_ApplyObserved i phase (op_clock (api_opt api) (Suc (sv_ticks s))) (sv_durable s))
       \<and> isl x = isl (fst (mem_ApplyObserved i phase (op_clock (api_opt api) (Suc (sv_ticks s))) (sv_durable s)))
     else sv_durable s' = sv_durable s \<and> isl x)"
proof -
  let ?r = "\<lparr>ar_Authorization = ''Bearer '' @ cl_Token c, ar_id = i, ar_name = '''', ar_scope = '''', ar_Body = b\<rparr>"
  let ?q = "\<lparr>hq_Method = ''POST'', hq_URL = cl_BaseURL c @ job_path i ''observed'',
    hq_Header = [(''Authorization'', ''Bearer '' @ cl_Token c), (''Content-Type'', ''application/json'')], hq_Body = b\<rparr>"
  have i: "i \<noteq> ''''" using assms(3) by (simp add: plain_id_def)
  obtain resp s' k' where r: "routes api PostObserved ?r (s, k) = (resp, (s', k'))" by (metis surj_pair)
  note o = observed_request [OF assms(1) i assms(5) r]
  have "mget (hq_Header ?q) ''Authorization'' = Some (''Bearer '' @ cl_Token c)" by (simp add: mget_def)
  with assms(2,3) have "router ?q = Some (PostObserved, ?r)" by (simp add: routes_observed_def)
  with r have "send (serve api router enc) ''projection: '' ?q (s, k) = (Inr (int (status_code resp), enc resp), (s', k'))"
    by (simp add: send_def serve_def)
  with assms(4) have h: "http_ApplyObserved J (serve api router enc) c i phase t0 (s, k)
      = (if status_code resp < 200 \<or> status_code resp \<ge> 300 then Inl (Errorf (''projection: status '' @ itoa (status_code resp))) else Inr (), (s', k'))"
    by (simp add: http_ApplyObserved_def)
  show ?thesis unfolding h using o by (auto split: if_splits)
qed

definition demo_router :: "http_request \<Rightarrow> (route \<times> api_request) option" where
  "demo_router q =
     (case mget (hq_Header q) ''Authorization'' of
        None \<Rightarrow> None
      | Some tok \<Rightarrow> Some (PostObserved, \<lparr>ar_Authorization = tok,
          ar_id = TrimSuffix (TrimPrefix (hq_URL q) ''http://cp/internal/jobruns/'') ''/observed'', ar_name = '''', ar_scope = '''', ar_Body = hq_Body q\<rparr>))"

text \<open>The controller's token is one of the issuer, and the server verifies it as the code does.\<close>

definition controller_identity :: Identity where
  "controller_identity = \<lparr>id_Audience = Audience, id_Namespace = ''forgelet'', id_PodUID = ''u'', id_JobRunID = ''controller'', id_Scopes = [ScopeObservedWrite],
     id_TokenID = ''2'', id_IssuedAt = 50, id_ExpiresAt = 1000\<rparr>"

definition controller_tokens :: token_lib where
  "controller_tokens = \<lparr>marshal_claims = (\<lambda>c. if c = controller_identity then Inr ''ctl'' else Inl (Errorf ''json'')),
     unmarshal_claims = (\<lambda>b. if b = ''ctl'' then Inr controller_identity else Inl (Errorf ''json'')), hmac_sha256 = (\<lambda>k m. k @ m)\<rparr>"

definition demo_client :: Client where
  "demo_client = \<lparr>cl_BaseURL = ''http://cp'', cl_Token = (case Issue controller_tokens ''key'' 50 (Inr ''r'') controller_identity of Inr raw \<Rightarrow> raw | Inl e \<Rightarrow> '''')\<rparr>"

definition controller_api :: "(DurableMem, ActiveMem, unit) Api" where
  "controller_api = demo_api\<lparr>api_Verify := (\<lambda>t raw. local_Verify controller_tokens ''key'' t 0 raw)\<rparr>"

definition demo_codecs :: "unit codecs" where
  "demo_codecs = \<lparr>enc_refs = (\<lambda>r. Inr []), enc_result = (\<lambda>r. Inr []), enc_cache = (\<lambda>k r. Inr k), enc_empty = Inr [], enc_phase = (\<lambda>p. Inr ''succeeded''),
     dec_plan = (\<lambda>b. Inl (Errorf b)), dec_secrets = (\<lambda>b. Inr []), dec_cache = (\<lambda>b. Inr (False, '''', '''')), dec_upload = Inr, dec_download = Inr\<rparr>"

lemma demo_router_ok: "routes_observed demo_router (cl_BaseURL demo_client)"
proof -
  have "''http://cp'' @ job_path i ''observed'' = ''http://cp/internal/jobruns/'' @ i @ ''/observed''" for i by (simp add: job_path_def)
  then show ?thesis
    using TrimPrefix_append [of "''http://cp/internal/jobruns/''"] TrimSuffix_append [of _ "''/observed''"]
    unfolding routes_observed_def demo_router_def demo_client_def by (simp only: http_request.simps Client.simps) auto
qed

lemma controller_may_observe:
  "Issue controller_tokens ''key'' 50 (Inr ''r'') controller_identity = Inr (cl_Token demo_client)"
  "may_observe controller_api (cl_Token demo_client) ''JJ'' (served ''own'')"
  "\<not> may_observe controller_api (cl_Token demo_client) ''JJ'' ((served ''own'')\<lparr>sv_ticks := 900\<rparr>)"
proof -
  show "Issue controller_tokens ''key'' 50 (Inr ''r'') controller_identity = Inr (cl_Token demo_client)" by code_simp
  have "(case api_Verify controller_api (op_clock (api_opt controller_api) (sv_ticks (served ''own''))) (cl_Token demo_client) of
      Inr who \<Rightarrow> ScopeObservedWrite \<in> set (id_Scopes who) | Inl _ \<Rightarrow> False)" by code_simp
  then show "may_observe controller_api (cl_Token demo_client) ''JJ'' (served ''own'')" by (auto simp: may_observe_def split: sum.splits)
  have "isl (api_Verify controller_api (op_clock (api_opt controller_api) 900) (cl_Token demo_client))" by code_simp
  then show "\<not> may_observe controller_api (cl_Token demo_client) ''JJ'' ((served ''own'')\<lparr>sv_ticks := 900\<rparr>)" by (auto simp: may_observe_def)
qed

theorem http_projection_refines_store_witness:
  "(\<exists>t x s'. http_ApplyObserved demo_codecs (serve controller_api demo_router (\<lambda>r. '''')) demo_client ''JJ'' PhaseSucceeded 0 (served ''own'', ()) = (x, (s', ()))
     \<and> sv_durable s' = snd (mem_ApplyObserved ''JJ'' PhaseSucceeded t (sv_durable (served ''own''))) \<and> \<not> isl x)
   \<and> (\<exists>x s'. http_ApplyObserved demo_codecs (serve controller_api demo_router (\<lambda>r. '''')) demo_client ''JJ'' PhaseSucceeded 0 ((served ''own'')\<lparr>sv_ticks := 900\<rparr>, ()) = (x, (s', ()))
     \<and> sv_durable s' = sv_durable (served ''own'') \<and> isl x)"
proof -
  have o: "mem_options W (api_opt controller_api)" using demo_api_ok by (simp add: controller_api_def)
  have i: "plain_id ''JJ''" by code_simp
  have h: "enc_phase demo_codecs PhaseSucceeded = Inr ''succeeded''" "json_phase (api_json controller_api) ''succeeded'' = Inr PhaseSucceeded"
    by (simp_all add: demo_codecs_def controller_api_def demo_api_def)
  note t = http_projection_refines_store [OF o demo_router_ok i h, of "\<lambda>r. ''''" 0 _ "()"]
  have "\<not> isl (fst (http_ApplyObserved demo_codecs (serve controller_api demo_router (\<lambda>r. '''')) demo_client ''JJ'' PhaseSucceeded 0 (served ''own'', ())))" by code_simp
  with t [of "served ''own''"] controller_may_observe(2) have "\<exists>t x s'. http_ApplyObserved demo_codecs (serve controller_api demo_router (\<lambda>r. '''')) demo_client ''JJ'' PhaseSucceeded 0 (served ''own'', ()) = (x, (s', ()))
     \<and> sv_durable s' = snd (mem_ApplyObserved ''JJ'' PhaseSucceeded t (sv_durable (served ''own''))) \<and> \<not> isl x" by fastforce
  moreover from t [of "(served ''own'')\<lparr>sv_ticks := 900\<rparr>"] controller_may_observe(3)
  have "\<exists>x s'. http_ApplyObserved demo_codecs (serve controller_api demo_router (\<lambda>r. '''')) demo_client ''JJ'' PhaseSucceeded 0 ((served ''own'')\<lparr>sv_ticks := 900\<rparr>, ()) = (x, (s', ()))
     \<and> sv_durable s' = sv_durable (served ''own'') \<and> isl x" by auto
  ultimately show ?thesis by blast
qed

end
