(* ===== verification/Spec2Isabelle.thy ===== *)
theory Spec2Isabelle
  imports Scheduler_Properties3 Edit_Distance Executor_Properties Security_Properties Github_Properties Secret_Cipher Cron_Schedule Builtin_Properties Http_Properties
begin

text \<open>
  \<^bold>\<open>Verification of forgelet\<close>, a control plane that runs GitHub-compatible workflows as Kubernetes
  pods. Paths below are relative to \<^verbatim>\<open>src/\<close>.

  \<^bold>\<open>The program.\<close> A webhook delivery (\<^verbatim>\<open>internal/provider/github\<close>) or a fire of a cron schedule
  (\<^verbatim>\<open>internal/run/schedule\<close>) reaches the server (\<^verbatim>\<open>internal/server\<close>), which loads the workflow files of
  the repository, parses and compiles them (\<^verbatim>\<open>internal/workflow\<close>) and stores a run with one job per intent in
  the durable store (\<^verbatim>\<open>internal/run/scheduler\<close>, \<^verbatim>\<open>internal/storage\<close>). Dispatch rounds claim ready jobs
  and make an active object for each; the controller (\<^verbatim>\<open>internal/runtime/controller\<close>) turns the object into
  a pod and projects what the pod does back onto the durable job. In the pod the executor
  (\<^verbatim>\<open>internal/runtime/executor\<close>) fetches its plan and secrets over the internal API, runs the steps and
  reports. Tokens, authorization and stored secrets are \<^verbatim>\<open>internal/security\<close>.

  \<^bold>\<open>How code becomes definitions.\<close> A struct is a record, an enumeration a datatype, a Go string a byte
  list, an instant an integer of nanoseconds, a map an association list whose order stands for the order of
  iteration, a 32-bit key version a word. A fallible function returns a value of \<^verbatim>\<open>Err + 'a\<close>; a
  stateful one takes and returns its state (\<^verbatim>\<open>('s, 'a) op\<close>), also when it fails. A Go interface is a record of
  functions. Definitions keep the names of the code; where two packages share a name, one of them has a
  prefix (\<open>mem_\<close> the memory store, \<open>kube_\<close> the Kubernetes store, \<open>http_\<close> the projection over HTTP). Loop
  bodies and anonymous functions that the code nests are definitions of their own.

  \<^bold>\<open>Theories.\<close>
  \<^item> \<^verbatim>\<open>Prelude\<close>, \<^verbatim>\<open>Go_Path\<close>, \<^verbatim>\<open>Base64\<close>: strings, maps, errors, paths and encodings of Go's library.
  \<^item> \<^verbatim>\<open>Run_Model\<close>, \<^verbatim>\<open>Run_Plan\<close>: records, state machines and the aggregation of job statuses
    (\<^verbatim>\<open>run/model\<close>), plans and their digest (\<^verbatim>\<open>run/plan\<close>).
  \<^item> \<^verbatim>\<open>Store_Port\<close>: the ports of \<^verbatim>\<open>scheduler/port.go\<close>, with the contracts as the locales \<open>durable_store\<close> and
    \<open>active_store\<close>. \<^verbatim>\<open>Memory_Store\<close> is \<^verbatim>\<open>storage/memory/store.go\<close> method by method;
    \<^verbatim>\<open>Memory_Invariant\<close> and \<^verbatim>\<open>Memory_Preservation\<close> show that every method keeps it well formed,
    \<^verbatim>\<open>Memory_Contract\<close> interprets the locales on it, and \<^verbatim>\<open>Store_Steps\<close> makes it a transition system.
  \<^item> \<^verbatim>\<open>Scheduler\<close>: ingestion, dispatch, projection, collection and cancellation, verified in the locale
    \<open>scheduler_ports\<close>. \<^verbatim>\<open>Scheduler_System\<close> interleaves them one port call at a time, crashes included.
    \<^verbatim>\<open>Claim_Order\<close> and \<^verbatim>\<open>Scheduler_Properties\<close>, \<^verbatim>\<open>2\<close>, \<^verbatim>\<open>3\<close> hold the guarantees: jobs move forward only,
    deliveries start one run, no ready job is older than one that is claimed, dispatch converges after a crash, runs end
    exactly with their jobs, only finished jobs lose their objects.
  \<^item> \<^verbatim>\<open>Workflow_Syntax\<close>, \<^verbatim>\<open>Compiler\<close>: \<^verbatim>\<open>workflow/syntax\<close> and \<^verbatim>\<open>workflow/compiler\<close>.
    \<^verbatim>\<open>Syntax_Properties\<close> and \<^verbatim>\<open>Syntax_Roundtrip\<close> describe the accepted files and invert a printer;
    \<^verbatim>\<open>Topo_Sort\<close>, \<^verbatim>\<open>Matrix_Expansion\<close>, \<^verbatim>\<open>Edit_Distance\<close> compare ordering, expansion and
    suggestions with declarative descriptions; \<^verbatim>\<open>Compiled_Intents\<close> shows that the compiler emits
    valid intents, when their keys differ, and that a need on a matrix job is the key of none.
  \<^item> \<^verbatim>\<open>Expression_Value\<close>, \<^verbatim>\<open>Expression_Lexer\<close>, \<^verbatim>\<open>Expression_Parser\<close>, \<^verbatim>\<open>Expression_Parsing\<close>,
    \<^verbatim>\<open>Expression_Eval\<close>, \<^verbatim>\<open>Expression_Hash\<close>: \<^verbatim>\<open>workflow/expression\<close>, that the parser returns on every
    text, and what \<^verbatim>\<open>hashFiles\<close> digests.
  \<^item> \<^verbatim>\<open>Executor_Text\<close>, \<^verbatim>\<open>Executor_Engine\<close>, \<^verbatim>\<open>Builtin_Actions\<close>: commands, file commands, masking, the
    engine and the builtin actions. \<^verbatim>\<open>Executor_Properties\<close>: which secrets never reach the log, and which results
    and reports a run leaves, however it ends. \<^verbatim>\<open>Builtin_Properties\<close>: artifacts round trip; caches do not, and a
    failed checkout reveals its token.
  \<^item> \<^verbatim>\<open>Security\<close>, \<^verbatim>\<open>Secret_Cipher\<close>, \<^verbatim>\<open>Security_Properties\<close>: tokens, replay, policy, token review and
    envelope encryption with key rotation.
  \<^item> \<^verbatim>\<open>Github_Events\<close>, \<^verbatim>\<open>Github_Properties\<close>, \<^verbatim>\<open>Check_Report\<close>: webhooks, action metadata and check runs.
  \<^item> \<^verbatim>\<open>Object_Store\<close>: \<^verbatim>\<open>storage/s3\<close>, and that cache keys stay in the directory of their repository.
  \<^item> \<^verbatim>\<open>Workflow_Source\<close>, \<^verbatim>\<open>Server\<close>, \<^verbatim>\<open>Server_API\<close>: plan building, the control plane and its routes.
    \<^verbatim>\<open>Server_Dispatch\<close>, \<^verbatim>\<open>Server_Properties\<close>: dispatch rounds end. \<^verbatim>\<open>Server_Trust\<close>, \<^verbatim>\<open>Server_Fork\<close>,
    \<^verbatim>\<open>Server_Safety\<close>: over every sequence of requests, deliveries and rounds a run of a fork gets no
    secret, and a job changes only through a token that may change it.
  \<^item> \<^verbatim>\<open>Cron_Schedule\<close>: ticks of the cron scheduler end and emit the last missed fire once; a refused one stays owed.
  \<^item> \<^verbatim>\<open>Controller\<close>, \<^verbatim>\<open>Controller_Properties\<close>: the Kubernetes store refines the memory store up to the
    UIDs of objects; when a reconciliation makes a pod, and that none changes one; a failed projection is never repeated.
  \<^item> \<^verbatim>\<open>Http_Clients\<close>, \<^verbatim>\<open>Http_Properties\<close>: the four HTTP clients; the projection of the controller, sent
    through the routes of the server, is one observation by the durable store, or none when its token is refused.

  \<^bold>\<open>Bounds.\<close> The depth-first visit of the compiler, the expression parser and the two loops of a dispatch round take a
  bound and return \<^verbatim>\<open>None\<close> when it runs out. Enough bounds are proved: one more than the number of jobs for the visit,
  any bound above the number of tokens for the parser, any bound above the number of queued jobs for a
  round over the memory stores. The walk of the cron scheduler is a partial function; it returns when the cron
  library gives the first fire after a time, because instants are integers and each turn moves to a later one. All other loops are structural or
  have a termination proof.

  \<^bold>\<open>Assumptions.\<close> Code outside the repository is a parameter: SHA-256, HMAC, AES-GCM, RSA, JSON and YAML
  decoders, the cron library, file systems, processes, git, goja, HTTP transports, the chi router, MinIO and
  the Kubernetes API server. What a theorem needs of it is a hypothesis that a concrete instance
  satisfies: opening inverts sealing, decoding inverts encoding, identifiers do not repeat, the API server keeps the
  objects it was given under their names and never uses a UID twice, the builtin actions log strings only, which is
  proved of the registered ones. A method that holds a mutex is one step; the methods of the server are
  one step each as well, although some of them release their locks in between.

  \<^bold>\<open>Not modelled.\<close> The Postgres stores (\<^verbatim>\<open>storage/postgres\<close>), whose behaviour is that of SQL
  statements and a schema interpreted by the database; the programs under \<^verbatim>\<open>cmd\<close>, which read flags and
  wire components; \<^verbatim>\<open>observability\<close>, which nothing reads back; the ULID generator
  (\<^verbatim>\<open>scheduler/idgen.go\<close>), a wrapper of a library; scheme registration, generated deep copies and the
  unused WorkflowRun type of \<^verbatim>\<open>api/v1alpha1\<close>; the background tickers, which only call the rounds that are modelled;
  logging, metrics, tracing and cancellation by context outside the executor; process signals and the grace period of the executor.
\<close>

end
